(* ===== verification/Prelude.thy ===== *)
theory Prelude
  imports Main "HOL-Library.Word"
begin

text \<open>
  Shared ground of the development: the typed application errors of \<open>lib/apperr\<close>, the
  transaction monad every use case of the backend runs in (a body that may fail, over a
  state that survives the failure until the unit of work decides), Go's fixed-width
  integers, decimal rendering and the ASCII / Latin-1 string functions of Go's \<open>strings\<close>
  package the sources call, and list lemmas the component theories share.
\<close>

named_theorems tx_simps "evaluation of the transaction monad"

named_theorems tx_elims "inversion of successful transaction bodies"

section \<open>Typed errors (lib/apperr)\<close>

datatype err_kind =
    KindInvalid
  | KindUnauthorized
  | KindForbidden
  | KindNotFound
  | KindConflict
  | KindInfra
  | KindUnavailable
  | KindRateLimited

text \<open>
  An \<open>AppErr\<close> is an \<open>*apperr.AppError\<close>; a \<open>PlainErr\<close> is an \<open>error\<close> made by
  \<open>fmt.Errorf\<close>, which carries no kind. The package-level sentinels are told apart by
  their kind and message, which are pairwise different, so equality is \<open>errors.Is\<close>.
\<close>

datatype err = AppErr err_kind string | PlainErr string

definition NewInvalid :: "string \<Rightarrow> err" where
  "NewInvalid msg = AppErr KindInvalid msg"

definition NewNotFound :: "string \<Rightarrow> err" where
  "NewNotFound msg = AppErr KindNotFound msg"

definition NewConflict :: "string \<Rightarrow> err" where
  "NewConflict msg = AppErr KindConflict msg"

definition NewInfra :: "string \<Rightarrow> err" where
  "NewInfra msg = AppErr KindInfra msg"

definition NewUnavailable :: "string \<Rightarrow> err" where
  "NewUnavailable msg = AppErr KindUnavailable msg"

text \<open>Every driver failure is wrapped the same way (\<open>database.WrapInfra\<close>).\<close>

definition WrapInfra :: err where
  "WrapInfra = NewInfra ''database error''"

section \<open>The transaction monad\<close>

text \<open>
  A computation takes the transaction's state and returns an error or a value together
  with the state it leaves. The state of a failed computation is kept, as an open SQL
  transaction keeps the writes made before the failing call: undoing them is the job of
  the unit of work, not of the failing call.
\<close>

type_synonym ('s, 'a) tx = "'s \<Rightarrow> (err + 'a) \<times> 's"

definition ret :: "'a \<Rightarrow> ('s, 'a) tx" where
  "ret x = (\<lambda>s. (Inr x, s))"

definition fail :: "err \<Rightarrow> ('s, 'a) tx" where
  "fail e = (\<lambda>s. (Inl e, s))"

definition bind :: "('s, 'a) tx \<Rightarrow> ('a \<Rightarrow> ('s, 'b) tx) \<Rightarrow> ('s, 'b) tx" where
  "bind m f = (\<lambda>s. case m s of (Inl e, s') \<Rightarrow> (Inl e, s') | (Inr x, s') \<Rightarrow> f x s')"

definition attempt :: "('s, 'a) tx \<Rightarrow> ('s, err + 'a) tx" where
  "attempt m = (\<lambda>s. case m s of (r, s') \<Rightarrow> (Inr r, s'))"

definition guard_tx :: "bool \<Rightarrow> err \<Rightarrow> ('s, unit) tx" where
  "guard_tx b e = (if b then ret () else fail e)"

definition lift_sum :: "err + 'a \<Rightarrow> ('s, 'a) tx" where
  "lift_sum r = (\<lambda>s. (r, s))"

definition read_st :: "('s \<Rightarrow> 'a) \<Rightarrow> ('s, 'a) tx" where
  "read_st f = (\<lambda>s. (Inr (f s), s))"

definition modify_st :: "('s \<Rightarrow> 's) \<Rightarrow> ('s, unit) tx" where
  "modify_st f = (\<lambda>s. (Inr (), f s))"

primrec for_each :: "'a list \<Rightarrow> ('a \<Rightarrow> ('s, unit) tx) \<Rightarrow> ('s, unit) tx" where
  "for_each [] body = ret ()"
| "for_each (x # xs) body = bind (body x) (\<lambda>_. for_each xs body)"

lemma ret_apply [simp, tx_simps]: "ret x s = (Inr x, s)"
  by (simp add: ret_def)

lemma fail_apply [simp, tx_simps]: "fail e s = (Inl e, s)"
  by (simp add: fail_def)

lemma lift_sum_apply [simp, tx_simps]: "lift_sum r s = (r, s)"
  by (simp add: lift_sum_def)

lemma read_st_apply [simp, tx_simps]: "read_st f s = (Inr (f s), s)"
  by (simp add: read_st_def)

lemma modify_st_apply [simp, tx_simps]: "modify_st f s = (Inr (), f s)"
  by (simp add: modify_st_def)

lemma attempt_apply [tx_simps]: "attempt m s = (Inr (fst (m s)), snd (m s))"
  by (simp add: attempt_def split: prod.splits)

lemma guard_tx_apply [tx_simps]: "guard_tx b e s = (if b then Inr () else Inl e, s)"
  by (simp add: guard_tx_def)

lemma bind_Inl [tx_simps]: "m s = (Inl e, s') \<Longrightarrow> bind m f s = (Inl e, s')"
  by (simp add: bind_def)

lemma bind_Inr [tx_simps]: "m s = (Inr x, s') \<Longrightarrow> bind m f s = f x s'"
  by (simp add: bind_def)

lemma bind_InrE [tx_elims]:
  assumes "bind m f s = (Inr y, s')"
  obtains x s1 where "m s = (Inr x, s1)" and "f x s1 = (Inr y, s')"
  using assms by (auto simp: bind_def split: prod.splits sum.splits)

lemma attempt_InrE [tx_elims]:
  assumes "attempt m s = (Inr r, s')"
  obtains "m s = (r, s')"
  using assms by (auto simp: attempt_def split: prod.splits)

lemma guard_tx_InrE [tx_elims]:
  assumes "guard_tx b e s = (Inr u, s')"
  obtains b and "s' = s"
  using assms by (auto simp: guard_tx_apply split: if_splits)

lemma bind_ret [simp]: "bind (ret x) f = f x"
  by (simp add: bind_def fun_eq_iff)

lemma bind_fail [simp]: "bind (fail e) f = fail e"
  by (simp add: bind_def fun_eq_iff)

lemma bind_assoc: "bind (bind m f) g = bind m (\<lambda>x. bind (f x) g)"
  by (auto simp: bind_def fun_eq_iff split: prod.splits sum.splits)

text \<open>
  Hoare-style rules for what a computation keeps: an invariant of the state that every
  step preserves, whether it succeeds or fails. They are the frame reasoning of the
  component theories.
\<close>

definition keeps :: "('s \<Rightarrow> bool) \<Rightarrow> ('s, 'a) tx \<Rightarrow> bool" where
  "keeps P m \<longleftrightarrow> (\<forall>s. P s \<longrightarrow> P (snd (m s)))"

named_theorems keeps_rules "composition rules for preserved state predicates"

lemma keepsI: "(\<And>s. P s \<Longrightarrow> P (snd (m s))) \<Longrightarrow> keeps P m"
  by (simp add: keeps_def)

lemma keepsD: "keeps P m \<Longrightarrow> P s \<Longrightarrow> P (snd (m s))"
  by (simp add: keeps_def)

lemma keeps_run: "keeps P m \<Longrightarrow> m s = (r, s') \<Longrightarrow> P s \<Longrightarrow> P s'"
  by (metis keeps_def snd_conv)

lemma keeps_ret [keeps_rules, intro]: "keeps P (ret x)"
  by (simp add: keeps_def)

lemma keeps_fail [keeps_rules, intro]: "keeps P (fail e)"
  by (simp add: keeps_def)

lemma keeps_lift [keeps_rules, intro]: "keeps P (lift_sum r)"
  by (simp add: keeps_def)

lemma keeps_read [keeps_rules, intro]: "keeps P (read_st f)"
  by (simp add: keeps_def)

lemma keeps_guard [keeps_rules, intro]: "keeps P (guard_tx b e)"
  by (simp add: keeps_def guard_tx_apply)

lemma keeps_modify [keeps_rules]: "(\<And>s. P s \<Longrightarrow> P (f s)) \<Longrightarrow> keeps P (modify_st f)"
  by (simp add: keeps_def)

lemma keeps_attempt [keeps_rules, intro]: "keeps P m \<Longrightarrow> keeps P (attempt m)"
  by (simp add: keeps_def attempt_apply)

lemma keeps_bind [keeps_rules, intro]:
  assumes "keeps P m" and "\<And>x. keeps P (f x)"
  shows "keeps P (bind m f)"
proof (rule keepsI)
  fix s assume P: "P s"
  obtain r s1 where m: "m s = (r, s1)" by (cases "m s")
  have P1: "P s1" using keeps_run [OF assms(1) m P] .
  show "P (snd (bind m f s))"
  proof (cases r)
    case (Inl e)
    with m P1 show ?thesis by (simp add: bind_Inl)
  next
    case (Inr x)
    have "P (snd (f x s1))" using keepsD [OF assms(2) P1] .
    with m Inr show ?thesis by (simp add: bind_Inr)
  qed
qed

lemma keeps_for_each [keeps_rules, intro]:
  "(\<And>x. x \<in> set xs \<Longrightarrow> keeps P (body x)) \<Longrightarrow> keeps P (for_each xs body)"
  by (induction xs) (auto intro: keeps_rules)

lemma keeps_if [keeps_rules, intro]: "(b \<Longrightarrow> keeps P m) \<Longrightarrow> (\<not> b \<Longrightarrow> keeps P n) \<Longrightarrow> keeps P (if b then m else n)"
  by simp

lemma keeps_case_option [keeps_rules, intro]:
  "(x = None \<Longrightarrow> keeps P m) \<Longrightarrow> (\<And>y. x = Some y \<Longrightarrow> keeps P (f y)) \<Longrightarrow>
    keeps P (case x of None \<Rightarrow> m | Some y \<Rightarrow> f y)"
  by (cases x) auto

lemma keeps_case_sum [keeps_rules, intro]:
  "(\<And>e. x = Inl e \<Longrightarrow> keeps P (m e)) \<Longrightarrow> (\<And>y. x = Inr y \<Longrightarrow> keeps P (f y)) \<Longrightarrow>
    keeps P (case x of Inl e \<Rightarrow> m e | Inr y \<Rightarrow> f y)"
  by (cases x) auto

lemma keeps_case_prod [keeps_rules, intro]:
  "(\<And>a b. x = (a, b) \<Longrightarrow> keeps P (f a b)) \<Longrightarrow> keeps P (case x of (a, b) \<Rightarrow> f a b)"
  by (cases x) auto

lemma keeps_conj: "keeps P m \<Longrightarrow> keeps Q m \<Longrightarrow> keeps (\<lambda>s. P s \<and> Q s) m"
  by (simp add: keeps_def)

section \<open>Go integers\<close>

text \<open>
  Go's \<open>int\<close> is 64 bits wide on every target of the repository; the \<open>int\<close> columns of
  the schema are 32 bits, and the repositories convert with \<open>int32(v)\<close>, which truncates.
\<close>

definition to_int64 :: "int \<Rightarrow> int" where
  "to_int64 x = signed_take_bit 63 x"

definition to_int32 :: "int \<Rightarrow> int" where
  "to_int32 x = signed_take_bit 31 x"

lemma to_int64_id: "- (2 ^ 63) \<le> x \<Longrightarrow> x < 2 ^ 63 \<Longrightarrow> to_int64 x = x"
  by (simp add: to_int64_def signed_take_bit_int_eq_self)

lemma to_int32_id: "- (2 ^ 31) \<le> x \<Longrightarrow> x < 2 ^ 31 \<Longrightarrow> to_int32 x = x"
  by (simp add: to_int32_def signed_take_bit_int_eq_self)

lemma to_int64_range: "- (2 ^ 63) \<le> to_int64 x \<and> to_int64 x < 2 ^ 63"
  unfolding to_int64_def
  using signed_take_bit_int_greater_eq_minus_exp [of 63 x] signed_take_bit_int_less_exp [of 63 x]
  by simp

section \<open>Decimal rendering and string functions\<close>

fun nat_digits :: "nat \<Rightarrow> string" where
  "nat_digits n =
     (if n < 10 then [char_of (48 + n)] else nat_digits (n div 10) @ [char_of (48 + n mod 10)])"

declare nat_digits.simps [simp del]

text \<open>\<open>fmt.Sprintf("%d", n)\<close> and \<open>strconv.Itoa\<close>.\<close>

definition itoa :: "int \<Rightarrow> string" where
  "itoa i = (if i < 0 then CHR ''-'' # nat_digits (nat (- i)) else nat_digits (nat i))"

definition is_digit :: "char \<Rightarrow> bool" where
  "is_digit c \<longleftrightarrow> 48 \<le> (of_char c :: nat) \<and> (of_char c :: nat) \<le> 57"

definition digit_val :: "char \<Rightarrow> nat" where
  "digit_val c = of_char c - 48"

text \<open>
  Go strings are byte strings, here lists of \<open>char\<close> (a \<open>char\<close> is a byte). Case mapping
  covers ASCII and the two-byte UTF-8 letters U+00C0 to U+00FE, which is all of
  Portuguese; other bytes are left as they are.
\<close>

definition upper_ascii :: "char \<Rightarrow> char" where
  "upper_ascii c = (if 97 \<le> (of_char c :: nat) \<and> (of_char c :: nat) \<le> 122
     then char_of ((of_char c :: nat) - 32) else c)"

definition lower_ascii :: "char \<Rightarrow> char" where
  "lower_ascii c = (if 65 \<le> (of_char c :: nat) \<and> (of_char c :: nat) \<le> 90
     then char_of ((of_char c :: nat) + 32) else c)"

fun ToUpper :: "string \<Rightarrow> string" where
  "ToUpper [] = []"
| "ToUpper [c] = [upper_ascii c]"
| "ToUpper (c # d # s) =
     (if c = CHR 0xC3 \<and> 160 \<le> (of_char d :: nat) \<and> (of_char d :: nat) \<le> 190 \<and> d \<noteq> CHR 0xB7
      then c # char_of ((of_char d :: nat) - 32) # ToUpper s
      else upper_ascii c # ToUpper (d # s))"

fun ToLower :: "string \<Rightarrow> string" where
  "ToLower [] = []"
| "ToLower [c] = [lower_ascii c]"
| "ToLower (c # d # s) =
     (if c = CHR 0xC3 \<and> 128 \<le> (of_char d :: nat) \<and> (of_char d :: nat) \<le> 158 \<and> d \<noteq> CHR 0x97
      then c # char_of ((of_char d :: nat) + 32) # ToLower s
      else lower_ascii c # ToLower (d # s))"

definition is_space :: "char \<Rightarrow> bool" where
  "is_space c \<longleftrightarrow> c = CHR '' '' \<or> (9 \<le> (of_char c :: nat) \<and> (of_char c :: nat) \<le> 13)"

definition TrimSpace :: "string \<Rightarrow> string" where
  "TrimSpace s = rev (dropWhile is_space (rev (dropWhile is_space s)))"

definition HasPrefix :: "string \<Rightarrow> string \<Rightarrow> bool" where
  "HasPrefix s p \<longleftrightarrow> take (length p) s = p"

fun Contains :: "string \<Rightarrow> string \<Rightarrow> bool" where
  "Contains [] p = (p = [])"
| "Contains (c # s) p = (HasPrefix (c # s) p \<or> Contains s p)"

text \<open>\<open>strings.Fields\<close> and \<open>strings.Join\<close> on a space; the message of an \<open>AppError\<close>.\<close>

fun fields_from :: "string \<Rightarrow> string \<Rightarrow> string list" where
  "fields_from acc [] = (if acc = [] then [] else [rev acc])"
| "fields_from acc (c # s) =
     (if is_space c then (if acc = [] then fields_from [] s else rev acc # fields_from [] s)
      else fields_from (c # acc) s)"

definition Fields :: "string \<Rightarrow> string list" where
  "Fields s = fields_from [] s"

fun join_space :: "string list \<Rightarrow> string" where
  "join_space [] = ''''"
| "join_space [w] = w"
| "join_space (w # ws) = w @ '' '' @ join_space ws"

fun kind_text :: "err_kind \<Rightarrow> string" where
  "kind_text KindInvalid = ''DOMAIN_ERROR_INVALID''"
| "kind_text KindUnauthorized = ''AUTHENTICATION_ERROR''"
| "kind_text KindForbidden = ''AUTHORIZATION_ERROR''"
| "kind_text KindNotFound = ''ENTITY_NOT_FOUND''"
| "kind_text KindConflict = ''CONFLICT''"
| "kind_text KindInfra = ''INFRA_ERROR''"
| "kind_text KindUnavailable = ''SERVICE_UNAVAILABLE''"
| "kind_text KindRateLimited = ''RATE_LIMITED''"

fun Error_text :: "err \<Rightarrow> string" where
  "Error_text (AppErr k msg) = kind_text k @ '': '' @ msg"
| "Error_text (PlainErr msg) = msg"

section \<open>Lists as tables\<close>

text \<open>
  A table is the list of its rows in insertion order; \<open>find_row\<close> is a \<open>SELECT\<close> of at most
  one row, \<open>update_rows\<close> an \<open>UPDATE ... WHERE\<close>.
\<close>

definition find_row :: "('r \<Rightarrow> bool) \<Rightarrow> 'r list \<Rightarrow> 'r option" where
  "find_row P t = List.find P t"

definition update_rows :: "('r \<Rightarrow> bool) \<Rightarrow> ('r \<Rightarrow> 'r) \<Rightarrow> 'r list \<Rightarrow> 'r list" where
  "update_rows P f t = map (\<lambda>r. if P r then f r else r) t"

lemma find_row_Some: "find_row P t = Some r \<Longrightarrow> r \<in> set t \<and> P r"
  by (auto simp: find_row_def find_Some_iff)

lemma find_row_None: "find_row P t = None \<longleftrightarrow> (\<forall>r \<in> set t. \<not> P r)"
  by (auto simp: find_row_def find_None_iff)

lemma length_update_rows [simp]: "length (update_rows P f t) = length t"
  by (simp add: update_rows_def)

lemma map_update_rows: "(\<And>r. P r \<Longrightarrow> g (f r) = g r) \<Longrightarrow> map g (update_rows P f t) = map g t"
  by (auto simp: update_rows_def)

lemma set_update_rows: "r \<in> set (update_rows P f t) \<longleftrightarrow> (\<exists>q \<in> set t. r = (if P q then f q else q))"
  by (auto simp: update_rows_def)

lemma replaced_rows:
  assumes "p \<in> set t" and "P p" and "P row"
  shows "row \<in> set (update_rows P (\<lambda>_. row) t)" and "q \<in> set (update_rows P (\<lambda>_. row) t) \<Longrightarrow> P q \<Longrightarrow> q = row"
  using assms by (auto simp: set_update_rows split: if_splits)

lemma update_rows_none: "find_row P t = None \<Longrightarrow> update_rows P f t = t"
  by (induction t) (auto simp: update_rows_def find_row_def split: if_splits)

lemma distinct_keys_inj:
  "distinct (filter P (map k t)) \<Longrightarrow> a \<in> set t \<Longrightarrow> b \<in> set t \<Longrightarrow> k a = k b \<Longrightarrow> P (k b) \<Longrightarrow> a = b"
  by (auto simp: filter_map distinct_map inj_on_def)

lemma distinct_map_inj: "distinct (map k t) \<Longrightarrow> a \<in> set t \<Longrightarrow> b \<in> set t \<Longrightarrow> k a = k b \<Longrightarrow> a = b"
  by (auto simp: distinct_map inj_on_def)

lemma find_row_unique:
  assumes "distinct (map k t)" and "r \<in> set t" and "P r" and "\<And>q. q \<in> set t \<Longrightarrow> P q \<Longrightarrow> k q = k r"
  shows "find_row P t = Some r"
proof (cases "find_row P t")
  case None
  with assms(2,3) show ?thesis by (simp add: find_row_None)
next
  case (Some q)
  with find_row_Some [OF Some] assms show ?thesis by (metis distinct_map_inj)
qed

lemma update_rows_only: "(\<And>q. q \<in> set T \<Longrightarrow> P q \<Longrightarrow> q = r) \<Longrightarrow> update_rows P f T = update_rows P (\<lambda>_. f r) T"
  by (auto simp: update_rows_def)

text \<open>A unique non-null column stays unique when one row takes a value no other row has.\<close>

lemma filtered_update:
  assumes "distinct (map k T)" and "r \<in> set T" and "distinct (filter Q (map g T))"
    and "\<forall>q \<in> set T. k q \<noteq> k r \<longrightarrow> Q c \<longrightarrow> g q \<noteq> c" and "g row = c"
  shows "distinct (filter Q (map g (update_rows (\<lambda>q. k q = k r) (\<lambda>_. row) T)))"
  using assms
proof (induction T)
  case (Cons q T)
  show ?case
  proof (cases "k q = k r")
    case True
    then have *: "\<forall>p \<in> set T. k p \<noteq> k r" using Cons.prems(1) by (metis True distinct.simps(2) image_eqI list.simps(9) set_map)
    then have "update_rows (\<lambda>q. k q = k r) (\<lambda>_. row) T = T" by (auto simp: update_rows_def intro: map_idI)
    then have "update_rows (\<lambda>q. k q = k r) (\<lambda>_. row) (q # T) = row # T" using True by (simp add: update_rows_def)
    then show ?thesis using Cons.prems * by (auto split: if_splits)
  next
    case False
    then have r: "r \<in> set T" using Cons.prems(2) by auto
    have IH: "distinct (filter Q (map g (update_rows (\<lambda>q. k q = k r) (\<lambda>_. row) T)))"
      using Cons r by (auto split: if_splits)
    have "g q \<notin> set (filter Q (map g (update_rows (\<lambda>q. k q = k r) (\<lambda>_. row) T)))" if "Q (g q)"
    proof
      assume "g q \<in> set (filter Q (map g (update_rows (\<lambda>q. k q = k r) (\<lambda>_. row) T)))"
      then obtain p where p: "p \<in> set T" "g q = (if k p = k r then g row else g p)"
        by (auto simp: set_update_rows split: if_splits)
      show False
      proof (cases "k p = k r")
        case True
        then show False using p Cons.prems(4,5) False that by auto
      next
        case False
        then show False using p Cons.prems(3) that by (auto simp: image_iff)
      qed
    qed
    then show ?thesis using IH False by (simp add: update_rows_def)
  qed
qed simp

lemma length_filter_mono: "(\<And>x. P x \<Longrightarrow> Q x) \<Longrightarrow> length (filter P xs) \<le> length (filter Q xs)"
  by (induction xs) auto

end
