(* ===== verification/GoTime.thy ===== *)
theory GoTime
  imports Prelude
begin

text \<open>
  Civil dates of Go's \<open>time\<close> package as the calendar uses them. A date (a \<open>time.Time\<close> at
  midnight UTC) is its number of days since 1 January 1970, an \<open>int\<close>; \<open>AddDate(0, 0, k)\<close>
  is addition. An instant is its number of nanoseconds since the epoch. Year, month and
  day come from the proleptic Gregorian calendar, counted in years that start on 1 March,
  so that the forensic recess (20 December to 20 January) never crosses a year boundary.
\<close>

type_synonym day = int

type_synonym instant = int

definition day_ns :: int where
  "day_ns = 86400 * 1000000000"

text \<open>Midnight UTC of a civil date, as an instant.\<close>

definition midnight :: "day \<Rightarrow> instant" where
  "midnight d = d * day_ns"

lemma midnight_less [simp]: "midnight a < midnight b \<longleftrightarrow> a < b"
  by (simp add: midnight_def day_ns_def)

lemma midnight_le [simp]: "midnight a \<le> midnight b \<longleftrightarrow> a \<le> b"
  by (simp add: midnight_def day_ns_def)

lemma midnight_eq [simp]: "midnight a = midnight b \<longleftrightarrow> a = b"
  by (simp add: midnight_def day_ns_def)

text \<open>The civil day of an instant, in UTC.\<close>

definition day_of :: "instant \<Rightarrow> day" where
  "day_of t = t div day_ns"

lemma day_of_midnight [simp]: "day_of (midnight d) = d"
  by (simp add: day_of_def midnight_def day_ns_def)

lemma day_of_le: "midnight d \<le> t \<longleftrightarrow> d \<le> day_of t"
  by (simp add: day_of_def midnight_def day_ns_def) linarith

section \<open>Days and March-based years\<close>

text \<open>
  \<open>epoch_shift\<close> is the number of days from 1 March of year 0 to the epoch. A day splits
  into cycles of 400, 100, 4 and 1 years; the last year of a cycle is cut off at 3
  because it may hold one more day (the leap day).
\<close>

definition epoch_shift :: int where
  "epoch_shift = 719468"

definition year_part :: "int \<Rightarrow> int" where
  "year_part z =
     (let era = z div 146097; e = z mod 146097;
          c = min 3 (e div 36524); r = e - 36524 * c;
          q = r div 1461; s = r mod 1461;
          y = min 3 (s div 365)
      in 400 * era + 100 * c + 4 * q + y)"

definition year_start :: "int \<Rightarrow> int" where
  "year_start y = 365 * y + y div 4 - y div 100 + y div 400"

definition march_year :: "day \<Rightarrow> int" where
  "march_year d = year_part (d + epoch_shift)"

definition march_doy :: "day \<Rightarrow> int" where
  "march_doy d = d + epoch_shift - year_start (march_year d)"

lemma year_split:
  fixes era c q y :: int
  assumes "0 \<le> c" "c \<le> 3" "0 \<le> q" "q \<le> 24" "0 \<le> y" "y \<le> 3"
  shows "year_start (400 * era + 100 * c + 4 * q + y)
       = 146097 * era + 36524 * c + 1461 * q + 365 * y"
proof -
  let ?y = "400 * era + 100 * c + 4 * q + y"
  have "?y div 4 = 100 * era + 25 * c + q" using assms by linarith
  moreover have "?y div 100 = 4 * era + c" using assms by linarith
  moreover have "?y div 400 = era" using assms by linarith
  ultimately show ?thesis by (simp add: year_start_def)
qed

lemma year_part_bounds:
  "0 \<le> z - year_start (year_part z) \<and> z - year_start (year_part z) \<le> 365
   \<and> (z - year_start (year_part z) = 365 \<longrightarrow> year_start (year_part z + 1) = year_start (year_part z) + 366)"
proof -
  define era where "era = z div 146097"
  define e where "e = z mod 146097"
  define c where "c = min 3 (e div 36524)"
  define r where "r = e - 36524 * c"
  define q where "q = r div 1461"
  define s where "s = r mod 1461"
  define y where "y = min 3 (s div 365)"
  have z: "z = 146097 * era + e" and e: "0 \<le> e" "e < 146097"
    by (simp_all add: era_def e_def)
  have c: "0 \<le> c" "c \<le> 3" using e by (auto simp: c_def)
  have r: "0 \<le> r" "r \<le> 36524" "c < 3 \<longrightarrow> r < 36524"
    using e by (auto simp: r_def c_def min_def split: if_splits)
  have q: "0 \<le> q" "q \<le> 24" and rq: "r = 1461 * q + s"
    using r by (auto simp: q_def s_def)
  have s: "0 \<le> s" "s < 1461" by (simp_all add: s_def)
  have y: "0 \<le> y" "y \<le> 3" using s by (auto simp: y_def)
  have d: "0 \<le> s - 365 * y" "s - 365 * y \<le> 365" "s - 365 * y = 365 \<longrightarrow> y = 3 \<and> s = 1460"
    using s by (auto simp: y_def min_def split: if_splits)
  have yp: "year_part z = 400 * era + 100 * c + 4 * q + y"
    by (simp add: year_part_def Let_def era_def e_def c_def r_def q_def s_def y_def)
  have ys: "year_start (year_part z) = 146097 * era + 36524 * c + 1461 * q + 365 * y"
    using year_split [OF c q y] yp by simp
  have diff: "z - year_start (year_part z) = s - 365 * y"
    using ys z rq by (simp add: r_def)
  have "year_start (year_part z + 1) = year_start (year_part z) + 366" if "s - 365 * y = 365"
  proof -
    from that d have y3: "y = 3" and s1: "s = 1460" by auto
    have cq: "q < 24 \<or> c = 3"
      using r rq s1 q c by linarith
    show ?thesis
    proof (cases "q < 24")
      case True
      have e: "year_part z + 1 = 400 * era + 100 * c + 4 * (q + 1) + 0" using yp y3 by simp
      have "year_start (400 * era + 100 * c + 4 * (q + 1) + 0)
          = 146097 * era + 36524 * c + 1461 * (q + 1) + 365 * 0"
        by (rule year_split) (use c q True in simp_all)
      then have "year_start (year_part z + 1) = 146097 * era + 36524 * c + 1461 * (q + 1)"
        unfolding e by simp
      then show ?thesis using ys y3 by simp
    next
      case False
      with q cq have "q = 24" "c = 3" by auto
      then have e: "year_part z + 1 = 400 * (era + 1) + 100 * 0 + 4 * 0 + 0" using yp y3 by simp
      have "year_start (400 * (era + 1) + 100 * 0 + 4 * 0 + 0)
          = 146097 * (era + 1) + 36524 * 0 + 1461 * 0 + 365 * 0"
        by (rule year_split) simp_all
      then have "year_start (year_part z + 1) = 146097 * (era + 1)"
        unfolding e by simp
      then show ?thesis using ys y3 \<open>q = 24\<close> \<open>c = 3\<close> by simp
    qed
  qed
  then show ?thesis using d diff by simp
qed

lemma march_doy_bounds: "0 \<le> march_doy d" "march_doy d \<le> 365"
  using year_part_bounds [of "d + epoch_shift"] by (simp_all add: march_doy_def march_year_def)

lemma day_of_march: "d = year_start (march_year d) + march_doy d - epoch_shift"
  by (simp add: march_doy_def)

lemma year_start_step: "365 \<le> year_start (y + 1) - year_start y \<and> year_start (y + 1) - year_start y \<le> 366"
proof -
  have c100: "x div 100 = x div 4 div 25" and c400: "x div 400 = x div 4 div 25 div 4" for x :: int
    by (simp_all add: zdiv_zmult2_eq [symmetric])
  have "(y + 1) div 4 = y div 4 \<or> (y + 1) div 4 = y div 4 + 1" by linarith
  then show ?thesis
  proof
    assume "(y + 1) div 4 = y div 4"
    then show ?thesis by (simp add: year_start_def c100 c400)
  next
    assume a: "(y + 1) div 4 = y div 4 + 1"
    let ?q = "y div 4"
    have "(?q + 1) div 25 = ?q div 25 \<or> (?q + 1) div 25 = ?q div 25 + 1" by linarith
    then show ?thesis
    proof
      assume "(?q + 1) div 25 = ?q div 25"
      then show ?thesis using a by (simp add: year_start_def c100 c400)
    next
      assume b: "(?q + 1) div 25 = ?q div 25 + 1"
      have "(?q div 25 + 1) div 4 = ?q div 25 div 4 \<or> (?q div 25 + 1) div 4 = ?q div 25 div 4 + 1"
        by linarith
      then show ?thesis using a b by (auto simp: year_start_def c100 c400)
    qed
  qed
qed

lemma year_start_mono:
  assumes "a \<le> b"
  shows "year_start a + 365 * (b - a) \<le> year_start b"
proof -
  have "year_start a + 365 * (b - a) \<le> year_start b" if "b = a + int n" for n
    using that
  proof (induction n arbitrary: b)
    case 0
    then show ?case by simp
  next
    case (Suc n)
    have "year_start a + 365 * (b - 1 - a) \<le> year_start (b - 1)"
      by (rule Suc.IH) (use Suc.prems in simp)
    with year_start_step [of "b - 1"] show ?case by (simp add: algebra_simps)
  qed
  from this [of "nat (b - a)"] assms show ?thesis by simp
qed

text \<open>The pair (year, day of year) determines the day, and every pair in range is reached.\<close>

lemma march_unique:
  assumes z: "d + epoch_shift = year_start y + k" and k: "0 \<le> k" "k < year_start (y + 1) - year_start y"
  shows "march_year d = y \<and> march_doy d = k"
proof -
  have b: "0 \<le> march_doy d" "march_doy d \<le> 365" by (rule march_doy_bounds)+
  have full: "march_doy d = 365 \<longrightarrow> year_start (march_year d + 1) = year_start (march_year d) + 366"
    using year_part_bounds [of "d + epoch_shift"] by (simp add: march_doy_def march_year_def)
  have eq: "year_start (march_year d) + march_doy d = year_start y + k"
    using z by (simp add: march_doy_def)
  have "march_year d = y"
  proof (rule ccontr)
    assume ne: "march_year d \<noteq> y"
    show False
    proof (cases "march_year d < y")
      case True
      then have "year_start (march_year d + 1) + 365 * (y - (march_year d + 1)) \<le> year_start y"
        by (intro year_start_mono) simp
      with True have "year_start (march_year d + 1) \<le> year_start y" by simp
      moreover have "march_doy d < year_start (march_year d + 1) - year_start (march_year d)"
        using b full year_start_step [of "march_year d"] by linarith
      ultimately show False using eq k by linarith
    next
      case False
      with ne have "y + 1 \<le> march_year d" by simp
      then have "year_start (y + 1) + 365 * (march_year d - (y + 1)) \<le> year_start (march_year d)"
        by (rule year_start_mono)
      with \<open>y + 1 \<le> march_year d\<close> have "year_start (y + 1) \<le> year_start (march_year d)" by simp
      then show False using eq k b by linarith
    qed
  qed
  with eq show ?thesis by simp
qed

lemma march_doy_Suc:
  assumes "march_doy d < 364"
  shows "march_doy (d + 1) = march_doy d + 1 \<and> march_year (d + 1) = march_year d"
proof -
  have "d + 1 + epoch_shift = year_start (march_year d) + (march_doy d + 1)"
    by (simp add: march_doy_def)
  then show ?thesis
    using march_unique [of "d + 1" "march_year d" "march_doy d + 1"] assms
      march_doy_bounds [of d] year_start_step [of "march_year d"] by linarith
qed

section \<open>Year, month and day\<close>

definition march_month :: "int \<Rightarrow> int" where
  "march_month k = (5 * k + 2) div 153"

definition Month :: "day \<Rightarrow> int" where
  "Month d = (let m = march_month (march_doy d) in if m < 10 then m + 3 else m - 9)"

definition Day :: "day \<Rightarrow> int" where
  "Day d = (let k = march_doy d in k - (153 * march_month k + 2) div 5 + 1)"

definition Year :: "day \<Rightarrow> int" where
  "Year d = march_year d + (if Month d \<le> 2 then 1 else 0)"

text \<open>\<open>time.Date(y, m, d, 0, 0, 0, 0, time.UTC)\<close> for a month in 1..12.\<close>

definition Date :: "int \<Rightarrow> int \<Rightarrow> int \<Rightarrow> day" where
  "Date y m d =
     (let y' = (if m \<le> 2 then y - 1 else y); m' = (if 3 \<le> m then m - 3 else m + 9)
      in year_start y' + (153 * m' + 2) div 5 + (d - 1) - epoch_shift)"

definition is_leap :: "int \<Rightarrow> bool" where
  "is_leap y \<longleftrightarrow> 4 dvd y \<and> (\<not> 100 dvd y \<or> 400 dvd y)"

definition days_in :: "int \<Rightarrow> int \<Rightarrow> int" where
  "days_in y m =
     (if m = 2 then (if is_leap y then 29 else 28)
      else if m \<in> {4, 6, 9, 11} then 30 else 31)"

text \<open>\<open>Weekday\<close>: 0 is Sunday; 1 January 1970 was a Thursday.\<close>

definition Weekday :: "day \<Rightarrow> int" where
  "Weekday d = (d + 4) mod 7"

lemma march_month_bounds:
  assumes "0 \<le> k" "k \<le> 365"
  shows "0 \<le> march_month k \<and> march_month k \<le> 11"
  using assms unfolding march_month_def by linarith

lemma Month_bounds: "1 \<le> Month d \<and> Month d \<le> 12"
  using march_month_bounds [OF march_doy_bounds, of d] by (auto simp: Month_def Let_def)

lemma Day_bounds: "1 \<le> Day d \<and> Day d \<le> 31"
proof -
  have "1 \<le> k - (153 * ((5 * k + 2) div 153) + 2) div 5 + 1 \<and>
        k - (153 * ((5 * k + 2) div 153) + 2) div 5 + 1 \<le> 31" if "0 \<le> k" for k :: int
    using that by linarith
  from this [OF march_doy_bounds(1)] show ?thesis
    by (simp add: Day_def march_month_def Let_def)
qed

text \<open>Splitting a day into year, month and day and putting it together again is the identity.\<close>

lemma Date_civil: "Date (Year d) (Month d) (Day d) = d"
proof -
  let ?m = "march_month (march_doy d)"
  have m: "0 \<le> ?m" "?m \<le> 11" using march_month_bounds [OF march_doy_bounds, of d] by auto
  have "(if Month d \<le> 2 then Year d - 1 else Year d) = march_year d"
    by (simp add: Year_def)
  moreover have "(if 3 \<le> Month d then Month d - 3 else Month d + 9) = ?m"
    using m by (auto simp: Month_def Let_def)
  ultimately have "Date (Year d) (Month d) (Day d)
      = year_start (march_year d) + (153 * ?m + 2) div 5 + (Day d - 1) - epoch_shift"
    by (simp only: Date_def Let_def)
  also have "\<dots> = year_start (march_year d) + march_doy d - epoch_shift"
    by (simp add: Day_def Let_def)
  finally show ?thesis using day_of_march [of d] by simp
qed

lemma Weekday_shift7: "Weekday (d + 7) = Weekday d"
  unfolding Weekday_def by presburger

section \<open>The forensic recess in day-of-year terms\<close>

text \<open>20 December is day 294 of the March-based year, 20 January is day 325.\<close>

lemma recess_doy:
  "((Month d = 12 \<and> Day d \<ge> 20) \<or> (Month d = 1 \<and> Day d \<le> 20)) \<longleftrightarrow> 294 \<le> march_doy d \<and> march_doy d \<le> 325"
proof -
  let ?k = "march_doy d"
  have k: "0 \<le> ?k" "?k \<le> 365" by (rule march_doy_bounds)+
  have dec: "Month d = 12 \<longleftrightarrow> march_month ?k = 9" and jan: "Month d = 1 \<longleftrightarrow> march_month ?k = 10"
    using march_month_bounds [OF k] by (auto simp: Month_def Let_def)
  have m9: "march_month ?k = 9 \<longleftrightarrow> 275 \<le> ?k \<and> ?k \<le> 305"
    unfolding march_month_def by linarith
  have m10: "march_month ?k = 10 \<longleftrightarrow> 306 \<le> ?k \<and> ?k \<le> 336"
    unfolding march_month_def by linarith
  have d9: "march_month ?k = 9 \<Longrightarrow> Day d = ?k - 274" by (simp add: Day_def Let_def)
  have d10: "march_month ?k = 10 \<Longrightarrow> Day d = ?k - 305" by (simp add: Day_def Let_def)
  consider "march_month ?k = 9" | "march_month ?k = 10"
    | "march_month ?k \<noteq> 9" "march_month ?k \<noteq> 10" by blast
  then show ?thesis
  proof cases
    case 1
    then have "Month d = 12" "Month d \<noteq> 1" "Day d = ?k - 274" "?k \<le> 305"
      using dec jan d9 m9 by simp_all
    then show ?thesis by linarith
  next
    case 2
    then have "Month d \<noteq> 12" "Month d = 1" "Day d = ?k - 305" "306 \<le> ?k"
      using dec jan d10 m10 by simp_all
    then show ?thesis by linarith
  next
    case 3
    then have "Month d \<noteq> 12" "Month d \<noteq> 1" using dec jan by simp_all
    moreover have "\<not> (294 \<le> ?k \<and> ?k \<le> 325)"
      using 3 m9 m10 by linarith
    ultimately show ?thesis by simp
  qed
qed

end
