(* ===== verification/Calendar.thy ===== *)
theory Calendar
  imports GoTime
begin

text \<open>
  \<open>lib/calendar/calendar.go\<close>: judicial business days and the three counting motors.
  \<open>HolidaySource.IsHoliday\<close> is a parameter \<open>src\<close> of the motors (the seam the Go code
  injects); its contract is the locale \<open>holiday_source\<close>, interpreted on the Postgres store in
  \<open>CalendarStore\<close>. The contract the deadline slice relies on is the locale
  \<open>business_calendar\<close>, interpreted here on the motors.
\<close>

type_synonym holiday_query = "day \<Rightarrow> string \<Rightarrow> string \<Rightarrow> err + bool"

section \<open>Definitions\<close>

definition maxScan :: nat where
  "maxScan = 400"

definition isWeekend :: "day \<Rightarrow> bool" where
  "isWeekend d \<longleftrightarrow> Weekday d = 6 \<or> Weekday d = 0"

definition inRecess :: "day \<Rightarrow> bool" where
  "inRecess d \<longleftrightarrow> (Month d = 12 \<and> Day d \<ge> 20) \<or> (Month d = 1 \<and> Day d \<le> 20)"

definition IsBusinessDay :: "holiday_query \<Rightarrow> day \<Rightarrow> string \<Rightarrow> string \<Rightarrow> err + bool" where
  "IsBusinessDay src d uf court =
     (if isWeekend d \<or> inRecess d then Inr False
      else case src d uf court of
        Inl e \<Rightarrow> Inl (PlainErr ''check holiday'')
      | Inr holiday \<Rightarrow> Inr (\<not> holiday))"

text \<open>The loop of \<open>NextBusinessDay\<close>: \<open>n\<close> iterations are left, \<open>d\<close> is the day last looked at.\<close>

fun next_business_loop :: "holiday_query \<Rightarrow> string \<Rightarrow> string \<Rightarrow> nat \<Rightarrow> day \<Rightarrow> err + day" where
  "next_business_loop src uf court 0 d = Inl (PlainErr ''no business day within scan'')"
| "next_business_loop src uf court (Suc n) d =
     (case IsBusinessDay src (d + 1) uf court of
        Inl e \<Rightarrow> Inl e
      | Inr ok \<Rightarrow> if ok then Inr (d + 1) else next_business_loop src uf court n (d + 1))"

definition NextBusinessDay :: "holiday_query \<Rightarrow> day \<Rightarrow> string \<Rightarrow> string \<Rightarrow> err + day" where
  "NextBusinessDay src d uf court = next_business_loop src uf court maxScan d"

text \<open>
  The counting loop shared by \<open>AddBusinessDays\<close> (\<open>step = 1\<close>) and \<open>SubtractBusinessDays\<close>
  (\<open>step = - 1\<close>), whose bodies differ in the step and the message only. \<open>fuel\<close> is
  \<open>maxScan + n - scan\<close>, \<open>left\<close> is \<open>n - counted\<close>.
\<close>

fun count_business :: "holiday_query \<Rightarrow> string \<Rightarrow> string \<Rightarrow> int \<Rightarrow> err \<Rightarrow> nat \<Rightarrow> nat \<Rightarrow> day \<Rightarrow> day list
    \<Rightarrow> err + (day \<times> day list)" where
  "count_business src uf court step over fuel 0 d skipped = Inr (d, skipped)"
| "count_business src uf court step over 0 (Suc left) d skipped = Inl over"
| "count_business src uf court step over (Suc fuel) (Suc left) d skipped =
     (case IsBusinessDay src (d + step) uf court of
        Inl e \<Rightarrow> Inl e
      | Inr ok \<Rightarrow>
          if ok then count_business src uf court step over fuel left (d + step) skipped
          else if \<not> isWeekend (d + step)
            then count_business src uf court step over fuel (Suc left) (d + step) (skipped @ [d + step])
          else count_business src uf court step over fuel (Suc left) (d + step) skipped)"

definition AddBusinessDays :: "holiday_query \<Rightarrow> day \<Rightarrow> int \<Rightarrow> string \<Rightarrow> string \<Rightarrow> err + (day \<times> day list)" where
  "AddBusinessDays src start n uf court =
     (if n < 0 then Inl (PlainErr ''AddBusinessDays: n must be >= 0'')
      else count_business src uf court 1 (PlainErr ''AddBusinessDays: exceeded scan'')
             (maxScan + nat n) (nat n) start [])"

definition SubtractBusinessDays :: "holiday_query \<Rightarrow> day \<Rightarrow> int \<Rightarrow> string \<Rightarrow> string \<Rightarrow> err + (day \<times> day list)" where
  "SubtractBusinessDays src start n uf court =
     (if n < 0 then Inl (PlainErr ''SubtractBusinessDays: n must be >= 0'')
      else count_business src uf court (- 1) (PlainErr ''SubtractBusinessDays: exceeded scan'')
             (maxScan + nat n) (nat n) start [])"

fun roll_forward :: "holiday_query \<Rightarrow> string \<Rightarrow> string \<Rightarrow> nat \<Rightarrow> day \<Rightarrow> day list \<Rightarrow> err + (day \<times> day list)" where
  "roll_forward src uf court 0 d applied = Inl (PlainErr ''AddCalendarDays: exceeded scan'')"
| "roll_forward src uf court (Suc fuel) d applied =
     (case IsBusinessDay src d uf court of
        Inl e \<Rightarrow> Inl e
      | Inr ok \<Rightarrow>
          if ok then Inr (d, applied)
          else roll_forward src uf court fuel (d + 1) (if \<not> isWeekend d then applied @ [d] else applied))"

definition AddCalendarDays :: "holiday_query \<Rightarrow> day \<Rightarrow> int \<Rightarrow> string \<Rightarrow> string \<Rightarrow> err + (day \<times> day list)" where
  "AddCalendarDays src start n uf court =
     (if n < 0 then Inl (PlainErr ''AddCalendarDays: n must be >= 0'')
      else if n = 0 then Inr (start, [])
      else roll_forward src uf court maxScan (start + n) [])"

section \<open>The days a motor walks over\<close>

definition walk :: "int \<Rightarrow> day \<Rightarrow> nat \<Rightarrow> day list" where
  "walk step d k = map (\<lambda>i. d + step * int i) [1..<Suc k]"

text \<open>A day the source answers for and that is a business day.\<close>

definition biz :: "holiday_query \<Rightarrow> string \<Rightarrow> string \<Rightarrow> day \<Rightarrow> bool" where
  "biz src uf court d \<longleftrightarrow> IsBusinessDay src d uf court = Inr True"

text \<open>A day off that is recorded for the audit trail: not a business day, not a weekend.\<close>

definition audited :: "holiday_query \<Rightarrow> string \<Rightarrow> string \<Rightarrow> day \<Rightarrow> bool" where
  "audited src uf court d \<longleftrightarrow> \<not> biz src uf court d \<and> \<not> isWeekend d"

definition answered :: "holiday_query \<Rightarrow> string \<Rightarrow> string \<Rightarrow> day \<Rightarrow> bool" where
  "answered src uf court d \<longleftrightarrow> (\<exists>b. IsBusinessDay src d uf court = Inr b)"

lemma walk_0 [simp]: "walk step d 0 = []"
  by (simp add: walk_def)

lemma length_walk [simp]: "length (walk step d k) = k"
  by (simp add: walk_def)

lemma walk_Suc: "walk step d (Suc k) = (d + step) # walk step (d + step) k"
proof -
  have "[1..<Suc (Suc k)] = 1 # map Suc [1..<Suc k]"
    by (simp add: upt_conv_Cons map_Suc_upt del: upt_Suc)
  then show ?thesis by (simp add: walk_def algebra_simps o_def del: upt_Suc)
qed

lemma walk_snoc: "walk step d (Suc k) = walk step d k @ [d + step * (int k + 1)]"
  by (simp add: walk_def algebra_simps)

lemma walk_add: "walk step d (a + b) = walk step d a @ walk step (d + step * int a) b"
  by (induction a arbitrary: d) (simp_all add: walk_Suc algebra_simps)

lemma set_walk_forward: "set (walk 1 d k) = {d + 1..d + int k}"
proof -
  have "set (walk 1 d k) = (\<lambda>i. d + int i) ` {1..<Suc k}"
    by (simp add: walk_def del: upt_Suc)
  also have "\<dots> = {d + 1..d + int k}"
  proof (rule set_eqI)
    fix x
    show "x \<in> (\<lambda>i. d + int i) ` {1..<Suc k} \<longleftrightarrow> x \<in> {d + 1..d + int k}"
    proof
      assume "x \<in> {d + 1..d + int k}"
      then show "x \<in> (\<lambda>i. d + int i) ` {1..<Suc k}"
        by (intro image_eqI [of _ _ "nat (x - d)"]) auto
    qed auto
  qed
  finally show ?thesis .
qed

lemma distinct_walk_forward: "distinct (walk 1 d k)"
  by (simp add: walk_def distinct_map inj_on_def)

lemma rev_walk_back: "rev (walk (- 1) e k) = walk 1 (e - int k - 1) k"
proof (induction k)
  case 0
  then show ?case by simp
next
  case (Suc k)
  have "walk 1 (e - int (Suc k) - 1) (Suc k) = (e - int k - 1) # walk 1 (e - int k - 1) k"
    by (simp add: walk_Suc)
  then show ?case using Suc by (simp add: walk_snoc)
qed

section \<open>Soundness and completeness of the counting loop\<close>

lemma IsBusinessDay_cases:
  obtains (err) e where "IsBusinessDay src d uf court = Inl e"
  | (yes) "biz src uf court d" "IsBusinessDay src d uf court = Inr True"
  | (no) "\<not> biz src uf court d" "IsBusinessDay src d uf court = Inr False"
  by (cases "IsBusinessDay src d uf court") (auto simp: biz_def)

lemma biz_not_weekend: "biz src uf court d \<Longrightarrow> \<not> isWeekend d"
  by (auto simp: biz_def IsBusinessDay_def)

lemma biz_not_recess: "biz src uf court d \<Longrightarrow> \<not> inRecess d"
  by (auto simp: biz_def IsBusinessDay_def)

lemma audited_biz [simp]: "biz src uf court d \<Longrightarrow> \<not> audited src uf court d"
  by (simp add: audited_def)

lemma audited_off [simp]: "\<not> biz src uf court d \<Longrightarrow> audited src uf court d \<longleftrightarrow> \<not> isWeekend d"
  by (simp add: audited_def)

lemma biz_answered: "biz src uf court d \<Longrightarrow> answered src uf court d"
  by (auto simp: biz_def answered_def)

lemma count_business_sound:
  assumes "count_business src uf court step over fuel left d skipped = Inr (e, sk)"
  shows "\<exists>k \<le> fuel. e = d + step * int k
           \<and> length (filter (biz src uf court) (walk step d k)) = left
           \<and> sk = skipped @ filter (audited src uf court) (walk step d k)
           \<and> (\<forall>x \<in> set (walk step d k). answered src uf court x)
           \<and> (0 < left \<longrightarrow> 0 < k \<and> biz src uf court e) \<and> (left = 0 \<longrightarrow> k = 0)"
  using assms
proof (induction src uf court step over fuel left d skipped rule: count_business.induct)
  case (1 src uf court step over fuel d skipped)
  then show ?case by (intro exI [of _ 0]) simp
next
  case (2 src uf court step over left d skipped)
  then show ?case by simp
next
  case (3 src uf court step over fuel left d skipped)
  show ?case
  proof (cases rule: IsBusinessDay_cases [of src "d + step" uf court])
    case (err e')
    with "3.prems" show ?thesis by simp
  next
    case yes
    with "3.prems" have "count_business src uf court step over fuel left (d + step) skipped = Inr (e, sk)"
      by simp
    from "3.IH"(1) [OF yes(2) _ this] obtain k where k: "k \<le> fuel" "e = d + step + step * int k"
      "length (filter (biz src uf court) (walk step (d + step) k)) = left"
      "sk = skipped @ filter (audited src uf court) (walk step (d + step) k)"
      "\<forall>x \<in> set (walk step (d + step) k). answered src uf court x"
      "0 < left \<longrightarrow> 0 < k \<and> biz src uf court e" "left = 0 \<longrightarrow> k = 0"
      by auto
    with yes show ?thesis
      by (intro exI [of _ "Suc k"])
        (auto simp: walk_Suc algebra_simps biz_answered)
  next
    case no
    let ?sk = "if isWeekend (d + step) then skipped else skipped @ [d + step]"
    have a: "answered src uf court (d + step)" using no by (auto simp: answered_def)
    from no "3.prems" have "count_business src uf court step over fuel (Suc left) (d + step) ?sk = Inr (e, sk)"
      by (simp split: if_splits)
    then obtain k where k: "k \<le> fuel" "e = d + step + step * int k"
      "length (filter (biz src uf court) (walk step (d + step) k)) = Suc left"
      "sk = ?sk @ filter (audited src uf court) (walk step (d + step) k)"
      "\<forall>x \<in> set (walk step (d + step) k). answered src uf court x"
      "0 < k \<and> biz src uf court e"
      using "3.IH"(2) [OF no(2)] "3.IH"(3) [OF no(2)] by (cases "isWeekend (d + step)") auto
    with no a show ?thesis
      by (intro exI [of _ "Suc k"])
        (auto simp: walk_Suc algebra_simps split: if_splits)
  qed
qed

text \<open>
  The loop stops at the first day that completes the count: any walk within the fuel whose
  days are all answered, that ends on a business day and holds \<open>left\<close> of them, is the result.
\<close>

lemma count_business_complete:
  assumes "k \<le> fuel" and "\<forall>x \<in> set (walk step d k). answered src uf court x"
    and "length (filter (biz src uf court) (walk step d k)) = left"
    and "0 < k \<longrightarrow> biz src uf court (d + step * int k)" and "left = 0 \<longrightarrow> k = 0"
  shows "count_business src uf court step over fuel left d skipped
       = Inr (d + step * int k, skipped @ filter (audited src uf court) (walk step d k))"
  using assms
proof (induction k arbitrary: fuel d left skipped)
  case 0
  then show ?case by simp
next
  case (Suc k)
  then obtain f where f: "fuel = Suc f" "k \<le> f" by (cases fuel) auto
  from Suc.prems obtain l where l: "left = Suc l" by (cases left) auto
  have ans: "\<forall>x \<in> set (walk step (d + step) k). answered src uf court x"
    and here: "answered src uf court (d + step)"
    using Suc.prems(2) by (auto simp: walk_Suc)
  have last: "0 < k \<longrightarrow> biz src uf court (d + step + step * int k)"
    using Suc.prems(4) by (simp add: algebra_simps)
  show ?case
  proof (cases "biz src uf court (d + step)")
    case True
    have cnt: "length (filter (biz src uf court) (walk step (d + step) k)) = l"
      using Suc.prems(3) l True by (simp add: walk_Suc)
    have z: "l = 0 \<longrightarrow> k = 0"
    proof (intro impI)
      assume "l = 0"
      then have "\<forall>x \<in> set (walk step (d + step) k). \<not> biz src uf court x"
        using cnt by (simp add: filter_empty_conv)
      moreover have "0 < k \<longrightarrow> d + step + step * int k \<in> set (walk step (d + step) k)"
        by (cases k) (simp_all add: walk_snoc algebra_simps)
      ultimately show "k = 0" using last by blast
    qed
    have eq: "IsBusinessDay src (d + step) uf court = Inr True" using True by (simp add: biz_def)
    show ?thesis
      using Suc.IH [OF f(2) ans cnt last z, of skipped] f l eq True
      by (simp add: walk_Suc algebra_simps)
  next
    case False
    have no: "IsBusinessDay src (d + step) uf court = Inr False"
      using False here by (auto simp: biz_def answered_def)
    have cnt: "length (filter (biz src uf court) (walk step (d + step) k)) = Suc l"
      using Suc.prems(3) l False by (simp add: walk_Suc)
    show ?thesis
      using Suc.IH [OF f(2) ans cnt last, of skipped] Suc.IH [OF f(2) ans cnt last, of "skipped @ [d + step]"] f l no False
      by (simp add: walk_Suc algebra_simps)
  qed
qed

text \<open>Enough business days within the fuel, all answered, give a result.\<close>

lemma count_business_enough:
  assumes "\<forall>x \<in> set (walk step d fuel). answered src uf court x"
    and "left \<le> length (filter (biz src uf court) (walk step d fuel))"
  shows "\<exists>r. count_business src uf court step over fuel left d skipped = Inr r"
  using assms
proof (induction src uf court step over fuel left d skipped rule: count_business.induct)
  case (3 src uf court step over fuel left d skipped)
  have ans: "\<forall>x \<in> set (walk step (d + step) fuel). answered src uf court x"
    and here: "answered src uf court (d + step)"
    using "3.prems"(1) by (auto simp: walk_Suc)
  show ?case
  proof (cases rule: IsBusinessDay_cases [of src "d + step" uf court])
    case (err e)
    with here show ?thesis by (simp add: answered_def)
  next
    case yes
    have "left \<le> length (filter (biz src uf court) (walk step (d + step) fuel))"
      using "3.prems"(2) yes by (simp add: walk_Suc)
    from "3.IH"(1) [OF yes(2) _ ans this] yes show ?thesis by simp
  next
    case no
    have cnt: "Suc left \<le> length (filter (biz src uf court) (walk step (d + step) fuel))"
      using "3.prems"(2) no by (simp add: walk_Suc)
    show ?thesis using "3.IH"(2) [OF no(2) _ _ ans cnt] "3.IH"(3) [OF no(2) _ _ ans cnt] no
      by (cases "isWeekend (d + step)") auto
  qed
qed auto

text \<open>Too few business days within the fuel never give a result, whatever the source says.\<close>

lemma count_business_short:
  assumes "length (filter (biz src uf court) (walk step d fuel)) < left"
  shows "\<exists>e. count_business src uf court step over fuel left d skipped = Inl e"
proof (cases "count_business src uf court step over fuel left d skipped")
  case (Inr r)
  then obtain k where k: "k \<le> fuel" "length (filter (biz src uf court) (walk step d k)) = left"
    using count_business_sound [of src uf court step over fuel left d skipped "fst r" "snd r"] by auto
  obtain j where j: "fuel = k + j" using k(1) le_Suc_ex by blast
  have "left \<le> length (filter (biz src uf court) (walk step d fuel))"
    using k(2) by (simp add: j walk_add)
  with assms show ?thesis by simp
qed simp

section \<open>Counting weekends and recess days\<close>

lemma isWeekend_mod: "isWeekend (d + i) \<longleftrightarrow> (d mod 7 + i + 4) mod 7 = 6 \<or> (d mod 7 + i + 4) mod 7 = 0"
proof -
  have "(d + i + 4) mod 7 = (d mod 7 + i + 4) mod 7"
    by (metis add.assoc mod_add_left_eq)
  then show ?thesis by (simp add: isWeekend_def Weekday_def)
qed

lemma week_of_seven: "length (filter isWeekend (walk 1 d 7)) = 2"
proof -
  have w: "walk 1 d 7 = [d + 1, d + 2, d + 3, d + 4, d + 5, d + 6, d + 7]"
    by (simp add: walk_Suc numeral_eq_Suc algebra_simps)
  obtain r where r: "d mod 7 = r" by simp
  have "0 \<le> r" "r < 7" using r by auto
  then have "r = 0 \<or> r = 1 \<or> r = 2 \<or> r = 3 \<or> r = 4 \<or> r = 5 \<or> r = 6" by linarith
  then show ?thesis
    unfolding w filter.simps isWeekend_mod r by (elim disjE) simp_all
qed

lemma weekends_in_weeks: "length (filter isWeekend (walk 1 d (7 * q))) = 2 * q"
  by (induction q arbitrary: d) (simp_all add: walk_add week_of_seven)

lemma filter_walk_le:
  assumes "r \<le> m"
  shows "length (filter P (walk step d r)) \<le> length (filter P (walk step d m))"
proof -
  obtain j where "m = r + j" using assms le_Suc_ex by blast
  then show ?thesis by (simp add: walk_add)
qed

lemma weekends_bounds:
  "2 * (k div 7) \<le> length (filter isWeekend (walk 1 d k))
   \<and> length (filter isWeekend (walk 1 d k)) \<le> 2 * (k div 7) + 2"
proof -
  have k: "k = 7 * (k div 7) + k mod 7" by simp
  let ?t = "walk 1 (d + int (7 * (k div 7))) (k mod 7)"
  have "length (filter isWeekend ?t) \<le> length (filter isWeekend (walk 1 (d + int (7 * (k div 7))) 7))"
    by (rule filter_walk_le) simp
  then have "length (filter isWeekend ?t) \<le> 2" by (simp only: week_of_seven)
  moreover have "length (filter isWeekend (walk 1 d k)) = 2 * (k div 7) + length (filter isWeekend ?t)"
    by (subst k, subst walk_add) (simp add: weekends_in_weeks)
  ultimately show ?thesis by simp
qed

lemma weekdays_le:
  "length (filter (\<lambda>x. \<not> isWeekend x) (walk 1 d k)) \<le> 5 * (k div 7) + min (k mod 7) 5"
proof -
  have split: "length (filter (\<lambda>x. \<not> isWeekend x) xs) = length xs - length (filter isWeekend xs)" for xs
    using sum_length_filter_compl [of isWeekend xs] by simp
  let ?d = "d + int (7 * (k div 7))"
  let ?t = "walk 1 ?d (k mod 7)"
  have k: "k = 7 * (k div 7) + k mod 7" by simp
  have "length (filter (\<lambda>x. \<not> isWeekend x) ?t)
      \<le> length (filter (\<lambda>x. \<not> isWeekend x) (walk 1 ?d 7))"
    by (rule filter_walk_le) simp
  also have "\<dots> = 5" by (simp add: split week_of_seven)
  finally have t5: "length (filter (\<lambda>x. \<not> isWeekend x) ?t) \<le> 5" .
  have tr: "length (filter (\<lambda>x. \<not> isWeekend x) ?t) \<le> k mod 7"
    using length_filter_le [of "\<lambda>x. \<not> isWeekend x" ?t] by simp
  have "length (filter (\<lambda>x. \<not> isWeekend x) (walk 1 d k))
      = 5 * (k div 7) + length (filter (\<lambda>x. \<not> isWeekend x) ?t)"
    by (subst k, subst walk_add) (simp add: split weekends_in_weeks)
  with t5 tr show ?thesis by simp
qed

lemma inRecess_doy: "inRecess d \<longleftrightarrow> 294 \<le> march_doy d \<and> march_doy d \<le> 325"
  unfolding inRecess_def by (rule recess_doy)

text \<open>The recess of one March-based year is 32 days.\<close>

definition recess_of :: "int \<Rightarrow> day set" where
  "recess_of y = {year_start y + 294 - epoch_shift..year_start y + 325 - epoch_shift}"

lemma card_recess_of: "card (recess_of y) = 32"
  by (simp add: recess_of_def)

lemma recess_in_year: "inRecess d \<Longrightarrow> d \<in> recess_of (march_year d)"
  using day_of_march [of d] by (simp add: inRecess_doy recess_of_def)

lemma recess_day_order:
  assumes "d \<in> recess_of y" and "d' \<in> recess_of y'" and "y + k \<le> y'" and "0 \<le> k"
  shows "d + 365 * k - 31 \<le> d'"
proof -
  have "year_start y + 365 * (y' - y) \<le> year_start y'" using assms(3,4) by (intro year_start_mono) simp
  moreover have "365 * k \<le> 365 * (y' - y)" using assms(3) by simp
  ultimately show ?thesis using assms(1,2) unfolding recess_of_def by (simp only: atLeastAtMost_iff) linarith
qed

lemma recess_card_le:
  assumes "k \<le> 699"
  shows "card {x \<in> {d + 1..d + int k}. inRecess x} \<le> 64"
proof -
  let ?R = "{x \<in> {d + 1..d + int k}. inRecess x}"
  have fin: "finite ?R" by (rule finite_subset [of _ "{d + 1..d + int k}"]) auto
  show ?thesis
  proof (cases "?R = {}")
    case False
    let ?m = "Min ?R"
    let ?y = "march_year ?m"
    have m: "?m \<in> ?R" using Min_in [OF fin False] .
    have my: "?m \<in> recess_of ?y" using m recess_in_year by blast
    have "?R \<subseteq> recess_of ?y \<union> recess_of (?y + 1)"
    proof
      fix x assume x: "x \<in> ?R"
      then have xr: "x \<in> recess_of (march_year x)" using recess_in_year by blast
      have mx: "?m \<le> x" using Min_le [OF fin x] .
      have near: "x - ?m \<le> 698" using x m assms by auto
      have lo: "?y \<le> march_year x"
      proof (rule ccontr)
        assume "\<not> ?y \<le> march_year x"
        then have "x + 365 * 1 - 31 \<le> ?m" by (intro recess_day_order [OF xr my]) simp_all
        with mx show False by simp
      qed
      have hi: "march_year x \<le> ?y + 1"
      proof (rule ccontr)
        assume "\<not> march_year x \<le> ?y + 1"
        then have "?m + 365 * 2 - 31 \<le> x" by (intro recess_day_order [OF my xr]) simp_all
        with near show False by simp
      qed
      from lo hi have "march_year x = ?y \<or> march_year x = ?y + 1" by linarith
      with xr show "x \<in> recess_of ?y \<union> recess_of (?y + 1)" by auto
    qed
    then have "card ?R \<le> card (recess_of ?y \<union> recess_of (?y + 1))"
      by (intro card_mono) (simp_all add: recess_of_def)
    also have "\<dots> \<le> card (recess_of ?y) + card (recess_of (?y + 1))" by (rule card_Un_le)
    also have "\<dots> = 64" by (simp add: card_recess_of)
    finally show ?thesis .
  next
    case True
    then show ?thesis by (simp only: True) simp
  qed
qed

lemma recess_length_le:
  assumes "k \<le> 699"
  shows "length (filter inRecess (walk 1 d k)) \<le> 64"
proof -
  have "length (filter inRecess (walk 1 d k)) = card {x \<in> {d + 1..d + int k}. inRecess x}"
    by (simp add: distinct_length_filter [OF distinct_walk_forward] set_walk_forward Int_def conj_commute)
  with recess_card_le [OF assms] show ?thesis by simp
qed

section \<open>What the motors return\<close>

text \<open>
  The number of business days after \<open>a\<close> and up to \<open>b\<close>, and the audited days of that
  interval in calendar order: the vocabulary of the contracts below.
\<close>

definition business_between :: "holiday_query \<Rightarrow> string \<Rightarrow> string \<Rightarrow> day \<Rightarrow> day \<Rightarrow> nat" where
  "business_between src uf court a b = length (filter (biz src uf court) [a + 1..b])"

definition audit_between :: "holiday_query \<Rightarrow> string \<Rightarrow> string \<Rightarrow> day \<Rightarrow> day \<Rightarrow> day list" where
  "audit_between src uf court a b = filter (audited src uf court) [a + 1..b]"

lemma walk_upto: "walk 1 d k = [d + 1..d + int k]"
proof (induction k arbitrary: d)
  case (Suc k)
  have "[d + 1..d + int (Suc k)] = (d + 1) # [d + 1 + 1..d + int (Suc k)]"
    by (rule upto_rec1) simp
  then show ?case using Suc [of "d + 1"] by (simp add: walk_Suc algebra_simps)
qed (simp add: upto.simps)

lemma add_business_result:
  assumes "AddBusinessDays src s n uf court = Inr (e, hs)"
  shows "0 \<le> n \<and> s \<le> e \<and> (0 < n \<longrightarrow> s < e \<and> biz src uf court e)
       \<and> business_between src uf court s e = nat n \<and> hs = audit_between src uf court s e"
proof -
  have n: "0 \<le> n" using assms by (auto simp: AddBusinessDays_def split: if_splits)
  obtain k where k: "e = s + int k" "length (filter (biz src uf court) (walk 1 s k)) = nat n"
    "hs = filter (audited src uf court) (walk 1 s k)"
    "0 < nat n \<longrightarrow> 0 < k \<and> biz src uf court e" "nat n = 0 \<longrightarrow> k = 0"
    using assms n count_business_sound [of src uf court 1 _ "maxScan + nat n" "nat n" s "[]" e hs]
    by (auto simp: AddBusinessDays_def)
  then show ?thesis using n
    by (auto simp: business_between_def audit_between_def walk_upto)
qed

lemma subtract_business_result:
  assumes "SubtractBusinessDays src e n uf court = Inr (p, hs)"
  shows "0 \<le> n \<and> p \<le> e \<and> (0 < n \<longrightarrow> p < e \<and> biz src uf court p)
       \<and> business_between src uf court (p - 1) (e - 1) = nat n
       \<and> hs = rev (audit_between src uf court (p - 1) (e - 1))
       \<and> (\<forall>x \<in> {p..e - 1}. answered src uf court x) \<and> e - p \<le> int (maxScan + nat n)"
proof -
  have n: "0 \<le> n" using assms by (auto simp: SubtractBusinessDays_def split: if_splits)
  obtain k where k: "k \<le> maxScan + nat n" "p = e - int k"
    "length (filter (biz src uf court) (walk (- 1) e k)) = nat n"
    "hs = filter (audited src uf court) (walk (- 1) e k)"
    "\<forall>x \<in> set (walk (- 1) e k). answered src uf court x"
    "0 < nat n \<longrightarrow> 0 < k \<and> biz src uf court p"
    using assms n count_business_sound [of src uf court "- 1" _ "maxScan + nat n" "nat n" e "[]" p hs]
    by (auto simp: SubtractBusinessDays_def)
  have w: "walk (- 1) e k = rev [p..e - 1]"
    using rev_walk_back [of e k] walk_upto [of "e - int k - 1" k] k(2)
    by (metis rev_rev_ident add.commute diff_add_cancel diff_add_eq)
  have cnt: "length (filter (biz src uf court) [p..e - 1]) = nat n"
    using k(3) unfolding w by (metis length_rev rev_filter)
  show ?thesis using n k cnt unfolding w
    by (auto simp: business_between_def audit_between_def rev_filter)
qed

text \<open>
  Counting \<open>n\<close> business days back from a business day and then \<open>n\<close> forward comes back to
  it, so the internal buffer of a prazo is exactly \<open>n\<close> business days.
\<close>

lemma subtract_then_add:
  assumes sub: "SubtractBusinessDays src e n uf court = Inr (p, hs)"
    and e: "biz src uf court e"
  shows "\<exists>hs'. AddBusinessDays src p n uf court = Inr (e, hs')"
proof -
  from subtract_business_result [OF sub] have n: "0 \<le> n" and pe: "p \<le> e"
    and first: "0 < n \<longrightarrow> p < e \<and> biz src uf court p"
    and cnt: "length (filter (biz src uf court) [p..e - 1]) = nat n"
    and ans: "\<forall>x \<in> {p..e - 1}. answered src uf court x" and near: "e - p \<le> int (maxScan + nat n)"
    by (auto simp: business_between_def)
  let ?k = "nat (e - p)"
  have zero: "nat n = 0 \<longrightarrow> ?k = 0"
    using sub n by (auto simp: SubtractBusinessDays_def)
  have w: "walk 1 p ?k = [p + 1..e]" using pe by (simp add: walk_upto)
  have fwd: "length (filter (biz src uf court) [p + 1..e]) = nat n"
  proof (cases "0 < n")
    case True
    with first have pe': "p < e" and bp: "biz src uf court p" by auto
    have "[p..e - 1] = p # [p + 1..e - 1]" using pe' by (intro upto_rec1) simp
    moreover have "[p + 1..e] = [p + 1..e - 1] @ [e]" using pe' by (intro upto_rec2) simp
    ultimately show ?thesis using cnt bp e by simp
  next
    case False
    with zero n pe show ?thesis by (simp add: upto.simps)
  qed
  have "count_business src uf court 1 (PlainErr ''AddBusinessDays: exceeded scan'') (maxScan + nat n) (nat n) p []
      = Inr (p + 1 * int ?k, [] @ filter (audited src uf court) (walk 1 p ?k))"
  proof (rule count_business_complete)
    show "?k \<le> maxScan + nat n" using near by linarith
    show "\<forall>x \<in> set (walk 1 p ?k). answered src uf court x"
      using ans biz_answered [OF e] unfolding w by force
    show "length (filter (biz src uf court) (walk 1 p ?k)) = nat n" using fwd w by simp
    show "0 < ?k \<longrightarrow> biz src uf court (p + 1 * int ?k)" using e pe by simp
    show "nat n = 0 \<longrightarrow> ?k = 0" by (rule zero)
  qed
  then show ?thesis using n pe by (simp add: AddBusinessDays_def)
qed

text \<open>
  The scan bound is a bound on all calendar days walked, not on one run of days off: with
  five working days a week at most, a count of 1006 or more can never complete.
\<close>

lemma add_business_over_limit:
  assumes "1006 \<le> n"
  shows "\<exists>e. AddBusinessDays src s n uf court = Inl e"
proof -
  let ?k = "maxScan + nat n"
  have "length (filter (biz src uf court) (walk 1 s ?k))
      \<le> length (filter (\<lambda>x. \<not> isWeekend x) (walk 1 s ?k))"
    by (rule length_filter_mono) (rule biz_not_weekend)
  also have "\<dots> \<le> 5 * (?k div 7) + min (?k mod 7) 5" by (rule weekdays_le)
  also have "\<dots> < nat n"
  proof -
    have "?k = 7 * (?k div 7) + ?k mod 7" and "?k mod 7 < 7" and "1406 \<le> ?k" and "nat n = ?k - 400"
      using assms by (auto simp: maxScan_def)
    then show ?thesis by linarith
  qed
  finally show ?thesis
    using count_business_short [of src uf court 1 s ?k "nat n"] assms
    by (simp add: AddBusinessDays_def)
qed

lemma roll_forward_sound:
  assumes "roll_forward src uf court fuel d applied = Inr (e, hs)"
  shows "d \<le> e \<and> biz src uf court e \<and> (\<forall>x \<in> {d..e - 1}. \<not> biz src uf court x)
       \<and> hs = applied @ audit_between src uf court (d - 1) (e - 1)"
  using assms
proof (induction src uf court fuel d applied rule: roll_forward.induct)
  case (2 src uf court fuel d applied)
  show ?case
  proof (cases rule: IsBusinessDay_cases [of src d uf court])
    case (err e')
    with "2.prems" show ?thesis by simp
  next
    case yes
    with "2.prems" show ?thesis by (simp add: audit_between_def upto.simps)
  next
    case no
    let ?ap = "if \<not> isWeekend d then applied @ [d] else applied"
    from no "2.prems" have "roll_forward src uf court fuel (d + 1) ?ap = Inr (e, hs)" by simp
    from "2.IH" [OF no(2) _ this] have IH: "d + 1 \<le> e" "biz src uf court e"
      "\<forall>x \<in> {d + 1..e - 1}. \<not> biz src uf court x"
      "hs = ?ap @ audit_between src uf court d (e - 1)" by simp_all
    have "audit_between src uf court (d - 1) (e - 1)
        = filter (audited src uf court) (d # [d + 1..e - 1])"
      using IH(1) upto_rec1 [of d "e - 1"] by (simp add: audit_between_def)
    moreover have "\<forall>x \<in> {d..e - 1}. \<not> biz src uf court x"
      using IH(3) no(1) by (metis atLeastAtMost_iff order_le_less zless_imp_add1_zle)
    ultimately show ?thesis using IH no by (simp add: audit_between_def)
  qed
qed simp

lemma add_calendar_result:
  assumes "AddCalendarDays src s n uf court = Inr (e, hs)"
  shows "0 \<le> n \<and> s + n \<le> e \<and> (n = 0 \<longrightarrow> e = s \<and> hs = [])
       \<and> (0 < n \<longrightarrow> biz src uf court e \<and> (\<forall>x \<in> {s + n..e - 1}. \<not> biz src uf court x)
             \<and> hs = audit_between src uf court (s + n - 1) (e - 1))"
  using assms roll_forward_sound [of src uf court maxScan "s + n" "[]" e hs]
  by (auto simp: AddCalendarDays_def split: if_splits)

lemma roll_forward_enough:
  assumes "\<forall>i < fuel. answered src uf court (d + int i)" and "\<exists>i < fuel. biz src uf court (d + int i)"
  shows "\<exists>r. roll_forward src uf court fuel d applied = Inr r"
  using assms
proof (induction fuel arbitrary: d applied)
  case (Suc fuel)
  have here: "answered src uf court d" using Suc.prems(1) by force
  have ans: "\<forall>i < fuel. answered src uf court (d + 1 + int i)"
  proof (intro allI impI)
    fix i assume "i < fuel"
    then have "answered src uf court (d + int (Suc i))" using Suc.prems(1) by blast
    then show "answered src uf court (d + 1 + int i)" by (simp add: algebra_simps)
  qed
  show ?case
  proof (cases rule: IsBusinessDay_cases [of src d uf court])
    case no
    obtain i where i: "i < Suc fuel" "biz src uf court (d + int i)" using Suc.prems(2) by blast
    with no have "\<exists>j < fuel. biz src uf court (d + 1 + int j)"
      by (cases i) (auto simp: algebra_simps)
    with Suc.IH [OF ans] no show ?thesis by simp
  qed (use here in \<open>auto simp: answered_def\<close>)
qed simp

section \<open>A source that answers\<close>

text \<open>
  The contract of \<open>HolidaySource\<close>: every day has an answer, given by a holiday table
  \<open>hol\<close>. Under it the motors are total as long as the registered holidays of the scanned
  window stay below a bound no real calendar comes near.
\<close>

locale holiday_source =
  fixes src :: holiday_query
    and hol :: "string \<Rightarrow> string \<Rightarrow> day \<Rightarrow> bool"
  assumes answers: "src d uf court = Inr (hol uf court d)"
begin

lemma biz_iff: "biz src uf court d \<longleftrightarrow> \<not> isWeekend d \<and> \<not> inRecess d \<and> \<not> hol uf court d"
  by (simp add: biz_def IsBusinessDay_def answers)

lemma IsBusinessDay_answer: "IsBusinessDay src d uf court = Inr (biz src uf court d)"
  by (simp add: biz_def IsBusinessDay_def answers)

lemma answered_all [simp]: "answered src uf court d"
  by (auto simp: answered_def IsBusinessDay_answer)

lemma off_days_le:
  "length (filter (\<lambda>x. \<not> biz src uf court x) xs)
   \<le> length (filter isWeekend xs) + length (filter inRecess xs) + length (filter (hol uf court) xs)"
  by (induction xs) (auto simp: biz_iff)

lemma business_days_ge:
  assumes "k \<le> 699" and "length (filter (hol uf court) (walk 1 d k)) \<le> h"
  shows "k \<le> length (filter (biz src uf court) (walk 1 d k)) + 2 * (k div 7) + 66 + h"
proof -
  have "k = length (filter (biz src uf court) (walk 1 d k))
          + length (filter (\<lambda>x. \<not> biz src uf court x) (walk 1 d k))"
    using sum_length_filter_compl [of "biz src uf court" "walk 1 d k"] by simp
  moreover have "length (filter (\<lambda>x. \<not> biz src uf court x) (walk 1 d k)) \<le> 2 * (k div 7) + 2 + 64 + h"
    using off_days_le [of uf court "walk 1 d k"] weekends_bounds [of k d] recess_length_le [OF assms(1), of d]
      assms(2) by linarith
  ultimately show ?thesis by linarith
qed

lemma add_business_total:
  assumes "0 \<le> n" "n \<le> 299" and "length (filter (hol uf court) (walk 1 s (maxScan + nat n))) \<le> 136"
  shows "\<exists>e hs. AddBusinessDays src s n uf court = Inr (e, hs)"
proof -
  let ?k = "maxScan + nat n"
  have k: "?k \<le> 699" "?k = 400 + nat n" using assms by (auto simp: maxScan_def)
  have q: "?k div 7 \<le> 99" using div_le_mono [OF k(1), of 7] by simp
  have "nat n \<le> length (filter (biz src uf court) (walk 1 s ?k))"
    using business_days_ge [OF k(1) assms(3)] k q by linarith
  then show ?thesis
    using count_business_enough [of 1 s ?k src uf court "nat n"] assms(1)
    by (auto simp: AddBusinessDays_def)
qed

lemma subtract_business_total:
  assumes "0 \<le> n" "n \<le> 299"
    and "length (filter (hol uf court) (walk 1 (e - int (maxScan + nat n) - 1) (maxScan + nat n))) \<le> 136"
  shows "\<exists>p hs. SubtractBusinessDays src e n uf court = Inr (p, hs)"
proof -
  let ?k = "maxScan + nat n"
  have k: "?k \<le> 699" "?k = 400 + nat n" using assms by (auto simp: maxScan_def)
  have q: "?k div 7 \<le> 99" using div_le_mono [OF k(1), of 7] by simp
  have "nat n \<le> length (filter (biz src uf court) (walk 1 (e - int ?k - 1) ?k))"
    using business_days_ge [OF k(1) assms(3)] k q by linarith
  also have "\<dots> = length (filter (biz src uf court) (walk (- 1) e ?k))"
    by (metis rev_walk_back rev_filter length_rev)
  finally show ?thesis
    using count_business_enough [of "- 1" e ?k src uf court "nat n"] assms(1)
    by (auto simp: SubtractBusinessDays_def)
qed

lemma add_calendar_total:
  assumes "0 \<le> n" and "length (filter (hol uf court) (walk 1 (s + n - 1) maxScan)) \<le> 136"
  shows "\<exists>e hs. AddCalendarDays src s n uf court = Inr (e, hs)"
proof -
  have "maxScan \<le> length (filter (biz src uf court) (walk 1 (s + n - 1) maxScan)) + 2 * (maxScan div 7) + 66 + 136"
    by (rule business_days_ge [OF _ assms(2)]) (simp add: maxScan_def)
  then have "filter (biz src uf court) (walk 1 (s + n - 1) maxScan) \<noteq> []"
    by (auto simp: maxScan_def)
  then obtain x where "x \<in> set (walk 1 (s + n - 1) maxScan)" "biz src uf court x"
    by (auto simp: filter_empty_conv)
  then have "\<exists>i < maxScan. biz src uf court (s + n + int i)"
    by (intro exI [of _ "nat (x - (s + n))"]) (auto simp: set_walk_forward)
  then show ?thesis
    using roll_forward_enough [of maxScan src uf court "s + n"] assms(1)
    by (auto simp: AddCalendarDays_def)
qed

end

section \<open>The interface the prazo slice injects\<close>

text \<open>
  \<open>deadline.businessCalendar\<close>: the record of the four operations the use cases call. The
  production value wraps \<open>calendar.New(src)\<close>.
\<close>

record holiday =
  Scope :: string
  ScopeID :: string
  HDate :: day
  Name :: string

type_synonym motor = "day \<Rightarrow> int \<Rightarrow> string \<Rightarrow> string \<Rightarrow> err + (day \<times> day list)"

type_synonym holiday_lookup = "day list \<Rightarrow> string \<Rightarrow> string \<Rightarrow> err + (day \<rightharpoonup> holiday)"

record businessCalendar =
  addBusiness :: motor
  addCalendar :: motor
  subtractBusiness :: motor
  lookupHolidays :: holiday_lookup

definition calendar_New :: "holiday_query \<Rightarrow> holiday_lookup \<Rightarrow> businessCalendar" where
  "calendar_New src lookup =
     \<lparr>addBusiness = AddBusinessDays src, addCalendar = AddCalendarDays src,
      subtractBusiness = SubtractBusinessDays src, lookupHolidays = lookup\<rparr>"

text \<open>
  What the prazo slice relies on: a positive count moves the date strictly, a negative one
  is an error, the audited days lie inside the interval counted.
\<close>

locale business_calendar =
  fixes cal :: businessCalendar
  assumes add_business_after: "addBusiness cal s n uf court = Inr (e, hs) \<Longrightarrow> 0 < n \<Longrightarrow> s < e"
    and add_calendar_after: "addCalendar cal s n uf court = Inr (e, hs) \<Longrightarrow> 0 < n \<Longrightarrow> s < e"
    and subtract_before: "subtractBusiness cal e n uf court = Inr (p, hs) \<Longrightarrow> 0 < n \<Longrightarrow> p < e"
    and negative_count: "n < 0 \<Longrightarrow> \<exists>x. addBusiness cal s n uf court = Inl x"
      "n < 0 \<Longrightarrow> \<exists>x. addCalendar cal s n uf court = Inl x"
    and audited_inside: "addBusiness cal s n uf court = Inr (e, hs) \<Longrightarrow> set hs \<subseteq> {s<..<e}"
      "addCalendar cal s n uf court = Inr (e, hs) \<Longrightarrow> set hs \<subseteq> {s<..<e}"
begin

lemma add_business_positive: "addBusiness cal s n uf court = Inr (e, hs) \<Longrightarrow> 0 \<le> n"
  using negative_count(1) [of n s uf court] by fastforce

lemma add_calendar_positive: "addCalendar cal s n uf court = Inr (e, hs) \<Longrightarrow> 0 \<le> n"
  using negative_count(2) [of n s uf court] by fastforce

end

lemma audited_not_biz: "audited src uf court d \<Longrightarrow> \<not> biz src uf court d"
  by (simp add: audited_def)

interpretation motors: business_calendar "calendar_New src lookup" for src lookup
proof unfold_locales
  fix s n uf court e hs
  assume "addBusiness (calendar_New src lookup) s n uf court = Inr (e, hs)"
  then have *: "AddBusinessDays src s n uf court = Inr (e, hs)" by (simp add: calendar_New_def)
  note r = add_business_result [OF *]
  show "0 < n \<Longrightarrow> s < e" using r by blast
  show "set hs \<subseteq> {s<..<e}"
  proof (cases "0 < n")
    case True
    with r have "biz src uf court e" and "hs = audit_between src uf court s e" by auto
    then show ?thesis
      by (auto simp: audit_between_def) (metis audited_not_biz order_le_less)
  next
    case False
    with r * show ?thesis by (auto simp: AddBusinessDays_def)
  qed
next
  fix s n uf court e hs
  assume "addCalendar (calendar_New src lookup) s n uf court = Inr (e, hs)"
  then have "AddCalendarDays src s n uf court = Inr (e, hs)" by (simp add: calendar_New_def)
  note r = add_calendar_result [OF this]
  show "0 < n \<Longrightarrow> s < e" using r by linarith
  show "set hs \<subseteq> {s<..<e}"
  proof (cases "0 < n")
    case True
    with r show ?thesis by (auto simp: audit_between_def)
  next
    case False
    with r show ?thesis by auto
  qed
next
  fix e n uf court p hs
  assume "subtractBusiness (calendar_New src lookup) e n uf court = Inr (p, hs)" and "0 < n"
  then show "p < e" using subtract_business_result by (auto simp: calendar_New_def)
qed (simp_all add: calendar_New_def AddBusinessDays_def AddCalendarDays_def)

end
