(* ===== verification/CalendarStore.thy ===== *)
theory CalendarStore
  imports Calendar
begin

text \<open>
  \<open>lib/calendar/store.go\<close> and \<open>seed.go\<close>: the \<open>holiday\<close> table behind \<open>HolidaySource\<close>. The
  table is the list of its rows; an absent \<open>scope_id\<close> (SQL NULL) is the empty string, as
  \<open>ptrOrNil\<close> maps it. The queries are those of \<open>lib/calendar/queries/holiday.sql\<close>. A driver
  failure is a parameter of each operation.
\<close>

definition ScopeNational :: string where
  "ScopeNational = ''NATIONAL''"

definition ScopeState :: string where
  "ScopeState = ''STATE''"

definition ScopeCourt :: string where
  "ScopeCourt = ''COURT''"

lemma scopes_distinct [simp]:
  "ScopeNational \<noteq> ScopeState" "ScopeNational \<noteq> ScopeCourt" "ScopeState \<noteq> ScopeCourt"
  "ScopeState \<noteq> ScopeNational" "ScopeCourt \<noteq> ScopeNational" "ScopeCourt \<noteq> ScopeState"
  by (simp_all add: ScopeNational_def ScopeState_def ScopeCourt_def)

text \<open>
  The \<open>WHERE\<close> clause both queries share: \<open>scope_id = $2\<close> is never true for a NULL on either
  side, so an empty argument matches no row of its scope.
\<close>

definition in_scope :: "string \<Rightarrow> string \<Rightarrow> holiday \<Rightarrow> bool" where
  "in_scope uf court r \<longleftrightarrow>
     Scope r = ScopeNational
     \<or> (Scope r = ScopeState \<and> uf \<noteq> '''' \<and> ScopeID r = uf)
     \<or> (Scope r = ScopeCourt \<and> court \<noteq> '''' \<and> ScopeID r = court)"

definition registered :: "holiday list \<Rightarrow> string \<Rightarrow> string \<Rightarrow> day \<Rightarrow> bool" where
  "registered rows uf court d \<longleftrightarrow> list_ex (\<lambda>r. HDate r = d \<and> in_scope uf court r) rows"

definition Store_IsHoliday :: "(day \<Rightarrow> bool) \<Rightarrow> holiday list \<Rightarrow> holiday_query" where
  "Store_IsHoliday down rows d uf court =
     (if down d then Inl WrapInfra else Inr (registered rows uf court d))"

definition scopeRank :: "string \<Rightarrow> nat" where
  "scopeRank scope = (if scope = ScopeCourt then 2 else if scope = ScopeState then 1 else 0)"

text \<open>One step of the loop of \<open>Store.LookupHolidays\<close>: the more specific scope wins, a tie keeps the first.\<close>

definition keep_label :: "(day \<rightharpoonup> holiday) \<Rightarrow> holiday \<Rightarrow> (day \<rightharpoonup> holiday)" where
  "keep_label m r =
     (case m (HDate r) of
        None \<Rightarrow> m(HDate r \<mapsto> r)
      | Some e \<Rightarrow> if scopeRank (Scope e) < scopeRank (Scope r) then m(HDate r \<mapsto> r) else m)"

definition Store_LookupHolidays :: "bool \<Rightarrow> holiday list \<Rightarrow> holiday_lookup" where
  "Store_LookupHolidays down rows days uf court =
     (if down then Inl WrapInfra
      else Inr (foldl keep_label Map.empty
             (filter (\<lambda>r. HDate r \<in> set days \<and> in_scope uf court r) rows)))"

text \<open>\<open>INSERT ... ON CONFLICT (scope, coalesce(scope_id, ''), date) DO NOTHING\<close>.\<close>

definition same_holiday :: "holiday \<Rightarrow> holiday \<Rightarrow> bool" where
  "same_holiday a b \<longleftrightarrow> Scope a = Scope b \<and> ScopeID a = ScopeID b \<and> HDate a = HDate b"

definition upsert_one :: "holiday list \<Rightarrow> holiday \<Rightarrow> holiday list" where
  "upsert_one rows h = (if list_ex (same_holiday h) rows then rows else rows @ [h])"

definition UpsertHolidays :: "bool \<Rightarrow> holiday list \<Rightarrow> holiday list \<Rightarrow> (err + nat) \<times> holiday list" where
  "UpsertHolidays down hs rows =
     (if hs = [] then (Inr 0, rows)
      else if down then (Inl (PlainErr ''upsert holiday batch''), rows)
      else (Inr (length hs), foldl upsert_one rows hs))"

definition SeededNationalYears :: "holiday list \<Rightarrow> int \<Rightarrow> bool" where
  "SeededNationalYears rows y \<longleftrightarrow> list_ex (\<lambda>r. Scope r = ScopeNational \<and> Year (HDate r) = y) rows"

text \<open>
  \<open>SeedNational\<close>: years already seeded are skipped, a year the upstream cannot deliver is
  logged and skipped, the rest is upserted. \<open>fetch\<close> is the upstream (BrasilAPI). The first
  error flag is for the read of the seeded years, the second for the upsert.
\<close>

fun fetch_years :: "(int \<Rightarrow> err + holiday list) \<Rightarrow> (int \<Rightarrow> bool) \<Rightarrow> int list \<Rightarrow> holiday list" where
  "fetch_years fetch seeded [] = []"
| "fetch_years fetch seeded (y # ys) =
     (if seeded y then fetch_years fetch seeded ys
      else case fetch y of
        Inl _ \<Rightarrow> fetch_years fetch seeded ys
      | Inr hs \<Rightarrow> hs @ fetch_years fetch seeded ys)"

definition SeedNational :: "(int \<Rightarrow> err + holiday list) \<Rightarrow> bool \<Rightarrow> bool \<Rightarrow> int \<Rightarrow> int \<Rightarrow> holiday list
    \<Rightarrow> (err + unit) \<times> holiday list" where
  "SeedNational fetch down_read down_write currentYear yearsAhead rows =
     (if yearsAhead < 0 then (Inl (PlainErr ''SeedNational: yearsAhead must be >= 0''), rows)
      else if down_read then (Inl (PlainErr ''read seeded national years''), rows)
      else
        let toUpsert = fetch_years fetch (SeededNationalYears rows) [currentYear..currentYear + yearsAhead]
        in if toUpsert = [] then (Inr (), rows)
           else case UpsertHolidays down_write toUpsert rows of
             (Inl e, rows') \<Rightarrow> (Inl (PlainErr ''upsert national holidays''), rows')
           | (Inr _, rows') \<Rightarrow> (Inr (), rows'))"

definition hasYear :: "holiday list \<Rightarrow> int \<Rightarrow> bool" where
  "hasYear hs y \<longleftrightarrow> list_ex (\<lambda>h. Year (HDate h) = y) hs"

text \<open>\<open>calendar.New(calendar.NewStore(pool))\<close>, the production wiring.\<close>

definition store_calendar :: "holiday list \<Rightarrow> businessCalendar" where
  "store_calendar rows =
     calendar_New (Store_IsHoliday (\<lambda>_. False) rows) (Store_LookupHolidays False rows)"

section \<open>The store meets the contract\<close>

interpretation table: holiday_source "Store_IsHoliday (\<lambda>_. False) rows" "registered rows" for rows
  by unfold_locales (simp add: Store_IsHoliday_def)

interpretation wired: business_calendar "store_calendar rows" for rows
  unfolding store_calendar_def by (rule motors.business_calendar_axioms)

lemma keep_label_dom: "dom (foldl keep_label m rs) = dom m \<union> HDate ` set rs"
  by (induction rs arbitrary: m) (auto simp: keep_label_def split: option.splits)

text \<open>The label of a day is a row of the table for that day, of the highest matching rank.\<close>

lemma keep_label_best:
  assumes "\<And>d h. m d = Some h \<Longrightarrow> HDate h = d"
    and "foldl keep_label m rs d = Some h"
  shows "HDate h = d \<and> (m d = Some h \<or> h \<in> set rs)
       \<and> (\<forall>r \<in> set rs. HDate r = d \<longrightarrow> scopeRank (Scope r) \<le> scopeRank (Scope h))
       \<and> (\<forall>e. m d = Some e \<longrightarrow> scopeRank (Scope e) \<le> scopeRank (Scope h))"
  using assms
proof (induction rs arbitrary: m)
  case Nil
  then show ?case by auto
next
  case (Cons r rs)
  let ?m = "keep_label m r"
  have "\<And>d h. ?m d = Some h \<Longrightarrow> HDate h = d"
    using Cons.prems(1) by (auto simp: keep_label_def split: option.splits if_splits)
  moreover have "foldl keep_label ?m rs d = Some h" using Cons.prems(2) by simp
  ultimately have IH: "HDate h = d" "?m d = Some h \<or> h \<in> set rs"
    "\<forall>q \<in> set rs. HDate q = d \<longrightarrow> scopeRank (Scope q) \<le> scopeRank (Scope h)"
    "\<forall>e. ?m d = Some e \<longrightarrow> scopeRank (Scope e) \<le> scopeRank (Scope h)"
    using Cons.IH by blast+
  have up: "scopeRank (Scope r) \<le> scopeRank (Scope h)" if "HDate r = d"
    using IH(4) that by (auto simp: keep_label_def split: option.splits if_splits)
  have old: "scopeRank (Scope e) \<le> scopeRank (Scope h)" if "m d = Some e" for e
    using IH(4) that by (fastforce simp: keep_label_def split: option.splits if_splits)
  have src: "m d = Some h \<or> h \<in> set (r # rs)"
    using IH(2) by (auto simp: keep_label_def split: option.splits if_splits)
  show ?case using IH(1,3) up old src by auto
qed

lemma lookup_label:
  assumes "Store_LookupHolidays False rows days uf court = Inr m" and "d \<in> set days"
    and "registered rows uf court d"
  shows "\<exists>h \<in> set rows. m d = Some h \<and> HDate h = d \<and> in_scope uf court h
       \<and> (\<forall>r \<in> set rows. HDate r = d \<and> in_scope uf court r
             \<longrightarrow> scopeRank (Scope r) \<le> scopeRank (Scope h))"
proof -
  let ?rs = "filter (\<lambda>r. HDate r \<in> set days \<and> in_scope uf court r) rows"
  have m: "m = foldl keep_label Map.empty ?rs" using assms(1) by (simp add: Store_LookupHolidays_def)
  have "d \<in> dom m"
    unfolding m keep_label_dom using assms(2,3) by (auto simp: registered_def list_ex_iff)
  then obtain h where h: "m d = Some h" by auto
  have "foldl keep_label Map.empty ?rs d = Some h" using h m by simp
  from keep_label_best [OF _ this] show ?thesis using h assms(2) by auto
qed

lemma upsert_one_registered:
  "registered rows uf court d \<Longrightarrow> registered (upsert_one rows h) uf court d"
  by (auto simp: upsert_one_def registered_def)

text \<open>Upserting the same batch again changes nothing.\<close>

lemma upsert_keeps_present: "list_ex (same_holiday h) rows \<Longrightarrow> list_ex (same_holiday h) (foldl upsert_one rows hs)"
  by (induction hs arbitrary: rows) (auto simp: upsert_one_def)

lemma upsert_all_present: "h \<in> set hs \<Longrightarrow> list_ex (same_holiday h) (foldl upsert_one rows hs)"
proof (induction hs arbitrary: rows)
  case (Cons x xs)
  show ?case
  proof (cases "h = x")
    case True
    have "list_ex (same_holiday x) (upsert_one rows x)"
      by (auto simp: upsert_one_def same_holiday_def)
    then show ?thesis using True upsert_keeps_present by simp
  next
    case False
    then show ?thesis using Cons by simp
  qed
qed simp

lemma upsert_present_id: "(\<And>h. h \<in> set hs \<Longrightarrow> list_ex (same_holiday h) rows) \<Longrightarrow> foldl upsert_one rows hs = rows"
  by (induction hs) (auto simp: upsert_one_def)

lemma upsert_idempotent: "foldl upsert_one (foldl upsert_one rows hs) hs = foldl upsert_one rows hs"
  by (rule upsert_present_id) (rule upsert_all_present)

end
