(* ===== verification/DateText.thy ===== *)
theory DateText
  imports GoTime
begin

text \<open>
  Dates as text: \<open>t.Format(time.DateOnly)\<close> and \<open>time.Parse(time.DateOnly, s)\<close>, the wire
  format of every event and request of the backend.
\<close>

definition pad2 :: "int \<Rightarrow> string" where
  "pad2 n = [char_of (48 + nat (n div 10)), char_of (48 + nat (n mod 10))]"

definition pad4 :: "int \<Rightarrow> string" where
  "pad4 n = (if 0 \<le> n \<and> n \<le> 9999 then pad2 (n div 100) @ pad2 (n mod 100)
     else if n < 0 then CHR ''-'' # replicate (4 - length (nat_digits (nat (- n)))) (CHR ''0'') @ nat_digits (nat (- n))
     else nat_digits (nat n))"

definition fmtDateOnly :: "day \<Rightarrow> string" where
  "fmtDateOnly d = pad4 (Year d) @ ''-'' @ pad2 (Month d) @ ''-'' @ pad2 (Day d)"

definition num2 :: "char \<Rightarrow> char \<Rightarrow> int" where
  "num2 a b = int (10 * digit_val a + digit_val b)"

text \<open>Four, two and two digits with dashes, month and day in range, nothing after.\<close>

fun parseDateOnly :: "string \<Rightarrow> day option" where
  "parseDateOnly [y1, y2, y3, y4, s1, m1, m2, s2, d1, d2] =
     (let y = 100 * num2 y1 y2 + num2 y3 y4; m = num2 m1 m2; d = num2 d1 d2 in
      if list_all is_digit [y1, y2, y3, y4, m1, m2, d1, d2] \<and> s1 = CHR ''-'' \<and> s2 = CHR ''-''
         \<and> 1 \<le> m \<and> m \<le> 12 \<and> 1 \<le> d \<and> d \<le> days_in y m
      then Some (Date y m d) else None)"
| "parseDateOnly _ = None"

lemma digit_char:
  assumes "n < 10"
  shows "is_digit (char_of (48 + n))" and "digit_val (char_of (48 + n)) = n"
  using assms by (simp_all add: is_digit_def digit_val_def)

lemma num2_pad:
  assumes "0 \<le> n" "n \<le> 99"
  shows "num2 (char_of (48 + nat (n div 10))) (char_of (48 + nat (n mod 10))) = n"
proof -
  have "nat (n div 10) < 10" "nat (n mod 10) < 10" using assms by auto
  moreover have "0 \<le> n div 10" using assms by (simp add: pos_imp_zdiv_nonneg_iff)
  ultimately show ?thesis by (simp add: num2_def digit_char)
qed

lemma div_Suc_dvd:
  assumes k: "0 < (k::int)"
  shows "(y + 1) div k = y div k + (if k dvd y + 1 then 1 else 0)"
proof -
  have y: "y = k * (y div k) + y mod k" and m: "0 \<le> y mod k" "y mod k < k" using k by simp_all
  show ?thesis
  proof (cases "y mod k + 1 = k")
    case True
    have "k * (y div k + 1) = k * (y div k) + k" by (simp add: distrib_left)
    then have e: "y + 1 = k * (y div k + 1) + 0" using y True by linarith
    then have "k dvd y + 1" by simp
    moreover have "(y + 1) div k = y div k + 1" by (rule int_div_pos_eq [OF e]) (use k in simp_all)
    ultimately show ?thesis by simp
  next
    case False
    have e: "y + 1 = k * (y div k) + (y mod k + 1)" using y by simp
    have "(y + 1) div k = y div k" by (rule int_div_pos_eq [OF e]) (use m False in simp_all)
    moreover have "(y + 1) mod k = y mod k + 1" by (rule int_mod_pos_eq [OF e]) (use m False in simp_all)
    ultimately show ?thesis using m by (auto simp: dvd_eq_mod_eq_0)
  qed
qed

lemma leap_year_start: "year_start (y + 1) = year_start y + 366 \<Longrightarrow> is_leap (y + 1)"
  by (auto simp: year_start_def div_Suc_dvd is_leap_def split: if_splits)

lemma month_cases:
  "0 \<le> (m::int) \<Longrightarrow> m \<le> 11 \<Longrightarrow>
    m = 0 \<or> m = 1 \<or> m = 2 \<or> m = 3 \<or> m = 4 \<or> m = 5 \<or> m = 6 \<or> m = 7 \<or> m = 8 \<or> m = 9 \<or> m = 10 \<or> m = 11"
  by presburger

lemma Day_le_days_in: "Day d \<le> days_in (Year d) (Month d)"
proof -
  let ?k = "march_doy d"
  have k: "0 \<le> ?k" "?k \<le> 365" by (rule march_doy_bounds)+
  have full: "?k = 365 \<Longrightarrow> is_leap (march_year d + 1)"
    using year_part_bounds [of "d + epoch_shift"]
    by (intro leap_year_start) (simp add: march_doy_def march_year_def)
  have full': "\<not> is_leap (march_year d + 1) \<longrightarrow> ?k \<le> 364" using full k by force
  let ?m = "march_month ?k"
  have m: "0 \<le> ?m" "?m \<le> 11" using march_month_bounds [OF k] by auto
  have bound: "153 * ?m \<le> 5 * ?k + 2" "5 * ?k + 2 < 153 * ?m + 153"
    unfolding march_month_def by linarith+
  from m have "?m = 0 \<or> ?m = 1 \<or> ?m = 2 \<or> ?m = 3 \<or> ?m = 4 \<or> ?m = 5 \<or> ?m = 6 \<or> ?m = 7 \<or> ?m = 8
      \<or> ?m = 9 \<or> ?m = 10 \<or> ?m = 11" by (rule month_cases)
  then show ?thesis
    using bound k full'
    by (elim disjE) (simp_all add: Day_def Month_def Year_def days_in_def Let_def)
qed

text \<open>Parsing the text of a date gives the date back, for every year Go prints in four digits.\<close>

lemma parse_fmt:
  assumes "0 \<le> Year d" "Year d \<le> 9999"
  shows "parseDateOnly (fmtDateOnly d) = Some d"
proof -
  have m: "1 \<le> Month d" "Month d \<le> 12" and dd: "1 \<le> Day d" "Day d \<le> 31"
    using Month_bounds [of d] Day_bounds [of d] by auto
  have digits: "nat (n div 10) < 10 \<and> nat (n mod 10) < 10" if "0 \<le> n" "n \<le> 99" for n :: int
    using that by auto
  have y1: "0 \<le> Year d div 100" "Year d div 100 \<le> 99" using assms by auto
  have y2: "0 \<le> Year d mod 100" "Year d mod 100 \<le> 99" by (auto simp: zle_diff1_eq [symmetric])
  have "100 * (Year d div 100) + Year d mod 100 = Year d" by simp
  moreover have "list_all is_digit (pad2 n)" if "0 \<le> n" "n \<le> 99" for n :: int
    using digits [OF that] by (simp add: pad2_def digit_char)
  ultimately show ?thesis
    using assms m dd y1 y2 Day_le_days_in [of d] Date_civil [of d]
    by (simp add: fmtDateOnly_def pad4_def pad2_def num2_pad digit_char digits Let_def)
qed

end
