(* ===== verification/Tribunal.thy ===== *)
theory Tribunal
  imports Prelude
begin

text \<open>
  \<open>pkg/tribunal/tribunal.go\<close>: the registry of courts and the state (UF) a court's sigla
  belongs to, which selects the state holidays of a prazo.
\<close>

record tribunal =
  Sigla :: string
  UF_of :: string

definition ufsBR :: "string list" where
  "ufsBR =
     [''AC'', ''AL'', ''AP'', ''AM'', ''BA'', ''CE'', ''DF'', ''ES'', ''GO'', ''MA'', ''MT'', ''MS'', ''MG'',
      ''PA'', ''PB'', ''PR'', ''PE'', ''PI'', ''RJ'', ''RN'', ''RO'', ''RR'', ''RS'', ''SC'', ''SE'', ''SP'', ''TO'']"

definition buildTribunais :: "tribunal list" where
  "buildTribunais =
     map (\<lambda>uf. \<lparr>Sigla = (if uf = ''DF'' then ''TJDFT'' else ''TJ'' @ uf), UF_of = uf\<rparr>) ufsBR
     @ map (\<lambda>uf. \<lparr>Sigla = ''TJM'' @ uf, UF_of = uf\<rparr>) [''SP'', ''MG'', ''RS'']
     @ map (\<lambda>uf. \<lparr>Sigla = ''TRE-'' @ uf, UF_of = uf\<rparr>) ufsBR
     @ map (\<lambda>i. \<lparr>Sigla = ''TRF'' @ itoa i, UF_of = ''''\<rparr>) [1..6]
     @ map (\<lambda>i. \<lparr>Sigla = ''TRT'' @ itoa i, UF_of = ''''\<rparr>) [1..24]
     @ map (\<lambda>s. \<lparr>Sigla = s, UF_of = ''''\<rparr>) [''STJ'', ''STM'', ''TST'', ''TSE'']"

text \<open>A Go map filled in list order: a later entry of the same sigla would win.\<close>

definition indexTribunalUF :: "tribunal list \<Rightarrow> (string \<rightharpoonup> string)" where
  "indexTribunalUF ts = map_of (rev (map (\<lambda>t. (Sigla t, UF_of t)) ts))"

text \<open>A missing key of a Go map reads as the zero value, the empty string.\<close>

definition UF :: "string \<Rightarrow> string" where
  "UF sigla = (case indexTribunalUF buildTribunais (ToUpper (TrimSpace sigla)) of
     None \<Rightarrow> '''' | Some uf \<Rightarrow> uf)"

lemma UF_range: "UF sigla = '''' \<or> UF sigla \<in> set ufsBR"
proof (cases "indexTribunalUF buildTribunais (ToUpper (TrimSpace sigla))")
  case (Some uf)
  then have "uf \<in> UF_of ` set buildTribunais"
    by (force simp: indexTribunalUF_def dest!: map_of_SomeD)
  then have "uf = '''' \<or> uf \<in> set ufsBR"
    by (auto simp: buildTribunais_def ufsBR_def)
  with Some show ?thesis by (simp add: UF_def)
qed (simp add: UF_def)

end
