(* ===== verification/CalendarTheorems.thy ===== *)
theory CalendarTheorems
  imports CalendarStore DateText Tribunal
begin

text \<open>
  What the judicial calendar promises, stated over the holiday table alone: a day works when
  it is no weekend, outside the forensic recess and not registered as a holiday of the
  nation, the state or the court. The three motors of \<open>lib/calendar/calendar.go\<close>, run over
  the Postgres store, are characterised by counting working days in an interval.
\<close>

definition working :: "holiday list \<Rightarrow> string \<Rightarrow> string \<Rightarrow> day \<Rightarrow> bool" where
  "working rows uf court d \<longleftrightarrow> \<not> isWeekend d \<and> \<not> inRecess d \<and> \<not> registered rows uf court d"

abbreviation store :: "holiday list \<Rightarrow> holiday_query" where
  "store rows \<equiv> Store_IsHoliday (\<lambda>_. False) rows"

text \<open>The days off of an interval that the audit records, in ascending order.\<close>

definition days_off :: "holiday list \<Rightarrow> string \<Rightarrow> string \<Rightarrow> day \<Rightarrow> day \<Rightarrow> day list" where
  "days_off rows uf court a b = filter (\<lambda>d. \<not> working rows uf court d \<and> \<not> isWeekend d) [a..b]"

text \<open>The registered holidays of an interval that the table holds for a court.\<close>

definition registered_between :: "holiday list \<Rightarrow> string \<Rightarrow> string \<Rightarrow> day \<Rightarrow> day \<Rightarrow> nat" where
  "registered_between rows uf court a b = card {d \<in> {a..b}. registered rows uf court d}"

lemma biz_working: "biz (store rows) uf court = working rows uf court"
  by (rule ext) (simp add: table.biz_iff working_def)

lemma audit_days_off: "audit_between (store rows) uf court a b = days_off rows uf court (a + 1) b"
  by (simp add: audit_between_def days_off_def audited_def [abs_def] biz_working)

lemma card_filter_upto: "length (filter P [a..b]) = card {d \<in> {a..b}. P d}"
proof -
  have "set (filter P [a..b]) = {d \<in> {a..b}. P d}" by auto
  moreover have "distinct (filter P [a..b])" by simp
  ultimately show ?thesis by (metis distinct_card)
qed


lemma registered_walk:
  "length (filter (registered rows uf court) (walk 1 s k)) = registered_between rows uf court (s + 1) (s + int k)"
  unfolding registered_between_def walk_upto by (rule card_filter_upto)


section \<open>The motors\<close>


lemma registered_between_le: "registered_between rows uf court a b \<le> length rows"
proof -
  have "{d \<in> {a..b}. registered rows uf court d} \<subseteq> set (map HDate rows)"
    by (auto simp: registered_def list_ex_iff)
  then have "card {d \<in> {a..b}. registered rows uf court d} \<le> card (set (map HDate rows))"
    by (intro card_mono) auto
  also have "\<dots> \<le> length rows" using card_length [of "map HDate rows"] by simp
  finally show ?thesis by (simp add: registered_between_def)
qed

text \<open>Easter week of 2026 at the TJSP, from Monday 30 March (day 20542).\<close>

definition easter :: "holiday list" where
  "easter = [\<lparr>Scope = ScopeNational, ScopeID = '''', HDate = 20546, Name = ''Sexta-feira Santa''\<rparr>,
             \<lparr>Scope = ScopeCourt, ScopeID = ''TJSP'', HDate = 20545, Name = ''Quinta-feira Santa''\<rparr>]"

lemma easter_few: "registered_between easter uf court a b \<le> 136"
  using registered_between_le [of easter uf court a b] by (simp add: easter_def)


text \<open>
  the internal buffer is exact. The date that many business days before a working day
  (any count up to 299) exists, works and is strictly earlier, and counting the same number
  of business days forward from it comes back to the end.
\<close>

theorem buffer_is_exact:
  assumes "0 < n" and "n \<le> 299" and "working rows uf court e"
    and "registered_between rows uf court (e - 400 - n) (e - 1) \<le> 136"
  shows "\<exists>p hs hs'. SubtractBusinessDays (store rows) e n uf court = Inr (p, hs) \<and> p < e
       \<and> working rows uf court p \<and> AddBusinessDays (store rows) p n uf court = Inr (e, hs')"
proof -
  have w: "e - int (maxScan + nat n) - 1 + 1 = e - 400 - n"
    "e - int (maxScan + nat n) - 1 + int (maxScan + nat n) = e - 1" using assms(1) by (simp_all add: maxScan_def)
  obtain p hs where r: "SubtractBusinessDays (store rows) e n uf court = Inr (p, hs)"
    using table.subtract_business_total [of n rows uf court e] assms unfolding registered_walk w by auto
  from subtract_business_result [OF r] assms(1) have "p < e" "working rows uf court p"
    by (simp_all add: biz_working)
  moreover obtain hs' where "AddBusinessDays (store rows) p n uf court = Inr (e, hs')"
    using subtract_then_add [OF r] assms(3) by (auto simp: biz_working)
  ultimately show ?thesis using r by blast
qed

theorem buffer_is_exact_witness:
  "\<exists>p hs hs'. SubtractBusinessDays (store easter) 20549 2 ''SP'' ''TJSP'' = Inr (p, hs) \<and> p < 20549
       \<and> working easter ''SP'' ''TJSP'' p \<and> AddBusinessDays (store easter) p 2 ''SP'' ''TJSP'' = Inr (20549, hs')"
proof (rule buffer_is_exact)
  show "working easter ''SP'' ''TJSP'' 20549" by code_simp
qed (simp_all add: easter_few)

text \<open>
  counting calendar days always succeeds and lands on the first working day on or after
  the raw date, and the audit lists the days off it rolled over.
\<close>

theorem add_calendar_days_correct:
  assumes "0 < n" and "registered_between rows uf court (s + n) (s + n + 399) \<le> 136"
  shows "\<exists>e hs. AddCalendarDays (store rows) s n uf court = Inr (e, hs) \<and> s + n \<le> e
       \<and> working rows uf court e \<and> (\<forall>d \<in> {s + n..e - 1}. \<not> working rows uf court d)
       \<and> hs = days_off rows uf court (s + n) (e - 1)"
proof -
  have w: "s + n - 1 + 1 = s + n" "s + n - 1 + int maxScan = s + n + 399" by (simp_all add: maxScan_def)
  obtain e hs where r: "AddCalendarDays (store rows) s n uf court = Inr (e, hs)"
    using table.add_calendar_total [of n rows uf court s] assms unfolding registered_walk w by auto
  from add_calendar_result [OF r] assms(1) show ?thesis
    unfolding biz_working audit_days_off
    by (intro exI [of _ e] exI [of _ hs]) (simp add: r)
qed

theorem add_calendar_days_correct_witness:
  "\<exists>e hs. AddCalendarDays (store easter) 20540 5 ''SP'' ''TJSP'' = Inr (e, hs) \<and> 20540 + 5 \<le> e
       \<and> working easter ''SP'' ''TJSP'' e \<and> (\<forall>d \<in> {20540 + 5..e - 1}. \<not> working easter ''SP'' ''TJSP'' d)
       \<and> hs = days_off easter ''SP'' ''TJSP'' (20540 + 5) (e - 1)"
  by (rule add_calendar_days_correct) (simp_all add: easter_few)



section \<open>The holiday table\<close>

text \<open>
  the label the audit shows for a day off is a registered row of that very day that
  applies to the court, and no applicable row of the day has a more specific scope (court
  over state over nation).
\<close>

theorem label_is_most_specific:
  assumes "Store_LookupHolidays False rows days uf court = Inr m" and "d \<in> set days"
    and "registered rows uf court d"
  shows "\<exists>h \<in> set rows. m d = Some h \<and> HDate h = d \<and> in_scope uf court h
       \<and> (\<forall>r \<in> set rows. HDate r = d \<and> in_scope uf court r \<longrightarrow> scopeRank (Scope r) \<le> scopeRank (Scope h))"
  using assms by (rule lookup_label)

theorem label_is_most_specific_witness:
  "\<exists>m. Store_LookupHolidays False easter [20545, 20546] ''SP'' ''TJSP'' = Inr m
     \<and> (\<exists>h \<in> set easter. m 20545 = Some h \<and> HDate h = 20545 \<and> in_scope ''SP'' ''TJSP'' h
       \<and> (\<forall>r \<in> set easter. HDate r = 20545 \<and> in_scope ''SP'' ''TJSP'' r \<longrightarrow> scopeRank (Scope r) \<le> scopeRank (Scope h)))"
proof -
  obtain m where m: "Store_LookupHolidays False easter [20545, 20546] ''SP'' ''TJSP'' = Inr m"
    by (simp add: Store_LookupHolidays_def)
  have r: "registered easter ''SP'' ''TJSP'' 20545" by code_simp
  show ?thesis using m label_is_most_specific [OF m _ r] by auto
qed

text \<open>
  upserting a batch of holidays is idempotent: whatever the table holds, a second upsert
  of the batch reports the same count and changes nothing.
\<close>

theorem upsert_twice_is_once:
  "UpsertHolidays down hs (snd (UpsertHolidays down hs rows)) = UpsertHolidays down hs rows"
  by (simp add: UpsertHolidays_def upsert_idempotent)

text \<open>
  the wire form of a date parses back to the date, for every date from the year 0 to the
  year 9999.
\<close>

theorem wire_date_roundtrip:
  assumes "0 \<le> Year d" and "Year d \<le> 9999"
  shows "parseDateOnly (fmtDateOnly d) = Some d"
  using assms by (rule parse_fmt)

theorem wire_date_roundtrip_witness:
  "parseDateOnly (fmtDateOnly 20514) = Some 20514"
proof (rule wire_date_roundtrip)
  show "0 \<le> Year 20514" by code_simp
  show "Year 20514 \<le> 9999" by code_simp
qed

lemma siglas_distinct: "distinct (map Sigla buildTribunais)"
  by code_simp

lemma siglas_normal: "list_all (\<lambda>t. ToUpper (TrimSpace (Sigla t)) = Sigla t) buildTribunais"
  by code_simp

text \<open>
  the state of a court is read off its sigla: every court of the table is mapped to the
  state it was registered with, and any text at all to one of the 27 states or to none.
\<close>
theorem court_state_known:
  "(\<forall>t \<in> set buildTribunais. UF (Sigla t) = UF_of t) \<and> UF sigla \<in> insert '''' (set ufsBR)"
proof (intro conjI ballI)
  fix t assume t: "t \<in> set buildTribunais"
  have "map_of (rev (map (\<lambda>t. (Sigla t, UF_of t)) buildTribunais)) (Sigla t) = Some (UF_of t)"
    using t siglas_distinct by (intro map_of_is_SomeI) (auto simp: rev_map [symmetric] comp_def)
  then show "UF (Sigla t) = UF_of t"
    using t siglas_normal by (simp add: UF_def indexTribunalUF_def list_all_iff)
next
  show "UF sigla \<in> insert '''' (set ufsBR)" using UF_range [of sigla] by auto
qed

theorem court_state_known_witness:
  "UF ''TJSP'' = ''SP'' \<and> UF ''TRF3'' \<in> insert '''' (set ufsBR)"
proof
  have "\<lparr>Sigla = ''TJSP'', UF_of = ''SP''\<rparr> \<in> set buildTribunais" by code_simp
  then show "UF ''TJSP'' = ''SP''" using conjunct1 [OF court_state_known] by force
  show "UF ''TRF3'' \<in> insert '''' (set ufsBR)" by (rule conjunct2 [OF court_state_known])
qed

end
