(* ===== verification/Events.thy ===== *)
theory Events
  imports GoTime "HOL-Library.Multiset"
begin

text \<open>
  \<open>lib/events\<close>: the transactional outbox (\<open>outbox.go\<close>), the consumer-side dedup
  (\<open>dedup.go\<close>), the routing tables and the relay that publishes to the task queue
  (\<open>relay.go\<close>). The JSON encoding of a payload is the payload itself; trace context is
  telemetry and left out. The queue (asynq on Redis) is outside the repository: it is a
  parameter of the relay with the documented TaskID contract as a named hypothesis.
\<close>

section \<open>Events and the outbox\<close>

record 'p event =
  ev_type :: string
  ev_aggregate_type :: string
  ev_aggregate_id :: string
  ev_key :: string
  ev_schedule :: "(instant \<times> bool) option"
  ev_payload :: 'p

record 'p outbox_row =
  ob_id :: nat
  ob_aggregate_type :: string
  ob_aggregate_id :: string
  ob_type :: string
  ob_payload :: 'p
  ob_key :: string
  ob_process_at :: "instant option"
  ob_priority :: int
  ob_published :: bool

record 'p events_db =
  outbox :: "'p outbox_row list"
  outbox_seq :: nat
  processed :: "(string \<times> string) list"

text \<open>Go's zero \<open>time.Time\<close>: 1 January of year 1, midnight UTC.\<close>

definition zero_time :: instant where
  "zero_time = - 62135596800 * 1000000000"

definition scheduledAt :: "'p event \<Rightarrow> instant option" where
  "scheduledAt ev = (case ev_schedule ev of
     None \<Rightarrow> None
   | Some (t, ok) \<Rightarrow> if \<not> ok \<or> t = zero_time then None else Some t)"

definition user_triggered :: "string list" where
  "user_triggered =
     [''draft.generation_requested'', ''draft.generated'', ''filing.enqueued'', ''filing.succeeded'',
      ''filing.failed'', ''identity.tenant_provisioned'', ''notification.requested'',
      ''billing.trial_ending_soon_check'', ''billing.trial_ending_soon'', ''billing.payment_failed'']"

definition priorityFor :: "string \<Rightarrow> int" where
  "priorityFor typ = (if typ \<in> set user_triggered then 0 else 1)"

definition outbox_row_of :: "nat \<Rightarrow> 'p event \<Rightarrow> 'p outbox_row" where
  "outbox_row_of i ev =
     \<lparr>ob_id = i, ob_aggregate_type = ev_aggregate_type ev, ob_aggregate_id = ev_aggregate_id ev,
      ob_type = ev_type ev, ob_payload = ev_payload ev, ob_key = ev_key ev,
      ob_process_at = scheduledAt ev, ob_priority = priorityFor (ev_type ev), ob_published = False\<rparr>"

definition insert_outbox :: "'p event \<Rightarrow> ('p, 'm) events_db_scheme \<Rightarrow> ('p, 'm) events_db_scheme" where
  "insert_outbox ev db = db\<lparr>outbox := outbox db @ [outbox_row_of (Suc (outbox_seq db)) ev],
                          outbox_seq := Suc (outbox_seq db)\<rparr>"

text \<open>\<open>PublishBatch\<close> inserts the events of the slice in order, in one statement.\<close>

definition insert_outbox_batch :: "'p event list \<Rightarrow> ('p, 'm) events_db_scheme \<Rightarrow> ('p, 'm) events_db_scheme" where
  "insert_outbox_batch evs db = foldl (\<lambda>db ev. insert_outbox ev db) db evs"

section \<open>Dedup\<close>

text \<open>\<open>INSERT INTO processed_event ... ON CONFLICT DO NOTHING\<close>; seen when no row was inserted.\<close>

definition seen_or_mark :: "string \<Rightarrow> string \<Rightarrow> ('p, 'm) events_db_scheme \<Rightarrow> bool \<times> ('p, 'm) events_db_scheme" where
  "seen_or_mark consumer event_id db =
     (if (consumer, event_id) \<in> set (processed db) then (True, db)
      else (False, db\<lparr>processed := (consumer, event_id) # processed db\<rparr>))"

section \<open>Routing\<close>

definition type_prefix :: "string \<Rightarrow> string" where
  "type_prefix typ = takeWhile (\<lambda>c. c \<noteq> CHR ''.'') typ"

definition queueFor :: "string \<Rightarrow> string" where
  "queueFor typ =
     (if typ = ''acquisition.diario_requested'' then ''diario''
      else if typ = ''acquisition.sync_completed'' \<or> typ = ''acquisition.sync_failed'' then ''sync_status''
      else if typ = ''acquisition.enrichment_batch_requested'' then ''enrichment''
      else if typ \<in> {''acquisition.intimation.observed'', ''acquisition.intimation.cancelled'',
                     ''deadline.reminder_check'', ''deadline.missed_check'', ''deadline.opened'',
                     ''acquisition.court_record_archived''} then ''deadline''
      else if typ \<in> {''actionitem.created'', ''actionitem.confirmed'', ''actionitem.reclassified''}
        then ''deadline''
      else if typ \<in> {''deadline.due_soon'', ''deadline.missed'', ''deadline.resolved_on_conclusion''}
        then ''notifications''
      else if typ \<in> {''identity.tenant_provisioned'', ''billing.trial_ending_soon_check'',
                     ''billing.trial_ending_soon''} then ''notifications''
      else if typ = ''draft.generation_requested'' then ''ai''
      else if typ = ''court.fetch_autos_requested'' \<or> typ = ''court.fetch_autos_item_requested''
        then ''court_fetch''
      else if typ = ''filing.enqueued'' then ''filing''
      else if typ = ''filing.succeeded'' \<or> typ = ''filing.failed'' then ''notifications''
      else if typ = ''draft.generated'' then ''notifications''
      else if type_prefix typ \<in> {''ingestao'', ''acquisition''} then ''ingestao''
      else if type_prefix typ \<in> {''deadline'', ''task''} then ''ingestao''
      else if type_prefix typ \<in> {''documents'', ''document''} then ''documents''
      else if type_prefix typ = ''ai'' then ''ai''
      else if type_prefix typ = ''notification'' then ''notifications''
      else ''default'')"

definition queuesFor :: "string \<Rightarrow> string list" where
  "queuesFor typ =
     (if typ = ''acquisition.docket_entry_observed'' then [''ingestao'', ''deadline'']
      else if typ = ''acquisition.court_record_observed'' then [''ingestao'', ''court_fetch'']
      else [queueFor typ])"

definition maxRetryFor :: "string \<Rightarrow> nat" where
  "maxRetryFor typ =
     (if type_prefix typ \<in> {''ingestao'', ''acquisition''} then 25
      else if type_prefix typ \<in> {''documents'', ''document''} then 10
      else if type_prefix typ = ''ai'' then 3
      else 5)"

definition taskIDForQueue :: "string \<Rightarrow> string \<Rightarrow> string" where
  "taskIDForQueue event_id queue = event_id @ '':'' @ queue"

section \<open>The relay\<close>

record 'p qtask =
  qt_type :: string
  qt_payload :: 'p
  qt_queue :: string
  qt_max_retry :: nat
  qt_id :: "string option"
  qt_process_at :: "instant option"
  qt_event_id :: string
  qt_aggregate_id :: string

datatype enq_outcome = Enqueued | TaskIDConflict | EnqueueFailed

text \<open>\<open>ORDER BY priority, id LIMIT 200 FOR UPDATE SKIP LOCKED\<close>; \<open>locked\<close> is what other relays hold.\<close>

definition batch_limit :: nat where
  "batch_limit = 200"

definition readPending :: "(nat \<Rightarrow> bool) \<Rightarrow> ('p, 'm) events_db_scheme \<Rightarrow> 'p outbox_row list" where
  "readPending locked db =
     take batch_limit (sort_key (\<lambda>r. ob_priority r)
       (sort_key ob_id (filter (\<lambda>r. \<not> ob_published r \<and> \<not> locked (ob_id r)) (outbox db))))"

definition task_for :: "'p outbox_row \<Rightarrow> string \<Rightarrow> 'p qtask" where
  "task_for r queue =
     \<lparr>qt_type = ob_type r, qt_payload = ob_payload r, qt_queue = queue, qt_max_retry = maxRetryFor (ob_type r),
      qt_id = (if ob_key r \<noteq> '''' then Some (taskIDForQueue (ob_key r) queue) else None),
      qt_process_at = ob_process_at r, qt_event_id = ob_key r, qt_aggregate_id = ob_aggregate_id r\<rparr>"

definition tasks_of :: "'p outbox_row \<Rightarrow> 'p qtask list" where
  "tasks_of r = map (task_for r) (queuesFor (ob_type r))"

fun enqueue_all :: "('p qtask \<Rightarrow> 'q \<Rightarrow> enq_outcome \<times> 'q) \<Rightarrow> 'p qtask list \<Rightarrow> 'q \<Rightarrow> (err + unit) \<times> 'q" where
  "enqueue_all enq [] q = (Inr (), q)"
| "enqueue_all enq (t # ts) q =
     (case enq t q of
        (Enqueued, q') \<Rightarrow> enqueue_all enq ts q'
      | (TaskIDConflict, q') \<Rightarrow> enqueue_all enq ts q'
      | (EnqueueFailed, q') \<Rightarrow> (Inl WrapInfra, q'))"

definition mark_published :: "nat \<Rightarrow> ('p, 'm) events_db_scheme \<Rightarrow> ('p, 'm) events_db_scheme" where
  "mark_published i db = db\<lparr>outbox := update_rows (\<lambda>r. ob_id r = i) (\<lambda>r. r\<lparr>ob_published := True\<rparr>) (outbox db)\<rparr>"

text \<open>
  \<open>publish\<close> over the batch: the queue keeps what was enqueued before a failure, the
  transaction's writes are undone by the caller. \<open>down i\<close> is a failing \<open>UPDATE\<close> of row \<open>i\<close>.
\<close>

fun publish_batch :: "('p qtask \<Rightarrow> 'q \<Rightarrow> enq_outcome \<times> 'q) \<Rightarrow> (nat \<Rightarrow> bool) \<Rightarrow> 'p outbox_row list
    \<Rightarrow> ('p, 'm) events_db_scheme \<Rightarrow> 'q \<Rightarrow> (err + unit) \<times> ('p, 'm) events_db_scheme \<times> 'q" where
  "publish_batch enq down [] db q = (Inr (), db, q)"
| "publish_batch enq down (r # rs) db q =
     (case enqueue_all enq (tasks_of r) q of
        (Inl e, q') \<Rightarrow> (Inl e, db, q')
      | (Inr _, q') \<Rightarrow>
          if down (ob_id r) then (Inl WrapInfra, db, q')
          else publish_batch enq down rs (mark_published (ob_id r) db) q')"

text \<open>\<open>Tick\<close>: one unit of work; on an error the database is rolled back, the queue is not.\<close>

definition Tick :: "('p qtask \<Rightarrow> 'q \<Rightarrow> enq_outcome \<times> 'q) \<Rightarrow> (nat \<Rightarrow> bool) \<Rightarrow> (nat \<Rightarrow> bool) \<Rightarrow> bool
    \<Rightarrow> ('p, 'm) events_db_scheme \<Rightarrow> 'q \<Rightarrow> (err + 'p outbox_row list) \<times> ('p, 'm) events_db_scheme \<times> 'q" where
  "Tick enq locked down commit_fails db q =
     (let batch = readPending locked db in
      case publish_batch enq down batch db q of
        (Inl e, _, q') \<Rightarrow> (Inl e, db, q')
      | (Inr _, db', q') \<Rightarrow> if commit_fails then (Inl WrapInfra, db, q') else (Inr batch, db', q'))"

section \<open>Outbox lemmas\<close>

lemma insert_outbox_simps [simp]:
  "outbox (insert_outbox ev db) = outbox db @ [outbox_row_of (Suc (outbox_seq db)) ev]"
  "outbox_seq (insert_outbox ev db) = Suc (outbox_seq db)"
  "processed (insert_outbox ev db) = processed db"
  by (simp_all add: insert_outbox_def)

text \<open>Row ids are below the sequence and increase along the table.\<close>

definition outbox_ok :: "('p, 'm) events_db_scheme \<Rightarrow> bool" where
  "outbox_ok db \<longleftrightarrow> distinct (map ob_id (outbox db)) \<and> (\<forall>r \<in> set (outbox db). ob_id r \<le> outbox_seq db)"

lemma insert_outbox_ok: "outbox_ok db \<Longrightarrow> outbox_ok (insert_outbox ev db)"
  by (fastforce simp: outbox_ok_def outbox_row_of_def)

lemma insert_outbox_batch_ok: "outbox_ok db \<Longrightarrow> outbox_ok (insert_outbox_batch evs db)"
  by (induction evs arbitrary: db) (simp_all add: insert_outbox_batch_def insert_outbox_ok)

lemma mark_published_ids [simp]: "map ob_id (outbox (mark_published i db)) = map ob_id (outbox db)"
  by (simp add: mark_published_def update_rows_def)

lemma set_mark_published:
  "r \<in> set (outbox (mark_published i db)) \<longleftrightarrow>
     (\<exists>q \<in> set (outbox db). r = (if ob_id q = i then q\<lparr>ob_published := True\<rparr> else q))"
  by (simp add: mark_published_def set_update_rows)

section \<open>The dedup contract\<close>

text \<open>
  What a consumer relies on: the first mark of a (consumer, event) pair reports it new,
  every later one reports it seen and changes nothing, and marks of other pairs do not
  interfere. A handler that returns at once on a seen event is then idempotent.
\<close>

locale deduper =
  fixes mark :: "string \<Rightarrow> string \<Rightarrow> 's \<Rightarrow> bool \<times> 's"
    and marked :: "'s \<Rightarrow> (string \<times> string) set"
  assumes mark_result: "fst (mark c e s) \<longleftrightarrow> (c, e) \<in> marked s"
    and mark_marks: "marked (snd (mark c e s)) = insert (c, e) (marked s)"
    and mark_seen: "(c, e) \<in> marked s \<Longrightarrow> snd (mark c e s) = s"
begin

definition handle :: "string \<Rightarrow> string \<Rightarrow> ('s \<Rightarrow> 's) \<Rightarrow> 's \<Rightarrow> 's" where
  "handle c e body s = (case mark c e s of (seen, s') \<Rightarrow> if seen then s' else body s')"

lemma handle_seen: "(c, e) \<in> marked s \<Longrightarrow> handle c e body s = s"
  using mark_result [of c e s] mark_seen [of c e s] by (auto simp: handle_def split: prod.splits)

text \<open>A body that keeps the marks runs once: handling the event again is a no-op.\<close>

lemma handle_idempotent:
  assumes "\<And>s. marked s \<subseteq> marked (body s)"
  shows "handle c e body' (handle c e body s) = handle c e body s"
proof (rule handle_seen)
  have "(c, e) \<in> marked (snd (mark c e s))" by (simp add: mark_marks)
  then show "(c, e) \<in> marked (handle c e body s)"
    using assms [of "snd (mark c e s)"] by (auto simp: handle_def split: prod.splits)
qed

end

interpretation dedup: deduper seen_or_mark "\<lambda>db. set (processed db)"
  by unfold_locales (auto simp: seen_or_mark_def)

section \<open>The relay delivers each event once per queue\<close>

text \<open>
  The contract of the queue: a task with a TaskID is accepted only when no task of that id
  was accepted before, and is refused as a conflict otherwise. \<open>ids\<close> reads the ids the queue
  has accepted.
\<close>

definition task_id_contract :: "('p qtask \<Rightarrow> 'q \<Rightarrow> enq_outcome \<times> 'q) \<Rightarrow> ('q \<Rightarrow> string multiset) \<Rightarrow> bool" where
  "task_id_contract enq ids \<longleftrightarrow>
     (\<forall>t q. case enq t q of
        (Enqueued, q') \<Rightarrow> (case qt_id t of
            None \<Rightarrow> ids q' = ids q
          | Some i \<Rightarrow> i \<notin># ids q \<and> ids q' = add_mset i (ids q))
      | (TaskIDConflict, q') \<Rightarrow> (\<exists>i. qt_id t = Some i \<and> i \<in># ids q) \<and> ids q' = ids q
      | (EnqueueFailed, q') \<Rightarrow> ids q' = ids q)"

definition unique_ids :: "string multiset \<Rightarrow> bool" where
  "unique_ids M \<longleftrightarrow> (\<forall>i. count M i \<le> 1)"

definition handed_over :: "string multiset \<Rightarrow> 'p outbox_row \<Rightarrow> bool" where
  "handed_over M r \<longleftrightarrow>
     (ob_key r \<noteq> '''' \<longrightarrow> (\<forall>queue \<in> set (queuesFor (ob_type r)). taskIDForQueue (ob_key r) queue \<in># M))"

lemma unique_ids_add: "unique_ids M \<Longrightarrow> i \<notin># M \<Longrightarrow> unique_ids (add_mset i M)"
  by (auto simp: unique_ids_def not_in_iff)

lemma handed_over_mono: "M \<subseteq># N \<Longrightarrow> handed_over M r \<Longrightarrow> handed_over N r"
  by (auto simp: handed_over_def dest: mset_subset_eqD)

lemma enqueue_step:
  assumes c: "task_id_contract enq ids" and e: "enq t q = (out, q')"
  shows "ids q \<subseteq># ids q'" and "unique_ids (ids q) \<Longrightarrow> unique_ids (ids q')"
    and "out \<noteq> EnqueueFailed \<Longrightarrow> qt_id t = Some i \<Longrightarrow> i \<in># ids q'"
proof -
  note s = c [unfolded task_id_contract_def, THEN spec, of t, THEN spec, of q, unfolded e]
  show "ids q \<subseteq># ids q'" using s by (cases out) (auto split: option.splits)
  show "unique_ids (ids q) \<Longrightarrow> unique_ids (ids q')"
    using s by (cases out) (auto split: option.splits intro: unique_ids_add)
  show "out \<noteq> EnqueueFailed \<Longrightarrow> qt_id t = Some i \<Longrightarrow> i \<in># ids q'"
    using s by (cases out) (auto split: option.splits)
qed

lemma enqueue_all_ids:
  assumes "task_id_contract enq ids" and "enqueue_all enq ts q = (r, q')"
  shows "ids q \<subseteq># ids q' \<and> (unique_ids (ids q) \<longrightarrow> unique_ids (ids q'))
       \<and> (r = Inr () \<longrightarrow> (\<forall>t \<in> set ts. \<forall>i. qt_id t = Some i \<longrightarrow> i \<in># ids q'))"
  using assms(2)
proof (induction ts arbitrary: q)
  case Nil
  then show ?case by simp
next
  case (Cons t ts)
  obtain out q1 where e: "enq t q = (out, q1)" by (cases "enq t q")
  note step = enqueue_step [OF assms(1) e]
  show ?case
  proof (cases "out = EnqueueFailed")
    case True
    with Cons.prems e step show ?thesis by auto
  next
    case False
    with Cons.prems e have "enqueue_all enq ts q1 = (r, q')" by (cases out) simp_all
    note IH = Cons.IH [OF this]
    show ?thesis using IH step False
      by (auto intro: subset_mset.trans dest: mset_subset_eqD)
  qed
qed

lemma tasks_of_handed_over:
  "(\<forall>t \<in> set (tasks_of r). \<forall>i. qt_id t = Some i \<longrightarrow> i \<in># M) \<Longrightarrow> handed_over M r"
  by (auto simp: tasks_of_def task_for_def handed_over_def)

lemma publish_batch_ids:
  assumes "task_id_contract enq ids" and "publish_batch enq down rs db q = (r, db', q')"
  shows "ids q \<subseteq># ids q' \<and> (unique_ids (ids q) \<longrightarrow> unique_ids (ids q'))
       \<and> (r = Inr () \<longrightarrow> (\<forall>x \<in> set rs. handed_over (ids q') x))"
  using assms(2)
proof (induction rs arbitrary: db q)
  case Nil
  then show ?case by simp
next
  case (Cons x rs)
  obtain a q1 where e: "enqueue_all enq (tasks_of x) q = (a, q1)" by (cases "enqueue_all enq (tasks_of x) q")
  note step = enqueue_all_ids [OF assms(1) e]
  show ?case
  proof (cases "\<exists>err. a = Inl err")
    case True
    with Cons.prems e step show ?thesis by auto
  next
    case False
    then have a: "a = Inr ()" by (cases a) auto
    show ?thesis
    proof (cases "down (ob_id x)")
      case True
      with Cons.prems e a step show ?thesis by auto
    next
      case False
      with Cons.prems e a have "publish_batch enq down rs (mark_published (ob_id x) db) q1 = (r, db', q')"
        by simp
      note IH = Cons.IH [OF this]
      have "handed_over (ids q1) x" using step a by (intro tasks_of_handed_over) simp
      then show ?thesis using IH step
        by (auto intro: subset_mset.trans handed_over_mono)
    qed
  qed
qed

text \<open>What a successful pass over a batch does to the outbox: the batch is marked, nothing else.\<close>

lemma publish_batch_db:
  assumes "publish_batch enq down rs db q = (Inr u, db', q')"
  shows "outbox db' = update_rows (\<lambda>r. ob_id r \<in> ob_id ` set rs) (\<lambda>r. r\<lparr>ob_published := True\<rparr>) (outbox db)
       \<and> outbox_seq db' = outbox_seq db"
  using assms
proof (induction rs arbitrary: db q)
  case Nil
  then show ?case by (simp add: update_rows_def)
next
  case (Cons x rs)
  then obtain q1 where "publish_batch enq down rs (mark_published (ob_id x) db) q1 = (Inr u, db', q')"
    by (auto split: prod.splits sum.splits if_splits)
  from Cons.IH [OF this] show ?case
    by (auto simp: mark_published_def update_rows_def)
qed

lemma readPending_subset: "r \<in> set (readPending locked db) \<Longrightarrow> r \<in> set (outbox db) \<and> \<not> ob_published r \<and> \<not> locked (ob_id r)"
  by (auto simp: readPending_def dest: in_set_takeD)

text \<open>Within a batch, and between batch and backlog, user-triggered events come first.\<close>

lemma readPending_priority:
  assumes "r \<in> set (readPending locked db)" and "p \<in> set (outbox db)"
    and "\<not> ob_published p" and "\<not> locked (ob_id p)" and "ob_priority p < ob_priority r"
  shows "p \<in> set (readPending locked db)"
proof -
  let ?all = "sort_key (\<lambda>r. ob_priority r)
       (sort_key ob_id (filter (\<lambda>r. \<not> ob_published r \<and> \<not> locked (ob_id r)) (outbox db)))"
  have sorted: "sorted (map ob_priority ?all)" by simp
  have "p \<in> set ?all" using assms by simp
  show ?thesis
  proof (rule ccontr)
    assume out: "p \<notin> set (readPending locked db)"
    then have "p \<in> set (drop batch_limit ?all)"
      using \<open>p \<in> set ?all\<close> unfolding readPending_def
      by (metis Un_iff append_take_drop_id set_append)
    moreover have "r \<in> set (take batch_limit ?all)" using assms(1) by (simp add: readPending_def)
    moreover have "sorted (map ob_priority (take batch_limit ?all) @ map ob_priority (drop batch_limit ?all))"
      using sorted by (metis append_take_drop_id map_append)
    ultimately have "ob_priority r \<le> ob_priority p"
      by (auto simp: sorted_append)
    with assms(5) show False by simp
  qed
qed

text \<open>What a running system does to the outbox and the queue: producers publish, relays tick.\<close>

datatype 'p relay_op =
    RPublish "'p event"
  | RTick "nat \<Rightarrow> bool" "nat \<Rightarrow> bool" bool

fun relay_step :: "('p qtask \<Rightarrow> 'q \<Rightarrow> enq_outcome \<times> 'q) \<Rightarrow> ('p, 'm) events_db_scheme \<times> 'q
    \<Rightarrow> 'p relay_op \<Rightarrow> ('p, 'm) events_db_scheme \<times> 'q" where
  "relay_step enq (db, q) (RPublish ev) = (insert_outbox ev db, q)"
| "relay_step enq (db, q) (RTick locked down commit_fails) =
     (case Tick enq locked down commit_fails db q of (_, db', q') \<Rightarrow> (db', q'))"

definition relay_inv :: "('q \<Rightarrow> string multiset) \<Rightarrow> ('p, 'm) events_db_scheme \<times> 'q \<Rightarrow> bool" where
  "relay_inv ids st \<longleftrightarrow>
     outbox_ok (fst st) \<and> unique_ids (ids (snd st))
     \<and> (\<forall>r \<in> set (outbox (fst st)). ob_published r \<longrightarrow> handed_over (ids (snd st)) r)"

lemma handed_over_published [simp]: "handed_over M (r\<lparr>ob_published := b\<rparr>) = handed_over M r"
  by (simp add: handed_over_def)

lemma Tick_outcomes:
  assumes "Tick enq locked down commit_fails db q = (res, db', q')"
  obtains (rolled_back) r db1 where "publish_batch enq down (readPending locked db) db q = (r, db1, q')"
      "db' = db" "\<exists>e. res = Inl e"
  | (committed) "publish_batch enq down (readPending locked db) db q = (Inr (), db', q')"
      "res = Inr (readPending locked db)"
  using assms unfolding Tick_def Let_def
  by (cases "publish_batch enq down (readPending locked db) db q")
     (auto split: sum.splits if_splits)

lemma relay_step_inv:
  assumes c: "task_id_contract enq ids" and inv: "relay_inv ids st"
  shows "relay_inv ids (relay_step enq st op)"
proof (cases op)
  case (RPublish ev)
  then show ?thesis using inv
    by (cases st) (auto simp: relay_inv_def insert_outbox_ok outbox_row_of_def)
next
  case (RTick locked down cf)
  obtain db q where st: "st = (db, q)" by (cases st)
  obtain res db' q' where t: "Tick enq locked down cf db q = (res, db', q')"
    by (cases "Tick enq locked down cf db q")
  have goal: "relay_inv ids (db', q')"
    using t
  proof (cases rule: Tick_outcomes)
    case (rolled_back r db1)
    with publish_batch_ids [OF c rolled_back(1)] inv st show ?thesis
      by (auto simp: relay_inv_def intro: handed_over_mono)
  next
    case committed
    note ids = publish_batch_ids [OF c committed(1)] and db = publish_batch_db [OF committed(1)]
    have ok: "outbox_ok db'" using inv st db by (auto simp: relay_inv_def outbox_ok_def map_update_rows set_update_rows)
    have "handed_over (ids q') r" if r: "r \<in> set (outbox db')" "ob_published r" for r
    proof -
      obtain x where x: "x \<in> set (outbox db)"
        "r = (if ob_id x \<in> ob_id ` set (readPending locked db) then x\<lparr>ob_published := True\<rparr> else x)"
        using r(1) db by (auto simp: set_update_rows)
      show ?thesis
      proof (cases "ob_id x \<in> ob_id ` set (readPending locked db)")
        case True
        then obtain y where y: "y \<in> set (readPending locked db)" "ob_id y = ob_id x" by auto
        then have "y = x" using readPending_subset [OF y(1)] x(1) inv st
          by (auto simp: relay_inv_def outbox_ok_def intro: distinct_map_inj)
        with y ids x True show ?thesis by simp
      next
        case False
        with x r(2) inv st ids show ?thesis
          by (auto simp: relay_inv_def intro: handed_over_mono)
      qed
    qed
    then show ?thesis using ok ids inv st by (auto simp: relay_inv_def)
  qed
  then show ?thesis using RTick st t by simp
qed

lemma relay_run_inv:
  "task_id_contract enq ids \<Longrightarrow> relay_inv ids st \<Longrightarrow> relay_inv ids (foldl (relay_step enq) st ops)"
  by (induction ops arbitrary: st) (simp_all add: relay_step_inv)

end
