(* ===== verification/Breaker.thy ===== *)
theory Breaker
  imports GoTime
begin

text \<open>
  \<open>lib/breaker/breaker.go\<close>: the shared rate-limit gate of the HTTP sources. Durations are
  Go's 64-bit nanosecond counts; the shift of the backoff wraps at that width. The mutex
  makes each operation atomic, so an operation is a function of the gate and of the clock.
\<close>

record gate =
  until :: instant
  consecutive :: nat
  base_d :: int
  max_d :: int

definition gate_New :: "instant \<Rightarrow> int \<Rightarrow> int \<Rightarrow> gate" where
  "gate_New zero base mx = \<lparr>until = zero, consecutive = 0, base_d = base, max_d = mx\<rparr>"

text \<open>
  \<open>Wait\<close>: returns at once when the gate is open, otherwise when the timer or the context
  fires. The result is the error, if any, and the instant of the return; \<open>done\<close> is the
  instant the context is cancelled, if it is.
\<close>

definition Wait :: "gate \<Rightarrow> instant \<Rightarrow> instant option \<Rightarrow> (err + unit) \<times> instant" where
  "Wait g now done =
     (if until g - now \<le> 0 then (Inr (), now)
      else case done of
        None \<Rightarrow> (Inr (), until g)
      | Some c \<Rightarrow> if c < until g then (Inl (PlainErr ''context canceled''), max now c) else (Inr (), until g))"

definition backoff :: "gate \<Rightarrow> int \<Rightarrow> int" where
  "backoff g retryAfter =
     (let d = (if retryAfter \<le> 0 then to_int64 (base_d g * 2 ^ min (consecutive g) 5) else retryAfter)
      in if d \<le> 0 \<or> d > max_d g then max_d g else d)"

definition Trip :: "gate \<Rightarrow> instant \<Rightarrow> int \<Rightarrow> int \<times> gate" where
  "Trip g now retryAfter =
     (let d = backoff g retryAfter
      in (d, g\<lparr>consecutive := Suc (consecutive g),
               until := (if now + d > until g then now + d else until g)\<rparr>))"

definition Reset :: "gate \<Rightarrow> gate" where
  "Reset g = g\<lparr>consecutive := 0\<rparr>"

text \<open>What callers do to a gate.\<close>

datatype gate_op = OpTrip instant int | OpReset

fun gate_step :: "gate \<Rightarrow> gate_op \<Rightarrow> gate" where
  "gate_step g (OpTrip now r) = snd (Trip g now r)"
| "gate_step g OpReset = Reset g"

lemma backoff_bounds: "0 < max_d g \<Longrightarrow> 0 < backoff g r \<and> backoff g r \<le> max_d g"
  by (auto simp: backoff_def Let_def)

lemma backoff_schedule:
  assumes "0 < base_d g" and "base_d g < 2 ^ 58" and "r \<le> 0"
  shows "backoff g r = min (max_d g) (base_d g * 2 ^ min (consecutive g) 5) \<or> max_d g \<le> 0"
proof -
  let ?d = "base_d g * 2 ^ min (consecutive g) 5"
  have "(2::int) ^ min (consecutive g) 5 \<le> 2 ^ 5" by (intro power_increasing) simp_all
  then have p: "(2::int) ^ min (consecutive g) 5 \<le> 32" by simp
  have "?d \<le> base_d g * 32" using assms(1) p by (intro mult_left_mono) simp_all
  then have "?d < 2 ^ 63" using assms(2) by simp
  moreover have pos: "0 < ?d" using assms(1) by simp
  ultimately have "to_int64 ?d = ?d" by (intro to_int64_id) simp_all
  then show ?thesis using assms(3) pos by (auto simp: backoff_def Let_def min_def)
qed

lemma gate_step_until: "until g \<le> until (gate_step g op)"
  by (cases op) (simp_all add: Trip_def Reset_def Let_def)

lemma gate_steps_until: "until g \<le> until (foldl gate_step g ops)"
proof (induction ops arbitrary: g)
  case (Cons op ops)
  have "until (gate_step g op) \<le> until (foldl gate_step (gate_step g op) ops)" by (rule Cons)
  with gate_step_until [of g op] show ?case by simp
qed simp

lemma gate_step_max: "max_d (gate_step g op) = max_d g \<and> base_d (gate_step g op) = base_d g"
  by (cases op) (simp_all add: Trip_def Reset_def Let_def)

lemma gate_steps_max: "max_d (foldl gate_step g ops) = max_d g"
  by (induction ops arbitrary: g) (simp_all add: gate_step_max)

text \<open>A gate never closes further than \<open>max\<close> beyond the latest trip.\<close>

lemma gate_step_horizon:
  "until g \<le> t + max_d g \<Longrightarrow> 0 < max_d g \<Longrightarrow> (case op of OpTrip now r \<Rightarrow> now \<le> t | OpReset \<Rightarrow> True) \<Longrightarrow>
    until (gate_step g op) \<le> t + max_d g"
  using backoff_bounds [of g] by (cases op) (auto simp: Trip_def Reset_def Let_def intro: add_mono)

end
