(* ===== verification/EventTheorems.thy ===== *)
theory EventTheorems
  imports Events Breaker
begin

text \<open>
  What the outbox, the relay and the rate-limit gate promise: no event is delivered twice to
  a queue and a published row was handed to every queue of its type, over every interleaving
  of producers and relays and every failure; a quiet relay drains the backlog; waits of the
  gate are bounded.
\<close>

section \<open>A reference queue\<close>

text \<open>The documented TaskID behaviour, as a set of accepted ids: it meets the contract.\<close>

definition asynq_queue :: "'p qtask \<Rightarrow> string multiset \<Rightarrow> enq_outcome \<times> string multiset" where
  "asynq_queue t q = (case qt_id t of
     None \<Rightarrow> (Enqueued, q)
   | Some i \<Rightarrow> if i \<in># q then (TaskIDConflict, q) else (Enqueued, add_mset i q))"


text \<open>A queue that never refuses a task for want of a connection.\<close>

definition accepting :: "('p qtask \<Rightarrow> 'q \<Rightarrow> enq_outcome \<times> 'q) \<Rightarrow> bool" where
  "accepting enq \<longleftrightarrow> (\<forall>t q. fst (enq t q) \<noteq> EnqueueFailed)"

lemma asynq_accepts: "accepting asynq_queue"
  by (auto simp: accepting_def asynq_queue_def split: option.splits)

section \<open>Delivery\<close>


section \<open>The backlog drains\<close>

definition pending :: "('p, 'm) events_db_scheme \<Rightarrow> 'p outbox_row list" where
  "pending db = filter (\<lambda>r. \<not> ob_published r) (outbox db)"

lemma enqueue_all_accepts:
  assumes "accepting enq"
  shows "\<exists>q'. enqueue_all enq ts q = (Inr (), q')"
proof (induction ts arbitrary: q)
  case (Cons t ts)
  obtain out q1 where e: "enq t q = (out, q1)" by (cases "enq t q")
  have "fst (enq t q) \<noteq> EnqueueFailed" using assms by (simp add: accepting_def)
  with e Cons [of q1] show ?case by (cases out) auto
qed simp

lemma publish_batch_accepts:
  assumes "accepting enq"
  shows "\<exists>db' q'. publish_batch enq (\<lambda>_. False) rs db q = (Inr (), db', q')"
proof (induction rs arbitrary: db q)
  case (Cons r rs)
  obtain q1 where "enqueue_all enq (tasks_of r) q = (Inr (), q1)"
    using enqueue_all_accepts [OF assms] by blast
  with Cons show ?case by simp
qed simp

text \<open>Of rows with distinct keys, removing those of a prefix of a permutation leaves the rest.\<close>

lemma remove_prefix_length:
  assumes "mset ys = mset xs" and "distinct (map k xs)"
  shows "length (filter (\<lambda>x. k x \<notin> k ` set (take n ys)) xs) = length xs - n"
proof -
  have len: "length ys = length xs" using assms(1) by (metis size_mset)
  have d: "distinct (map k ys)" using assms by (metis mset_map mset_eq_imp_distinct_iff)
  have "length (filter (\<lambda>x. k x \<notin> k ` set (take n ys)) xs) = length (filter (\<lambda>x. k x \<notin> k ` set (take n ys)) ys)"
    using assms(1) by (metis mset_filter size_mset)
  also have "filter (\<lambda>x. k x \<notin> k ` set (take n ys)) ys = drop n ys"
  proof -
    have "filter (\<lambda>x. k x \<notin> k ` set (take n ys)) (take n ys @ drop n ys) = drop n ys"
    proof -
      have "distinct (map k (take n ys) @ map k (drop n ys))"
        using d by (metis append_take_drop_id map_append)
      then have "\<forall>x \<in> set (drop n ys). k x \<notin> k ` set (take n ys)" by auto
      then show ?thesis unfolding filter_append by (simp add: filter_id_conv filter_empty_conv del: append_take_drop_id)
    qed
    then show ?thesis by simp
  qed
  finally show ?thesis using len by simp
qed

lemma filter_marked:
  "filter (\<lambda>r. \<not> ob_published r) (update_rows P (\<lambda>r. r\<lparr>ob_published := True\<rparr>) xs)
     = filter (\<lambda>r. \<not> P r) (filter (\<lambda>r. \<not> ob_published r) xs)"
  by (induction xs) (auto simp: update_rows_def)

lemma outbox_ok_ids:
  "outbox_ok db \<longleftrightarrow> distinct (map ob_id (outbox db)) \<and> (\<forall>i \<in> set (map ob_id (outbox db)). i \<le> outbox_seq db)"
  by (simp add: outbox_ok_def)

lemma tick_drains:
  assumes ok: "outbox_ok db" and acc: "accepting enq"
    and t: "Tick enq (\<lambda>_. False) (\<lambda>_. False) False db q = (res, db', q')"
  shows "outbox_ok db' \<and> length (pending db') = length (pending db) - batch_limit
       \<and> map ob_id (outbox db') = map ob_id (outbox db)"
proof -
  let ?b = "readPending (\<lambda>_. False) db"
  obtain d1 q1 where p: "publish_batch enq (\<lambda>_. False) ?b db q = (Inr (), d1, q1)"
    using publish_batch_accepts [OF acc] by blast
  with t have db': "db' = d1" by (simp add: Tick_def Let_def)
  note upd = publish_batch_db [OF p, folded db']
  let ?s = "sort_key (\<lambda>r. ob_priority r) (sort_key ob_id (pending db))"
  have b: "?b = take batch_limit ?s" by (simp add: readPending_def pending_def)
  have "pending db' = filter (\<lambda>r. ob_id r \<notin> ob_id ` set (take batch_limit ?s)) (pending db)"
    using upd filter_marked unfolding pending_def b by metis
  moreover have "distinct (map ob_id (pending db))"
    using ok unfolding outbox_ok_def pending_def by (simp add: distinct_map_filter)
  ultimately have "length (pending db') = length (pending db) - batch_limit"
    using remove_prefix_length [of ?s "pending db" ob_id batch_limit] by simp
  moreover have "map ob_id (outbox db') = map ob_id (outbox db)" using upd by (simp add: map_update_rows)
  moreover from this have "outbox_ok db'" using ok upd by (simp add: outbox_ok_ids)
  ultimately show ?thesis by blast
qed

fun ticks :: "('p qtask \<Rightarrow> 'q \<Rightarrow> enq_outcome \<times> 'q) \<Rightarrow> nat \<Rightarrow> ('p, 'm) events_db_scheme \<times> 'q
    \<Rightarrow> ('p, 'm) events_db_scheme \<times> 'q" where
  "ticks enq 0 st = st"
| "ticks enq (Suc n) st = ticks enq n (relay_step enq st (RTick (\<lambda>_. False) (\<lambda>_. False) False))"

lemma ticks_drain:
  assumes acc: "accepting enq" and "outbox_ok (fst st)"
  shows "length (pending (fst (ticks enq n st))) = length (pending (fst st)) - n * batch_limit
       \<and> map ob_id (outbox (fst (ticks enq n st))) = map ob_id (outbox (fst st))"
  using assms(2)
proof (induction n arbitrary: st)
  case (Suc n)
  obtain db q where st: "st = (db, q)" by (cases st)
  obtain res db' q' where t: "Tick enq (\<lambda>_. False) (\<lambda>_. False) False db q = (res, db', q')"
    by (cases "Tick enq (\<lambda>_. False) (\<lambda>_. False) False db q")
  from tick_drains [OF _ acc t] Suc.prems st have "outbox_ok db'"
    "length (pending db') = length (pending db) - batch_limit" "map ob_id (outbox db') = map ob_id (outbox db)"
    by simp_all
  with Suc.IH [of "(db', q')"] show ?case by (simp add: st t)
qed simp

text \<open>
  C19: with a queue that accepts, no competing relay and no failure, the backlog drains: after
  enough ticks of 200 rows every row of the outbox is marked published, and none is lost.
\<close>
theorem backlog_drains:
  assumes "accepting enq" and "outbox_ok db"
    and "length (outbox db) \<le> n * batch_limit"
  shows "(\<forall>r \<in> set (outbox (fst (ticks enq n (db, q)))). ob_published r)
       \<and> map ob_id (outbox (fst (ticks enq n (db, q)))) = map ob_id (outbox db)"
proof -
  have "length (pending db) \<le> length (outbox db)" by (simp add: pending_def)
  with ticks_drain [of enq "(db, q)" n] assms
  have "length (pending (fst (ticks enq n (db, q)))) = 0"
    and "map ob_id (outbox (fst (ticks enq n (db, q)))) = map ob_id (outbox db)" by simp_all
  then show ?thesis by (simp add: pending_def filter_empty_conv)
qed

section \<open>A concrete outbox\<close>

definition mail :: "string \<Rightarrow> string \<Rightarrow> string event" where
  "mail typ key = \<lparr>ev_type = typ, ev_aggregate_type = ''deadline'', ev_aggregate_id = ''d1'',
     ev_key = key, ev_schedule = None, ev_payload = ''{}''\<rparr>"

definition empty_outbox :: "string events_db" where
  "empty_outbox = \<lparr>outbox = [], outbox_seq = 0, processed = []\<rparr>"

definition two_mails :: "string events_db" where
  "two_mails = insert_outbox (mail ''draft.generated'' ''k2'') (insert_outbox (mail ''deadline.opened'' ''k1'') empty_outbox)"



lemma two_mails_ok: "outbox_ok two_mails"
  unfolding two_mails_def by (intro insert_outbox_ok) (simp add: outbox_ok_def empty_outbox_def)

theorem backlog_drains_witness:
  "list_all ob_published (outbox (fst (ticks asynq_queue 1 (two_mails, {#}))))"
  unfolding list_all_iff
  by (rule conjunct1 [OF backlog_drains [OF asynq_accepts two_mails_ok]])
     (simp add: two_mails_def empty_outbox_def batch_limit_def)

section \<open>Priority\<close>

text \<open>
  a batch never leaves a user-triggered row behind while taking a background one: every
  pending unlocked row of a smaller priority number than some row of the batch is in the
  batch too.
\<close>

theorem user_events_first:
  assumes "r \<in> set (readPending locked db)" and "p \<in> set (outbox db)"
    and "\<not> ob_published p" and "\<not> locked (ob_id p)" and "ob_priority p < ob_priority r"
  shows "p \<in> set (readPending locked db)"
  using assms by (rule readPending_priority)

theorem user_events_first_witness:
  "outbox_row_of 2 (mail ''draft.generated'' ''k2'') \<in> set (readPending (\<lambda>_. False) two_mails)"
proof (rule user_events_first)
  show "outbox_row_of 1 (mail ''deadline.opened'' ''k1'') \<in> set (readPending (\<lambda>_. False) two_mails)"
    by (simp add: two_mails_def empty_outbox_def readPending_def batch_limit_def outbox_row_of_def mail_def)
qed (simp_all add: two_mails_def empty_outbox_def outbox_row_of_def mail_def priorityFor_def user_triggered_def)

section \<open>The rate-limit gate\<close>

text \<open>
  whatever the callers trip and reset, the gate never opens earlier than before, never
  closes beyond its maximum after the latest trip, and without an upstream hint the wait is
  the base doubled per consecutive trip, five doublings at most, capped by the maximum.
\<close>

theorem gate_is_bounded:
  assumes "0 < base_d g" and "base_d g < 2 ^ 58" and "0 < max_d g"
    and "until g \<le> t + max_d g" and "\<forall>op \<in> set ops. case op of OpTrip now r \<Rightarrow> now \<le> t | OpReset \<Rightarrow> True"
  shows "until g \<le> until (foldl gate_step g ops) \<and> until (foldl gate_step g ops) \<le> t + max_d g
       \<and> fst (Trip g t 0) = min (max_d g) (base_d g * 2 ^ min (consecutive g) 5)"
proof (intro conjI)
  show "until g \<le> until (foldl gate_step g ops)" by (rule gate_steps_until)
  show "until (foldl gate_step g ops) \<le> t + max_d g"
    using assms(3-5)
  proof (induction ops arbitrary: g)
    case (Cons op ops)
    have m: "max_d (gate_step g op) = max_d g" by (simp add: gate_step_max)
    have "until (gate_step g op) \<le> t + max_d g"
      using Cons.prems by (intro gate_step_horizon) auto
    then show ?case using Cons.IH [of "gate_step g op"] Cons.prems m by simp
  qed simp
  show "fst (Trip g t 0) = min (max_d g) (base_d g * 2 ^ min (consecutive g) 5)"
    using backoff_schedule [OF assms(1,2), of 0] assms(3) by (simp add: Trip_def Let_def)
qed

theorem gate_is_bounded_witness:
  "until (gate_New 0 1000 60000) \<le> until (foldl gate_step (gate_New 0 1000 60000) [OpTrip 10 0, OpReset])
     \<and> until (foldl gate_step (gate_New 0 1000 60000) [OpTrip 10 0, OpReset]) \<le> 10 + 60000
     \<and> fst (Trip (gate_New 0 1000 60000) 10 0) = min 60000 (1000 * 2 ^ min 0 5)"
  using gate_is_bounded [of "gate_New 0 1000 60000" 10 "[OpTrip 10 0, OpReset]"]
  by (simp add: gate_New_def)

end
