(* ===== verification/DeadlineEntity.thy ===== *)
theory DeadlineEntity
  imports CalendarStore DateText
begin

text \<open>
  \<open>internal/deadline\<close>, the aggregate: the value types of \<open>entity.go\<close>, the sentinels of
  \<open>errors.go\<close>, the domain invariant of \<open>validation.go\<close> and the pure decision functions of
  \<open>domain.go\<close> and \<open>confirm.go\<close>. Dates of the slice are civil dates (midnight UTC, the form
  \<open>parseWireDate\<close> and the \<open>date\<close> columns give them); timestamps are instants. A nullable
  text column whose NULL the mapper reads as the empty string is a string.
\<close>

section \<open>Value types (entity.go)\<close>

text \<open>
  A Go string type with a closed set of constants is a datatype; where the code can meet a
  value outside the set, the last constructor holds it.
\<close>

datatype counting = CountingBusiness | CountingCalendar | CountingOther string

datatype status =
    StatusPending | StatusOpen | StatusMet | StatusMissed | StatusCancelled
  | StatusNoDeadline | StatusResolvedOnConclusion

datatype anchor = AnchorMadeAvailable | AnchorPublished | AnchorDeadlineStart | AnchorOther string

datatype source = SourceRule | SourceAI | SourceManual

datatype origem =
    OrigemDeclarado | OrigemValidado | OrigemCalculado | OrigemDivergente | OrigemIA | OrigemManual

datatype seal = SealConfiavel | SealAApurar

record deadline =
  d_ID :: string
  d_TenantID :: string
  d_CourtRecordID :: string
  d_IntimationID :: string
  d_Kind :: string
  d_Days :: int
  d_Counting :: counting
  d_Doubled :: bool
  d_DoubledReason :: string
  d_HolidaysApplied :: "day list"
  d_StartDate :: day
  d_EndDate :: day
  d_PrazoInterno :: day
  d_Status :: status
  d_Source :: source
  d_RulesVersion :: string
  d_AnchorEvent :: anchor
  d_LegalCitation :: string
  d_Origem :: origem
  d_Seal :: seal
  d_ConfirmacaoExigida :: bool
  d_ConfirmedBy :: "string option"
  d_ConfirmedAt :: "instant option"

text \<open>The row of the \<open>deadline\<close> table: the aggregate and the panel's extra days.\<close>

record deadline_row = deadline +
  d_ManualExtraDays :: int

text \<open>The classifier's confidence, a \<open>float64\<close> the slice only copies, is kept as its text.\<close>

record calc_memory =
  cm_ID :: string
  cm_TenantID :: string
  cm_DeadlineID :: string
  cm_PrazoBase :: string
  cm_PrazoBaseFonte :: string
  cm_TermoInicialRegra :: string
  cm_DiasUteis :: bool
  cm_IATipoInferido :: string
  cm_IAConfianca :: string
  cm_CalendarProviderVersion :: string

record applied_holiday =
  ah_ID :: string
  ah_TenantID :: string
  ah_CalcMemoryID :: string
  ah_Data :: day
  ah_Nome :: string
  ah_Ambito :: string

record cross_validation =
  cv_ID :: string
  cv_TenantID :: string
  cv_DeadlineID :: string
  cv_DataDeclarada :: day
  cv_DataCalculada :: day
  cv_DifDias :: int
  cv_Resultado :: string
  cv_CausaProvavel :: string
  cv_Decisao :: string
  cv_DecididoPor :: string

record deadline_event =
  de_TenantID :: string
  de_DeadlineID :: string
  de_Tipo :: string
  de_Detalhe :: string
  de_AtorID :: string
  de_Em :: instant

record deadline_policy =
  dp_TenantID :: string
  dp_ConfirmacaoObrigatoria :: bool

record deadline_rule =
  dr_RulesVersion :: string
  dr_Kind :: string
  dr_Days :: int
  dr_Counting :: counting
  dr_Doubled :: bool
  dr_LegalCitation :: string

text \<open>The columns of \<open>deadline_rule\<close> the resolution reads besides; NULL prefix is \<open>None\<close>.\<close>

record rule_row = deadline_rule +
  rr_IntimationType :: string
  rr_CourtPrefix :: "string option"
  rr_Priority :: int
  rr_Active :: bool

record intimation_anchors =
  MadeAvailableAt :: day
  PublishedAt :: day
  DeadlineStartAt :: day

datatype task_status = TaskStatusOpen | TaskStatusDone | TaskStatusDismissed

record task =
  t_ID :: string
  t_TenantID :: string
  t_CourtRecordID :: string
  t_DeadlineID :: string
  t_IntimationID :: string
  t_Title :: string
  t_Description :: string
  t_Kind :: string
  t_DueDate :: "day option"
  t_Status :: task_status
  t_Source :: source
  t_Priority :: string
  t_AssigneeUserID :: string
  t_CreatedBy :: string
  t_CompletedAt :: "instant option"
  t_ActionItemID :: string

record task_item =
  ti_ID :: string
  ti_TenantID :: string
  ti_TaskID :: string
  ti_Title :: string
  ti_Position :: int
  ti_Done :: bool
  ti_DoneAt :: "instant option"

record task_comment =
  tc_ID :: string
  tc_TenantID :: string
  tc_TaskID :: string
  tc_AuthorUserID :: string
  tc_Body :: string

datatype activity_type =
    ActivityTaskCreated | ActivityTitleChanged | ActivityDescriptionChanged | ActivityKindChanged
  | ActivityPriorityChanged | ActivityDueDateChanged | ActivityAssigneeChanged
  | ActivityTaskDone | ActivityTaskDismissed | ActivityCommented

record task_activity =
  ta_TenantID :: string
  ta_TaskID :: string
  ta_ActorUserID :: string
  ta_EventType :: activity_type
  ta_FromValue :: string
  ta_ToValue :: string

datatype display_status = DisplayAberta | DisplayEmExecucao | DisplayConcluida | DisplayAtrasada | DisplayNone

section \<open>Sentinels (errors.go)\<close>

definition ErrCourtRecordNotFound :: err where
  "ErrCourtRecordNotFound = NewNotFound ''court record not found''"

definition ErrRuleNotFound :: err where
  "ErrRuleNotFound = NewNotFound ''deadline rule not found''"

definition ErrDeadlineExists :: err where
  "ErrDeadlineExists = NewConflict ''deadline already exists for intimation''"

definition ErrDeadlineNotFound :: err where
  "ErrDeadlineNotFound = NewNotFound ''deadline not found''"

definition ErrDeadlineNotAdjustable :: err where
  "ErrDeadlineNotAdjustable =
     NewConflict ''deadline is not adjustable: only a PENDING or OPEN prazo can be adjusted''"

definition ErrDeadlineNotOpen :: err where
  "ErrDeadlineNotOpen = NewConflict ''deadline transition requires an OPEN prazo''"

definition ErrDeadlineNotReopenable :: err where
  "ErrDeadlineNotReopenable = NewConflict ''deadline reopen requires a NO_DEADLINE prazo''"

definition ErrTaskNotFound :: err where
  "ErrTaskNotFound = NewNotFound ''task not found''"

definition ErrTaskNotOpen :: err where
  "ErrTaskNotOpen = NewConflict ''task transition requires an OPEN task''"

definition ErrIntimationNotFound :: err where
  "ErrIntimationNotFound = NewNotFound ''intimation not found''"

definition ErrTaskItemNotFound :: err where
  "ErrTaskItemNotFound = NewNotFound ''task item not found''"

definition ErrActionItemNotFound :: err where
  "ErrActionItemNotFound = NewNotFound ''action item not found''"

definition ErrTaskExistsForActionItem :: err where
  "ErrTaskExistsForActionItem = NewConflict ''task already exists for action item''"

definition ErrCalcMemoryExists :: err where
  "ErrCalcMemoryExists = NewConflict ''calc memory already exists for deadline''"

definition ErrCrossValidationExists :: err where
  "ErrCrossValidationExists = NewConflict ''cross validation already exists for deadline''"

definition ErrCrossValidationNotFound :: err where
  "ErrCrossValidationNotFound = NewNotFound ''cross validation not found for deadline''"

definition ErrDeadlineNotApuravel :: err where
  "ErrDeadlineNotApuravel =
     NewConflict ''deadline is not apuravel: only a non-terminal prazo can be apurado''"

definition ErrClassifierUnavailable :: err where
  "ErrClassifierUnavailable = NewUnavailable ''type classifier unavailable: no LLM generator configured''"

definition ErrDeadlineNotDivergent :: err where
  "ErrDeadlineNotDivergent =
     NewConflict
       (''deadline has no pending diverg'' @ [CHR 0xC3, CHR 0xAA] @ ''ncia or tipo to apurar'')"

lemmas err_defs =
  ErrCourtRecordNotFound_def ErrRuleNotFound_def ErrDeadlineExists_def ErrDeadlineNotFound_def
  ErrDeadlineNotAdjustable_def ErrDeadlineNotOpen_def ErrDeadlineNotReopenable_def
  ErrTaskNotFound_def ErrTaskNotOpen_def ErrIntimationNotFound_def ErrTaskItemNotFound_def
  ErrActionItemNotFound_def ErrTaskExistsForActionItem_def ErrCalcMemoryExists_def
  ErrCrossValidationExists_def ErrCrossValidationNotFound_def ErrDeadlineNotApuravel_def
  ErrClassifierUnavailable_def ErrDeadlineNotDivergent_def
  NewNotFound_def NewConflict_def NewUnavailable_def NewInvalid_def NewInfra_def WrapInfra_def

section \<open>Closed sets and the domain invariant\<close>

definition validAnchorEvent :: "anchor \<Rightarrow> bool" where
  "validAnchorEvent a = (case a of AnchorOther _ \<Rightarrow> False | _ \<Rightarrow> True)"

definition startFor :: "intimation_anchors \<Rightarrow> anchor \<Rightarrow> day" where
  "startFor a anc = (case anc of
     AnchorMadeAvailable \<Rightarrow> MadeAvailableAt a
   | AnchorPublished \<Rightarrow> PublishedAt a
   | _ \<Rightarrow> DeadlineStartAt a)"

definition validTaskKind :: "string \<Rightarrow> bool" where
  "validTaskKind k \<longleftrightarrow> k = '''' \<or>
     k \<in> {''ANALISE'', ''PECA'', ''PROTOCOLO'', ''PROVIDENCIA'', ''CIENCIA''}"

definition validTaskPriority :: "string \<Rightarrow> bool" where
  "validTaskPriority p \<longleftrightarrow> p = '''' \<or> p \<in> {''HIGH'', ''MEDIUM'', ''LOW''}"

text \<open>
  \<open>deriveDisplayStatus\<close>; the process runs in UTC, so the day of \<open>now\<close> is its UTC day. Only
  the first component of the progress is read.
\<close>

definition deriveDisplayStatus :: "task_status \<Rightarrow> int \<times> int \<Rightarrow> day option \<Rightarrow> instant \<Rightarrow> display_status" where
  "deriveDisplayStatus st progress dueDate now = (case st of
     TaskStatusDone \<Rightarrow> DisplayConcluida
   | TaskStatusOpen \<Rightarrow>
       if (case dueDate of None \<Rightarrow> False | Some d \<Rightarrow> d < day_of now) then DisplayAtrasada
       else if fst progress > 0 then DisplayEmExecucao
       else DisplayAberta
   | TaskStatusDismissed \<Rightarrow> DisplayNone)"

fun counting_text :: "counting \<Rightarrow> string" where
  "counting_text CountingBusiness = ''BUSINESS''"
| "counting_text CountingCalendar = ''CALENDAR''"
| "counting_text (CountingOther s) = s"

definition validate :: "deadline \<Rightarrow> err + unit" where
  "validate d =
     (if d_Days d \<le> 0 then Inl (NewInvalid (''deadline days must be > 0, got '' @ itoa (d_Days d)))
      else if d_Counting d \<noteq> CountingBusiness \<and> d_Counting d \<noteq> CountingCalendar
        then Inl (NewInvalid (''invalid deadline counting '' @ counting_text (d_Counting d)))
      else if \<not> d_StartDate d < d_EndDate d
        then Inl (NewInvalid ''deadline end date must be after start date'')
      else Inr ())"

section \<open>Decision functions (domain.go)\<close>

definition responseTPUCodes :: "int list" where
  "responseTPUCodes = [85, 118, 383, 433, 235]"

definition rulesVersion :: string where
  "rulesVersion = ''v0''"

definition internalBufferBusinessDays :: int where
  "internalBufferBusinessDays = 2"

definition reminderDaysLeft :: "int list" where
  "reminderDaysLeft = [3, 1, 0]"

definition isLaborRite :: "string \<Rightarrow> string \<Rightarrow> bool" where
  "isLaborRite court cls =
     (let c = ToUpper (TrimSpace court) in
      if HasPrefix c ''TRT'' \<or> c = ''TST'' then True
      else Contains (ToUpper cls) ''TRABALH'')"

definition decideCounting :: "counting \<Rightarrow> string \<Rightarrow> string \<Rightarrow> counting" where
  "decideCounting suggested court cls =
     (if isLaborRite court cls then CountingCalendar else suggested)"

definition deriveOrigem :: "bool \<Rightarrow> bool \<Rightarrow> origem" where
  "deriveOrigem hasDeclarado usedIA =
     (if hasDeclarado then OrigemDeclarado else if usedIA then OrigemIA else OrigemCalculado)"

definition deriveSeal :: "origem \<Rightarrow> bool \<Rightarrow> seal" where
  "deriveSeal orig divergent =
     (if divergent \<or> orig = OrigemIA then SealAApurar else SealConfiavel)"

definition deriveConfirmacaoExigida :: "seal \<Rightarrow> bool \<Rightarrow> bool" where
  "deriveConfirmacaoExigida sl policyObrigatoria =
     (if sl = SealAApurar then True else policyObrigatoria)"

text \<open>
  The regular expression \<open>^\s*(\d+)\<close> and \<open>strconv.Atoi\<close> on its group: leading spaces of
  RE2's class, then digits; a number outside \<open>int64\<close> does not parse.
\<close>

definition re_space :: "char \<Rightarrow> bool" where
  "re_space c \<longleftrightarrow> of_char c \<in> {9, 10, 12, 13, 32 :: nat}"

definition parseDeclaradoDays :: "string \<Rightarrow> int option" where
  "parseDeclaradoDays s =
     (let ds = takeWhile is_digit (dropWhile re_space s);
          n = foldl (\<lambda>acc c. 10 * acc + int (digit_val c)) 0 ds
      in if ds = [] then None else if n < 2 ^ 63 then Some n else None)"

definition crossValidationConvergente :: string where
  "crossValidationConvergente = ''convergente''"

definition crossValidationDivergente :: string where
  "crossValidationDivergente = ''divergente''"

text \<open>
  \<open>int(a.Sub(b).Hours() / 24)\<close> on civil dates: the difference in days, cut off where a
  64-bit duration in nanoseconds saturates.
\<close>

definition sub_days :: "day \<Rightarrow> day \<Rightarrow> int" where
  "sub_days a b = max (- 106751) (min 106751 (a - b))"

definition causaProvavelDivergencia :: "day list \<Rightarrow> int \<Rightarrow> string" where
  "causaProvavelDivergencia holidays difDias =
     (if 0 < length holidays
      then itoa (int (length holidays)) @ '' feriado(s) aplicado(s) no c'' @ [CHR 0xC3, CHR 0xA1]
             @ ''lculo podem explicar a diferen'' @ [CHR 0xC3, CHR 0xA7] @ ''a de '' @ itoa difDias @ '' dia(s)''
      else ''declarado e calculado divergem em '' @ itoa difDias
             @ '' dia(s), sem feriados aplicados no intervalo'')"

definition buildCrossValidation :: "string \<Rightarrow> day \<Rightarrow> day \<Rightarrow> day list \<Rightarrow> cross_validation" where
  "buildCrossValidation tenantID declared calculated holidays =
     (let difDias = sub_days calculated declared;
          differ = declared \<noteq> calculated
      in \<lparr>cv_ID = '''', cv_TenantID = tenantID, cv_DeadlineID = '''',
          cv_DataDeclarada = declared, cv_DataCalculada = calculated, cv_DifDias = difDias,
          cv_Resultado = (if differ then crossValidationDivergente else crossValidationConvergente),
          cv_CausaProvavel = (if differ then causaProvavelDivergencia holidays difDias else ''''),
          cv_Decisao = '''', cv_DecididoPor = ''''\<rparr>)"

definition compute :: "businessCalendar \<Rightarrow> counting \<Rightarrow> day \<Rightarrow> int \<Rightarrow> string \<Rightarrow> string \<Rightarrow> err + (day \<times> day list)" where
  "compute cal c start n uf court =
     (if c = CountingCalendar then addCalendar cal start n uf court
      else addBusiness cal start n uf court)"

text \<open>\<open>days * 2\<close> and the sum below are 64-bit operations.\<close>

definition effectiveDays :: "int \<Rightarrow> bool \<Rightarrow> int" where
  "effectiveDays days doubled = (if doubled then to_int64 (days * 2) else days)"

definition computeWithExtra :: "businessCalendar \<Rightarrow> counting \<Rightarrow> day \<Rightarrow> int \<Rightarrow> bool \<Rightarrow> int \<Rightarrow> string \<Rightarrow> string
    \<Rightarrow> err + (day \<times> day list)" where
  "computeWithExtra cal c start days doubled manualExtraDays uf court =
     compute cal c start (to_int64 (effectiveDays days doubled + manualExtraDays)) uf court"

definition parseWireDate :: "string \<Rightarrow> err + day" where
  "parseWireDate s = (case parseDateOnly s of
     None \<Rightarrow> Inl (NewInvalid (''invalid deadline_start_at '' @ s))
   | Some d \<Rightarrow> Inr d)"

definition parseOptionalWireDate :: "string \<Rightarrow> day option" where
  "parseOptionalWireDate s = (if s = '''' then None else parseDateOnly s)"

definition ambitoLabel :: "string \<Rightarrow> string" where
  "ambitoLabel scope =
     (if scope = ScopeState then ''estadual'' else if scope = ScopeCourt then ''tribunal'' else ''nacional'')"

definition anchorEventLabel :: "anchor \<Rightarrow> string" where
  "anchorEventLabel a = (case a of
     AnchorMadeAvailable \<Rightarrow>
         ''Disponibiliza'' @ [CHR 0xC3, CHR 0xA7, CHR 0xC3, CHR 0xA3] @ ''o no DJEN ''
         @ [CHR 0xE2, CHR 0x80, CHR 0x94] @ '' data bruta do ato, sem ajuste para dia ''
         @ [CHR 0xC3, CHR 0xBA] @ ''til (art. 224, '' @ [CHR 0xC2, CHR 0xA7] @ ''2''
         @ [CHR 0xC2, CHR 0xBA] @ '', CPC).''
   | AnchorPublished \<Rightarrow>
         ''Publica'' @ [CHR 0xC3, CHR 0xA7, CHR 0xC3, CHR 0xA3] @ ''o no DJEN ''
         @ [CHR 0xE2, CHR 0x80, CHR 0x94] @ '' 1'' @ [CHR 0xC2, CHR 0xBA] @ '' dia ''
         @ [CHR 0xC3, CHR 0xBA] @ ''til seguinte '' @ [CHR 0xC3, CHR 0xA0] @ '' disponibiliza''
         @ [CHR 0xC3, CHR 0xA7, CHR 0xC3, CHR 0xA3] @ ''o (art. 224, '' @ [CHR 0xC2, CHR 0xA7]
         @ ''3'' @ [CHR 0xC2, CHR 0xBA] @ '', CPC).''
   | _ \<Rightarrow>
         ''Publica'' @ [CHR 0xC3, CHR 0xA7, CHR 0xC3, CHR 0xA3] @ ''o no DJEN ''
         @ [CHR 0xE2, CHR 0x86, CHR 0x92] @ '' contagem inicia no 1'' @ [CHR 0xC2, CHR 0xBA]
         @ '' dia '' @ [CHR 0xC3, CHR 0xBA] @ ''til seguinte (art. 224, '' @ [CHR 0xC2, CHR 0xA7]
         @ ''3'' @ [CHR 0xC2, CHR 0xBA] @ '' '' @ [CHR 0xC2, CHR 0xB7] @ '' 231, CPC).'')"

definition countingLabel :: "counting \<Rightarrow> string" where
  "countingLabel c =
     (if c = CountingCalendar then ''dias corridos'' else ''dias '' @ [CHR 0xC3, CHR 0xBA] @ ''teis'')"

definition prazoBaseFonteLabel :: "string \<Rightarrow> string" where
  "prazoBaseFonteLabel legalCitation =
     (if legalCitation = '''' then ''Tabela legal''
      else legalCitation @ '' '' @ [CHR 0xC2, CHR 0xB7] @ '' Tabela legal'')"

definition defaultAnchor :: "anchor \<Rightarrow> anchor" where
  "defaultAnchor a = (if a = AnchorOther '''' then AnchorDeadlineStart else a)"

section \<open>Suggestion feedback (feedback.go)\<close>

record suggested_task =
  st_Title :: string
  st_Kind :: string
  st_Description :: string

record suggestion_record =
  sr_IntimationID :: string
  sr_PromptVersion :: string
  sr_Model :: string
  sr_Tasks :: "suggested_task list"

record suggestion_delta =
  sd_PromptVersion :: string
  sd_Model :: string
  sd_SuggestedCount :: int
  sd_ConfirmedCount :: int
  sd_Kept :: "string list"
  sd_Removed :: "string list"
  sd_Added :: "string list"

definition normalizeTitle :: "string \<Rightarrow> string" where
  "normalizeTitle s = join_space (Fields (ToLower s))"

text \<open>
  One loop of the delta: titles whose normalized key was not met before and satisfies the
  test, in order; \<open>seen\<close> is the map of keys met.
\<close>

fun first_titles :: "(string \<Rightarrow> bool) \<Rightarrow> string set \<Rightarrow> string list \<Rightarrow> string list" where
  "first_titles keep seen [] = []"
| "first_titles keep seen (t # ts) =
     (let key = normalizeTitle t in
      if key \<in> seen then first_titles keep seen ts
      else if keep key then t # first_titles keep (insert key seen) ts
      else first_titles keep (insert key seen) ts)"

definition computeSuggestionDelta :: "suggestion_record \<Rightarrow> string list \<Rightarrow> suggestion_delta" where
  "computeSuggestionDelta r confirmedTitles =
     (let confirmedKeys = set (map normalizeTitle confirmedTitles);
          suggested = map st_Title (sr_Tasks r);
          suggestedKeys = set (map normalizeTitle suggested)
      in \<lparr>sd_PromptVersion = sr_PromptVersion r, sd_Model = sr_Model r,
          sd_SuggestedCount = int (length (sr_Tasks r)),
          sd_ConfirmedCount = int (length confirmedTitles),
          sd_Kept = first_titles (\<lambda>k. k \<in> confirmedKeys) {} suggested,
          sd_Removed = first_titles (\<lambda>k. k \<notin> confirmedKeys) {} suggested,
          sd_Added = first_titles (\<lambda>k. k \<notin> suggestedKeys) {} confirmedTitles\<rparr>)"

section \<open>Lemmas\<close>

lemma first_titles_keys:
  "normalizeTitle ` set (first_titles keep seen ts) = {k \<in> normalizeTitle ` set ts. keep k \<and> k \<notin> seen}"
  by (induction ts arbitrary: seen) (auto simp: Let_def)

lemma first_titles_subset: "set (first_titles keep seen ts) \<subseteq> set ts"
  by (induction ts arbitrary: seen) (auto simp: Let_def)

lemma first_titles_distinct: "distinct (map normalizeTitle (first_titles keep seen ts))"
proof (induction ts arbitrary: seen)
  case (Cons t ts)
  have "normalizeTitle t \<notin> set (map normalizeTitle (first_titles keep (insert (normalizeTitle t) seen) ts))"
    using first_titles_keys [of keep "insert (normalizeTitle t) seen" ts] by auto
  then show ?case using Cons by (simp add: Let_def)
qed simp

text \<open>The floor of the seal: an inferred or divergent prazo always asks for a human.\<close>

lemma seal_floor: "divergent \<or> orig = OrigemIA \<longleftrightarrow> deriveSeal orig divergent = SealAApurar"
  by (simp add: deriveSeal_def)

lemma confirmacao_iff:
  "deriveConfirmacaoExigida (deriveSeal orig divergent) strict \<longleftrightarrow> divergent \<or> orig = OrigemIA \<or> strict"
  by (simp add: deriveConfirmacaoExigida_def deriveSeal_def)

lemma validate_ok:
  "validate d = Inr u \<longleftrightarrow> 0 < d_Days d \<and> d_Counting d \<in> {CountingBusiness, CountingCalendar}
     \<and> d_StartDate d < d_EndDate d"
  by (auto simp: validate_def)

text \<open>Every motor of a lawful calendar moves a positive count strictly forward.\<close>

lemma compute_after:
  assumes "business_calendar cal" and "compute cal c s n uf court = Inr (e, hs)" and "0 < n"
  shows "s < e"
  using assms business_calendar.add_business_after business_calendar.add_calendar_after
  by (fastforce simp: compute_def split: if_splits)

lemma compute_inside:
  assumes "business_calendar cal" and "compute cal c s n uf court = Inr (e, hs)"
  shows "set hs \<subseteq> {s<..<e}"
  using assms business_calendar.audited_inside(1) business_calendar.audited_inside(2)
  by (fastforce simp: compute_def split: if_splits)

end
