(* ===== verification/DeadlineEvents.thy ===== *)
theory DeadlineEvents
  imports DeadlineEntity Events
begin

text \<open>
  \<open>internal/deadline/events.go\<close>: the events the slice produces and the payloads of those it
  consumes. The JSON body of an event is a value of \<open>payload\<close>, one constructor per struct,
  with the struct's fields in order (dates as the wire text). Constructors of immediate
  events take the fresh uuid v7 they are keyed by; the two scheduled self-messages have a
  stable key derived from the prazo.
\<close>

datatype payload =
    DeadlineOpened string string string string string counting
  | DeadlineRevoked string string string
  | DeadlineReminderCheck string string int
  | DeadlineMissedCheck string string
  | DeadlineDueSoon string string int
  | DeadlineMissed string string
  | DeadlineMet string string
  | DeadlineResolvedOnConclusion string string
  | DeadlineNoDeadline string string
  | DeadlineReopened string string
  | DeadlineUpdated string string string counting status
  | TaskCreated string string string string string string string
  | TaskUpdated string
  | TaskCompleted string
  | TaskDismissed string
  | SuggestionFeedback string string suggestion_delta
  | DeadlineCalculated string string string origem string
  | DeadlineSealAssigned string seal origem
  | DeadlineConfirmationRequired string string
  | DeadlineAssumed string string

text \<open>The consumed payloads: the fields the slice decodes, with the event id of \<open>Base\<close>.\<close>

record intimation_observed =
  io_EventID :: string
  io_TenantID :: string
  io_IntimationID :: string
  io_CourtRecordID :: string
  io_Type :: string
  io_Court :: string
  io_UF :: string
  io_DeadlineStartAt :: string
  io_PrazoDeclarado :: string

record intimation_cancelled =
  ic_EventID :: string
  ic_TenantID :: string
  ic_IntimationID :: string
  ic_Reason :: string

record record_event =
  re_EventID :: string
  re_TenantID :: string
  re_CourtRecordID :: string

record reminder_check =
  rc_EventID :: string
  rc_TenantID :: string
  rc_DeadlineID :: string
  rc_DaysLeft :: int

record missed_check =
  mc_EventID :: string
  mc_TenantID :: string
  mc_DeadlineID :: string

section \<open>Produced events\<close>

definition aggregateTypeDeadline :: string where
  "aggregateTypeDeadline = ''deadline''"

definition aggregateTypeTask :: string where
  "aggregateTypeTask = ''task''"

definition deadline_fact :: "string \<Rightarrow> string \<Rightarrow> string \<Rightarrow> payload \<Rightarrow> payload event" where
  "deadline_fact typ eid aggregate p =
     \<lparr>ev_type = typ, ev_aggregate_type = aggregateTypeDeadline, ev_aggregate_id = aggregate,
      ev_key = eid, ev_schedule = None, ev_payload = p\<rparr>"

definition task_fact :: "string \<Rightarrow> string \<Rightarrow> string \<Rightarrow> payload \<Rightarrow> payload event" where
  "task_fact typ eid aggregate p =
     \<lparr>ev_type = typ, ev_aggregate_type = aggregateTypeTask, ev_aggregate_id = aggregate,
      ev_key = eid, ev_schedule = None, ev_payload = p\<rparr>"

definition newDeadlineOpened :: "deadline \<Rightarrow> string \<Rightarrow> payload event" where
  "newDeadlineOpened d eid = deadline_fact ''deadline.opened'' eid (d_ID d)
     (DeadlineOpened (d_ID d) (d_CourtRecordID d) (d_IntimationID d) (d_Kind d)
        (fmtDateOnly (d_EndDate d)) (d_Counting d))"

definition newDeadlineRevoked :: "string \<Rightarrow> string \<Rightarrow> string \<Rightarrow> string \<Rightarrow> payload event" where
  "newDeadlineRevoked deadlineID intimationID reason eid =
     deadline_fact ''deadline.revoked'' eid deadlineID (DeadlineRevoked deadlineID intimationID reason)"

definition newDeadlineDueSoon :: "string \<Rightarrow> string \<Rightarrow> int \<Rightarrow> string \<Rightarrow> payload event" where
  "newDeadlineDueSoon tenantID deadlineID daysLeft eid =
     deadline_fact ''deadline.due_soon'' eid deadlineID (DeadlineDueSoon tenantID deadlineID daysLeft)"

definition newDeadlineMissed :: "string \<Rightarrow> string \<Rightarrow> string \<Rightarrow> payload event" where
  "newDeadlineMissed tenantID deadlineID eid =
     deadline_fact ''deadline.missed'' eid deadlineID (DeadlineMissed tenantID deadlineID)"

definition newDeadlineMet :: "string \<Rightarrow> string \<Rightarrow> string \<Rightarrow> payload event" where
  "newDeadlineMet tenantID deadlineID eid =
     deadline_fact ''deadline.met'' eid deadlineID (DeadlineMet tenantID deadlineID)"

definition newDeadlineResolvedOnConclusion :: "string \<Rightarrow> string \<Rightarrow> string \<Rightarrow> payload event" where
  "newDeadlineResolvedOnConclusion tenantID deadlineID eid =
     deadline_fact ''deadline.resolved_on_conclusion'' eid deadlineID
       (DeadlineResolvedOnConclusion tenantID deadlineID)"

definition newDeadlineNoDeadline :: "string \<Rightarrow> string \<Rightarrow> string \<Rightarrow> payload event" where
  "newDeadlineNoDeadline tenantID deadlineID eid =
     deadline_fact ''deadline.no_deadline'' eid deadlineID (DeadlineNoDeadline tenantID deadlineID)"

definition newDeadlineReopened :: "string \<Rightarrow> string \<Rightarrow> string \<Rightarrow> payload event" where
  "newDeadlineReopened tenantID deadlineID eid =
     deadline_fact ''deadline.reopened'' eid deadlineID (DeadlineReopened tenantID deadlineID)"

definition deadlineUpdatedEvent :: "string \<Rightarrow> string \<Rightarrow> day \<Rightarrow> counting \<Rightarrow> status \<Rightarrow> string \<Rightarrow> payload event" where
  "deadlineUpdatedEvent i kind endDate c st eid =
     deadline_fact ''deadline.updated'' eid i (DeadlineUpdated i kind (fmtDateOnly endDate) c st)"

definition newTaskCreatedFromTask :: "task \<Rightarrow> string \<Rightarrow> payload event" where
  "newTaskCreatedFromTask t eid = task_fact ''task.created'' eid (t_ID t)
     (TaskCreated (t_ID t) (t_TenantID t) (t_DeadlineID t) (t_CourtRecordID t)
        (case t_DueDate t of None \<Rightarrow> '''' | Some d \<Rightarrow> fmtDateOnly d)
        (t_AssigneeUserID t) (t_ActionItemID t))"

definition newTaskUpdated :: "string \<Rightarrow> string \<Rightarrow> payload event" where
  "newTaskUpdated taskID eid = task_fact ''task.updated'' eid taskID (TaskUpdated taskID)"

definition newTaskCompleted :: "string \<Rightarrow> string \<Rightarrow> payload event" where
  "newTaskCompleted taskID eid = task_fact ''task.completed'' eid taskID (TaskCompleted taskID)"

definition newTaskDismissed :: "string \<Rightarrow> string \<Rightarrow> payload event" where
  "newTaskDismissed taskID eid = task_fact ''task.dismissed'' eid taskID (TaskDismissed taskID)"

definition newSuggestionFeedback :: "string \<Rightarrow> string \<Rightarrow> suggestion_delta \<Rightarrow> string \<Rightarrow> payload event" where
  "newSuggestionFeedback deadlineID intimationID delta eid =
     deadline_fact ''deadline.suggestion_feedback'' eid deadlineID
       (SuggestionFeedback deadlineID intimationID delta)"

definition newDeadlineCalculated :: "deadline \<Rightarrow> string \<Rightarrow> payload event" where
  "newDeadlineCalculated d eid = deadline_fact ''deadline.calculated'' eid (d_ID d)
     (DeadlineCalculated (d_ID d) (d_CourtRecordID d) (d_IntimationID d) (d_Origem d)
        (fmtDateOnly (d_EndDate d)))"

definition newDeadlineSealAssigned :: "string \<Rightarrow> seal \<Rightarrow> origem \<Rightarrow> string \<Rightarrow> payload event" where
  "newDeadlineSealAssigned i sl orig eid =
     deadline_fact ''deadline.seal_assigned'' eid i (DeadlineSealAssigned i sl orig)"

definition newDeadlineConfirmationRequired :: "string \<Rightarrow> string \<Rightarrow> string \<Rightarrow> payload event" where
  "newDeadlineConfirmationRequired tenantID deadlineID eid =
     deadline_fact ''deadline.confirmation_required'' eid deadlineID
       (DeadlineConfirmationRequired tenantID deadlineID)"

definition newDeadlineAssumed :: "deadline \<Rightarrow> string \<Rightarrow> payload event" where
  "newDeadlineAssumed d eid = deadline_fact ''deadline.assumed'' eid (d_ID d)
     (DeadlineAssumed (d_ID d) (fmtDateOnly (d_EndDate d)))"

section \<open>Scheduled self-messages\<close>

definition reminder_key :: "string \<Rightarrow> int \<Rightarrow> string" where
  "reminder_key deadlineID daysLeft = ''deadline-reminder:'' @ deadlineID @ '':'' @ itoa daysLeft"

definition missed_key :: "string \<Rightarrow> string" where
  "missed_key deadlineID = ''deadline-missed:'' @ deadlineID"

definition newDeadlineReminderCheck :: "string \<Rightarrow> string \<Rightarrow> int \<Rightarrow> day \<Rightarrow> payload event" where
  "newDeadlineReminderCheck tenantID deadlineID daysLeft endDate =
     \<lparr>ev_type = ''deadline.reminder_check'', ev_aggregate_type = aggregateTypeDeadline,
      ev_aggregate_id = deadlineID, ev_key = reminder_key deadlineID daysLeft,
      ev_schedule = Some (midnight (endDate - daysLeft), True),
      ev_payload = DeadlineReminderCheck tenantID deadlineID daysLeft\<rparr>"

definition newDeadlineMissedCheck :: "string \<Rightarrow> string \<Rightarrow> day \<Rightarrow> payload event" where
  "newDeadlineMissedCheck tenantID deadlineID endDate =
     \<lparr>ev_type = ''deadline.missed_check'', ev_aggregate_type = aggregateTypeDeadline,
      ev_aggregate_id = deadlineID, ev_key = missed_key deadlineID,
      ev_schedule = Some (midnight (endDate + 1), True),
      ev_payload = DeadlineMissedCheck tenantID deadlineID\<rparr>"

text \<open>The instant of \<open>ProcessAt\<close>, for the two scheduled events.\<close>

definition process_at :: "payload event \<Rightarrow> instant" where
  "process_at ev = (case ev_schedule ev of None \<Rightarrow> zero_time | Some (t, _) \<Rightarrow> t)"

lemma process_at_marks [simp]:
  "process_at (newDeadlineReminderCheck tenant i n e) = midnight (e - n)"
  "process_at (newDeadlineMissedCheck tenant i e) = midnight (e + 1)"
  by (simp_all add: process_at_def newDeadlineReminderCheck_def newDeadlineMissedCheck_def)

text \<open>The scheduled checks are handled by the deadline queue, the alerts by notifications.\<close>

lemma check_routes:
  "queuesFor ''deadline.reminder_check'' = [''deadline'']"
  "queuesFor ''deadline.missed_check'' = [''deadline'']"
  "queuesFor ''deadline.due_soon'' = [''notifications'']"
  "queuesFor ''deadline.missed'' = [''notifications'']"
  by (simp_all add: queuesFor_def queueFor_def)

end
