(* ===== verification/Transaction.thy ===== *)
theory Transaction
  imports Events
begin

text \<open>
  What the use cases of every slice share: the database with the outbox, the dedup marks and
  the counters of a run, the environment of a run, the unit of work (\<open>lib/database/uow.go\<close>),
  the boundary helpers of the mappers, and the adapters of outbox and dedup. A slice extends
  \<open>tx_db\<close> by its tables and \<open>tx_env\<close> by its ports.
\<close>

section \<open>State and environment\<close>

record 'p tx_db = "'p events_db" +
  id_seq :: nat
  stmts :: nat
  reads :: nat

text \<open>
  What a run of a use case is given: the start of the database transaction (\<open>now()\<close>), the
  readings of the process clock, the uuid parser and the uuid generator (google/uuid,
  gen_random_uuid), the statements that fail in the driver and the failures of Begin and
  Commit.
\<close>

record tx_env =
  e_tx_time :: instant
  e_clock :: "nat \<Rightarrow> instant"
  e_parse_uuid :: "string \<Rightarrow> string option"
  e_gen :: "nat \<Rightarrow> string"
  e_fault :: "nat \<Rightarrow> bool"
  e_begin_fails :: bool
  e_commit_fails :: bool

type_synonym ('p, 'm, 'a) dbtx = "(('p, 'm) tx_db_scheme, 'a) tx"

section \<open>The unit of work\<close>

definition stmt :: "'e tx_env_scheme \<Rightarrow> ('p, 'm, 'a) dbtx \<Rightarrow> ('p, 'm, 'a) dbtx" where
  "stmt E m = (\<lambda>s. let s' = s\<lparr>stmts := Suc (stmts s)\<rparr> in
     if e_fault E (stmts s) then (Inl WrapInfra, s') else m s')"

text \<open>\<open>uc.now()\<close>.\<close>

definition now_tx :: "'e tx_env_scheme \<Rightarrow> ('p, 'm, instant) dbtx" where
  "now_tx E = (\<lambda>s. (Inr (e_clock E (reads s)), s\<lparr>reads := Suc (reads s)\<rparr>))"

definition next_id :: "'e tx_env_scheme \<Rightarrow> ('p, 'm, string) dbtx" where
  "next_id E = (\<lambda>s. (Inr (e_gen E (id_seq s)), s\<lparr>id_seq := Suc (id_seq s)\<rparr>))"

text \<open>
  \<open>unitOfWork.Do\<close>: Begin, the tenant binding when there is a tenant, the body, Commit. On any
  error the deferred Rollback restores the database.
\<close>

definition uow_Do :: "'e tx_env_scheme \<Rightarrow> string \<Rightarrow> ('p, 'm, 'a) dbtx \<Rightarrow> ('p, 'm, 'a) dbtx" where
  "uow_Do E tenantID body = (\<lambda>db.
     if e_begin_fails E then (Inl WrapInfra, db)
     else case bind (if tenantID \<noteq> '''' then stmt E (ret ()) else ret ()) (\<lambda>_. body)
                 (db\<lparr>reads := 0, stmts := 0\<rparr>) of
       (Inl e, _) \<Rightarrow> (Inl e, db)
     | (Inr x, db') \<Rightarrow> if e_commit_fails E then (Inl WrapInfra, db) else (Inr x, db'))"

text \<open>\<open>DoSystem\<close>: the same, with the mark of the system scope in the place of the tenant.\<close>

definition uow_DoSystem :: "'e tx_env_scheme \<Rightarrow> ('p, 'm, 'a) dbtx \<Rightarrow> ('p, 'm, 'a) dbtx" where
  "uow_DoSystem E body = (\<lambda>db.
     if e_begin_fails E then (Inl WrapInfra, db)
     else case bind (stmt E (ret ())) (\<lambda>_. body) (db\<lparr>reads := 0, stmts := 0\<rparr>) of
       (Inl e, _) \<Rightarrow> (Inl e, db)
     | (Inr x, db') \<Rightarrow> if e_commit_fails E then (Inl WrapInfra, db) else (Inr x, db'))"

section \<open>Boundary helpers (mapper.go)\<close>

definition parseUUID :: "'e tx_env_scheme \<Rightarrow> string \<Rightarrow> ('p, 'm, string) dbtx" where
  "parseUUID E s = (case e_parse_uuid E s of None \<Rightarrow> fail WrapInfra | Some u \<Rightarrow> ret u)"

definition pgOptionalUUID :: "'e tx_env_scheme \<Rightarrow> string \<Rightarrow> ('p, 'm, string) dbtx" where
  "pgOptionalUUID E s = (if s = '''' then ret '''' else parseUUID E s)"

text \<open>A \<open>:one\<close> SELECT, with the sentinel of a miss.\<close>

definition select_one :: "'e tx_env_scheme \<Rightarrow> (('p, 'm) tx_db_scheme \<Rightarrow> 'r list) \<Rightarrow> ('r \<Rightarrow> bool) \<Rightarrow> err \<Rightarrow> ('p, 'm, 'r) dbtx" where
  "select_one E tbl P miss = stmt E (\<lambda>s. case find_row P (tbl s) of
     None \<Rightarrow> (Inl miss, s) | Some r \<Rightarrow> (Inr r, s))"

text \<open>A nil field of a partial patch keeps the stored value.\<close>

definition merged :: "'a option \<Rightarrow> 'a \<Rightarrow> 'a" where
  "merged patch stored = (case patch of None \<Rightarrow> stored | Some x \<Rightarrow> x)"

section \<open>Outbox and dedup\<close>

definition publish :: "'e tx_env_scheme \<Rightarrow> 'p event \<Rightarrow> ('p, 'm, unit) dbtx" where
  "publish E ev = stmt E (modify_st (insert_outbox ev))"

text \<open>An immediate event, keyed by a fresh uuid v7.\<close>

definition publish_new :: "'e tx_env_scheme \<Rightarrow> (string \<Rightarrow> 'p event) \<Rightarrow> ('p, 'm, unit) dbtx" where
  "publish_new E mk = bind (next_id E) (\<lambda>eid. publish E (mk eid))"

definition SeenOrMark :: "'e tx_env_scheme \<Rightarrow> string \<Rightarrow> string \<Rightarrow> ('p, 'm, bool) dbtx" where
  "SeenOrMark E consumer eventID = stmt E (\<lambda>s. case seen_or_mark consumer eventID s of
     (seen, s') \<Rightarrow> (Inr seen, s'))"

definition with_ids :: "'e tx_env_scheme \<Rightarrow> string \<Rightarrow> string \<Rightarrow> (string \<Rightarrow> string \<Rightarrow> ('p, 'm, 'a) dbtx) \<Rightarrow> ('p, 'm, 'a) dbtx" where
  "with_ids E a b k = bind (parseUUID E a) (\<lambda>x. bind (parseUUID E b) (\<lambda>y. k x y))"

section \<open>Evaluation and frame lemmas\<close>

text \<open>A calm environment: nothing fails in the driver.\<close>

definition calm :: "'e tx_env_scheme \<Rightarrow> bool" where
  "calm E \<longleftrightarrow> (\<forall>k. \<not> e_fault E k) \<and> \<not> e_begin_fails E \<and> \<not> e_commit_fails E"

text \<open>Generated ids are canonical: the parser gives them back.\<close>

definition canonical_gen :: "'e tx_env_scheme \<Rightarrow> bool" where
  "canonical_gen E \<longleftrightarrow> (\<forall>k. e_parse_uuid E (e_gen E k) = Some (e_gen E k))"

lemma calm_fault: "calm E \<Longrightarrow> \<not> e_fault E k"
  by (simp add: calm_def)

lemma stmt_calm [tx_simps]: "calm E \<Longrightarrow> stmt E m s = m (s\<lparr>stmts := Suc (stmts s)\<rparr>)"
  by (simp add: stmt_def calm_fault Let_def)

lemma now_tx_apply [tx_simps]: "now_tx E s = (Inr (e_clock E (reads s)), s\<lparr>reads := Suc (reads s)\<rparr>)"
  by (simp add: now_tx_def)

lemma next_id_apply [tx_simps]: "next_id E s = (Inr (e_gen E (id_seq s)), s\<lparr>id_seq := Suc (id_seq s)\<rparr>)"
  by (simp add: next_id_def)

lemma parseUUID_Some [tx_simps]: "e_parse_uuid E x = Some u \<Longrightarrow> parseUUID E x = ret u"
  by (simp add: parseUUID_def)

lemma with_ids_Some [tx_simps]:
  "e_parse_uuid E a = Some x \<Longrightarrow> e_parse_uuid E b = Some y \<Longrightarrow> with_ids E a b k = k x y"
  by (simp add: with_ids_def parseUUID_Some)

lemma uow_Do_error: "fst (uow_Do E tenant body db) = Inl e \<Longrightarrow> snd (uow_Do E tenant body db) = db"
  by (auto simp: uow_Do_def split: prod.splits sum.splits if_splits)

lemma uow_Do_success:
  assumes "uow_Do E tenant body db = (Inr x, db')"
  obtains n where "body (db\<lparr>reads := 0, stmts := n\<rparr>) = (Inr x, db')"
  using assms
  by (auto simp: uow_Do_def bind_def stmt_def Let_def split: prod.splits sum.splits if_splits)

lemma uow_Do_calm:
  assumes "calm E"
  shows "uow_Do E tenant body db =
    (case body (db\<lparr>reads := 0, stmts := (if tenant \<noteq> '''' then 1 else 0)\<rparr>) of
       (Inl e, _) \<Rightarrow> (Inl e, db) | (Inr x, db') \<Rightarrow> (Inr x, db'))"
  using assms by (simp add: uow_Do_def calm_def bind_def stmt_def Let_def split: prod.splits sum.splits)

text \<open>
  Frame reasoning: a predicate that ignores the two counters and the id sequence is kept
  by a statement when its body keeps it.
\<close>

definition frame :: "(('p, 'm) tx_db_scheme \<Rightarrow> bool) \<Rightarrow> bool" where
  "frame P \<longleftrightarrow> (\<forall>s n. P (s\<lparr>stmts := n\<rparr>) = P s) \<and> (\<forall>s n. P (s\<lparr>reads := n\<rparr>) = P s)
     \<and> (\<forall>s n. P (s\<lparr>id_seq := n\<rparr>) = P s)"

lemma keeps_stmt [keeps_rules]: "frame P \<Longrightarrow> keeps P m \<Longrightarrow> keeps P (stmt E m)"
  by (auto simp: keeps_def stmt_def frame_def Let_def)

lemma keeps_now [keeps_rules]: "frame P \<Longrightarrow> keeps P (now_tx E)"
  by (simp add: keeps_def now_tx_def frame_def)

lemma keeps_next_id [keeps_rules]: "frame P \<Longrightarrow> keeps P (next_id E)"
  by (simp add: keeps_def next_id_def frame_def)

lemma keeps_parse [keeps_rules]: "keeps P (parseUUID E x)"
  by (auto simp: parseUUID_def split: option.splits)

lemma keeps_optional [keeps_rules]: "keeps P (pgOptionalUUID E x)"
  by (simp add: pgOptionalUUID_def keeps_parse keeps_ret)

lemma keeps_with_ids [keeps_rules]: "(\<And>x y. keeps P (k x y)) \<Longrightarrow> keeps P (with_ids E a b k)"
  by (simp add: with_ids_def keeps_bind keeps_parse)

lemma keeps_select [keeps_rules]: "frame P \<Longrightarrow> keeps P (select_one E tbl Q miss)"
  unfolding select_one_def by (rule keeps_stmt) (auto simp: keeps_def split: option.splits)

lemma keeps_gen: "frame P \<Longrightarrow> (\<And>k. keeps P (f (e_gen E k))) \<Longrightarrow> keeps P (bind (next_id E) f)"
  by (simp add: keeps_def bind_def next_id_def frame_def)

text \<open>For a unit of work it is enough that its body keeps the predicate when it succeeds.\<close>

definition keeps_ok :: "('s \<Rightarrow> bool) \<Rightarrow> ('s, 'a) tx \<Rightarrow> bool" where
  "keeps_ok P m \<longleftrightarrow> (\<forall>s x s'. P s \<longrightarrow> m s = (Inr x, s') \<longrightarrow> P s')"

lemma keeps_okI: "(\<And>s x s'. P s \<Longrightarrow> m s = (Inr x, s') \<Longrightarrow> P s') \<Longrightarrow> keeps_ok P m"
  unfolding keeps_ok_def by blast

lemma keeps_ok_keeps: "keeps P m \<Longrightarrow> keeps_ok P m"
  unfolding keeps_ok_def keeps_def by (metis snd_conv)

lemma keeps_ok_bind: "keeps_ok P m \<Longrightarrow> (\<And>x. keeps_ok P (f x)) \<Longrightarrow> keeps_ok P (bind m f)"
  unfolding keeps_ok_def by (metis bind_InrE)

lemma keeps_uow_ok:
  assumes "frame P" and "keeps_ok P body"
  shows "keeps P (uow_Do E tenant body)"
proof (rule keepsI)
  fix s assume P: "P s"
  obtain r s' where run: "uow_Do E tenant body s = (r, s')" by (cases "uow_Do E tenant body s")
  show "P (snd (uow_Do E tenant body s))"
  proof (cases r)
    case (Inl e)
    then show ?thesis using uow_Do_error [of E tenant body s e] run P by simp
  next
    case (Inr x)
    with run obtain n where b: "body (s\<lparr>reads := 0, stmts := n\<rparr>) = (Inr x, s')"
      by (auto elim: uow_Do_success)
    have "P (s\<lparr>reads := 0, stmts := n\<rparr>)" using assms(1) P by (simp add: frame_def)
    then show ?thesis using assms(2) b run unfolding keeps_ok_def by (metis snd_conv)
  qed
qed

lemma keeps_uow: "frame P \<Longrightarrow> keeps P body \<Longrightarrow> keeps P (uow_Do E tenant body)"
  by (simp add: keeps_uow_ok keeps_ok_keeps)

text \<open>A predicate on the tables alone is kept by the outbox too.\<close>

definition tabular :: "(('p, 'm) tx_db_scheme \<Rightarrow> bool) \<Rightarrow> bool" where
  "tabular P \<longleftrightarrow> frame P \<and> (\<forall>ev s. P (insert_outbox ev s) = P s)"

lemma tabular_frame: "tabular P \<Longrightarrow> frame P"
  by (simp add: tabular_def)

lemma keeps_publish [keeps_rules]: "tabular P \<Longrightarrow> keeps P (publish E ev)"
  unfolding publish_def by (rule keeps_stmt) (simp_all add: keeps_def tabular_def)

lemma keeps_publish_new [keeps_rules]: "tabular P \<Longrightarrow> keeps P (publish_new E mk)"
  unfolding publish_new_def by (intro keeps_bind keeps_next_id keeps_publish tabular_frame)

section \<open>Observations\<close>

text \<open>
  What a run leaves behind is observed in two ways: the facts it announced through the outbox,
  in order, and the tables it wrote. The counters, the id sequence and the keys drawn from it
  are abstracted away.
\<close>

definition fact_of :: "'p event \<Rightarrow> string \<times> 'p \<times> instant option" where
  "fact_of ev = (ev_type ev, ev_payload ev, scheduledAt ev)"

definition announced :: "('p, 'm) tx_db_scheme \<Rightarrow> (string \<times> 'p \<times> instant option) list" where
  "announced s = map (\<lambda>r. (ob_type r, ob_payload r, ob_process_at r)) (outbox s)"

definition view :: "('p, 'm) tx_db_scheme \<Rightarrow> ('p, 'm) tx_db_scheme" where
  "view s = s\<lparr>outbox := [], outbox_seq := 0, id_seq := 0, stmts := 0, reads := 0\<rparr>"

lemma announced_simps [simp]:
  "announced (insert_outbox ev s) = announced s @ [fact_of ev]"
  "announced (s\<lparr>id_seq := n\<rparr>) = announced s" "announced (s\<lparr>stmts := n\<rparr>) = announced s"
  "announced (s\<lparr>reads := n\<rparr>) = announced s" "announced (s\<lparr>processed := ps\<rparr>) = announced s"
  by (simp_all add: announced_def fact_of_def outbox_row_of_def insert_outbox_def)

lemma view_simps [simp]:
  "view (insert_outbox ev s) = view s"
  "view (s\<lparr>id_seq := n\<rparr>) = view s" "view (s\<lparr>stmts := n\<rparr>) = view s" "view (s\<lparr>reads := n\<rparr>) = view s"
  by (simp_all add: view_def insert_outbox_def)

lemma view_processed:
  "view (s\<lparr>processed := ps\<rparr>) = (view s)\<lparr>processed := ps\<rparr>" "processed (view s) = processed s"
  by (simp_all add: view_def)

text \<open>A unit of work hands its body a database with the tables of the one it started from.\<close>

lemma uow_run:
  assumes "uow_Do E tenant body db = (Inr x, db')"
  obtains s where "body s = (Inr x, db')" and "announced s = announced db" and "view s = view db"
proof -
  obtain n where "body (db\<lparr>reads := 0, stmts := n\<rparr>) = (Inr x, db')" using assms by (rule uow_Do_success)
  then show thesis by (rule that) simp_all
qed

section \<open>Silent steps\<close>

text \<open>A silent step, failing or not, announces nothing and writes no table.\<close>

named_theorems silent_rules "steps that write nothing"

definition silent :: "('p, 'm, 'a) dbtx \<Rightarrow> bool" where
  "silent m \<longleftrightarrow> (\<forall>s. announced (snd (m s)) = announced s \<and> view (snd (m s)) = view s)"

lemma silent_run: "silent m \<Longrightarrow> m s = (r, s') \<Longrightarrow> announced s' = announced s \<and> view s' = view s"
  unfolding silent_def by (metis snd_conv)

lemma silent_iff: "silent m \<longleftrightarrow> (\<forall>X Y. keeps (\<lambda>s. announced s = X \<and> view s = Y) m)"
  unfolding silent_def keeps_def by blast

lemma frame_silent [simp]: "frame (\<lambda>s. announced s = X \<and> view s = Y)"
  by (simp add: frame_def)

lemma silent_ret [silent_rules]: "silent (ret x)" and silent_fail [silent_rules]: "silent (fail e)"
  and silent_lift [silent_rules]: "silent (lift_sum r)" and silent_read [silent_rules]: "silent (read_st g)"
  and silent_guard [silent_rules]: "silent (guard_tx b e)"
  by (simp_all add: silent_def guard_tx_apply)

lemma silent_bind [silent_rules]: "silent m \<Longrightarrow> (\<And>x. silent (f x)) \<Longrightarrow> silent (bind m f)"
  by (simp add: silent_iff keeps_bind)

lemma silent_if [silent_rules]: "silent m \<Longrightarrow> silent n \<Longrightarrow> silent (if b then m else n)"
  by simp

lemma silent_option [silent_rules]:
  "silent m \<Longrightarrow> (\<And>y. silent (f y)) \<Longrightarrow> silent (case x of None \<Rightarrow> m | Some y \<Rightarrow> f y)"
  by (cases x) auto

lemma silent_prod [silent_rules]: "(\<And>a b. silent (f a b)) \<Longrightarrow> silent (case x of (a, b) \<Rightarrow> f a b)"
  by (cases x) auto

lemma silent_stmt [silent_rules]: "silent m \<Longrightarrow> silent (stmt E m)"
  by (simp add: silent_iff keeps_stmt)

lemma silent_now [silent_rules]: "silent (now_tx E)" and silent_next_id [silent_rules]: "silent (next_id E)"
  by (simp_all add: silent_def now_tx_def next_id_def)

lemma silent_parse [silent_rules]: "silent (parseUUID E x)"
  by (simp add: silent_def parseUUID_def split: option.splits)

lemma silent_optional [silent_rules]: "silent (pgOptionalUUID E x)"
  by (simp add: pgOptionalUUID_def silent_parse silent_ret)

lemma silent_with_ids [silent_rules]: "(\<And>x y. silent (k x y)) \<Longrightarrow> silent (with_ids E a b k)"
  by (simp add: with_ids_def silent_bind silent_parse)

lemma silent_select [silent_rules]: "silent (select_one E tbl Q miss)"
  unfolding select_one_def by (rule silent_stmt) (simp add: silent_def split: option.splits)

lemma silent_row [silent_rules]: "silent (\<lambda>s. case g s of None \<Rightarrow> (a s, s) | Some r \<Rightarrow> (b r s, s))"
  by (simp add: silent_def split: option.splits)

lemma silent_attempt [silent_rules]: "silent m \<Longrightarrow> silent (attempt m)"
  by (simp add: silent_def attempt_apply)

lemma silent_sum [silent_rules]:
  "(\<And>e. silent (f e)) \<Longrightarrow> (\<And>x. silent (g x)) \<Longrightarrow> silent (case r of Inl e \<Rightarrow> f e | Inr x \<Rightarrow> g x)"
  by (cases r) auto

section \<open>Inversion of steps\<close>

lemma stmt_InrD: "stmt E m s = (Inr x, s') \<Longrightarrow> m (s\<lparr>stmts := Suc (stmts s)\<rparr>) = (Inr x, s')"
  by (auto simp: stmt_def Let_def split: if_splits)

lemma parse_InrD: "parseUUID E x s = (Inr u, s') \<Longrightarrow> e_parse_uuid E x = Some u \<and> s' = s"
  by (auto simp: parseUUID_def split: option.splits)

lemma with_ids_InrE:
  assumes "with_ids E a b k s = (Inr x, s')"
  obtains i j where "e_parse_uuid E a = Some i" and "e_parse_uuid E b = Some j" and "k i j s = (Inr x, s')"
  using assms unfolding with_ids_def by (auto elim!: bind_InrE dest!: parse_InrD)

lemma publish_new_effect:
  assumes "publish_new E mk s = (Inr u, s')"
  shows "\<exists>i. announced s' = announced s @ [fact_of (mk i)] \<and> view s' = view s"
  using assms unfolding publish_new_def publish_def
  by (auto elim!: bind_InrE dest!: stmt_InrD simp: next_id_apply) blast

lemma publish_effect:
  assumes "publish E ev s = (Inr u, s')"
  shows "announced s' = announced s @ [fact_of ev] \<and> view s' = view s"
  using assms unfolding publish_def by (auto dest!: stmt_InrD)

lemma SeenOrMark_effect:
  assumes "SeenOrMark E c i s = (Inr seen, s')"
  shows "announced s' = announced s
       \<and> (if seen then (c, i) \<in> set (processed s) \<and> view s' = view s
          else (c, i) \<notin> set (processed s) \<and> view s' = (view s)\<lparr>processed := (c, i) # processed s\<rparr>)"
  using assms unfolding SeenOrMark_def
  by (auto dest!: stmt_InrD simp: seen_or_mark_def view_processed split: if_splits)

text \<open>The stored form of an optional reference: the empty one stands for NULL.\<close>

definition opt_ref :: "'e tx_env_scheme \<Rightarrow> string \<Rightarrow> string \<Rightarrow> bool" where
  "opt_ref E x u \<longleftrightarrow> (if x = '''' then u = '''' else e_parse_uuid E x = Some u)"

lemma parse_then:
  assumes "bind (parseUUID E x) k s = (Inr y, s')"
  obtains u where "e_parse_uuid E x = Some u" and "k u s = (Inr y, s')"
  using assms by (auto elim!: bind_InrE dest!: parse_InrD)

lemma optional_then:
  assumes "bind (pgOptionalUUID E x) k s = (Inr y, s')"
  obtains u where "opt_ref E x u" and "k u s = (Inr y, s')"
  using assms by (auto elim!: bind_InrE dest!: parse_InrD simp: pgOptionalUUID_def opt_ref_def split: if_splits)

lemma id_then:
  assumes "bind (next_id E) k s = (Inr y, s')"
  obtains i where "k i (s\<lparr>id_seq := Suc (id_seq s)\<rparr>) = (Inr y, s')"
  using assms by (auto elim!: bind_InrE simp: next_id_apply)

lemma gen_then:
  assumes "bind (next_id E) k s = (Inr y, s')"
  obtains "k (e_gen E (id_seq s)) (s\<lparr>id_seq := Suc (id_seq s)\<rparr>) = (Inr y, s')"
  using assms by (auto elim!: bind_InrE simp: next_id_apply)

text \<open>A harmless step has written nothing when it fails.\<close>

definition harmless :: "('p, 'm, 'a) dbtx \<Rightarrow> bool" where
  "harmless m \<longleftrightarrow> (\<forall>s e s'. m s = (Inl e, s') \<longrightarrow> announced s' = announced s \<and> view s' = view s)"

lemma harmless_after: "silent m \<Longrightarrow> (\<And>x. harmless (f x)) \<Longrightarrow> harmless (bind m f)"
  unfolding harmless_def bind_def silent_def by (auto split: prod.splits sum.splits) (metis snd_conv)+

lemma harmless_stmt: "harmless m \<Longrightarrow> harmless (stmt E m)"
  unfolding harmless_def stmt_def Let_def by (auto split: if_splits)

section \<open>Handlers of events\<close>

text \<open>
  Every consumer begins the same way: mark the event, and return at once on a replay, with the
  value \<open>d\<close> of a handler that had nothing to do.
\<close>

definition once_or :: "'e tx_env_scheme \<Rightarrow> 'a \<Rightarrow> string \<Rightarrow> string \<Rightarrow> ('p, 'm, 'a) dbtx \<Rightarrow> ('p, 'm, 'a) dbtx" where
  "once_or E d consumer eventID body =
     bind (SeenOrMark E consumer eventID) (\<lambda>seen. if seen then ret d else body)"

abbreviation once :: "'e tx_env_scheme \<Rightarrow> string \<Rightarrow> string \<Rightarrow> ('p, 'm, unit) dbtx \<Rightarrow> ('p, 'm, unit) dbtx" where
  "once E \<equiv> once_or E ()"

text \<open>The error of a run, if it returned one, and the marks in a database.\<close>

definition error_of :: "(err + 'a) \<times> 's \<Rightarrow> err option" where
  "error_of r = (case fst r of Inl e \<Rightarrow> Some e | Inr _ \<Rightarrow> None)"

definition marked :: "string \<times> string \<Rightarrow> ('p, 'm) events_db_scheme \<Rightarrow> bool" where
  "marked x s \<longleftrightarrow> x \<in> set (processed s)"

lemma frame_marked [simp]: "frame (marked x)"
  by (simp add: frame_def marked_def)

lemma silent_marked: "silent m \<Longrightarrow> keeps (marked x) m"
  unfolding silent_def keeps_def marked_def by (metis view_processed(2))

lemma error_of_uow: "error_of (uow_Do E tenant body db) = Some e \<Longrightarrow> snd (uow_Do E tenant body db) = db"
  by (auto simp: error_of_def uow_Do_error split: sum.splits)

text \<open>The first handling of an event: the body runs from the marked database.\<close>

lemma first_run:
  assumes "uow_Do E tenant (once_or E d c i body) db = (Inr u, db')" and "(c, i) \<notin> set (processed db)"
  obtains s where "body s = (Inr u, db')" and "announced s = announced db"
    and "view s = (view db)\<lparr>processed := (c, i) # processed db\<rparr>"
proof -
  obtain n where "once_or E d c i body (db\<lparr>reads := 0, stmts := n\<rparr>) = (Inr u, db')"
    using assms(1) by (rule uow_Do_success)
  then obtain seen s where 1: "SeenOrMark E c i (db\<lparr>reads := 0, stmts := n\<rparr>) = (Inr seen, s)"
    and 2: "(if seen then ret d else body) s = (Inr u, db')"
    unfolding once_or_def by (rule bind_InrE)
  have "\<not> seen" and "announced s = announced db"
    and "view s = (view db)\<lparr>processed := (c, i) # processed db\<rparr>"
    using SeenOrMark_effect [OF 1] assms(2) by (auto split: if_splits)
  then show thesis using that 2 by simp
qed

lemma once_marks:
  assumes "error_of (uow_Do E tenant (once_or E d c i body) db) = None" and "keeps (marked (c, i)) body"
  shows "marked (c, i) (snd (uow_Do E tenant (once_or E d c i body) db))"
proof -
  obtain u db' where run: "uow_Do E tenant (once_or E d c i body) db = (Inr u, db')"
    using assms(1) by (cases "uow_Do E tenant (once_or E d c i body) db") (auto simp: error_of_def split: sum.splits)
  obtain n where "once_or E d c i body (db\<lparr>reads := 0, stmts := n\<rparr>) = (Inr u, db')"
    using run by (rule uow_Do_success)
  then obtain seen s1 where 1: "SeenOrMark E c i (db\<lparr>reads := 0, stmts := n\<rparr>) = (Inr seen, s1)"
    and 2: "(if seen then ret d else body) s1 = (Inr u, db')"
    unfolding once_or_def by (rule bind_InrE)
  have m: "marked (c, i) s1"
    using SeenOrMark_effect [OF 1] by (auto simp: marked_def view_def dest: arg_cong [where f = processed] split: if_splits)
  show ?thesis
  proof (cases seen)
    case True
    then show ?thesis using 2 m run by simp
  next
    case False
    then show ?thesis using 2 keeps_run [OF assms(2) _ m] run by simp
  qed
qed

lemma once_seen:
  assumes "marked (c, i) db"
  shows "announced (snd (uow_Do E tenant (once_or E d c i body) db)) = announced db
       \<and> view (snd (uow_Do E tenant (once_or E d c i body) db)) = view db
       \<and> (\<forall>u. fst (uow_Do E tenant (once_or E d c i body) db) = Inr u \<longrightarrow> u = d)"
proof (cases "uow_Do E tenant (once_or E d c i body) db")
  case (Pair r db')
  show ?thesis
  proof (cases r)
    case (Inl e)
    then show ?thesis using uow_Do_error [of E tenant "once_or E d c i body" db e] Pair by simp
  next
    case (Inr u)
    with Pair obtain n where "once_or E d c i body (db\<lparr>reads := 0, stmts := n\<rparr>) = (Inr u, db')"
      by (auto elim: uow_Do_success)
    then obtain seen s1 where 1: "SeenOrMark E c i (db\<lparr>reads := 0, stmts := n\<rparr>) = (Inr seen, s1)"
      and 2: "(if seen then ret d else body) s1 = (Inr u, db')"
      unfolding once_or_def by (rule bind_InrE)
    have seen: seen and "announced s1 = announced db" "view s1 = view db"
      using SeenOrMark_effect [OF 1] assms by (auto simp: marked_def split: if_splits)
    then show ?thesis using 2 Pair Inr by simp
  qed
qed


section \<open>Loops that collect, and batches\<close>

primrec map_tx :: "('a \<Rightarrow> ('s, 'b) tx) \<Rightarrow> 'a list \<Rightarrow> ('s, 'b list) tx" where
  "map_tx f [] = ret []"
| "map_tx f (x # xs) = bind (f x) (\<lambda>y. bind (map_tx f xs) (\<lambda>ys. ret (y # ys)))"

lemma keeps_map_tx [keeps_rules]: "(\<And>x. x \<in> set xs \<Longrightarrow> keeps P (f x)) \<Longrightarrow> keeps P (map_tx f xs)"
  by (induction xs) (auto intro!: keeps_bind)

lemma map_tx_Cons_InrE:
  assumes "map_tx f (x # xs) s = (Inr zs, s')"
  obtains y ys s1 where "f x s = (Inr y, s1)" and "map_tx f xs s1 = (Inr ys, s')" and "zs = y # ys"
  using assms by (auto elim!: bind_InrE)

lemma map_tx_length: "map_tx f xs s = (Inr ys, s') \<Longrightarrow> length ys = length xs"
  by (induction xs arbitrary: s ys s') (auto elim!: bind_InrE)

text \<open>An invariant of the state that each round keeps, and a fact about each result.\<close>

lemma map_tx_results:
  assumes "map_tx f xs s = (Inr ys, s')" and "I s"
    and "\<And>x s y s'. x \<in> set xs \<Longrightarrow> I s \<Longrightarrow> f x s = (Inr y, s') \<Longrightarrow> I s' \<and> Q y"
  shows "I s' \<and> (\<forall>y \<in> set ys. Q y)"
  using assms
proof (induction xs arbitrary: s ys s')
  case Nil
  then show ?case by simp
next
  case (Cons x xs)
  from Cons.prems(1) obtain y ys' s1 where 1: "f x s = (Inr y, s1)" "map_tx f xs s1 = (Inr ys', s')" "ys = y # ys'"
    by (rule map_tx_Cons_InrE)
  have "I s1 \<and> Q y" using Cons.prems(3) [OF _ Cons.prems(2) 1(1)] by simp
  then show ?case using Cons.IH [OF 1(2)] Cons.prems(3) 1(3) by auto
qed

text \<open>Fresh uuids for the rows of a batch or the events of one.\<close>

definition next_ids :: "'e tx_env_scheme \<Rightarrow> nat \<Rightarrow> ('p, 'm, string list) dbtx" where
  "next_ids E n = (\<lambda>s. (Inr (map (e_gen E) [id_seq s ..< id_seq s + n]), s\<lparr>id_seq := id_seq s + n\<rparr>))"

lemma next_ids_apply [tx_simps]:
  "next_ids E n s = (Inr (map (e_gen E) [id_seq s ..< id_seq s + n]), s\<lparr>id_seq := id_seq s + n\<rparr>)"
  by (simp add: next_ids_def)

lemma keeps_next_ids [keeps_rules]: "frame P \<Longrightarrow> keeps P (next_ids E n)"
  by (simp add: keeps_def next_ids_def frame_def)

lemma silent_next_ids [silent_rules]: "silent (next_ids E n)"
  by (simp add: silent_def next_ids_def)

text \<open>\<open>Outbox.PublishBatch\<close>: one insert for all events, and no statement for none.\<close>

definition publish_all :: "'e tx_env_scheme \<Rightarrow> (string \<Rightarrow> 'p event) list \<Rightarrow> ('p, 'm, unit) dbtx" where
  "publish_all E mks =
     (if mks = [] then ret ()
      else bind (next_ids E (length mks)) (\<lambda>ids.
        stmt E (modify_st (insert_outbox_batch (map2 (\<lambda>mk i. mk i) mks ids)))))"

lemma view_outbox_batch [simp]: "view (insert_outbox_batch evs s) = view s"
  by (induction evs arbitrary: s) (simp_all add: insert_outbox_batch_def)

lemma announced_outbox_batch [simp]: "announced (insert_outbox_batch evs s) = announced s @ map fact_of evs"
  by (induction evs arbitrary: s) (simp_all add: insert_outbox_batch_def)

lemma tabular_outbox_batch: "tabular P \<Longrightarrow> P (insert_outbox_batch evs s) = P s"
  by (induction evs arbitrary: s) (simp_all add: insert_outbox_batch_def tabular_def)

lemma keeps_publish_all [keeps_rules]: "tabular P \<Longrightarrow> keeps P (publish_all E mks)"
  unfolding publish_all_def
  by (intro keeps_if keeps_bind keeps_ret keeps_next_ids keeps_stmt keeps_modify)
     (simp_all add: tabular_frame tabular_outbox_batch)

text \<open>What a published batch says, when no event says its own key.\<close>

lemma publish_all_effect:
  assumes "publish_all E mks s = (Inr u, s')"
    and "\<And>mk i. mk \<in> set mks \<Longrightarrow> fact_of (mk i) = g mk"
  shows "announced s' = announced s @ map g mks \<and> view s' = view s"
proof (cases "mks = []")
  case True
  then show ?thesis using assms(1) by (simp add: publish_all_def)
next
  case False
  define ids where "ids = map (e_gen E) [id_seq s ..< id_seq s + length mks]"
  have 1: "announced s' = announced s @ map fact_of (map2 (\<lambda>mk i. mk i) mks ids) \<and> view s' = view s"
    using assms(1) False unfolding publish_all_def ids_def
    by (auto elim!: bind_InrE dest!: stmt_InrD simp: next_ids_apply)
  have "length mks = length ids" by (simp add: ids_def)
  then have "map fact_of (map2 (\<lambda>mk i. mk i) mks ids) = map g mks"
    using assms(2) by (induction mks ids rule: list_induct2) simp_all
  then show ?thesis using 1 by simp
qed

end
