(* ===== verification/DeadlineStore.thy ===== *)
theory DeadlineStore
  imports DeadlineEvents Tribunal Transaction
begin

text \<open>
  The database of the slice and its repository (\<open>internal/deadline/repository.go\<close> over
  \<open>queries/deadline.sql\<close>), the outbox and dedup adapters (\<open>dedup.go\<close>), and the unit of work
  (\<open>lib/database/uow.go\<close>). A repository function parses its ids, runs one statement and maps
  "no row" to the sentinel of the function; every statement may fail in the driver, by a
  schedule that is a parameter. Constraints modelled: primary keys, the unique columns the
  \<open>ON CONFLICT\<close> clauses name, and the CHECKs on the columns a command can set. Foreign keys
  and row level security (a second filter on the same tenant id) are not.
\<close>

section \<open>State and environment\<close>

record court_record =
  cr_ID :: string
  cr_TenantID :: string
  cr_Class :: string
  cr_Court :: string

record intimation =
  in_ID :: string
  in_TenantID :: string
  in_CourtRecordID :: string
  in_Anchors :: intimation_anchors
  in_AssigneeUserID :: string

record docket_entry =
  ed_CourtRecordID :: string
  ed_OccurredAt :: instant
  ed_TpuCode :: "int option"
  ed_Text :: string

record suggestion_row =
  sg_TenantID :: string
  sg_IntimationID :: string
  sg_PromptVersion :: string
  sg_Model :: string
  sg_Tasks :: "suggested_task list"

record action_item =
  ai_ID :: string
  ai_TenantID :: string
  ai_CourtRecordID :: string

record prazo_db = "payload tx_db" +
  deadlines :: "deadline_row list"
  calc_memories :: "calc_memory list"
  applied_holidays :: "applied_holiday list"
  cross_validations :: "cross_validation list"
  deadline_events :: "deadline_event list"
  policies :: "deadline_policy list"
  rules :: "rule_row list"
  court_records :: "court_record list"
  intimations :: "intimation list"
  docket_entries :: "docket_entry list"
  tasks :: "task list"
  task_items :: "task_item list"
  task_comments :: "task_comment list"
  task_activities :: "task_activity list"
  suggestions :: "suggestion_row list"
  action_items :: "action_item list"

text \<open>What the classifier is asked and what it answers (\<open>classify.go\<close>).\<close>

record case_context =
  cc_Court :: string
  cc_Class :: string
  cc_IntimationType :: string

record classified_type =
  ct_Tipo :: string
  ct_Confianca :: string
  ct_Alternativa :: string

text \<open>A run of a use case of the slice is also given the calendar and the optional classifier.\<close>

record env = tx_env +
  e_cal :: businessCalendar
  e_classifier :: "(string \<Rightarrow> case_context \<Rightarrow> err + classified_type) option"

type_synonym 'a ptx = "(prazo_db, 'a) tx"

text \<open>
  \<open>CURRENT_DATE\<close>: the session runs in America/Sao_Paulo (migration 0063), three hours behind
  UTC all year since 2019, so it is the day of the transaction's start there.
\<close>

definition session_offset :: int where
  "session_offset = 3 * 3600 * 1000000000"

definition CURRENT_DATE :: "env \<Rightarrow> day" where
  "CURRENT_DATE E = day_of (e_tx_time E - session_offset)"

text \<open>An \<open>UPDATE deadline ... RETURNING\<close>, with the sentinel of a miss.\<close>

definition update_deadline :: "env \<Rightarrow> (deadline_row \<Rightarrow> bool) \<Rightarrow> (deadline_row \<Rightarrow> deadline_row) \<Rightarrow> err
    \<Rightarrow> deadline_row ptx" where
  "update_deadline E P f miss = stmt E (\<lambda>s. case find_row P (deadlines s) of
     None \<Rightarrow> (Inl miss, s)
   | Some r \<Rightarrow> (Inr (f r), s\<lparr>deadlines := update_rows P f (deadlines s)\<rparr>))"

text \<open>The CHECKs of the columns a command can set (migrations 0024 and 0049).\<close>

definition panel_check :: "anchor \<Rightarrow> int \<Rightarrow> bool" where
  "panel_check a extra \<longleftrightarrow> validAnchorEvent a \<and> 0 \<le> extra"

section \<open>Repository: reads of the derivation\<close>

definition GetCourtRecordClass :: "env \<Rightarrow> string \<Rightarrow> string \<Rightarrow> string ptx" where
  "GetCourtRecordClass E tenantID courtRecordID = with_ids E courtRecordID tenantID (\<lambda>i tenant.
     bind (select_one E court_records (\<lambda>r. cr_ID r = i \<and> cr_TenantID r = tenant) ErrCourtRecordNotFound)
       (\<lambda>r. ret (cr_Class r)))"

definition GetCourtRecordCourt :: "env \<Rightarrow> string \<Rightarrow> string \<Rightarrow> string ptx" where
  "GetCourtRecordCourt E tenantID courtRecordID = with_ids E courtRecordID tenantID (\<lambda>i tenant.
     bind (select_one E court_records (\<lambda>r. cr_ID r = i \<and> cr_TenantID r = tenant) ErrCourtRecordNotFound)
       (\<lambda>r. ret (cr_Court r)))"

text \<open>
  The resolution of a rule: active rows of the version whose type is the intimation's or
  the catch-all and whose prefix, when there is one, starts the court; the most specific
  first (type match, prefix present, longer prefix, higher priority). A prefix is plain
  text, without LIKE wildcards.
\<close>

definition rule_applies :: "string \<Rightarrow> string \<Rightarrow> string \<Rightarrow> rule_row \<Rightarrow> bool" where
  "rule_applies version itype court r \<longleftrightarrow>
     dr_RulesVersion r = version \<and> rr_Active r
     \<and> (rr_IntimationType r = itype \<or> rr_IntimationType r = ''*'')
     \<and> (case rr_CourtPrefix r of None \<Rightarrow> True | Some p \<Rightarrow> HasPrefix court p)"

definition rule_rank :: "string \<Rightarrow> rule_row \<Rightarrow> int list" where
  "rule_rank itype r =
     [if rr_IntimationType r = itype then 1 else 0,
      if rr_CourtPrefix r \<noteq> None then 1 else 0,
      case rr_CourtPrefix r of None \<Rightarrow> 0 | Some p \<Rightarrow> int (length p),
      rr_Priority r]"

fun rank_less :: "int list \<Rightarrow> int list \<Rightarrow> bool" where
  "rank_less (a # as) (b # bs) = (a < b \<or> (a = b \<and> rank_less as bs))"
| "rank_less _ _ = False"

definition best_rule :: "string \<Rightarrow> rule_row list \<Rightarrow> rule_row option" where
  "best_rule itype rs = (case rs of [] \<Rightarrow> None | r # rest \<Rightarrow>
     Some (foldl (\<lambda>b q. if rank_less (rule_rank itype b) (rule_rank itype q) then q else b) r rest))"

definition ResolveRule :: "env \<Rightarrow> string \<Rightarrow> string \<Rightarrow> string \<Rightarrow> deadline_rule ptx" where
  "ResolveRule E version itype court = stmt E (\<lambda>s.
     case best_rule itype (filter (rule_applies version itype court) (rules s)) of
       None \<Rightarrow> (Inl ErrRuleNotFound, s)
     | Some r \<Rightarrow> (Inr (deadline_rule.truncate r), s))"

definition GetPolicy :: "env \<Rightarrow> string \<Rightarrow> deadline_policy ptx" where
  "GetPolicy E tenantID = bind (parseUUID E tenantID) (\<lambda>tenant. stmt E (\<lambda>s.
     case find_row (\<lambda>p. dp_TenantID p = tenant) (policies s) of
       None \<Rightarrow> (Inr \<lparr>dp_TenantID = tenantID, dp_ConfirmacaoObrigatoria = False\<rparr>, s)
     | Some p \<Rightarrow> (Inr p, s)))"

section \<open>Repository: writes of the derivation\<close>

text \<open>\<open>INSERT ... ON CONFLICT (notification_id) DO NOTHING RETURNING id\<close>.\<close>

definition InsertDeadline :: "env \<Rightarrow> deadline \<Rightarrow> deadline ptx" where
  "InsertDeadline E d =
     bind (parseUUID E (d_TenantID d)) (\<lambda>tenant.
     bind (parseUUID E (d_CourtRecordID d)) (\<lambda>record.
     bind (parseUUID E (d_IntimationID d)) (\<lambda>intim.
     bind (next_id E) (\<lambda>i. stmt E (\<lambda>s.
       if \<not> panel_check (d_AnchorEvent d) 0 then (Inl WrapInfra, s)
       else if find_row (\<lambda>r. d_IntimationID r = intim) (deadlines s) \<noteq> None then (Inl ErrDeadlineExists, s)
       else if find_row (\<lambda>r. d_ID r = i) (deadlines s) \<noteq> None then (Inl WrapInfra, s)
       else (Inr (d\<lparr>d_ID := i\<rparr>),
             s\<lparr>deadlines := deadlines s @
                 [deadline.extend (d\<lparr>d_ID := i, d_TenantID := tenant, d_CourtRecordID := record,
                     d_IntimationID := intim, d_Days := to_int32 (d_Days d)\<rparr>)
                   \<lparr>d_ManualExtraDays = 0\<rparr>]\<rparr>))))))"

definition InsertCalcMemory :: "env \<Rightarrow> calc_memory \<Rightarrow> calc_memory ptx" where
  "InsertCalcMemory E m = with_ids E (cm_TenantID m) (cm_DeadlineID m) (\<lambda>tenant deadline.
     bind (next_id E) (\<lambda>i. stmt E (\<lambda>s.
       if find_row (\<lambda>r. cm_DeadlineID r = deadline) (calc_memories s) \<noteq> None then (Inl ErrCalcMemoryExists, s)
       else if find_row (\<lambda>r. cm_ID r = i) (calc_memories s) \<noteq> None then (Inl WrapInfra, s)
       else (Inr (m\<lparr>cm_ID := i\<rparr>),
             s\<lparr>calc_memories := calc_memories s @
                 [m\<lparr>cm_ID := i, cm_TenantID := tenant, cm_DeadlineID := deadline\<rparr>]\<rparr>))))"

definition InsertAppliedHoliday :: "env \<Rightarrow> applied_holiday \<Rightarrow> applied_holiday ptx" where
  "InsertAppliedHoliday E h = with_ids E (ah_TenantID h) (ah_CalcMemoryID h) (\<lambda>tenant memory.
     bind (next_id E) (\<lambda>i. stmt E (\<lambda>s.
       if find_row (\<lambda>r. ah_ID r = i) (applied_holidays s) \<noteq> None then (Inl WrapInfra, s)
       else (Inr (h\<lparr>ah_ID := i\<rparr>),
             s\<lparr>applied_holidays := applied_holidays s @
                 [h\<lparr>ah_ID := i, ah_TenantID := tenant, ah_CalcMemoryID := memory\<rparr>]\<rparr>))))"

definition InsertCrossValidation :: "env \<Rightarrow> cross_validation \<Rightarrow> cross_validation ptx" where
  "InsertCrossValidation E cv = with_ids E (cv_TenantID cv) (cv_DeadlineID cv) (\<lambda>tenant deadline.
     bind (pgOptionalUUID E (cv_DecididoPor cv)) (\<lambda>by.
     bind (next_id E) (\<lambda>i. stmt E (\<lambda>s.
       if find_row (\<lambda>r. cv_DeadlineID r = deadline) (cross_validations s) \<noteq> None
         then (Inl ErrCrossValidationExists, s)
       else if find_row (\<lambda>r. cv_ID r = i) (cross_validations s) \<noteq> None then (Inl WrapInfra, s)
       else (Inr (cv\<lparr>cv_ID := i\<rparr>),
             s\<lparr>cross_validations := cross_validations s @
                 [cv\<lparr>cv_ID := i, cv_TenantID := tenant, cv_DeadlineID := deadline,
                     cv_DifDias := to_int32 (cv_DifDias cv), cv_DecididoPor := by\<rparr>]\<rparr>)))))"

text \<open>The column \<open>em\<close> is not in the INSERT: it defaults to \<open>now()\<close>, whatever \<open>Em\<close> holds.\<close>

definition InsertDeadlineEvent :: "env \<Rightarrow> deadline_event \<Rightarrow> unit ptx" where
  "InsertDeadlineEvent E e = with_ids E (de_TenantID e) (de_DeadlineID e) (\<lambda>tenant deadline.
     bind (pgOptionalUUID E (de_AtorID e)) (\<lambda>ator. stmt E (modify_st (\<lambda>s.
       s\<lparr>deadline_events := deadline_events s @
           [e\<lparr>de_TenantID := tenant, de_DeadlineID := deadline, de_AtorID := ator,
              de_Em := e_tx_time E\<rparr>]\<rparr>))))"

section \<open>Repository: the panel\<close>

text \<open>The thin read structs are projections of the row, which these reads return.\<close>

definition GetDeadlineForConfirm :: "env \<Rightarrow> string \<Rightarrow> string \<Rightarrow> deadline_row ptx" where
  "GetDeadlineForConfirm E intimationID tenantID = with_ids E intimationID tenantID (\<lambda>i tenant.
     select_one E deadlines (\<lambda>r. d_IntimationID r = i \<and> d_TenantID r = tenant) ErrDeadlineNotFound)"

definition GetDeadlineForAdjust :: "env \<Rightarrow> string \<Rightarrow> string \<Rightarrow> deadline_row ptx" where
  "GetDeadlineForAdjust E deadlineID tenantID = with_ids E deadlineID tenantID (\<lambda>i tenant.
     select_one E deadlines (\<lambda>r. d_ID r = i \<and> d_TenantID r = tenant) ErrDeadlineNotFound)"

definition GetDeadlineForCheck :: "env \<Rightarrow> string \<Rightarrow> string \<Rightarrow> deadline_row ptx" where
  "GetDeadlineForCheck E deadlineID tenantID = with_ids E deadlineID tenantID (\<lambda>i tenant.
     select_one E deadlines (\<lambda>r. d_ID r = i \<and> d_TenantID r = tenant) ErrDeadlineNotFound)"

definition GetDeadlineEndDate :: "env \<Rightarrow> string \<Rightarrow> string \<Rightarrow> day ptx" where
  "GetDeadlineEndDate E deadlineID tenantID = with_ids E deadlineID tenantID (\<lambda>i tenant.
     bind (select_one E deadlines (\<lambda>r. d_ID r = i \<and> d_TenantID r = tenant) ErrDeadlineNotFound)
       (\<lambda>r. ret (d_EndDate r)))"

definition GetIntimationAnchors :: "env \<Rightarrow> string \<Rightarrow> string \<Rightarrow> intimation_anchors ptx" where
  "GetIntimationAnchors E intimationID tenantID = with_ids E intimationID tenantID (\<lambda>i tenant.
     bind (select_one E intimations (\<lambda>r. in_ID r = i \<and> in_TenantID r = tenant) ErrDeadlineNotFound)
       (\<lambda>r. ret (in_Anchors r)))"

definition GetIntimationAssignee :: "env \<Rightarrow> string \<Rightarrow> string \<Rightarrow> string option ptx" where
  "GetIntimationAssignee E intimationID tenantID = with_ids E intimationID tenantID (\<lambda>i tenant.
     bind (select_one E intimations (\<lambda>r. in_ID r = i \<and> in_TenantID r = tenant) ErrIntimationNotFound)
       (\<lambda>r. ret (if in_AssigneeUserID r = '''' then None else Some (in_AssigneeUserID r))))"

text \<open>The join with \<open>court_record\<close>: an intimation whose record is absent yields no row.\<close>

definition GetPreviewContext :: "env \<Rightarrow> string \<Rightarrow> string \<Rightarrow> (intimation_anchors \<times> string) ptx" where
  "GetPreviewContext E intimationID tenantID = with_ids E intimationID tenantID (\<lambda>i tenant.
     stmt E (\<lambda>s. case find_row (\<lambda>r. in_ID r = i \<and> in_TenantID r = tenant) (intimations s) of
       None \<Rightarrow> (Inl ErrDeadlineNotFound, s)
     | Some r \<Rightarrow> (case find_row (\<lambda>c. cr_ID c = in_CourtRecordID r) (court_records s) of
           None \<Rightarrow> (Inl ErrDeadlineNotFound, s)
         | Some c \<Rightarrow> (Inr (in_Anchors r, cr_Court c), s))))"

record confirm_params =
  cp_IntimationID :: string
  cp_TenantID :: string
  cp_Kind :: string
  cp_Days :: int
  cp_Counting :: counting
  cp_Doubled :: bool
  cp_DoubledReason :: string
  cp_EndDate :: day
  cp_PrazoInterno :: day
  cp_HolidaysApplied :: "day list"
  cp_ConfirmedBy :: string
  cp_ConfirmedAt :: instant
  cp_StartDate :: day
  cp_AnchorEvent :: anchor
  cp_ManualExtraDays :: int
  cp_LegalCitation :: string

text \<open>The UPDATE has no status in its WHERE clause: it opens a prazo whatever its status was.\<close>

definition confirm_row :: "confirm_params \<Rightarrow> string \<Rightarrow> deadline_row \<Rightarrow> deadline_row" where
  "confirm_row p by r = r\<lparr>d_Status := StatusOpen, d_Kind := cp_Kind p, d_Days := to_int32 (cp_Days p),
     d_Counting := cp_Counting p, d_Doubled := cp_Doubled p, d_DoubledReason := cp_DoubledReason p,
     d_EndDate := cp_EndDate p, d_HolidaysApplied := cp_HolidaysApplied p,
     d_ConfirmedBy := Some by, d_ConfirmedAt := Some (cp_ConfirmedAt p), d_StartDate := cp_StartDate p,
     d_AnchorEvent := cp_AnchorEvent p, d_ManualExtraDays := to_int32 (cp_ManualExtraDays p),
     d_LegalCitation := cp_LegalCitation p, d_PrazoInterno := cp_PrazoInterno p\<rparr>"

definition ConfirmDeadline :: "env \<Rightarrow> confirm_params \<Rightarrow> (string \<times> string) ptx" where
  "ConfirmDeadline E p = with_ids E (cp_IntimationID p) (cp_TenantID p) (\<lambda>i tenant.
     bind (parseUUID E (cp_ConfirmedBy p)) (\<lambda>by.
     if panel_check (cp_AnchorEvent p) (to_int32 (cp_ManualExtraDays p))
     then bind (update_deadline E (\<lambda>r. d_IntimationID r = i \<and> d_TenantID r = tenant)
                  (confirm_row p by) ErrDeadlineNotFound)
            (\<lambda>r. ret (d_ID r, d_CourtRecordID r))
     else bind (select_one E deadlines (\<lambda>r. d_IntimationID r = i \<and> d_TenantID r = tenant) ErrDeadlineNotFound)
            (\<lambda>_. fail WrapInfra)))"

record adjust_params =
  ap_DeadlineID :: string
  ap_TenantID :: string
  ap_Kind :: string
  ap_Days :: int
  ap_Counting :: counting
  ap_Doubled :: bool
  ap_DoubledReason :: string
  ap_EndDate :: day
  ap_PrazoInterno :: day
  ap_HolidaysApplied :: "day list"
  ap_StartDate :: day
  ap_AnchorEvent :: anchor
  ap_ManualExtraDays :: int

definition adjust_row :: "adjust_params \<Rightarrow> deadline_row \<Rightarrow> deadline_row" where
  "adjust_row p r = r\<lparr>d_Kind := ap_Kind p, d_Days := to_int32 (ap_Days p), d_Counting := ap_Counting p,
     d_Doubled := ap_Doubled p, d_DoubledReason := ap_DoubledReason p, d_EndDate := ap_EndDate p,
     d_HolidaysApplied := ap_HolidaysApplied p, d_StartDate := ap_StartDate p,
     d_AnchorEvent := ap_AnchorEvent p, d_ManualExtraDays := to_int32 (ap_ManualExtraDays p),
     d_PrazoInterno := ap_PrazoInterno p\<rparr>"

definition UpdateDeadlineAdjust :: "env \<Rightarrow> adjust_params \<Rightarrow> (string \<times> string) ptx" where
  "UpdateDeadlineAdjust E p = with_ids E (ap_DeadlineID p) (ap_TenantID p) (\<lambda>i tenant.
     if panel_check (ap_AnchorEvent p) (to_int32 (ap_ManualExtraDays p))
     then bind (update_deadline E (\<lambda>r. d_ID r = i \<and> d_TenantID r = tenant) (adjust_row p) ErrDeadlineNotFound)
            (\<lambda>r. ret (d_ID r, d_CourtRecordID r))
     else bind (select_one E deadlines (\<lambda>r. d_ID r = i \<and> d_TenantID r = tenant) ErrDeadlineNotFound)
            (\<lambda>_. fail WrapInfra))"

section \<open>Repository: guarded transitions\<close>

text \<open>The five status flips by id, each with the statuses its WHERE clause admits.\<close>

definition flip_status :: "env \<Rightarrow> string \<Rightarrow> string \<Rightarrow> (deadline_row \<Rightarrow> bool) \<Rightarrow> (deadline_row \<Rightarrow> deadline_row)
    \<Rightarrow> string ptx" where
  "flip_status E deadlineID tenantID ok f = with_ids E deadlineID tenantID (\<lambda>i tenant.
     bind (update_deadline E (\<lambda>r. d_ID r = i \<and> d_TenantID r = tenant \<and> ok r) f ErrDeadlineNotFound)
       (\<lambda>r. ret (d_ID r)))"

definition MarkDeadlineStatus :: "env \<Rightarrow> string \<Rightarrow> string \<Rightarrow> status \<Rightarrow> status \<Rightarrow> string ptx" where
  "MarkDeadlineStatus E deadlineID tenantID from to =
     flip_status E deadlineID tenantID (\<lambda>r. d_Status r = from) (\<lambda>r. r\<lparr>d_Status := to\<rparr>)"

definition MarkNoDeadline :: "env \<Rightarrow> string \<Rightarrow> string \<Rightarrow> string \<Rightarrow> instant \<Rightarrow> string ptx" where
  "MarkNoDeadline E deadlineID tenantID confirmedBy confirmedAt =
     with_ids E deadlineID tenantID (\<lambda>i tenant. bind (parseUUID E confirmedBy) (\<lambda>by.
       bind (update_deadline E
               (\<lambda>r. d_ID r = i \<and> d_TenantID r = tenant \<and> d_Status r \<in> {StatusPending, StatusOpen})
               (\<lambda>r. r\<lparr>d_Status := StatusNoDeadline, d_ConfirmedBy := Some by,
                      d_ConfirmedAt := Some confirmedAt\<rparr>) ErrDeadlineNotFound)
         (\<lambda>r. ret (d_ID r))))"

definition ReopenNoDeadline :: "env \<Rightarrow> string \<Rightarrow> string \<Rightarrow> string ptx" where
  "ReopenNoDeadline E deadlineID tenantID =
     flip_status E deadlineID tenantID (\<lambda>r. d_Status r = StatusNoDeadline)
       (\<lambda>r. r\<lparr>d_Status := StatusPending, d_ConfirmedBy := None, d_ConfirmedAt := None\<rparr>)"

definition RepoMarkMissed :: "env \<Rightarrow> string \<Rightarrow> string \<Rightarrow> string ptx" where
  "RepoMarkMissed E deadlineID tenantID =
     flip_status E deadlineID tenantID (\<lambda>r. d_Status r = StatusOpen \<and> d_EndDate r < CURRENT_DATE E)
       (\<lambda>r. r\<lparr>d_Status := StatusMissed\<rparr>)"

definition RepoMarkMet :: "env \<Rightarrow> string \<Rightarrow> string \<Rightarrow> string ptx" where
  "RepoMarkMet E deadlineID tenantID =
     flip_status E deadlineID tenantID (\<lambda>r. d_Status r \<in> {StatusMissed, StatusOpen})
       (\<lambda>r. r\<lparr>d_Status := StatusMet\<rparr>)"

definition MarkResolvedOnConclusion :: "env \<Rightarrow> string \<Rightarrow> string \<Rightarrow> string ptx" where
  "MarkResolvedOnConclusion E deadlineID tenantID =
     flip_status E deadlineID tenantID
       (\<lambda>r. d_Status r \<in> {StatusPending, StatusOpen, StatusMissed})
       (\<lambda>r. r\<lparr>d_Status := StatusResolvedOnConclusion\<rparr>)"

definition RevokeDeadlineByIntimation :: "env \<Rightarrow> string \<Rightarrow> string \<Rightarrow> deadline_row ptx" where
  "RevokeDeadlineByIntimation E intimationID tenantID = with_ids E intimationID tenantID (\<lambda>i tenant.
     update_deadline E (\<lambda>r. d_IntimationID r = i \<and> d_TenantID r = tenant \<and> d_Status r \<noteq> StatusCancelled)
       (\<lambda>r. r\<lparr>d_Status := StatusCancelled\<rparr>) ErrDeadlineNotFound)"

definition list_deadlines :: "env \<Rightarrow> string \<Rightarrow> string \<Rightarrow> status set \<Rightarrow> deadline_row list ptx" where
  "list_deadlines E courtRecordID tenantID sts = with_ids E courtRecordID tenantID (\<lambda>record tenant.
     stmt E (read_st (\<lambda>s. filter (\<lambda>r. d_CourtRecordID r = record \<and> d_TenantID r = tenant
       \<and> d_Status r \<in> sts) (deadlines s))))"

definition ListReconcilableDeadlines :: "env \<Rightarrow> string \<Rightarrow> string \<Rightarrow> deadline_row list ptx" where
  "ListReconcilableDeadlines E courtRecordID tenantID =
     list_deadlines E courtRecordID tenantID {StatusMissed, StatusOpen}"

definition ListDeadlinesForConclusion :: "env \<Rightarrow> string \<Rightarrow> string \<Rightarrow> deadline_row list ptx" where
  "ListDeadlinesForConclusion E courtRecordID tenantID =
     list_deadlines E courtRecordID tenantID {StatusPending, StatusOpen, StatusMissed}"

text \<open>
  The predicate of a response movement: a listed TPU code or, without a code, a text that
  matches the alternatives case-insensitively.
\<close>

definition response_words :: "string list" where
  "response_words = [''peti'' @ [CHR 0xC3, CHR 0xA7], ''manifest'', ''contesta'' @ [CHR 0xC3, CHR 0xA7],
     ''impugna'' @ [CHR 0xC3, CHR 0xA7], ''recurso'', ''embargos'', ''defesa'']"

definition response_entry :: "int list \<Rightarrow> docket_entry \<Rightarrow> bool" where
  "response_entry codes e \<longleftrightarrow> (case ed_TpuCode e of
     Some c \<Rightarrow> c \<in> set codes
   | None \<Rightarrow> list_ex (Contains (ToLower (ed_Text e))) response_words)"

definition has_response :: "int list \<Rightarrow> prazo_db \<Rightarrow> string \<Rightarrow> string \<Rightarrow> day \<Rightarrow> bool" where
  "has_response codes s record tenant start \<longleftrightarrow>
     list_ex (\<lambda>cr. cr_ID cr = record \<and> cr_TenantID cr = tenant) (court_records s)
     \<and> list_ex (\<lambda>e. ed_CourtRecordID e = record \<and> midnight start \<le> ed_OccurredAt e
          \<and> response_entry codes e) (docket_entries s)"

definition HasResponseMovement :: "env \<Rightarrow> string \<Rightarrow> string \<Rightarrow> day \<Rightarrow> int list \<Rightarrow> bool ptx" where
  "HasResponseMovement E courtRecordID tenantID startDate tpuCodes =
     with_ids E courtRecordID tenantID (\<lambda>record tenant.
       stmt E (read_st (\<lambda>s. has_response tpuCodes s record tenant startDate)))"

section \<open>Repository: divergence\<close>

definition GetCrossValidation :: "env \<Rightarrow> string \<Rightarrow> string \<Rightarrow> cross_validation ptx" where
  "GetCrossValidation E tenantID deadlineID = with_ids E deadlineID tenantID (\<lambda>i tenant.
     bind (select_one E cross_validations (\<lambda>c. cv_DeadlineID c = i \<and> cv_TenantID c = tenant)
             ErrCrossValidationNotFound)
       (\<lambda>c. ret (c\<lparr>cv_TenantID := tenantID, cv_DeadlineID := deadlineID\<rparr>)))"

definition UpdateCrossValidationDecision :: "env \<Rightarrow> string \<Rightarrow> string \<Rightarrow> string \<Rightarrow> string \<Rightarrow> unit ptx" where
  "UpdateCrossValidationDecision E tenantID deadlineID decisao decididoPor =
     with_ids E deadlineID tenantID (\<lambda>i tenant. bind (pgOptionalUUID E decididoPor) (\<lambda>by.
       stmt E (\<lambda>s.
         let P = (\<lambda>c. cv_DeadlineID c = i \<and> cv_TenantID c = tenant \<and> cv_Decisao c = '''') in
         case find_row P (cross_validations s) of
           None \<Rightarrow> (Inl ErrDeadlineNotDivergent, s)
         | Some _ \<Rightarrow> (Inr (), s\<lparr>cross_validations :=
               update_rows P (\<lambda>c. c\<lparr>cv_Decisao := decisao, cv_DecididoPor := by\<rparr>) (cross_validations s)\<rparr>))))"

definition UpdateDeadlineEndDate :: "env \<Rightarrow> string \<Rightarrow> string \<Rightarrow> day \<Rightarrow> day \<Rightarrow> unit ptx" where
  "UpdateDeadlineEndDate E tenantID deadlineID endDate prazoInterno =
     with_ids E deadlineID tenantID (\<lambda>i tenant.
       bind (update_deadline E (\<lambda>r. d_ID r = i \<and> d_TenantID r = tenant)
               (\<lambda>r. r\<lparr>d_EndDate := endDate, d_PrazoInterno := prazoInterno\<rparr>) ErrDeadlineNotFound)
         (\<lambda>_. ret ()))"

definition UpdateDeadlineSelo :: "env \<Rightarrow> string \<Rightarrow> string \<Rightarrow> seal \<Rightarrow> string \<Rightarrow> instant \<Rightarrow> unit ptx" where
  "UpdateDeadlineSelo E tenantID deadlineID selo confirmedBy confirmedAt =
     with_ids E deadlineID tenantID (\<lambda>i tenant. bind (parseUUID E confirmedBy) (\<lambda>by.
       bind (update_deadline E (\<lambda>r. d_ID r = i \<and> d_TenantID r = tenant \<and> d_Seal r = SealAApurar)
               (\<lambda>r. r\<lparr>d_Seal := selo, d_ConfirmedBy := Some by, d_ConfirmedAt := Some confirmedAt\<rparr>)
               ErrDeadlineNotDivergent)
         (\<lambda>_. ret ())))"

section \<open>Repository: suggestions and tasks\<close>

definition GetLatestSuggestion :: "env \<Rightarrow> string \<Rightarrow> string \<Rightarrow> suggestion_record option ptx" where
  "GetLatestSuggestion E tenantID intimationID = with_ids E intimationID tenantID (\<lambda>i tenant.
     stmt E (read_st (\<lambda>s.
       map_option (\<lambda>g. \<lparr>sr_IntimationID = intimationID, sr_PromptVersion = sg_PromptVersion g,
                        sr_Model = sg_Model g, sr_Tasks = sg_Tasks g\<rparr>)
         (find_row (\<lambda>g. sg_IntimationID g = i \<and> sg_TenantID g = tenant) (rev (suggestions s))))))"

definition ListTaskTitlesByDeadline :: "env \<Rightarrow> string \<Rightarrow> string \<Rightarrow> string list ptx" where
  "ListTaskTitlesByDeadline E deadlineID tenantID = with_ids E deadlineID tenantID (\<lambda>i tenant.
     stmt E (read_st (\<lambda>s. map t_Title
       (filter (\<lambda>t. t_DeadlineID t = i \<and> t_TenantID t = tenant) (tasks s)))))"

text \<open>\<open>ON CONFLICT (action_item_id) DO NOTHING\<close>; NULLs (empty ids here) never conflict.\<close>

definition InsertTask :: "env \<Rightarrow> task \<Rightarrow> task ptx" where
  "InsertTask E t =
     bind (parseUUID E (t_TenantID t)) (\<lambda>tenant.
     bind (pgOptionalUUID E (t_CourtRecordID t)) (\<lambda>record.
     bind (pgOptionalUUID E (t_DeadlineID t)) (\<lambda>deadline.
     bind (pgOptionalUUID E (t_IntimationID t)) (\<lambda>intim.
     bind (pgOptionalUUID E (t_AssigneeUserID t)) (\<lambda>assignee.
     bind (pgOptionalUUID E (t_CreatedBy t)) (\<lambda>by.
     bind (pgOptionalUUID E (t_ActionItemID t)) (\<lambda>item.
     bind (next_id E) (\<lambda>i. stmt E (\<lambda>s.
       if \<not> validTaskPriority (t_Priority t) then (Inl WrapInfra, s)
       else if item \<noteq> '''' \<and> find_row (\<lambda>r. t_ActionItemID r = item) (tasks s) \<noteq> None
         then (Inl ErrTaskExistsForActionItem, s)
       else if find_row (\<lambda>r. t_ID r = i) (tasks s) \<noteq> None then (Inl WrapInfra, s)
       else (Inr (t\<lparr>t_ID := i\<rparr>),
             s\<lparr>tasks := tasks s @
                 [t\<lparr>t_ID := i, t_TenantID := tenant, t_CourtRecordID := record, t_DeadlineID := deadline,
                    t_IntimationID := intim, t_AssigneeUserID := assignee, t_CreatedBy := by,
                    t_CompletedAt := None, t_ActionItemID := item\<rparr>]\<rparr>))))))))))"

definition GetTaskIDByActionItem :: "env \<Rightarrow> string \<Rightarrow> string \<Rightarrow> string ptx" where
  "GetTaskIDByActionItem E tenantID actionItemID = with_ids E actionItemID tenantID (\<lambda>item tenant.
     bind (select_one E tasks (\<lambda>t. t_ActionItemID t = item \<and> t_TenantID t = tenant) ErrTaskNotFound)
       (\<lambda>t. ret (t_ID t)))"

definition GetTaskForUpdate :: "env \<Rightarrow> string \<Rightarrow> string \<Rightarrow> task ptx" where
  "GetTaskForUpdate E taskID tenantID = with_ids E taskID tenantID (\<lambda>i tenant.
     select_one E tasks (\<lambda>t. t_ID t = i \<and> t_TenantID t = tenant) ErrTaskNotFound)"

definition update_task_row :: "env \<Rightarrow> (task \<Rightarrow> bool) \<Rightarrow> (task \<Rightarrow> task) \<Rightarrow> task ptx" where
  "update_task_row E P f = stmt E (\<lambda>s. case find_row P (tasks s) of
     None \<Rightarrow> (Inl ErrTaskNotFound, s)
   | Some t \<Rightarrow> if validTaskPriority (t_Priority (f t))
       then (Inr (f t), s\<lparr>tasks := update_rows P f (tasks s)\<rparr>)
       else (Inl WrapInfra, s))"

definition RepoUpdateTask :: "env \<Rightarrow> string \<Rightarrow> string \<Rightarrow> string \<Rightarrow> string \<Rightarrow> string \<Rightarrow> string \<Rightarrow> day option \<Rightarrow> string
    \<Rightarrow> task ptx" where
  "RepoUpdateTask E taskID tenantID title description kind priority dueDate assignee =
     with_ids E taskID tenantID (\<lambda>i tenant. bind (pgOptionalUUID E assignee) (\<lambda>who.
       update_task_row E (\<lambda>t. t_ID t = i \<and> t_TenantID t = tenant)
         (\<lambda>t. t\<lparr>t_Title := title, t_Description := description, t_Kind := kind,
                t_Priority := priority, t_DueDate := dueDate, t_AssigneeUserID := who\<rparr>)))"

definition GetTaskForTransition :: "env \<Rightarrow> string \<Rightarrow> string \<Rightarrow> task_status ptx" where
  "GetTaskForTransition E taskID tenantID = with_ids E taskID tenantID (\<lambda>i tenant.
     bind (select_one E tasks (\<lambda>t. t_ID t = i \<and> t_TenantID t = tenant) ErrTaskNotFound)
       (\<lambda>t. ret (t_Status t)))"

definition RepoMarkTaskStatus :: "env \<Rightarrow> string \<Rightarrow> string \<Rightarrow> task_status \<Rightarrow> task_status \<Rightarrow> instant option \<Rightarrow> string ptx" where
  "RepoMarkTaskStatus E taskID tenantID from to completedAt = with_ids E taskID tenantID (\<lambda>i tenant.
     bind (update_task_row E (\<lambda>t. t_ID t = i \<and> t_TenantID t = tenant \<and> t_Status t = from)
             (\<lambda>t. t\<lparr>t_Status := to, t_CompletedAt := completedAt\<rparr>))
       (\<lambda>t. ret (t_ID t)))"

definition EnsureTaskExistsInTenant :: "env \<Rightarrow> string \<Rightarrow> string \<Rightarrow> unit ptx" where
  "EnsureTaskExistsInTenant E taskID tenantID = with_ids E taskID tenantID (\<lambda>i tenant.
     bind (select_one E tasks (\<lambda>t. t_ID t = i \<and> t_TenantID t = tenant) ErrTaskNotFound) (\<lambda>_. ret ()))"

definition EnsureTaskInTenant :: "env \<Rightarrow> string \<Rightarrow> string \<Rightarrow> unit ptx" where
  "EnsureTaskInTenant E taskID tenantID = with_ids E taskID tenantID (\<lambda>i tenant.
     bind (select_one E tasks (\<lambda>t. t_ID t = i \<and> t_TenantID t = tenant) ErrTaskItemNotFound) (\<lambda>_. ret ()))"

definition GetActionItemCourtRecordID :: "env \<Rightarrow> string \<Rightarrow> string \<Rightarrow> string ptx" where
  "GetActionItemCourtRecordID E tenantID actionItemID = with_ids E actionItemID tenantID (\<lambda>i tenant.
     bind (select_one E action_items (\<lambda>a. ai_ID a = i \<and> ai_TenantID a = tenant) ErrActionItemNotFound)
       (\<lambda>a. ret (ai_CourtRecordID a)))"

definition InsertTaskComment :: "env \<Rightarrow> task_comment \<Rightarrow> task_comment ptx" where
  "InsertTaskComment E c =
     bind (parseUUID E (tc_TenantID c)) (\<lambda>tenant.
     bind (parseUUID E (tc_TaskID c)) (\<lambda>taskID.
     bind (parseUUID E (tc_AuthorUserID c)) (\<lambda>author.
     bind (next_id E) (\<lambda>i. stmt E (\<lambda>s.
       if find_row (\<lambda>r. tc_ID r = i) (task_comments s) \<noteq> None then (Inl WrapInfra, s)
       else (Inr (c\<lparr>tc_ID := i\<rparr>),
             s\<lparr>task_comments := task_comments s @
                 [c\<lparr>tc_ID := i, tc_TenantID := tenant, tc_TaskID := taskID,
                    tc_AuthorUserID := author\<rparr>]\<rparr>))))))"

definition InsertTaskActivity :: "env \<Rightarrow> task_activity \<Rightarrow> unit ptx" where
  "InsertTaskActivity E a =
     bind (parseUUID E (ta_TenantID a)) (\<lambda>tenant.
     bind (parseUUID E (ta_TaskID a)) (\<lambda>taskID.
     bind (parseUUID E (ta_ActorUserID a)) (\<lambda>actor.
       stmt E (modify_st (\<lambda>s. s\<lparr>task_activities := task_activities s @
         [a\<lparr>ta_TenantID := tenant, ta_TaskID := taskID, ta_ActorUserID := actor\<rparr>]\<rparr>)))))"

text \<open>\<open>COALESCE(MAX(position) + 1, 0)::int\<close>.\<close>

definition next_position :: "task_item list \<Rightarrow> int" where
  "next_position items = (if items = [] then 0 else Max (set (map ti_Position items)) + 1)"

definition NextTaskItemPosition :: "env \<Rightarrow> string \<Rightarrow> string \<Rightarrow> int ptx" where
  "NextTaskItemPosition E taskID tenantID = with_ids E taskID tenantID (\<lambda>i tenant.
     stmt E (read_st (\<lambda>s. next_position
       (filter (\<lambda>r. ti_TaskID r = i \<and> ti_TenantID r = tenant) (task_items s)))))"

definition InsertTaskItem :: "env \<Rightarrow> task_item \<Rightarrow> task_item ptx" where
  "InsertTaskItem E item =
     bind (parseUUID E (ti_TenantID item)) (\<lambda>tenant.
     bind (parseUUID E (ti_TaskID item)) (\<lambda>taskID.
     bind (next_id E) (\<lambda>i. stmt E (\<lambda>s.
       let row = \<lparr>ti_ID = i, ti_TenantID = tenant, ti_TaskID = taskID, ti_Title = ti_Title item,
                  ti_Position = to_int32 (ti_Position item), ti_Done = False, ti_DoneAt = None\<rparr> in
       if find_row (\<lambda>r. ti_ID r = i) (task_items s) \<noteq> None then (Inl WrapInfra, s)
       else (Inr (row\<lparr>ti_TenantID := ti_TenantID item\<rparr>), s\<lparr>task_items := task_items s @ [row]\<rparr>)))))"

definition with_item_ids :: "env \<Rightarrow> string \<Rightarrow> string \<Rightarrow> string \<Rightarrow> (string \<Rightarrow> string \<Rightarrow> string \<Rightarrow> 'a ptx) \<Rightarrow> 'a ptx" where
  "with_item_ids E itemID taskID tenantID k =
     bind (parseUUID E itemID) (\<lambda>i. bind (parseUUID E taskID) (\<lambda>t. bind (parseUUID E tenantID) (\<lambda>n. k i t n)))"

definition item_at :: "string \<Rightarrow> string \<Rightarrow> string \<Rightarrow> task_item \<Rightarrow> bool" where
  "item_at i t n r \<longleftrightarrow> ti_ID r = i \<and> ti_TaskID r = t \<and> ti_TenantID r = n"

definition GetTaskItemForUpdate :: "env \<Rightarrow> string \<Rightarrow> string \<Rightarrow> string \<Rightarrow> task_item ptx" where
  "GetTaskItemForUpdate E itemID taskID tenantID = with_item_ids E itemID taskID tenantID (\<lambda>i t n.
     select_one E task_items (item_at i t n) ErrTaskItemNotFound)"

definition RepoUpdateTaskItem :: "env \<Rightarrow> string \<Rightarrow> string \<Rightarrow> string \<Rightarrow> string \<Rightarrow> bool \<Rightarrow> instant option
    \<Rightarrow> task_item ptx" where
  "RepoUpdateTaskItem E itemID taskID tenantID title finished doneAt =
     with_item_ids E itemID taskID tenantID (\<lambda>i t n. stmt E (\<lambda>s.
       let f = (\<lambda>r. r\<lparr>ti_Title := title, ti_Done := finished, ti_DoneAt := doneAt\<rparr>) in
       case find_row (item_at i t n) (task_items s) of
         None \<Rightarrow> (Inl ErrTaskItemNotFound, s)
       | Some r \<Rightarrow> (Inr ((f r)\<lparr>ti_TenantID := tenantID\<rparr>),
             s\<lparr>task_items := update_rows (item_at i t n) f (task_items s)\<rparr>)))"

definition RepoDeleteTaskItem :: "env \<Rightarrow> string \<Rightarrow> string \<Rightarrow> string \<Rightarrow> unit ptx" where
  "RepoDeleteTaskItem E itemID taskID tenantID = with_item_ids E itemID taskID tenantID (\<lambda>i t n.
     stmt E (\<lambda>s. case find_row (item_at i t n) (task_items s) of
       None \<Rightarrow> (Inl ErrTaskItemNotFound, s)
     | Some _ \<Rightarrow> (Inr (), s\<lparr>task_items := filter (\<lambda>r. \<not> item_at i t n r) (task_items s)\<rparr>)))"

section \<open>Evaluation and frame lemmas\<close>

lemma keeps_update_deadline:
  assumes "frame P" and "\<And>s r. P s \<Longrightarrow> find_row Q (deadlines s) = Some r
      \<Longrightarrow> P (s\<lparr>deadlines := update_rows Q f (deadlines s)\<rparr>)"
  shows "keeps P (update_deadline E Q f miss)"
  unfolding update_deadline_def using assms(1)
  by (rule keeps_stmt) (auto simp: keeps_def assms(2) split: option.splits)

section \<open>What leaves the prazos alone\<close>

text \<open>
  Most steps of a transaction do not write the \<open>deadline\<close> table. A step is quiet when it
  never does; a predicate of the table alone is kept by every quiet step.
\<close>

named_theorems quiet_rules "steps that do not write the deadline table"

definition quiet :: "'a ptx \<Rightarrow> bool" where
  "quiet m \<longleftrightarrow> (\<forall>s. deadlines (snd (m s)) = deadlines s)"

definition on_deadlines :: "(prazo_db \<Rightarrow> bool) \<Rightarrow> bool" where
  "on_deadlines P \<longleftrightarrow> (\<forall>s t. deadlines s = deadlines t \<longrightarrow> P s = P t)"

lemma on_deadlinesI [intro]: "on_deadlines (\<lambda>s. Q (deadlines s))"
  by (simp add: on_deadlines_def)

lemma on_deadlines_cong: "on_deadlines P \<Longrightarrow> deadlines s = deadlines t \<Longrightarrow> P s = P t"
  unfolding on_deadlines_def by blast

lemma on_deadlines_frame: "on_deadlines P \<Longrightarrow> frame P"
  unfolding frame_def by (intro conjI allI; rule on_deadlines_cong; simp)

lemma quiet_keeps: "on_deadlines P \<Longrightarrow> quiet m \<Longrightarrow> keeps P m"
  unfolding on_deadlines_def quiet_def keeps_def by blast

lemma quiet_iff: "quiet m \<longleftrightarrow> (\<forall>X. keeps (\<lambda>s. deadlines s = X) m)"
  by (auto simp: quiet_def keeps_def)

lemma frame_deadlines [simp]: "frame (\<lambda>s. deadlines s = X)"
  by (simp add: frame_def)

lemma quiet_ret [quiet_rules]: "quiet (ret x)" and quiet_fail [quiet_rules]: "quiet (fail e)"
  and quiet_lift [quiet_rules]: "quiet (lift_sum r)" and quiet_read [quiet_rules]: "quiet (read_st g)"
  and quiet_guard [quiet_rules]: "quiet (guard_tx b e)"
  by (simp_all add: quiet_def guard_tx_apply)

lemma quiet_bind [quiet_rules]: "quiet m \<Longrightarrow> (\<And>x. quiet (f x)) \<Longrightarrow> quiet (bind m f)"
  by (simp add: quiet_iff keeps_bind)

lemma quiet_attempt [quiet_rules]: "quiet m \<Longrightarrow> quiet (attempt m)"
  by (simp add: quiet_iff keeps_attempt)

lemma quiet_for_each [quiet_rules]: "(\<And>x. quiet (body x)) \<Longrightarrow> quiet (for_each xs body)"
  by (simp add: quiet_iff keeps_for_each)

lemma quiet_if [quiet_rules]: "(b \<Longrightarrow> quiet m) \<Longrightarrow> (\<not> b \<Longrightarrow> quiet n) \<Longrightarrow> quiet (if b then m else n)"
  by simp

lemma quiet_stmt [quiet_rules]: "quiet m \<Longrightarrow> quiet (stmt E m)"
  by (simp add: quiet_iff keeps_stmt)

lemma quiet_modify [quiet_rules]: "(\<And>s. deadlines (g s) = deadlines s) \<Longrightarrow> quiet (modify_st g)"
  by (simp add: quiet_def)

lemma quiet_option [quiet_rules]:
  "quiet m \<Longrightarrow> (\<And>y. quiet (f y)) \<Longrightarrow> quiet (case x of None \<Rightarrow> m | Some y \<Rightarrow> f y)"
  by (cases x) auto

lemma quiet_sum [quiet_rules]:
  "(\<And>e. quiet (m e)) \<Longrightarrow> (\<And>y. quiet (f y)) \<Longrightarrow> quiet (case x of Inl e \<Rightarrow> m e | Inr y \<Rightarrow> f y)"
  by (cases x) auto

lemma quiet_prod [quiet_rules]: "(\<And>a b. quiet (f a b)) \<Longrightarrow> quiet (case x of (a, b) \<Rightarrow> f a b)"
  by (cases x) auto

lemma quiet_now [quiet_rules]: "quiet (now_tx E)" and quiet_next_id [quiet_rules]: "quiet (next_id E)"
  by (simp_all add: quiet_def now_tx_def next_id_def)

lemma quiet_parse [quiet_rules]: "quiet (parseUUID E x)"
  by (simp add: quiet_def parseUUID_def split: option.splits)

lemma quiet_optional [quiet_rules]: "quiet (pgOptionalUUID E x)"
  by (simp add: pgOptionalUUID_def quiet_parse quiet_ret)

lemma quiet_with_ids [quiet_rules]: "(\<And>x y. quiet (k x y)) \<Longrightarrow> quiet (with_ids E a b k)"
  by (simp add: with_ids_def quiet_bind quiet_parse)

lemma quiet_select [quiet_rules]: "quiet (select_one E tbl Q miss)"
  unfolding select_one_def by (rule quiet_stmt) (simp add: quiet_def split: option.splits)

lemma deadlines_insert_outbox [simp]: "deadlines (insert_outbox ev s) = deadlines s"
  by (simp add: insert_outbox_def)

lemma quiet_publish [quiet_rules]: "quiet (publish E ev)"
  unfolding publish_def by (rule quiet_stmt) (rule quiet_modify, simp)

lemma quiet_publish_new [quiet_rules]: "quiet (publish_new E mk)"
  unfolding publish_new_def by (rule quiet_bind) (rule quiet_next_id, rule quiet_publish)

lemma quiet_SeenOrMark [quiet_rules]: "quiet (SeenOrMark E c i)"
  unfolding SeenOrMark_def by (rule quiet_stmt) (simp add: quiet_def seen_or_mark_def split: prod.splits)

lemma quiet_row [quiet_rules]:
  "quiet (\<lambda>s. case g s of None \<Rightarrow> (a s, s) | Some r \<Rightarrow> (b r s, s))"
  by (simp add: quiet_def split: option.splits)

lemma quiet_GetCourtRecordClass [quiet_rules]: "quiet (GetCourtRecordClass E a b)"
  unfolding GetCourtRecordClass_def by (intro quiet_rules)

lemma quiet_GetCourtRecordCourt [quiet_rules]: "quiet (GetCourtRecordCourt E a b)"
  unfolding GetCourtRecordCourt_def by (intro quiet_rules)

lemma quiet_ResolveRule [quiet_rules]: "quiet (ResolveRule E a b c)"
  unfolding ResolveRule_def by (intro quiet_rules; simp add: quiet_def Let_def split: option.splits)

lemma quiet_GetPolicy [quiet_rules]: "quiet (GetPolicy E a)"
  unfolding GetPolicy_def by (intro quiet_rules; simp add: quiet_def Let_def split: option.splits)

lemma quiet_GetDeadlineForConfirm [quiet_rules]: "quiet (GetDeadlineForConfirm E a b)"
  unfolding GetDeadlineForConfirm_def by (intro quiet_rules)

lemma quiet_GetDeadlineForAdjust [quiet_rules]: "quiet (GetDeadlineForAdjust E a b)"
  unfolding GetDeadlineForAdjust_def by (intro quiet_rules)

lemma quiet_GetDeadlineForCheck [quiet_rules]: "quiet (GetDeadlineForCheck E a b)"
  unfolding GetDeadlineForCheck_def by (intro quiet_rules)

lemma quiet_GetDeadlineEndDate [quiet_rules]: "quiet (GetDeadlineEndDate E a b)"
  unfolding GetDeadlineEndDate_def by (intro quiet_rules)

lemma quiet_GetIntimationAnchors [quiet_rules]: "quiet (GetIntimationAnchors E a b)"
  unfolding GetIntimationAnchors_def by (intro quiet_rules)

lemma quiet_GetIntimationAssignee [quiet_rules]: "quiet (GetIntimationAssignee E a b)"
  unfolding GetIntimationAssignee_def by (intro quiet_rules)

lemma quiet_GetPreviewContext [quiet_rules]: "quiet (GetPreviewContext E a b)"
  unfolding GetPreviewContext_def by (intro quiet_rules; simp add: quiet_def Let_def split: option.splits)

lemma quiet_list_deadlines [quiet_rules]: "quiet (list_deadlines E a b sts)"
  unfolding list_deadlines_def by (intro quiet_rules)

lemma quiet_ListReconcilableDeadlines [quiet_rules]: "quiet (ListReconcilableDeadlines E a b)"
  unfolding ListReconcilableDeadlines_def by (intro quiet_rules)

lemma quiet_ListDeadlinesForConclusion [quiet_rules]: "quiet (ListDeadlinesForConclusion E a b)"
  unfolding ListDeadlinesForConclusion_def by (intro quiet_rules)

lemma quiet_HasResponseMovement [quiet_rules]: "quiet (HasResponseMovement E a b d codes)"
  unfolding HasResponseMovement_def by (intro quiet_rules)

lemma quiet_GetCrossValidation [quiet_rules]: "quiet (GetCrossValidation E a b)"
  unfolding GetCrossValidation_def by (intro quiet_rules)

lemma quiet_GetLatestSuggestion [quiet_rules]: "quiet (GetLatestSuggestion E a b)"
  unfolding GetLatestSuggestion_def by (intro quiet_rules)

lemma quiet_ListTaskTitlesByDeadline [quiet_rules]: "quiet (ListTaskTitlesByDeadline E a b)"
  unfolding ListTaskTitlesByDeadline_def by (intro quiet_rules)

lemma quiet_InsertCalcMemory [quiet_rules]: "quiet (InsertCalcMemory E m)"
  unfolding InsertCalcMemory_def by (intro quiet_rules; simp add: quiet_def Let_def split: option.splits)

lemma quiet_InsertAppliedHoliday [quiet_rules]: "quiet (InsertAppliedHoliday E h)"
  unfolding InsertAppliedHoliday_def by (intro quiet_rules; simp add: quiet_def Let_def split: option.splits)

lemma quiet_InsertCrossValidation [quiet_rules]: "quiet (InsertCrossValidation E cv)"
  unfolding InsertCrossValidation_def by (intro quiet_rules; simp add: quiet_def Let_def split: option.splits)

lemma quiet_InsertDeadlineEvent [quiet_rules]: "quiet (InsertDeadlineEvent E de)"
  unfolding InsertDeadlineEvent_def by (intro quiet_rules; simp)

lemma quiet_UpdateCrossValidationDecision [quiet_rules]: "quiet (UpdateCrossValidationDecision E a b d u)"
  unfolding UpdateCrossValidationDecision_def by (intro quiet_rules; simp add: quiet_def Let_def split: option.splits)

end
