(* ===== verification/DeadlineBirth.thy ===== *)
theory DeadlineBirth
  imports DeadlineStore
begin

text \<open>
  The birth of a prazo (\<open>OnIntimationObserved\<close> and \<open>scheduleChecks\<close> of
  \<open>internal/deadline/domain.go\<close>): one observed intimation is derived into a prazo, its audit
  trail, its events and its scheduled checks, in one unit of work. The use case is cut where
  the source's comments cut it: derivation, persistence, scheduling.
\<close>

section \<open>Derivation\<close>

definition consumerDeadline :: string where
  "consumerDeadline = ''deadline''"

definition intimationTypeComunicacao :: string where
  "intimationTypeComunicacao = ''COMUNICACAO''"

text \<open>The cross-validation, when the intimation declares a day count.\<close>

definition cross_validate :: "env \<Rightarrow> intimation_observed \<Rightarrow> counting \<Rightarrow> day \<Rightarrow> day \<Rightarrow> day list
    \<Rightarrow> cross_validation option ptx" where
  "cross_validate E ev c start endDate holidays =
     (case parseDeclaradoDays (io_PrazoDeclarado ev) of
        None \<Rightarrow> ret None
      | Some declaredDays \<Rightarrow>
          bind (lift_sum (compute (e_cal E) c start declaredDays (io_UF ev) (io_Court ev))) (\<lambda>(declaredEnd, _).
            ret (Some (buildCrossValidation (io_TenantID ev) declaredEnd endDate holidays))))"

text \<open>
  The fallback on the classifier, for an intimation that declares nothing: whether it was
  used, the type and the confidence. Every failure of the classifier is swallowed.
\<close>

definition classify_omitted :: "env \<Rightarrow> intimation_observed \<Rightarrow> string \<Rightarrow> bool \<times> string \<times> string" where
  "classify_omitted E ev cls =
     (case e_classifier E of
        None \<Rightarrow> (False, '''', ''0'')
      | Some classify \<Rightarrow>
          if io_PrazoDeclarado ev \<noteq> '''' then (False, '''', ''0'')
          else case classify (io_TenantID ev)
                 \<lparr>cc_Court = io_Court ev, cc_Class = cls, cc_IntimationType = io_Type ev\<rparr> of
            Inr ct \<Rightarrow> (True, ct_Tipo ct, ct_Confianca ct)
          | Inl _ \<Rightarrow> (False, '''', ''0''))"

text \<open>Open when no human is required, pending otherwise, and missed once the grace day has begun.\<close>

definition birth_status :: "bool \<Rightarrow> day \<Rightarrow> instant \<Rightarrow> status" where
  "birth_status confirmacao endDate now =
     (let status = (if \<not> confirmacao then StatusOpen else StatusPending) in
      if \<not> midnight (endDate + 1) > now then StatusMissed else status)"

text \<open>The dates: the anchor, the class of the record, the rule, the counting, the end and the buffer.\<close>

definition derive_dates :: "env \<Rightarrow> intimation_observed
    \<Rightarrow> (string \<times> deadline_rule \<times> counting \<times> day \<times> day \<times> day list \<times> day) ptx" where
  "derive_dates E ev =
     bind (lift_sum (parseWireDate (io_DeadlineStartAt ev))) (\<lambda>start.
     bind (GetCourtRecordClass E (io_TenantID ev) (io_CourtRecordID ev)) (\<lambda>cls.
     bind (ResolveRule E rulesVersion (io_Type ev) (io_Court ev)) (\<lambda>rule.
     let c = decideCounting (dr_Counting rule) (io_Court ev) cls in
     bind (lift_sum (compute (e_cal E) c start (dr_Days rule) (io_UF ev) (io_Court ev))) (\<lambda>(endDate, holidays).
     bind (lift_sum (subtractBusiness (e_cal E) endDate internalBufferBusinessDays (io_UF ev) (io_Court ev)))
       (\<lambda>(prazoInterno, _).
     ret (cls, rule, c, start, endDate, holidays, prazoInterno))))))"

text \<open>The struct literal the derivation ends with.\<close>

definition new_prazo :: "intimation_observed \<Rightarrow> deadline_rule \<Rightarrow> counting \<Rightarrow> day \<Rightarrow> day \<Rightarrow> day list \<Rightarrow> day
    \<Rightarrow> origem \<Rightarrow> seal \<Rightarrow> bool \<Rightarrow> status \<Rightarrow> deadline" where
  "new_prazo ev rule c start endDate holidays prazoInterno orig sl confirmacao st =
     \<lparr>d_ID = '''', d_TenantID = io_TenantID ev, d_CourtRecordID = io_CourtRecordID ev,
      d_IntimationID = io_IntimationID ev, d_Kind = dr_Kind rule, d_Days = dr_Days rule,
      d_Counting = c, d_Doubled = dr_Doubled rule, d_DoubledReason = '''',
      d_HolidaysApplied = holidays, d_StartDate = start, d_EndDate = endDate,
      d_PrazoInterno = prazoInterno, d_Status = st, d_Source = SourceRule,
      d_RulesVersion = dr_RulesVersion rule, d_AnchorEvent = AnchorDeadlineStart,
      d_LegalCitation = dr_LegalCitation rule, d_Origem = orig, d_Seal = sl,
      d_ConfirmacaoExigida = confirmacao, d_ConfirmedBy = None, d_ConfirmedAt = None\<rparr>"

definition is_divergent :: "cross_validation option \<Rightarrow> bool" where
  "is_divergent crossVal = (case crossVal of None \<Rightarrow> False
     | Some cv \<Rightarrow> cv_Resultado cv = crossValidationDivergente)"

definition judged_prazo :: "intimation_observed \<Rightarrow> deadline_rule \<Rightarrow> counting \<Rightarrow> day \<Rightarrow> day \<Rightarrow> day list \<Rightarrow> day
    \<Rightarrow> cross_validation option \<Rightarrow> bool \<Rightarrow> bool \<Rightarrow> instant \<Rightarrow> deadline" where
  "judged_prazo ev rule c start endDate holidays prazoInterno crossVal usedIA strict now =
     (let orig = deriveOrigem (io_PrazoDeclarado ev \<noteq> '''') usedIA;
          sl = deriveSeal orig (is_divergent crossVal);
          confirmacao = deriveConfirmacaoExigida sl strict in
      new_prazo ev rule c start endDate holidays prazoInterno orig sl confirmacao
        (birth_status confirmacao endDate now))"

definition derive_deadline :: "env \<Rightarrow> intimation_observed
    \<Rightarrow> (deadline \<times> cross_validation option \<times> string \<times> string) ptx" where
  "derive_deadline E ev =
     bind (derive_dates E ev) (\<lambda>(cls, rule, c, start, endDate, holidays, prazoInterno).
     bind (GetPolicy E (io_TenantID ev)) (\<lambda>policy.
     bind (cross_validate E ev c start endDate holidays) (\<lambda>crossVal.
     case classify_omitted E ev cls of (usedIA, iaTipo, iaConfianca) \<Rightarrow>
     bind (now_tx E) (\<lambda>now.
       ret (judged_prazo ev rule c start endDate holidays prazoInterno crossVal usedIA
              (dp_ConfirmacaoObrigatoria policy) now,
            crossVal, iaTipo, iaConfianca)))))"

section \<open>Persistence\<close>

definition label_of :: "(day \<rightharpoonup> holiday) \<Rightarrow> day \<Rightarrow> string \<times> string" where
  "label_of labels h = (case labels h of
     Some hol \<Rightarrow> (Name hol, ambitoLabel (Scope hol))
   | None \<Rightarrow> (''Feriado ou suspens'' @ [CHR 0xC3, CHR 0xA3] @ ''o'', ''nacional''))"

definition insert_holidays :: "env \<Rightarrow> intimation_observed \<Rightarrow> string \<Rightarrow> day list \<Rightarrow> unit ptx" where
  "insert_holidays E ev memoryID holidays =
     bind (if 0 < length holidays
           then lift_sum (lookupHolidays (e_cal E) holidays (io_UF ev) (io_Court ev))
           else ret Map.empty) (\<lambda>labels.
     for_each holidays (\<lambda>h. case label_of labels h of (nome, ambito) \<Rightarrow>
       bind (InsertAppliedHoliday E
               \<lparr>ah_ID = '''', ah_TenantID = io_TenantID ev, ah_CalcMemoryID = memoryID, ah_Data = h,
                ah_Nome = nome, ah_Ambito = ambito\<rparr>) (\<lambda>_. ret ())))"

text \<open>The two exclusive announcements, with the audit line of the system's own decision.\<close>

definition announce_confirmation :: "env \<Rightarrow> deadline \<Rightarrow> unit ptx" where
  "announce_confirmation E d =
     (if d_ConfirmacaoExigida d
      then publish_new E (newDeadlineConfirmationRequired (d_TenantID d) (d_ID d))
      else if d_Status d = StatusOpen
      then bind (publish_new E (newDeadlineAssumed d)) (\<lambda>_. bind (now_tx E) (\<lambda>now.
             InsertDeadlineEvent E
               \<lparr>de_TenantID = d_TenantID d, de_DeadlineID = d_ID d, de_Tipo = ''assumido'',
                de_Detalhe = ''Prazo assumido pelo sistema: confirma'' @ [CHR 0xC3, CHR 0xA7, CHR 0xC3, CHR 0xA3] @ ''o humana n'' @ [CHR 0xC3, CHR 0xA3] @ ''o exigida'',
                de_AtorID = '''', de_Em = now\<rparr>))
      else ret ())"

definition prazo_base :: "deadline \<Rightarrow> string" where
  "prazo_base d = itoa (d_Days d) @ '' '' @ countingLabel (d_Counting d)"

definition insert_cross_validation :: "env \<Rightarrow> string \<Rightarrow> cross_validation option \<Rightarrow> unit ptx" where
  "insert_cross_validation E deadlineID crossVal = (case crossVal of
     None \<Rightarrow> ret ()
   | Some cv \<Rightarrow> bind (InsertCrossValidation E (cv\<lparr>cv_DeadlineID := deadlineID\<rparr>)) (\<lambda>_. ret ()))"

definition scheduleChecks :: "env \<Rightarrow> deadline \<Rightarrow> unit ptx" where
  "scheduleChecks E d = bind (now_tx E) (\<lambda>now.
     bind (for_each reminderDaysLeft (\<lambda>daysLeft.
             let mark = newDeadlineReminderCheck (d_TenantID d) (d_ID d) daysLeft (d_EndDate d) in
             if \<not> process_at mark > now then ret () else publish E mark)) (\<lambda>_.
     let missed = newDeadlineMissedCheck (d_TenantID d) (d_ID d) (d_EndDate d) in
     if process_at missed > now then publish E missed else ret ()))"

definition persist_birth :: "env \<Rightarrow> intimation_observed \<Rightarrow> deadline \<Rightarrow> cross_validation option \<Rightarrow> string \<Rightarrow> string
    \<Rightarrow> unit ptx" where
  "persist_birth E ev saved crossVal iaTipo iaConfianca =
     bind (publish_new E (newDeadlineOpened saved)) (\<lambda>_.
     bind (publish_new E (newDeadlineCalculated saved)) (\<lambda>_.
     bind (publish_new E (newDeadlineSealAssigned (d_ID saved) (d_Seal saved) (d_Origem saved))) (\<lambda>_.
     bind (announce_confirmation E saved) (\<lambda>_.
     bind (insert_cross_validation E (d_ID saved) crossVal) (\<lambda>_.
     bind (InsertCalcMemory E
             \<lparr>cm_ID = '''', cm_TenantID = io_TenantID ev, cm_DeadlineID = d_ID saved,
              cm_PrazoBase = prazo_base saved,
              cm_PrazoBaseFonte = prazoBaseFonteLabel (d_LegalCitation saved),
              cm_TermoInicialRegra = anchorEventLabel (d_AnchorEvent saved),
              cm_DiasUteis = (d_Counting saved = CountingBusiness),
              cm_IATipoInferido = iaTipo, cm_IAConfianca = iaConfianca,
              cm_CalendarProviderVersion = ''v1''\<rparr>) (\<lambda>memory.
     bind (insert_holidays E ev (cm_ID memory) (d_HolidaysApplied saved)) (\<lambda>_.
     bind (now_tx E) (\<lambda>now.
     bind (InsertDeadlineEvent E
             \<lparr>de_TenantID = io_TenantID ev, de_DeadlineID = d_ID saved, de_Tipo = ''calculado'',
              de_Detalhe = ''Prazo calculado: '' @ prazo_base saved, de_AtorID = '''', de_Em = now\<rparr>) (\<lambda>_.
     scheduleChecks E saved)))))))))"

text \<open>
  A second prazo for the same intimation is not an error of the handler: the dedup mark
  commits and nothing else happens.
\<close>

definition open_deadline :: "env \<Rightarrow> intimation_observed \<Rightarrow> unit ptx" where
  "open_deadline E ev =
     bind (derive_deadline E ev) (\<lambda>(d, crossVal, iaTipo, iaConfianca).
     bind (lift_sum (validate d)) (\<lambda>_.
     bind (attempt (InsertDeadline E d)) (\<lambda>r. case r of
         Inr saved \<Rightarrow> persist_birth E ev saved crossVal iaTipo iaConfianca
       | Inl e \<Rightarrow> if e = ErrDeadlineExists then ret () else fail e)))"

definition OnIntimationObserved :: "env \<Rightarrow> intimation_observed \<Rightarrow> unit ptx" where
  "OnIntimationObserved E ev =
     (if io_Type ev = intimationTypeComunicacao then ret ()
      else uow_Do E (io_TenantID ev)
        (bind (SeenOrMark E consumerDeadline (io_EventID ev)) (\<lambda>seen.
           if seen then ret () else open_deadline E ev)))"

section \<open>Frame\<close>

lemma quiet_cross_validate [quiet_rules]: "quiet (cross_validate E ev c start e hs)"
  unfolding cross_validate_def by (intro quiet_rules)

lemma quiet_derive_dates [quiet_rules]: "quiet (derive_dates E ev)"
  unfolding derive_dates_def Let_def by (intro quiet_rules)

lemma quiet_derive [quiet_rules]: "quiet (derive_deadline E ev)"
  unfolding derive_deadline_def Let_def by (intro quiet_rules)

lemma quiet_insert_holidays [quiet_rules]: "quiet (insert_holidays E ev i hs)"
  unfolding insert_holidays_def by (intro quiet_rules)

lemma quiet_announce [quiet_rules]: "quiet (announce_confirmation E d)"
  unfolding announce_confirmation_def by (intro quiet_rules)

lemma quiet_insert_cross_validation [quiet_rules]: "quiet (insert_cross_validation E i cv)"
  unfolding insert_cross_validation_def by (intro quiet_rules)

lemma quiet_scheduleChecks [quiet_rules]: "quiet (scheduleChecks E d)"
  unfolding scheduleChecks_def Let_def by (intro quiet_rules)

lemma quiet_persist [quiet_rules]: "quiet (persist_birth E ev d cv a b)"
  unfolding persist_birth_def by (intro quiet_rules)

section \<open>What a derivation yields\<close>

lemma derive_dates_result:
  assumes "derive_dates E ev s = (Inr (cls, rule, c, start, e, hs, p), s')"
  shows "parseWireDate (io_DeadlineStartAt ev) = Inr start"
    and "c = decideCounting (dr_Counting rule) (io_Court ev) cls"
    and "compute (e_cal E) c start (dr_Days rule) (io_UF ev) (io_Court ev) = Inr (e, hs)"
    and "\<exists>h2. subtractBusiness (e_cal E) e 2 (io_UF ev) (io_Court ev) = Inr (p, h2)"
  using assms unfolding derive_dates_def Let_def
  by (auto elim!: bind_InrE simp: internalBufferBusinessDays_def split: prod.splits)

lemma cross_validate_result:
  assumes "cross_validate E ev c start e hs s = (Inr crossVal, s')"
  shows "\<forall>cv. crossVal = Some cv \<longrightarrow> cv_Decisao cv = '''' \<and> cv_DecididoPor cv = ''''
          \<and> cv_DataCalculada cv = e \<and> cv_TenantID cv = io_TenantID ev"
  using assms unfolding cross_validate_def
  by (auto elim!: bind_InrE simp: buildCrossValidation_def Let_def split: option.splits)

text \<open>The facts a derived prazo satisfies, read off a successful derivation.\<close>

definition derived :: "env \<Rightarrow> intimation_observed \<Rightarrow> deadline \<Rightarrow> cross_validation option \<Rightarrow> bool" where
  "derived E ev d crossVal \<longleftrightarrow>
     (\<exists>cls rule c start e hs p usedIA strict n h2.
        parseWireDate (io_DeadlineStartAt ev) = Inr start
        \<and> c = decideCounting (dr_Counting rule) (io_Court ev) cls
        \<and> compute (e_cal E) c start (dr_Days rule) (io_UF ev) (io_Court ev) = Inr (e, hs)
        \<and> subtractBusiness (e_cal E) e 2 (io_UF ev) (io_Court ev) = Inr (p, h2)
        \<and> (\<forall>cv. crossVal = Some cv \<longrightarrow> cv_Decisao cv = '''' \<and> cv_DecididoPor cv = ''''
             \<and> cv_DataCalculada cv = e \<and> cv_TenantID cv = io_TenantID ev)
        \<and> d = judged_prazo ev rule c start e hs p crossVal usedIA strict (e_clock E n))"

lemma derive_result:
  assumes "derive_deadline E ev s = (Inr (d, crossVal, iaTipo, iaConf), s')"
  shows "derived E ev d crossVal"
proof -
  obtain q s1 where 1: "derive_dates E ev s = (Inr q, s1)"
    and r1: "(case q of (cls, rule, c, start, e, hs, p) \<Rightarrow>
        bind (GetPolicy E (io_TenantID ev)) (\<lambda>policy. bind (cross_validate E ev c start e hs) (\<lambda>cv.
          case classify_omitted E ev cls of (ia, t, f) \<Rightarrow> bind (now_tx E) (\<lambda>now.
            ret (judged_prazo ev rule c start e hs p cv ia (dp_ConfirmacaoObrigatoria policy) now, cv, t, f)))))
        s1 = (Inr (d, crossVal, iaTipo, iaConf), s')"
    using assms unfolding derive_deadline_def by (rule bind_InrE) (rule that)
  obtain cls rule c start e hs p where q: "q = (cls, rule, c, start, e, hs, p)" by (cases q)
  obtain policy :: deadline_policy and s2 where r2: "bind (cross_validate E ev c start e hs) (\<lambda>cv.
          case classify_omitted E ev cls of (ia, t, f) \<Rightarrow> bind (now_tx E) (\<lambda>now.
            ret (judged_prazo ev rule c start e hs p cv ia (dp_ConfirmacaoObrigatoria policy) now, cv, t, f)))
        s2 = (Inr (d, crossVal, iaTipo, iaConf), s')"
    using r1 unfolding q prod.case by (rule bind_InrE) (rule that)
  obtain cv s3 where 2: "cross_validate E ev c start e hs s2 = (Inr cv, s3)"
    and r3: "(case classify_omitted E ev cls of (ia, t, f) \<Rightarrow> bind (now_tx E) (\<lambda>now.
            ret (judged_prazo ev rule c start e hs p cv ia (dp_ConfirmacaoObrigatoria policy) now, cv, t, f)))
        s3 = (Inr (d, crossVal, iaTipo, iaConf), s')"
    using r2 by (rule bind_InrE) (rule that)
  obtain ia t f where ia: "classify_omitted E ev cls = (ia, t, f)" by (cases "classify_omitted E ev cls")
  have cv: "cv = crossVal" and d: "d = judged_prazo ev rule c start e hs p crossVal ia
      (dp_ConfirmacaoObrigatoria policy) (e_clock E (reads s3))"
    using r3 by (auto simp: ia bind_def now_tx_apply)
  from derive_dates_result [OF 1 [unfolded q]] cross_validate_result [OF 2 [unfolded cv]] d
  show ?thesis unfolding derived_def by blast
qed

text \<open>What a derived prazo is, field by field.\<close>

lemma derived_fields:
  assumes "derived E ev d crossVal"
  shows "d_TenantID d = io_TenantID ev" "d_CourtRecordID d = io_CourtRecordID ev"
    and "d_IntimationID d = io_IntimationID ev" "d_AnchorEvent d = AnchorDeadlineStart"
    and "d_ConfirmedBy d = None" "d_Origem d = OrigemIA \<or> is_divergent crossVal \<longleftrightarrow> d_Seal d = SealAApurar"
    and "d_Seal d = SealAApurar \<Longrightarrow> d_ConfirmacaoExigida d"
    and "\<exists>n. d_Status d = birth_status (d_ConfirmacaoExigida d) (d_EndDate d) (e_clock E n)"
    and "compute (e_cal E) (d_Counting d) (d_StartDate d) (d_Days d) (io_UF ev) (io_Court ev)
           = Inr (d_EndDate d, d_HolidaysApplied d)"
    and "\<exists>h2. subtractBusiness (e_cal E) (d_EndDate d) 2 (io_UF ev) (io_Court ev) = Inr (d_PrazoInterno d, h2)"
    and "\<And>cv. crossVal = Some cv \<Longrightarrow> cv_DataCalculada cv = d_EndDate d"
  using assms
  by (auto simp: derived_def judged_prazo_def new_prazo_def Let_def deriveConfirmacaoExigida_def
      deriveSeal_def split: if_splits)

lemma birth_status_cases:
  "birth_status conf e now =
     (if midnight (e + 1) \<le> now then StatusMissed else if conf then StatusPending else StatusOpen)"
  by (auto simp: birth_status_def)

end
