(* ===== verification/DeadlineLifecycle.thy ===== *)
theory DeadlineLifecycle
  imports DeadlineBirth
begin

text \<open>
  The transitions of a prazo after its birth: the scheduled checks when they fire, the
  revocation, the reconcile and the conclusion (\<open>domain.go\<close>), the manual transitions
  (\<open>adjust.go\<close>) and the mera-ciencia branch (\<open>no_deadline.go\<close>).
\<close>

section \<open>Event handlers (domain.go)\<close>

definition consumerReconcile :: string where
  "consumerReconcile = ''deadline.reconcile''"

definition consumerConclusion :: string where
  "consumerConclusion = ''deadline.conclusion''"

definition OnReminderCheck :: "env \<Rightarrow> reminder_check \<Rightarrow> unit ptx" where
  "OnReminderCheck E ev = uow_Do E (rc_TenantID ev) (once E consumerDeadline (rc_EventID ev)
     (bind (GetDeadlineForCheck E (rc_DeadlineID ev) (rc_TenantID ev)) (\<lambda>d.
        if d_Status d \<noteq> StatusPending \<and> d_Status d \<noteq> StatusOpen then ret ()
        else publish_new E (newDeadlineDueSoon (rc_TenantID ev) (d_ID d) (rc_DaysLeft ev)))))"

definition OnMissedCheck :: "env \<Rightarrow> missed_check \<Rightarrow> unit ptx" where
  "OnMissedCheck E ev = uow_Do E (mc_TenantID ev) (once E consumerDeadline (mc_EventID ev)
     (bind (attempt (RepoMarkMissed E (mc_DeadlineID ev) (mc_TenantID ev))) (\<lambda>r. case r of
        Inl e \<Rightarrow> if e = ErrDeadlineNotFound then ret () else fail e
      | Inr missedID \<Rightarrow> publish_new E (newDeadlineMissed (mc_TenantID ev) missedID))))"

definition OnIntimationCancelled :: "env \<Rightarrow> intimation_cancelled \<Rightarrow> unit ptx" where
  "OnIntimationCancelled E ev = uow_Do E (ic_TenantID ev) (once E consumerDeadline (ic_EventID ev)
     (bind (attempt (RevokeDeadlineByIntimation E (ic_IntimationID ev) (ic_TenantID ev))) (\<lambda>r. case r of
        Inl e \<Rightarrow> if e = ErrDeadlineNotFound then ret () else fail e
      | Inr revoked \<Rightarrow> publish_new E (newDeadlineRevoked (d_ID revoked) (ic_IntimationID ev) (ic_Reason ev)))))"

definition reconcile_one :: "env \<Rightarrow> record_event \<Rightarrow> deadline_row \<Rightarrow> unit ptx" where
  "reconcile_one E ev p =
     bind (HasResponseMovement E (re_CourtRecordID ev) (re_TenantID ev) (d_StartDate p) responseTPUCodes)
       (\<lambda>hasResponse.
     if \<not> hasResponse then ret ()
     else bind (attempt (RepoMarkMet E (d_ID p) (re_TenantID ev))) (\<lambda>r. case r of
        Inl e \<Rightarrow> if e = ErrDeadlineNotFound then ret () else fail e
      | Inr metID \<Rightarrow> publish_new E (newDeadlineMet (re_TenantID ev) metID)))"

definition OnDocketEntryObserved :: "env \<Rightarrow> record_event \<Rightarrow> unit ptx" where
  "OnDocketEntryObserved E ev = uow_Do E (re_TenantID ev) (once E consumerReconcile (re_EventID ev)
     (bind (ListReconcilableDeadlines E (re_CourtRecordID ev) (re_TenantID ev)) (\<lambda>prazos.
        for_each prazos (reconcile_one E ev))))"

definition conclude_one :: "env \<Rightarrow> record_event \<Rightarrow> deadline_row \<Rightarrow> unit ptx" where
  "conclude_one E ev p =
     bind (attempt (MarkResolvedOnConclusion E (d_ID p) (re_TenantID ev))) (\<lambda>r. case r of
        Inl e \<Rightarrow> if e = ErrDeadlineNotFound then ret () else fail e
      | Inr resolvedID \<Rightarrow>
          bind (now_tx E) (\<lambda>now.
          bind (InsertDeadlineEvent E
                  \<lparr>de_TenantID = re_TenantID ev, de_DeadlineID = resolvedID,
                   de_Tipo = ''resolvido_por_conclusao'',
                   de_Detalhe = ''Prazo resolvido: processo conclu'' @ [CHR 0xC3, CHR 0xAD] @ ''do (arquivado)'',
                   de_AtorID = '''', de_Em = now\<rparr>) (\<lambda>_.
          publish_new E (newDeadlineResolvedOnConclusion (re_TenantID ev) resolvedID))))"

definition OnCourtRecordArchived :: "env \<Rightarrow> record_event \<Rightarrow> unit ptx" where
  "OnCourtRecordArchived E ev = uow_Do E (re_TenantID ev) (once E consumerConclusion (re_EventID ev)
     (bind (ListDeadlinesForConclusion E (re_CourtRecordID ev) (re_TenantID ev)) (\<lambda>prazos.
        for_each prazos (conclude_one E ev))))"

section \<open>Manual transitions (adjust.go, no_deadline.go)\<close>

record marked_deadline =
  md_ID :: string
  md_Status :: status

definition newTransitionEvent :: "status \<Rightarrow> string \<Rightarrow> string \<Rightarrow> string \<Rightarrow> payload event" where
  "newTransitionEvent target tenantID deadlineID =
     (if target = StatusMet then newDeadlineMet tenantID deadlineID
      else newDeadlineMissed tenantID deadlineID)"

definition markStatus :: "env \<Rightarrow> string \<Rightarrow> string \<Rightarrow> status \<Rightarrow> marked_deadline ptx" where
  "markStatus E tenantID deadlineID target = uow_Do E tenantID
     (bind (GetDeadlineForCheck E deadlineID tenantID) (\<lambda>cur.
      if d_Status cur \<noteq> StatusOpen then fail ErrDeadlineNotOpen
      else bind (MarkDeadlineStatus E deadlineID tenantID StatusOpen target) (\<lambda>i.
           bind (publish_new E (newTransitionEvent target tenantID i)) (\<lambda>_.
           ret \<lparr>md_ID = i, md_Status = target\<rparr>))))"

definition MarkMet :: "env \<Rightarrow> string \<Rightarrow> string \<Rightarrow> marked_deadline ptx" where
  "MarkMet E tenantID deadlineID = markStatus E tenantID deadlineID StatusMet"

definition MarkMissed :: "env \<Rightarrow> string \<Rightarrow> string \<Rightarrow> marked_deadline ptx" where
  "MarkMissed E tenantID deadlineID = markStatus E tenantID deadlineID StatusMissed"

definition NoDeadline :: "env \<Rightarrow> string \<Rightarrow> string \<Rightarrow> string \<Rightarrow> marked_deadline ptx" where
  "NoDeadline E tenantID userID deadlineID = uow_Do E tenantID
     (bind (GetDeadlineForCheck E deadlineID tenantID) (\<lambda>cur.
      if d_Status cur \<noteq> StatusPending \<and> d_Status cur \<noteq> StatusOpen then fail ErrDeadlineNotOpen
      else bind (now_tx E) (\<lambda>now.
           bind (MarkNoDeadline E deadlineID tenantID userID now) (\<lambda>i.
           bind (publish_new E (newDeadlineNoDeadline tenantID i)) (\<lambda>_.
           ret \<lparr>md_ID = i, md_Status = StatusNoDeadline\<rparr>)))))"

definition Reopen :: "env \<Rightarrow> string \<Rightarrow> string \<Rightarrow> marked_deadline ptx" where
  "Reopen E tenantID deadlineID = uow_Do E tenantID
     (bind (GetDeadlineForCheck E deadlineID tenantID) (\<lambda>cur.
      if d_Status cur \<noteq> StatusNoDeadline then fail ErrDeadlineNotReopenable
      else bind (ReopenNoDeadline E deadlineID tenantID) (\<lambda>i.
           bind (publish_new E (newDeadlineReopened tenantID i)) (\<lambda>_.
           ret \<lparr>md_ID = i, md_Status = StatusPending\<rparr>))))"

end
