(* ===== verification/DeadlinePanel.thy ===== *)
theory DeadlinePanel
  imports DeadlineLifecycle
begin

text \<open>
  The confirmation panel: the confirmation (\<open>confirm.go\<close>), the adjustment (\<open>adjust.go\<close>), the
  preview (\<open>preview.go\<close>) and the decision on a divergence (\<open>apurar.go\<close>).
\<close>

definition resolveStart :: "env \<Rightarrow> string \<Rightarrow> string \<Rightarrow> anchor \<Rightarrow> day \<Rightarrow> day ptx" where
  "resolveStart E intimationID tenantID anc stored =
     (if anc = AnchorOther '''' \<or> anc = AnchorDeadlineStart then ret stored
      else bind (GetIntimationAnchors E intimationID tenantID) (\<lambda>anchors. ret (startFor anchors anc)))"

text \<open>The recompute both write paths share: dates in order, buffer in lockstep.\<close>

definition recompute :: "env \<Rightarrow> counting \<Rightarrow> day \<Rightarrow> int \<Rightarrow> bool \<Rightarrow> int \<Rightarrow> string \<Rightarrow> (day \<times> day list \<times> day) ptx" where
  "recompute E c start days doubled extra court =
     bind (lift_sum (computeWithExtra (e_cal E) c start days doubled extra (UF court) court)) (\<lambda>(endDate, holidays).
     bind (guard_tx (start < endDate) (NewInvalid ''deadline end date must be after start date'')) (\<lambda>_.
     bind (lift_sum (subtractBusiness (e_cal E) endDate internalBufferBusinessDays (UF court) court))
       (\<lambda>(prazoInterno, _). ret (endDate, holidays, prazoInterno))))"

section \<open>Confirmation (confirm.go)\<close>

record confirm_command =
  cc_TenantID :: string
  cc_UserID :: string
  cc_IntimationID :: string
  cc_Kind :: string
  cc_Days :: int
  cc_Counting :: counting
  cc_Doubled :: bool
  cc_DoubledReason :: string
  cc_AnchorEvent :: anchor
  cc_ManualExtraDays :: int

record confirmed_deadline =
  cd_ID :: string
  cd_CourtRecordID :: string
  cd_IntimationID :: string
  cd_Kind :: string
  cd_Days :: int
  cd_Counting :: counting
  cd_Doubled :: bool
  cd_DoubledReason :: string
  cd_Status :: status
  cd_StartDate :: day
  cd_EndDate :: day
  cd_HolidaysApplied :: "day list"
  cd_ConfirmedBy :: string
  cd_AnchorEvent :: anchor
  cd_ManualExtraDays :: int
  cd_LegalCitation :: string

definition suggestion_feedback :: "env \<Rightarrow> confirm_command \<Rightarrow> string \<Rightarrow> unit ptx" where
  "suggestion_feedback E cmd deadlineID =
     bind (GetLatestSuggestion E (cc_TenantID cmd) (cc_IntimationID cmd)) (\<lambda>sugg. case sugg of
        None \<Rightarrow> ret ()
      | Some s \<Rightarrow> bind (ListTaskTitlesByDeadline E deadlineID (cc_TenantID cmd)) (\<lambda>titles.
          publish_new E (newSuggestionFeedback deadlineID (cc_IntimationID cmd)
                           (computeSuggestionDelta s titles))))"

definition confirm_body :: "env \<Rightarrow> confirm_command \<Rightarrow> confirmed_deadline ptx" where
  "confirm_body E cmd =
     bind (GetDeadlineForConfirm E (cc_IntimationID cmd) (cc_TenantID cmd)) (\<lambda>anc.
     bind (GetCourtRecordCourt E (cc_TenantID cmd) (d_CourtRecordID anc)) (\<lambda>court.
     bind (resolveStart E (cc_IntimationID cmd) (cc_TenantID cmd) (cc_AnchorEvent cmd) (d_StartDate anc)) (\<lambda>start.
     bind (recompute E (cc_Counting cmd) start (cc_Days cmd) (cc_Doubled cmd) (cc_ManualExtraDays cmd) court)
       (\<lambda>(endDate, holidays, prazoInterno).
     bind (now_tx E) (\<lambda>confirmedAt.
     bind (ConfirmDeadline E
             \<lparr>cp_IntimationID = cc_IntimationID cmd, cp_TenantID = cc_TenantID cmd, cp_Kind = cc_Kind cmd,
              cp_Days = cc_Days cmd, cp_Counting = cc_Counting cmd, cp_Doubled = cc_Doubled cmd,
              cp_DoubledReason = cc_DoubledReason cmd, cp_EndDate = endDate, cp_PrazoInterno = prazoInterno,
              cp_HolidaysApplied = holidays, cp_ConfirmedBy = cc_UserID cmd, cp_ConfirmedAt = confirmedAt,
              cp_StartDate = start, cp_AnchorEvent = cc_AnchorEvent cmd,
              cp_ManualExtraDays = cc_ManualExtraDays cmd, cp_LegalCitation = d_LegalCitation anc\<rparr>)
       (\<lambda>(deadlineID, courtRecordID).
     let confirmed =
           \<lparr>cd_ID = deadlineID, cd_CourtRecordID = courtRecordID, cd_IntimationID = cc_IntimationID cmd,
            cd_Kind = cc_Kind cmd, cd_Days = cc_Days cmd, cd_Counting = cc_Counting cmd,
            cd_Doubled = cc_Doubled cmd, cd_DoubledReason = cc_DoubledReason cmd, cd_Status = StatusOpen,
            cd_StartDate = start, cd_EndDate = endDate, cd_HolidaysApplied = holidays,
            cd_ConfirmedBy = cc_UserID cmd, cd_AnchorEvent = cc_AnchorEvent cmd,
            cd_ManualExtraDays = cc_ManualExtraDays cmd, cd_LegalCitation = d_LegalCitation anc\<rparr> in
     bind (publish_new E (deadlineUpdatedEvent deadlineID (cc_Kind cmd) endDate (cc_Counting cmd) StatusOpen)) (\<lambda>_.
     bind (suggestion_feedback E cmd deadlineID) (\<lambda>_.
     ret confirmed))))))))"

definition Confirm :: "env \<Rightarrow> confirm_command \<Rightarrow> confirmed_deadline ptx" where
  "Confirm E cmd =
     (let cmd = cmd\<lparr>cc_AnchorEvent := defaultAnchor (cc_AnchorEvent cmd)\<rparr> in
      uow_Do E (cc_TenantID cmd) (confirm_body E cmd))"

section \<open>Adjustment (adjust.go)\<close>

record adjust_command =
  ac_TenantID :: string
  ac_UserID :: string
  ac_DeadlineID :: string
  ac_Kind :: "string option"
  ac_Days :: "int option"
  ac_Counting :: "counting option"
  ac_Doubled :: "bool option"
  ac_DoubledReason :: "string option"
  ac_AnchorEvent :: "anchor option"
  ac_ManualExtraDays :: "int option"

record adjusted_deadline =
  ad_ID :: string
  ad_CourtRecordID :: string
  ad_Kind :: string
  ad_Days :: int
  ad_Counting :: counting
  ad_Doubled :: bool
  ad_DoubledReason :: string
  ad_Status :: status
  ad_StartDate :: day
  ad_EndDate :: day
  ad_HolidaysApplied :: "day list"
  ad_AnchorEvent :: anchor
  ad_ManualExtraDays :: int

definition adjust_body :: "env \<Rightarrow> adjust_command \<Rightarrow> adjusted_deadline ptx" where
  "adjust_body E cmd =
     bind (GetDeadlineForAdjust E (ac_DeadlineID cmd) (ac_TenantID cmd)) (\<lambda>cur.
     if d_Status cur \<noteq> StatusPending \<and> d_Status cur \<noteq> StatusOpen then fail ErrDeadlineNotAdjustable
     else
     let kind = merged (ac_Kind cmd) (d_Kind cur);
         days = merged (ac_Days cmd) (d_Days cur);
         c = merged (ac_Counting cmd) (d_Counting cur);
         doubled = merged (ac_Doubled cmd) (d_Doubled cur);
         doubledReason = merged (ac_DoubledReason cmd) (d_DoubledReason cur);
         anc = merged (ac_AnchorEvent cmd) (d_AnchorEvent cur);
         extra = merged (ac_ManualExtraDays cmd) (d_ManualExtraDays cur) in
     bind (GetCourtRecordCourt E (ac_TenantID cmd) (d_CourtRecordID cur)) (\<lambda>court.
     bind (resolveStart E (d_IntimationID cur) (ac_TenantID cmd) anc (d_StartDate cur)) (\<lambda>start.
     bind (recompute E c start days doubled extra court) (\<lambda>(endDate, holidays, prazoInterno).
     bind (UpdateDeadlineAdjust E
             \<lparr>ap_DeadlineID = ac_DeadlineID cmd, ap_TenantID = ac_TenantID cmd, ap_Kind = kind,
              ap_Days = days, ap_Counting = c, ap_Doubled = doubled, ap_DoubledReason = doubledReason,
              ap_EndDate = endDate, ap_PrazoInterno = prazoInterno, ap_HolidaysApplied = holidays,
              ap_StartDate = start, ap_AnchorEvent = anc, ap_ManualExtraDays = extra\<rparr>)
       (\<lambda>(deadlineID, courtRecordID).
     bind (publish_new E (deadlineUpdatedEvent deadlineID kind endDate c (d_Status cur))) (\<lambda>_.
     ret \<lparr>ad_ID = deadlineID, ad_CourtRecordID = courtRecordID, ad_Kind = kind, ad_Days = days,
          ad_Counting = c, ad_Doubled = doubled, ad_DoubledReason = doubledReason,
          ad_Status = d_Status cur, ad_StartDate = start, ad_EndDate = endDate,
          ad_HolidaysApplied = holidays, ad_AnchorEvent = anc, ad_ManualExtraDays = extra\<rparr>))))))"

definition Adjust :: "env \<Rightarrow> adjust_command \<Rightarrow> adjusted_deadline ptx" where
  "Adjust E cmd = uow_Do E (ac_TenantID cmd) (adjust_body E cmd)"

section \<open>Preview (preview.go)\<close>

record preview_command =
  pc_TenantID :: string
  pc_IntimationID :: string
  pc_StartDate :: "day option"
  pc_AnchorEvent :: anchor
  pc_Kind :: string
  pc_Days :: int
  pc_Counting :: counting
  pc_Doubled :: bool
  pc_ManualExtraDays :: int

record preview_result =
  pr_StartDate :: day
  pr_EndDate :: day
  pr_Weekday :: string
  pr_DaysLeft :: int
  pr_HolidaysApplied :: "day list"

definition weekdayPtBR :: "day \<Rightarrow> string" where
  "weekdayPtBR t =
     (if Weekday t = 0 then ''domingo''
      else if Weekday t = 1 then ''segunda''
      else if Weekday t = 2 then ''ter'' @ [CHR 0xC3, CHR 0xA7] @ ''a''
      else if Weekday t = 3 then ''quarta''
      else if Weekday t = 4 then ''quinta''
      else if Weekday t = 5 then ''sexta''
      else ''s'' @ [CHR 0xC3, CHR 0xA1] @ ''bado'')"

definition daysBetween :: "day \<Rightarrow> day \<Rightarrow> int" where
  "daysBetween from to = sub_days to from"

definition previewStart :: "env \<Rightarrow> preview_command \<Rightarrow> (day \<times> string \<times> string) ptx" where
  "previewStart E cmd =
     (if pc_IntimationID cmd \<noteq> '''' then
        bind (GetPreviewContext E (pc_IntimationID cmd) (pc_TenantID cmd)) (\<lambda>(anchors, court).
          ret (startFor anchors (pc_AnchorEvent cmd), UF court, court))
      else case pc_StartDate cmd of
          Some d \<Rightarrow> ret (d, '''', '''')
        | None \<Rightarrow> fail (NewInvalid ''preview requires an intimation_id or a start_date''))"

text \<open>
  The preview runs on the pool, outside any unit of work; \<open>pool\<close> tells whether one was
  injected.
\<close>

definition Preview :: "env \<Rightarrow> bool \<Rightarrow> preview_command \<Rightarrow> preview_result ptx" where
  "Preview E pool cmd =
     (if \<not> pool then fail (NewInfra ''preview pool not configured'')
      else
      bind (previewStart E cmd) (\<lambda>(start, uf, court).
      bind (lift_sum (computeWithExtra (e_cal E) (pc_Counting cmd) start (pc_Days cmd) (pc_Doubled cmd)
              (pc_ManualExtraDays cmd) uf court)) (\<lambda>(endDate, holidays).
      bind (guard_tx (start < endDate) (NewInvalid ''deadline end date must be after start date'')) (\<lambda>_.
      bind (now_tx E) (\<lambda>now.
      ret \<lparr>pr_StartDate = start, pr_EndDate = endDate, pr_Weekday = weekdayPtBR endDate,
           pr_DaysLeft = daysBetween (day_of now) endDate, pr_HolidaysApplied = holidays\<rparr>)))))"

section \<open>The decision on a divergence (apurar.go)\<close>

datatype apurar_decisao = AceitaDeclarado | AceitaCalculado | AjusteManual | DecisaoOther string

definition validApurarDecisao :: "apurar_decisao \<Rightarrow> bool" where
  "validApurarDecisao d = (case d of DecisaoOther _ \<Rightarrow> False | _ \<Rightarrow> True)"

fun decisao_text :: "apurar_decisao \<Rightarrow> string" where
  "decisao_text AceitaDeclarado = ''aceita_declarado''"
| "decisao_text AceitaCalculado = ''aceita_calculado''"
| "decisao_text AjusteManual = ''ajuste_manual''"
| "decisao_text (DecisaoOther s) = s"

fun decisaoLabel :: "apurar_decisao \<Rightarrow> string" where
  "decisaoLabel AceitaDeclarado = ''declarado aceito''"
| "decisaoLabel AceitaCalculado = ''calculado aceito''"
| "decisaoLabel AjusteManual = ''ajuste manual aplicado''"
| "decisaoLabel (DecisaoOther s) = s"

record apurar_command =
  au_TenantID :: string
  au_UserID :: string
  au_DeadlineID :: string
  au_Decisao :: apurar_decisao
  au_EndDate :: "day option"

record apurado_divergencia =
  ar_ID :: string
  ar_EndDate :: day
  ar_Seal :: seal
  ar_Decisao :: apurar_decisao

text \<open>A chosen date is written with its buffer, through the court's calendar.\<close>

definition set_end_date :: "env \<Rightarrow> apurar_command \<Rightarrow> deadline_row \<Rightarrow> day \<Rightarrow> unit ptx" where
  "set_end_date E cmd cur newEndDate =
     bind (GetCourtRecordCourt E (au_TenantID cmd) (d_CourtRecordID cur)) (\<lambda>court.
     bind (lift_sum (subtractBusiness (e_cal E) newEndDate internalBufferBusinessDays (UF court) court))
       (\<lambda>(prazoInterno, _).
     UpdateDeadlineEndDate E (au_TenantID cmd) (au_DeadlineID cmd) newEndDate prazoInterno))"

definition decide_end_date :: "env \<Rightarrow> apurar_command \<Rightarrow> deadline_row \<Rightarrow> cross_validation \<Rightarrow> day ptx" where
  "decide_end_date E cmd cur cv = (case au_Decisao cmd of
     AceitaDeclarado \<Rightarrow> bind (set_end_date E cmd cur (cv_DataDeclarada cv)) (\<lambda>_. ret (cv_DataDeclarada cv))
   | AjusteManual \<Rightarrow> (case au_EndDate cmd of
         None \<Rightarrow> fail (NewInvalid (''end_date '' @ [CHR 0xC3, CHR 0xA9] @ '' obrigat'' @ [CHR 0xC3, CHR 0xB3] @ ''rio para ajuste manual''))
       | Some e \<Rightarrow>
           if \<not> d_StartDate cur < e
           then fail (NewInvalid ''a data do prazo deve ser posterior ao termo inicial'')
           else bind (set_end_date E cmd cur e) (\<lambda>_. ret e))
   | _ \<Rightarrow> ret (cv_DataCalculada cv))"

definition apurar_body :: "env \<Rightarrow> apurar_command \<Rightarrow> apurado_divergencia ptx" where
  "apurar_body E cmd =
     bind (GetDeadlineForAdjust E (au_DeadlineID cmd) (au_TenantID cmd)) (\<lambda>cur.
     if d_Status cur = StatusMet \<or> d_Status cur = StatusCancelled then fail ErrDeadlineNotApuravel
     else
     bind (GetCrossValidation E (au_TenantID cmd) (au_DeadlineID cmd)) (\<lambda>cv.
     if cv_Resultado cv \<noteq> crossValidationDivergente \<or> cv_Decisao cv \<noteq> '''' then fail ErrDeadlineNotDivergent
     else
     bind (decide_end_date E cmd cur cv) (\<lambda>newEndDate.
     bind (UpdateCrossValidationDecision E (au_TenantID cmd) (au_DeadlineID cmd)
             (decisao_text (au_Decisao cmd)) (au_UserID cmd)) (\<lambda>_.
     bind (now_tx E) (\<lambda>sealedAt.
     bind (UpdateDeadlineSelo E (au_TenantID cmd) (au_DeadlineID cmd) SealConfiavel (au_UserID cmd) sealedAt) (\<lambda>_.
     bind (now_tx E) (\<lambda>now.
     bind (InsertDeadlineEvent E
             \<lparr>de_TenantID = au_TenantID cmd, de_DeadlineID = au_DeadlineID cmd, de_Tipo = ''validado'',
              de_Detalhe = ''Diverg'' @ [CHR 0xC3, CHR 0xAA] @ ''ncia apurada: '' @ decisaoLabel (au_Decisao cmd),
              de_AtorID = au_UserID cmd, de_Em = now\<rparr>) (\<lambda>_.
     bind (publish_new E (newDeadlineSealAssigned (au_DeadlineID cmd) SealConfiavel (d_Origem cur))) (\<lambda>_.
     ret \<lparr>ar_ID = au_DeadlineID cmd, ar_EndDate = newEndDate, ar_Seal = SealConfiavel,
          ar_Decisao = au_Decisao cmd\<rparr>)))))))))"

definition ApurarDivergencia :: "env \<Rightarrow> apurar_command \<Rightarrow> apurado_divergencia ptx" where
  "ApurarDivergencia E cmd =
     (if \<not> validApurarDecisao (au_Decisao cmd)
      then fail (NewInvalid ''decisao must be aceita_declarado, aceita_calculado or ajuste_manual'')
      else uow_Do E (au_TenantID cmd) (apurar_body E cmd))"

end
