(* ===== verification/DeadlineHistory.thy ===== *)
theory DeadlineHistory
  imports DeadlinePanel
begin

text \<open>
  The life of the \<open>deadline\<close> table under the use cases: one constructor per operation that
  can write it, what each may do to a row's status, and the invariants every operation
  keeps, whatever fails in the driver. The proofs go by the frame rules: a repository call
  that does not write the table is quiet, the others are updates of the rows their WHERE
  clause selects.
\<close>

section \<open>Operations\<close>

datatype prazo_op =
    OpObserved intimation_observed
  | OpReminder reminder_check
  | OpMissedCheck missed_check
  | OpCancelled intimation_cancelled
  | OpDocketEntry record_event
  | OpArchived record_event
  | OpMet string string
  | OpMissed string string
  | OpNoDeadline string string string
  | OpReopen string string
  | OpConfirm confirm_command
  | OpAdjust adjust_command
  | OpApurar apurar_command

fun run_op :: "env \<Rightarrow> prazo_op \<Rightarrow> prazo_db \<Rightarrow> prazo_db" where
  "run_op E (OpObserved ev) db = snd (OnIntimationObserved E ev db)"
| "run_op E (OpReminder ev) db = snd (OnReminderCheck E ev db)"
| "run_op E (OpMissedCheck ev) db = snd (OnMissedCheck E ev db)"
| "run_op E (OpCancelled ev) db = snd (OnIntimationCancelled E ev db)"
| "run_op E (OpDocketEntry ev) db = snd (OnDocketEntryObserved E ev db)"
| "run_op E (OpArchived ev) db = snd (OnCourtRecordArchived E ev db)"
| "run_op E (OpMet tenant i) db = snd (MarkMet E tenant i db)"
| "run_op E (OpMissed tenant i) db = snd (MarkMissed E tenant i db)"
| "run_op E (OpNoDeadline tenant user i) db = snd (NoDeadline E tenant user i db)"
| "run_op E (OpReopen tenant i) db = snd (Reopen E tenant i db)"
| "run_op E (OpConfirm cmd) db = snd (Confirm E cmd db)"
| "run_op E (OpAdjust cmd) db = snd (Adjust E cmd db)"
| "run_op E (OpApurar cmd) db = snd (ApurarDivergencia E cmd db)"

definition run_history :: "(env \<times> prazo_op) list \<Rightarrow> prazo_db \<Rightarrow> prazo_db" where
  "run_history h db = foldl (\<lambda>db (E, op). run_op E op db) db h"

text \<open>The statuses an operation may take a prazo from, and the one it takes it to.\<close>

fun sources_of :: "prazo_op \<Rightarrow> status set" where
  "sources_of (OpMissedCheck _) = {StatusOpen}"
| "sources_of (OpCancelled _) = UNIV - {StatusCancelled}"
| "sources_of (OpDocketEntry _) = {StatusMissed, StatusOpen}"
| "sources_of (OpArchived _) = {StatusPending, StatusOpen, StatusMissed}"
| "sources_of (OpMet _ _) = {StatusOpen}"
| "sources_of (OpMissed _ _) = {StatusOpen}"
| "sources_of (OpNoDeadline _ _ _) = {StatusPending, StatusOpen}"
| "sources_of (OpReopen _ _) = {StatusNoDeadline}"
| "sources_of (OpConfirm _) = UNIV"
| "sources_of _ = {}"

fun target_of :: "prazo_op \<Rightarrow> status" where
  "target_of (OpMissedCheck _) = StatusMissed"
| "target_of (OpCancelled _) = StatusCancelled"
| "target_of (OpDocketEntry _) = StatusMet"
| "target_of (OpArchived _) = StatusResolvedOnConclusion"
| "target_of (OpMet _ _) = StatusMet"
| "target_of (OpMissed _ _) = StatusMissed"
| "target_of (OpNoDeadline _ _ _) = StatusNoDeadline"
| "target_of (OpReopen _ _) = StatusPending"
| "target_of _ = StatusOpen"

text \<open>What no operation changes of a prazo once it is born.\<close>

definition same_prazo :: "deadline_row \<Rightarrow> deadline_row \<Rightarrow> bool" where
  "same_prazo r q \<longleftrightarrow> d_ID q = d_ID r \<and> d_TenantID q = d_TenantID r
     \<and> d_CourtRecordID q = d_CourtRecordID r \<and> d_IntimationID q = d_IntimationID r
     \<and> d_Source q = d_Source r \<and> d_RulesVersion q = d_RulesVersion r
     \<and> d_Origem q = d_Origem r \<and> d_ConfirmacaoExigida q = d_ConfirmacaoExigida r"

definition moves :: "status set \<Rightarrow> status \<Rightarrow> deadline_row \<Rightarrow> deadline_row \<Rightarrow> bool" where
  "moves A t r q \<longleftrightarrow> same_prazo r q
     \<and> (d_Status q = d_Status r \<or> d_Status r \<in> A \<and> d_Status q = t)"

definition born :: "deadline_row \<Rightarrow> bool" where
  "born r \<longleftrightarrow> d_Status r \<in> {StatusPending, StatusOpen, StatusMissed}"

text \<open>
  A transition keeps the rows and moves each at most along it; a birth only appends
  new-born rows.
\<close>

definition moved :: "status set \<Rightarrow> status \<Rightarrow> deadline_row list \<Rightarrow> deadline_row list \<Rightarrow> bool" where
  "moved A t X Y \<longleftrightarrow> list_all2 (moves A t) X Y"

definition grown :: "deadline_row list \<Rightarrow> deadline_row list \<Rightarrow> bool" where
  "grown X Y \<longleftrightarrow> (\<exists>N. Y = X @ N \<and> list_all born N)"

section \<open>Rules\<close>

lemma keeps_bind_val:
  assumes "keeps P m" and "\<And>x s s'. m s = (Inr x, s') \<Longrightarrow> keeps P (f x)"
  shows "keeps P (bind m f)"
proof (rule keepsI)
  fix s assume P: "P s"
  obtain r s1 where m: "m s = (r, s1)" by (cases "m s")
  have P1: "P s1" using keeps_run [OF assms(1) m P] .
  show "P (snd (bind m f s))"
  proof (cases r)
    case (Inl e)
    with m P1 show ?thesis by (simp add: bind_Inl)
  next
    case (Inr x)
    with m have "keeps P (f x)" using assms(2) by simp
    from keepsD [OF this P1] m Inr show ?thesis by (simp add: bind_Inr)
  qed
qed

lemma same_prazo_refl [simp]: "same_prazo r r"
  by (simp add: same_prazo_def)

lemma moves_refl [simp]: "moves A t r r"
  by (simp add: moves_def)

lemma moves_trans: "moves A t a b \<Longrightarrow> moves A t b c \<Longrightarrow> moves A t a c"
  by (auto simp: moves_def same_prazo_def)

lemma moved_refl [simp]: "moved A t X X"
  by (simp add: moved_def list_all2_same)

lemma grown_refl [simp]: "grown X X"
  by (simp add: grown_def)

lemma grown_append: "grown X Y \<Longrightarrow> born r \<Longrightarrow> grown X (Y @ [r])"
  unfolding grown_def by (metis append.assoc list_all_append list.pred_inject)

lemma moved_update:
  assumes "moved A t X Y" and f: "\<And>r. Q r \<Longrightarrow> moves A t r (f r)"
  shows "moved A t X (update_rows Q f Y)"
  using assms(1) unfolding moved_def update_rows_def
  by (auto simp: list_all2_conv_all_nth) (metis moves_trans f)

lemma on_moved [simp]: "on_deadlines (\<lambda>s. moved A t X (deadlines s))"
  and on_grown [simp]: "on_deadlines (\<lambda>s. grown X (deadlines s))"
  by (simp_all add: on_deadlines_def)

lemma keeps_update_moved:
  assumes "\<And>r. Q r \<Longrightarrow> moves A t r (f r)"
  shows "keeps (\<lambda>s. moved A t X (deadlines s)) (update_deadline E Q f miss)"
  by (rule keeps_update_deadline) (auto simp: on_deadlines_frame moved_update assms)

text \<open>A birth: only the insertion writes the table.\<close>

lemma derived_born: "derived E ev d crossVal \<Longrightarrow> d_Status d \<in> {StatusPending, StatusOpen, StatusMissed}"
  using derived_fields(8) [of E ev d crossVal] by (auto simp: birth_status_cases split: if_splits)

lemma keeps_InsertDeadline:
  assumes "on_deadlines P"
    and "\<And>s r. P s \<Longrightarrow> d_Status r = d_Status d \<Longrightarrow> d_ID r \<notin> d_ID ` set (deadlines s)
       \<Longrightarrow> d_IntimationID r \<notin> d_IntimationID ` set (deadlines s)
       \<Longrightarrow> deadline.truncate r = d\<lparr>d_ID := d_ID r, d_TenantID := d_TenantID r,
             d_CourtRecordID := d_CourtRecordID r, d_IntimationID := d_IntimationID r, d_Days := to_int32 (d_Days d)\<rparr>
       \<Longrightarrow> validAnchorEvent (d_AnchorEvent d) \<Longrightarrow> d_ManualExtraDays r = 0
       \<Longrightarrow> P (s\<lparr>deadlines := deadlines s @ [r]\<rparr>)"
  shows "keeps P (InsertDeadline E d)"
  unfolding InsertDeadline_def
  apply (intro keeps_bind keeps_parse keeps_next_id keeps_stmt on_deadlines_frame assms(1))
  apply (rule keepsI)
  apply (auto simp: find_row_None panel_check_def deadline.defs intro!: assms(2))
  done

section \<open>Each operation through its one write\<close>

text \<open>
  An operation keeps a predicate of the table when its repository write does; everything
  else it does is quiet.
\<close>

lemma keeps_once: "on_deadlines P \<Longrightarrow> keeps P body \<Longrightarrow> keeps P (once E c i body)"
  unfolding once_or_def
  by (rule keeps_bind) (simp_all add: quiet_keeps quiet_SeenOrMark keeps_if keeps_ret)

lemma keeps_handled:
  assumes "on_deadlines P" and "keeps P m" and "\<And>x. quiet (f x)"
  shows "keeps P (bind (attempt m) (\<lambda>r. case r of Inl e \<Rightarrow> if e = e0 then ret () else fail e | Inr x \<Rightarrow> f x))"
  by (rule keeps_bind) (auto simp: assms keeps_attempt keeps_ret keeps_fail quiet_keeps split: sum.splits)

lemma keeps_handler:
  assumes "on_deadlines P" and "keeps P body"
  shows "keeps P (uow_Do E tenant (once E c i body))"
  using assms by (simp add: keeps_uow on_deadlines_frame keeps_once)

lemma keeps_OnReminderCheck: "on_deadlines P \<Longrightarrow> keeps P (OnReminderCheck E ev)"
  unfolding OnReminderCheck_def
  by (rule keeps_handler) (auto intro!: quiet_keeps quiet_rules)

lemma keeps_OnMissedCheck:
  assumes "on_deadlines P" and "\<And>i n. keeps P (RepoMarkMissed E i n)"
  shows "keeps P (OnMissedCheck E ev)"
  unfolding OnMissedCheck_def
  by (intro keeps_handler keeps_handled assms quiet_publish_new)

lemma keeps_OnIntimationCancelled:
  assumes "on_deadlines P" and "\<And>i n. keeps P (RevokeDeadlineByIntimation E i n)"
  shows "keeps P (OnIntimationCancelled E ev)"
  unfolding OnIntimationCancelled_def
  by (intro keeps_handler keeps_handled assms quiet_publish_new)

lemma keeps_reconcile_one:
  assumes "on_deadlines P" and "\<And>i n. keeps P (RepoMarkMet E i n)"
  shows "keeps P (reconcile_one E ev p)"
  unfolding reconcile_one_def
  by (intro keeps_bind keeps_if keeps_ret keeps_handled assms quiet_publish_new
      quiet_keeps [OF assms(1)] quiet_HasResponseMovement)

lemma keeps_OnDocketEntryObserved:
  assumes "on_deadlines P" and "\<And>i n. keeps P (RepoMarkMet E i n)"
  shows "keeps P (OnDocketEntryObserved E ev)"
  unfolding OnDocketEntryObserved_def
  by (intro keeps_handler keeps_bind keeps_for_each keeps_reconcile_one assms
      quiet_keeps [OF assms(1)] quiet_ListReconcilableDeadlines)

lemma keeps_conclude_one:
  assumes "on_deadlines P" and "\<And>i n. keeps P (MarkResolvedOnConclusion E i n)"
  shows "keeps P (conclude_one E ev p)"
  unfolding conclude_one_def
  by (rule keeps_handled) (auto simp: assms intro!: quiet_rules)

lemma keeps_OnCourtRecordArchived:
  assumes "on_deadlines P" and "\<And>i n. keeps P (MarkResolvedOnConclusion E i n)"
  shows "keeps P (OnCourtRecordArchived E ev)"
  unfolding OnCourtRecordArchived_def
  by (intro keeps_handler keeps_bind keeps_for_each keeps_conclude_one assms
      quiet_keeps [OF assms(1)] quiet_ListDeadlinesForConclusion)

text \<open>A manual transition: a quiet read, a guard, the flip, a quiet publication.\<close>

lemma keeps_manual:
  assumes "on_deadlines P" and "quiet rd" and "\<And>c. keeps P (w c)" and "\<And>c i. quiet (k c i)"
  shows "keeps P (uow_Do E tenant (bind rd (\<lambda>c. if g c then fail e else bind (w c) (k c))))"
  by (intro keeps_uow on_deadlines_frame assms keeps_bind keeps_if keeps_fail quiet_keeps [OF assms(1)])

lemma keeps_markStatus:
  assumes "on_deadlines P" and "\<And>i n. keeps P (MarkDeadlineStatus E i n StatusOpen t)"
  shows "keeps P (markStatus E tenant i t)"
  unfolding markStatus_def
  by (rule keeps_manual) (auto simp: assms quiet_GetDeadlineForCheck intro!: quiet_rules)

lemma keeps_NoDeadline:
  assumes "on_deadlines P" and "\<And>i n u t. keeps P (MarkNoDeadline E i n u t)"
  shows "keeps P (NoDeadline E tenant user i)"
  unfolding NoDeadline_def
  by (intro keeps_uow on_deadlines_frame keeps_bind keeps_if keeps_fail assms
      quiet_keeps [OF assms(1)] quiet_rules)

lemma keeps_Reopen:
  assumes "on_deadlines P" and "\<And>i n. keeps P (ReopenNoDeadline E i n)"
  shows "keeps P (Reopen E tenant i)"
  unfolding Reopen_def
  by (rule keeps_manual) (auto simp: assms quiet_GetDeadlineForCheck intro!: quiet_rules)

lemma recompute_result:
  assumes "recompute E c start days dbl extra court s = (Inr (e, hs, p), s')"
  shows "computeWithExtra (e_cal E) c start days dbl extra (UF court) court = Inr (e, hs)"
    and "start < e" and "\<exists>h2. subtractBusiness (e_cal E) e 2 (UF court) court = Inr (p, h2)" and "s' = s"
  using assms unfolding recompute_def
  by (auto elim!: bind_InrE guard_tx_InrE simp: internalBufferBusinessDays_def split: prod.splits)

lemma quiet_recompute [quiet_rules]: "quiet (recompute E c start days dbl extra court)"
  unfolding recompute_def by (intro quiet_rules)

lemma quiet_resolveStart [quiet_rules]: "quiet (resolveStart E i n a st)"
  unfolding resolveStart_def by (intro quiet_rules)

lemma quiet_feedback [quiet_rules]: "quiet (suggestion_feedback E cmd i)"
  unfolding suggestion_feedback_def by (intro quiet_rules)

text \<open>A chosen end with its buffer: what every recompute and every decision writes.\<close>

definition buffered :: "env \<Rightarrow> day \<Rightarrow> day \<Rightarrow> bool" where
  "buffered E e p \<longleftrightarrow> (\<exists>uf court h2. subtractBusiness (e_cal E) e 2 uf court = Inr (p, h2))"

lemma bufferedI: "subtractBusiness (e_cal E) e 2 uf court = Inr (p, h2) \<Longrightarrow> buffered E e p"
  by (auto simp: buffered_def)

lemma keeps_quiet_bind:
  "on_deadlines P \<Longrightarrow> quiet m \<Longrightarrow> (\<And>x. keeps P (f x)) \<Longrightarrow> keeps P (bind m f)"
  by (rule keeps_bind) (simp_all add: quiet_keeps)

lemma keeps_after_recompute:
  assumes "on_deadlines P" and "\<And>e hs p. start < e \<Longrightarrow> buffered E e p \<Longrightarrow> keeps P (f (e, hs, p))"
  shows "keeps P (bind (recompute E c start days dbl extra court) f)"
proof (rule keeps_bind_val)
  show "keeps P (recompute E c start days dbl extra court)"
    by (rule quiet_keeps [OF assms(1) quiet_recompute])
next
  fix x s s'
  assume r: "recompute E c start days dbl extra court s = (Inr x, s')"
  obtain e hs p where x: "x = (e, hs, p)" by (cases x)
  from recompute_result [OF r [unfolded x]] show "keeps P (f x)"
    unfolding x by (intro assms(2)) (auto simp: buffered_def)
qed

lemma keeps_Confirm:
  assumes "on_deadlines P"
    and w: "\<And>p. cp_StartDate p < cp_EndDate p \<Longrightarrow> buffered E (cp_EndDate p) (cp_PrazoInterno p)
       \<Longrightarrow> keeps P (ConfirmDeadline E p)"
  shows "keeps P (Confirm E cmd)"
proof -
  note q = keeps_quiet_bind [OF assms(1)] and qk = quiet_keeps [OF assms(1)]
  have "keeps P (confirm_body E c)" for c
    unfolding confirm_body_def Let_def
    apply (rule q, rule quiet_GetDeadlineForConfirm)
    apply (rule q, rule quiet_GetCourtRecordCourt)
    apply (rule q, rule quiet_resolveStart)
    apply (rule keeps_after_recompute [OF assms(1)], unfold prod.case)
    apply (rule q, rule quiet_now)
    apply (rule keeps_bind, rule w, simp, simp)
    apply (intro qk quiet_rules)
    done
  then show ?thesis
    unfolding Confirm_def Let_def by (intro keeps_uow on_deadlines_frame assms(1))
qed

lemma keeps_Adjust:
  assumes "on_deadlines P"
    and w: "\<And>p. ap_StartDate p < ap_EndDate p \<Longrightarrow> buffered E (ap_EndDate p) (ap_PrazoInterno p)
       \<Longrightarrow> keeps P (UpdateDeadlineAdjust E p)"
  shows "keeps P (Adjust E cmd)"
proof -
  note q = keeps_quiet_bind [OF assms(1)] and qk = quiet_keeps [OF assms(1)]
  have "keeps P (adjust_body E cmd)"
    unfolding adjust_body_def Let_def
    apply (rule q, rule quiet_GetDeadlineForAdjust)
    apply (rule keeps_if, rule keeps_fail)
    apply (rule q, rule quiet_GetCourtRecordCourt)
    apply (rule q, rule quiet_resolveStart)
    apply (rule keeps_after_recompute [OF assms(1)], unfold prod.case)
    apply (rule keeps_bind, rule w, simp, simp)
    apply (intro qk quiet_rules)
    done
  then show ?thesis
    unfolding Adjust_def by (intro keeps_uow on_deadlines_frame assms(1))
qed

text \<open>The decision writes a chosen date with its buffer, then the seal.\<close>

lemma keeps_decide:
  assumes "on_deadlines P"
    and w: "\<And>e p. buffered E e p \<Longrightarrow> (au_Decisao cmd = AceitaDeclarado \<or> d_StartDate cur < e)
       \<Longrightarrow> keeps P (UpdateDeadlineEndDate E (au_TenantID cmd) (au_DeadlineID cmd) e p)"
  shows "keeps P (decide_end_date E cmd cur cv)"
proof -
  have set: "keeps P (set_end_date E cmd cur e)" if "au_Decisao cmd = AceitaDeclarado \<or> d_StartDate cur < e" for e
    unfolding set_end_date_def
    apply (rule keeps_quiet_bind [OF assms(1)], rule quiet_GetCourtRecordCourt)
    apply (rule keeps_bind_val, rule keeps_lift)
    using that by (auto simp: internalBufferBusinessDays_def split: prod.splits intro!: w bufferedI)
  show ?thesis
    unfolding decide_end_date_def
    by (auto split: apurar_decisao.splits option.splits
        intro!: keeps_bind keeps_ret keeps_fail set keeps_if)
qed

lemma keeps_Apurar:
  assumes "on_deadlines P"
    and d: "\<And>cur cv. keeps P (decide_end_date E cmd cur cv)"
    and w: "\<And>u t. keeps P (UpdateDeadlineSelo E (au_TenantID cmd) (au_DeadlineID cmd) SealConfiavel u t)"
  shows "keeps P (ApurarDivergencia E cmd)"
proof -
  have "keeps P (apurar_body E cmd)"
    unfolding apurar_body_def
    by (intro keeps_bind keeps_if keeps_fail keeps_ret d w quiet_keeps [OF assms(1)] quiet_GetDeadlineForAdjust
        quiet_GetCrossValidation quiet_UpdateCrossValidationDecision quiet_now quiet_InsertDeadlineEvent
        quiet_publish_new)
  then show ?thesis
    unfolding ApurarDivergencia_def
    by (intro keeps_if keeps_fail keeps_uow on_deadlines_frame assms(1))
qed

section \<open>Births\<close>

lemma derived_facts:
  assumes "derived E ev d crossVal"
  shows "buffered E (d_EndDate d) (d_PrazoInterno d)" "d_Seal d = SealAApurar \<longrightarrow> d_ConfirmacaoExigida d"
    and "d_AnchorEvent d = AnchorDeadlineStart" "d_ConfirmedBy d = None" "d_ConfirmedAt d = None"
  using assms derived_fields(10) [OF assms] derived_fields(7) [OF assms]
  by (auto simp: derived_def judged_prazo_def new_prazo_def Let_def buffered_def)

lemma keeps_open_deadline:
  assumes "on_deadlines P"
    and w: "\<And>d crossVal. derived E ev d crossVal \<Longrightarrow> validate d = Inr () \<Longrightarrow> keeps P (InsertDeadline E d)"
  shows "keeps P (open_deadline E ev)"
  unfolding open_deadline_def
proof (rule keeps_bind_val)
  show "keeps P (derive_deadline E ev)" by (rule quiet_keeps [OF assms(1) quiet_derive])
next
  fix x s s'
  assume r: "derive_deadline E ev s = (Inr x, s')"
  obtain d crossVal t f where x: "x = (d, crossVal, t, f)" by (cases x)
  note drv = derive_result [OF r [unfolded x]]
  show "keeps P (case x of (d, crossVal, t, f) \<Rightarrow> bind (lift_sum (validate d)) (\<lambda>_.
      bind (attempt (InsertDeadline E d)) (\<lambda>r. case r of
         Inr saved \<Rightarrow> persist_birth E ev saved crossVal t f
       | Inl e \<Rightarrow> if e = ErrDeadlineExists then ret () else fail e)))"
    unfolding x prod.case
  proof (rule keeps_bind_val)
    fix u :: unit and s1 s2 :: prazo_db
    assume "lift_sum (validate d) s1 = (Inr u, s2)"
    then have "keeps P (InsertDeadline E d)" using w drv by simp
    then show "keeps P (bind (attempt (InsertDeadline E d)) (\<lambda>r. case r of
         Inr saved \<Rightarrow> persist_birth E ev saved crossVal t f
       | Inl e \<Rightarrow> if e = ErrDeadlineExists then ret () else fail e))"
      by (rule keeps_bind [OF keeps_attempt])
        (auto intro!: quiet_keeps [OF assms(1)] quiet_persist keeps_ret keeps_fail split: sum.splits)
  qed (rule keeps_lift)
qed

lemma keeps_OnIntimationObserved:
  assumes "on_deadlines P"
    and "\<And>d crossVal. derived E ev d crossVal \<Longrightarrow> validate d = Inr () \<Longrightarrow> keeps P (InsertDeadline E d)"
  shows "keeps P (OnIntimationObserved E ev)"
  unfolding OnIntimationObserved_def
  by (intro keeps_if keeps_ret keeps_uow on_deadlines_frame assms(1) keeps_bind
      quiet_keeps [OF assms(1)] quiet_SeenOrMark keeps_open_deadline assms)

section \<open>Every operation moves a prazo along its own transition only\<close>

lemma keeps_flip:
  assumes "\<And>r. ok r \<Longrightarrow> moves A t r (f r)"
  shows "keeps (\<lambda>s. moved A t X (deadlines s)) (flip_status E i n ok f)"
  unfolding flip_status_def
  by (intro keeps_with_ids keeps_bind keeps_ret keeps_update_moved) (simp add: assms)

lemma keeps_panel_moved:
  "keeps (\<lambda>s. moved A StatusOpen X (deadlines s)) (UpdateDeadlineAdjust E p)"
  "keeps (\<lambda>s. moved UNIV StatusOpen X (deadlines s)) (ConfirmDeadline E q)"
  "keeps (\<lambda>s. moved A t X (deadlines s)) (UpdateDeadlineEndDate E n i e b)"
  "keeps (\<lambda>s. moved A t X (deadlines s)) (UpdateDeadlineSelo E n i sl u tm)"
  unfolding UpdateDeadlineAdjust_def ConfirmDeadline_def UpdateDeadlineEndDate_def UpdateDeadlineSelo_def
  by (intro keeps_with_ids keeps_bind keeps_parse keeps_if keeps_ret keeps_fail keeps_case_prod
      keeps_update_moved keeps_select on_deadlines_frame on_moved;
      simp add: moves_def same_prazo_def adjust_row_def confirm_row_def)+

lemma op_moved:
  assumes "\<And>ev. op \<noteq> OpObserved ev"
  shows "moved (sources_of op) (target_of op) (deadlines db) (deadlines (run_op E op db))"
proof -
  let ?P = "\<lambda>s. moved (sources_of op) (target_of op) (deadlines db) (deadlines s)"
  have start: "?P db" by simp
  note f = keeps_flip [where X = "deadlines db"]
  show ?thesis
  proof (cases op)
    case (OpReminder ev)
    then show ?thesis using keepsD [OF keeps_OnReminderCheck [OF on_moved] start] by simp
  next
    case (OpMissedCheck ev)
    have "keeps ?P (RepoMarkMissed E i n)" for i n
      unfolding RepoMarkMissed_def OpMissedCheck by (rule f) (auto simp: moves_def same_prazo_def)
    then show ?thesis using keepsD [OF keeps_OnMissedCheck [OF on_moved] start] OpMissedCheck by simp
  next
    case (OpDocketEntry ev)
    have "keeps ?P (RepoMarkMet E i n)" for i n
      unfolding RepoMarkMet_def OpDocketEntry by (rule f) (auto simp: moves_def same_prazo_def)
    then show ?thesis using keepsD [OF keeps_OnDocketEntryObserved [OF on_moved] start] OpDocketEntry by simp
  next
    case (OpArchived ev)
    have "keeps ?P (MarkResolvedOnConclusion E i n)" for i n
      unfolding MarkResolvedOnConclusion_def OpArchived by (rule f) (auto simp: moves_def same_prazo_def)
    then show ?thesis using keepsD [OF keeps_OnCourtRecordArchived [OF on_moved] start] OpArchived by simp
  next
    case (OpCancelled ev)
    have "keeps ?P (RevokeDeadlineByIntimation E i n)" for i n
      unfolding RevokeDeadlineByIntimation_def OpCancelled
      by (intro keeps_with_ids keeps_update_moved) (auto simp: moves_def same_prazo_def)
    then show ?thesis using keepsD [OF keeps_OnIntimationCancelled [OF on_moved] start] OpCancelled by simp
  next
    case (OpMet n i)
    have "keeps ?P (MarkDeadlineStatus E i n StatusOpen StatusMet)" for i n
      unfolding MarkDeadlineStatus_def OpMet by (rule f) (auto simp: moves_def same_prazo_def)
    then show ?thesis using keepsD [OF keeps_markStatus [OF on_moved] start] OpMet by (simp add: MarkMet_def)
  next
    case (OpMissed n i)
    have "keeps ?P (MarkDeadlineStatus E i n StatusOpen StatusMissed)" for i n
      unfolding MarkDeadlineStatus_def OpMissed by (rule f) (auto simp: moves_def same_prazo_def)
    then show ?thesis using keepsD [OF keeps_markStatus [OF on_moved] start] OpMissed by (simp add: MarkMissed_def)
  next
    case (OpNoDeadline n u i)
    have "keeps ?P (MarkNoDeadline E i n u t)" for i n u t
      unfolding MarkNoDeadline_def OpNoDeadline
      by (intro keeps_with_ids keeps_bind keeps_parse keeps_ret keeps_update_moved) (auto simp: moves_def same_prazo_def)
    then show ?thesis using keepsD [OF keeps_NoDeadline [OF on_moved] start] OpNoDeadline by simp
  next
    case (OpReopen n i)
    have "keeps ?P (ReopenNoDeadline E i n)" for i n
      unfolding ReopenNoDeadline_def OpReopen by (rule f) (auto simp: moves_def same_prazo_def)
    then show ?thesis using keepsD [OF keeps_Reopen [OF on_moved] start] OpReopen by simp
  next
    case (OpConfirm cmd)
    then show ?thesis
      using keepsD [OF keeps_Confirm [OF on_moved keeps_panel_moved(2)] start [unfolded OpConfirm sources_of.simps target_of.simps]]
      by simp
  next
    case (OpAdjust cmd)
    then show ?thesis
      using keepsD [OF keeps_Adjust [OF on_moved keeps_panel_moved(1)] start [unfolded OpAdjust sources_of.simps target_of.simps]]
      by simp
  next
    case (OpApurar cmd)
    then show ?thesis
      using keepsD [OF keeps_Apurar [OF on_moved keeps_decide [OF on_moved keeps_panel_moved(3)] keeps_panel_moved(4)] start]
      by simp
  qed (simp add: assms)
qed

end
