(* ===== verification/DeadlineInvariant.thy ===== *)
theory DeadlineInvariant
  imports DeadlineHistory
begin

text \<open>
  The invariants of the \<open>deadline\<close> table: what every prazo satisfies at every moment, under
  every operation that can write the table, whatever fails in the driver and in whatever
  order the operations run. The calendar is the one \<open>calendar.New\<close> builds, over any holiday
  source.
\<close>

section \<open>The invariant\<close>

definition sound_row :: "deadline_row \<Rightarrow> bool" where
  "sound_row r \<longleftrightarrow> validAnchorEvent (d_AnchorEvent r) \<and> 0 \<le> d_ManualExtraDays r
     \<and> (d_Seal r = SealAApurar \<longrightarrow> d_ConfirmacaoExigida r)
     \<and> d_PrazoInterno r < d_EndDate r"

definition sound_table :: "deadline_row list \<Rightarrow> bool" where
  "sound_table rows \<longleftrightarrow> distinct (map d_ID rows) \<and> distinct (map d_IntimationID rows)
     \<and> list_all sound_row rows"

text \<open>The injected calendar is built by \<open>calendar.New\<close>.\<close>

definition wired_env :: "env \<Rightarrow> bool" where
  "wired_env E \<longleftrightarrow> (\<exists>src lookup. e_cal E = calendar_New src lookup)"

lemma on_sound [simp]: "on_deadlines (\<lambda>s. sound_table (deadlines s))"
  by (simp add: on_deadlines_def)

lemma buffered_before:
  assumes "wired_env E" and "buffered E e p"
  shows "p < e"
proof -
  obtain src lookup where E: "e_cal E = calendar_New src lookup" using assms(1) by (auto simp: wired_env_def)
  from assms(2) obtain uf court h2 where "subtractBusiness (e_cal E) e 2 uf court = Inr (p, h2)"
    by (auto simp: buffered_def)
  then show ?thesis unfolding E by (rule motors.subtract_before) simp
qed

section \<open>Writes\<close>

lemma sound_update:
  assumes "sound_table rows"
    and f: "\<And>r. Q r \<Longrightarrow> d_ID (f r) = d_ID r \<and> d_IntimationID (f r) = d_IntimationID r \<and> (sound_row r \<longrightarrow> sound_row (f r))"
  shows "sound_table (update_rows Q f rows)"
proof -
  have "map d_ID (update_rows Q f rows) = map d_ID rows"
    and "map d_IntimationID (update_rows Q f rows) = map d_IntimationID rows"
    using f by (auto simp: update_rows_def)
  moreover have "list_all sound_row (update_rows Q f rows)"
    using assms by (auto simp: update_rows_def sound_table_def list_all_iff)
  ultimately show ?thesis using assms(1) by (simp add: sound_table_def)
qed

lemma keeps_update_sound:
  assumes "\<And>r. Q r \<Longrightarrow> d_ID (f r) = d_ID r \<and> d_IntimationID (f r) = d_IntimationID r \<and> (sound_row r \<longrightarrow> sound_row (f r))"
  shows "keeps (\<lambda>s. sound_table (deadlines s)) (update_deadline E Q f miss)"
  by (rule keeps_update_deadline) (auto simp: on_deadlines_frame sound_update assms)

lemma keeps_flip_sound:
  assumes "\<And>r. d_ID (f r) = d_ID r \<and> d_IntimationID (f r) = d_IntimationID r \<and> (sound_row r \<longrightarrow> sound_row (f r))"
  shows "keeps (\<lambda>s. sound_table (deadlines s)) (flip_status E i n ok f)"
  unfolding flip_status_def
  by (intro keeps_with_ids keeps_bind keeps_ret keeps_update_sound assms)

lemma status_only [simp]: "sound_row (r\<lparr>d_Status := t\<rparr>) = sound_row r"
  by (simp add: sound_row_def)

lemma keeps_transitions_sound:
  "keeps (\<lambda>s. sound_table (deadlines s)) (RepoMarkMissed E i n)"
  "keeps (\<lambda>s. sound_table (deadlines s)) (RepoMarkMet E i n)"
  "keeps (\<lambda>s. sound_table (deadlines s)) (MarkResolvedOnConclusion E i n)"
  "keeps (\<lambda>s. sound_table (deadlines s)) (MarkDeadlineStatus E i n from to)"
  "keeps (\<lambda>s. sound_table (deadlines s)) (ReopenNoDeadline E i n)"
  unfolding RepoMarkMissed_def RepoMarkMet_def MarkResolvedOnConclusion_def MarkDeadlineStatus_def ReopenNoDeadline_def
  by (rule keeps_flip_sound; auto simp: sound_row_def)+

lemma keeps_named_sound:
  "keeps (\<lambda>s. sound_table (deadlines s)) (MarkNoDeadline E i n u tm)"
  "keeps (\<lambda>s. sound_table (deadlines s)) (RevokeDeadlineByIntimation E i n)"
  "keeps (\<lambda>s. sound_table (deadlines s)) (UpdateDeadlineSelo E n i SealConfiavel u tm)"
  unfolding MarkNoDeadline_def RevokeDeadlineByIntimation_def UpdateDeadlineSelo_def
  by (intro keeps_with_ids keeps_bind keeps_parse keeps_if keeps_ret keeps_fail keeps_case_prod
      keeps_update_sound; auto simp: sound_row_def)+

lemma keeps_panel_sound:
  "ap_PrazoInterno p < ap_EndDate p \<Longrightarrow> keeps (\<lambda>s. sound_table (deadlines s)) (UpdateDeadlineAdjust E p)"
  "cp_PrazoInterno q < cp_EndDate q \<Longrightarrow> keeps (\<lambda>s. sound_table (deadlines s)) (ConfirmDeadline E q)"
  "b < e \<Longrightarrow> keeps (\<lambda>s. sound_table (deadlines s)) (UpdateDeadlineEndDate E n i e b)"
  unfolding UpdateDeadlineAdjust_def ConfirmDeadline_def UpdateDeadlineEndDate_def
  by (intro keeps_with_ids keeps_bind keeps_parse keeps_if keeps_ret keeps_fail keeps_case_prod
      keeps_update_sound keeps_select on_deadlines_frame on_sound;
      simp add: sound_row_def adjust_row_def confirm_row_def panel_check_def)+

section \<open>Every operation keeps it\<close>

lemma keeps_insert_sound:
  assumes "wired_env E" and d: "derived E ev d crossVal"
  shows "keeps (\<lambda>s. sound_table (deadlines s)) (InsertDeadline E d)"
proof (rule keeps_InsertDeadline)
  fix s :: prazo_db and r :: deadline_row
  assume P: "sound_table (deadlines s)"
    and fresh: "d_ID r \<notin> d_ID ` set (deadlines s)" "d_IntimationID r \<notin> d_IntimationID ` set (deadlines s)"
    and r: "deadline.truncate r = d\<lparr>d_ID := d_ID r, d_TenantID := d_TenantID r,
             d_CourtRecordID := d_CourtRecordID r, d_IntimationID := d_IntimationID r, d_Days := to_int32 (d_Days d)\<rparr>"
    and a: "validAnchorEvent (d_AnchorEvent d)" and x: "d_ManualExtraDays r = 0"
  have "d_AnchorEvent r = d_AnchorEvent d" "d_Seal r = d_Seal d"
    "d_ConfirmacaoExigida r = d_ConfirmacaoExigida d" "d_PrazoInterno r = d_PrazoInterno d"
    "d_EndDate r = d_EndDate d"
    using arg_cong [OF r, of d_AnchorEvent] arg_cong [OF r, of d_Seal] arg_cong [OF r, of d_ConfirmacaoExigida]
      arg_cong [OF r, of d_PrazoInterno] arg_cong [OF r, of d_EndDate]
    by (simp_all add: deadline.defs)
  then have "sound_row r"
    using derived_facts(2) [OF d] buffered_before [OF assms(1) derived_facts(1) [OF d]] a x
    by (simp add: sound_row_def)
  then show "sound_table (deadlines (s\<lparr>deadlines := deadlines s @ [r]\<rparr>))"
    using P fresh by (simp add: sound_table_def)
qed simp

lemma op_sound:
  assumes E: "wired_env E" and start: "sound_table (deadlines db)"
  shows "sound_table (deadlines (run_op E op db))"
proof -
  note run = keepsD [where P = "\<lambda>s. sound_table (deadlines s)", OF _ start]
  note before = buffered_before [OF E]
  show ?thesis
  proof (cases op)
    case (OpObserved ev)
    have "keeps (\<lambda>s. sound_table (deadlines s)) (OnIntimationObserved E ev)"
      by (rule keeps_OnIntimationObserved) (simp_all add: keeps_insert_sound [OF E])
    then show ?thesis using run OpObserved by simp
  next
    case (OpConfirm cmd)
    have "keeps (\<lambda>s. sound_table (deadlines s)) (Confirm E cmd)"
      by (rule keeps_Confirm) (simp_all add: keeps_panel_sound before)
    then show ?thesis using run OpConfirm by simp
  next
    case (OpAdjust cmd)
    have "keeps (\<lambda>s. sound_table (deadlines s)) (Adjust E cmd)"
      by (rule keeps_Adjust) (simp_all add: keeps_panel_sound before)
    then show ?thesis using run OpAdjust by simp
  next
    case (OpApurar cmd)
    have "keeps (\<lambda>s. sound_table (deadlines s)) (ApurarDivergencia E cmd)"
      by (rule keeps_Apurar) (simp_all add: keeps_decide keeps_panel_sound keeps_named_sound before)
    then show ?thesis using run OpApurar by simp
  qed (simp_all add: run MarkMet_def MarkMissed_def keeps_OnReminderCheck keeps_OnMissedCheck
      keeps_OnIntimationCancelled keeps_OnDocketEntryObserved keeps_OnCourtRecordArchived
      keeps_markStatus keeps_NoDeadline keeps_Reopen keeps_transitions_sound keeps_named_sound)
qed

lemma history_sound:
  assumes "\<forall>(E, op) \<in> set h. wired_env E" and "sound_table (deadlines db)"
  shows "sound_table (deadlines (run_history h db))"
  using assms unfolding run_history_def
  by (induction h arbitrary: db) (auto simp: op_sound)

section \<open>A birth appends at most one new-born prazo\<close>

lemma born_truncate:
  assumes "deadline.truncate r = d\<lparr>d_ID := a, d_TenantID := b, d_CourtRecordID := c, d_IntimationID := x, d_Days := n\<rparr>"
  shows "d_Status r = d_Status d"
  using arg_cong [OF assms, of d_Status] by (simp add: deadline.defs)

lemma observed_grown: "grown (deadlines db) (deadlines (run_op E (OpObserved ev) db))"
proof -
  have "keeps (\<lambda>s. grown (deadlines db) (deadlines s)) (OnIntimationObserved E ev)"
  proof (rule keeps_OnIntimationObserved)
    fix d crossVal assume d: "derived E ev d crossVal"
    show "keeps (\<lambda>s. grown (deadlines db) (deadlines s)) (InsertDeadline E d)"
      by (rule keeps_InsertDeadline) (auto intro!: grown_append simp: born_def derived_born [OF d, simplified])
  qed simp
  from keepsD [OF this] show ?thesis by simp
qed

text \<open>
  So every operation leaves the table a transition of the old rows followed by new-born ones;
  over a history, what no step can do no history does.
\<close>

definition evolved :: "status set \<Rightarrow> status \<Rightarrow> deadline_row list \<Rightarrow> deadline_row list \<Rightarrow> bool" where
  "evolved A t X Y \<longleftrightarrow> (\<exists>Z N. Y = Z @ N \<and> moved A t X Z \<and> list_all born N)"

lemma op_evolved: "evolved (sources_of op) (target_of op) (deadlines db) (deadlines (run_op E op db))"
proof (cases "\<exists>ev. op = OpObserved ev")
  case True
  then obtain ev where op: "op = OpObserved ev" ..
  obtain N where "deadlines (run_op E op db) = deadlines db @ N" "list_all born N"
    using observed_grown [of db E ev] op by (auto simp: grown_def)
  moreover have "moved {} StatusOpen (deadlines db) (deadlines db)" by simp
  ultimately show ?thesis unfolding evolved_def op sources_of.simps target_of.simps by blast
next
  case False
  then have "moved (sources_of op) (target_of op) (deadlines db) (deadlines (run_op E op db))"
    by (intro op_moved) blast
  then show ?thesis unfolding evolved_def by (intro exI [of _ "deadlines (run_op E op db)"] exI [of _ "[]"]) simp
qed

lemma evolved_row:
  assumes "evolved A t X Y" and "r \<in> set X"
  shows "\<exists>q \<in> set Y. moves A t r q"
proof -
  obtain Z N where Y: "Y = Z @ N" and Z: "list_all2 (moves A t) X Z"
    using assms(1) by (auto simp: evolved_def moved_def)
  obtain k where k: "k < length X" "X ! k = r" using assms(2) by (auto simp: in_set_conv_nth)
  from Z k have "k < length Z" "moves A t r (Z ! k)" by (auto simp: list_all2_conv_all_nth)
  then show ?thesis unfolding Y by (intro bexI [of _ "Z ! k"]) auto
qed

lemma same_prazo_trans: "same_prazo a b \<Longrightarrow> same_prazo b c \<Longrightarrow> same_prazo a c"
  by (auto simp: same_prazo_def)

text \<open>A status that no operation of a history leaves is kept along it.\<close>

lemma history_keeps_status:
  assumes "\<forall>(E, op) \<in> set h. t \<notin> sources_of op" and "r \<in> set (deadlines db)" and "d_Status r = t"
  shows "\<exists>q \<in> set (deadlines (run_history h db)). same_prazo r q \<and> d_Status q = t"
  using assms
proof (induction h arbitrary: db r)
  case Nil
  then show ?case by (intro bexI [of _ r]) (simp_all add: run_history_def)
next
  case (Cons x h)
  obtain E op where x: "x = (E, op)" by (cases x)
  from evolved_row [OF op_evolved Cons.prems(2), of E op] obtain q where
    q: "q \<in> set (deadlines (run_op E op db))" "moves (sources_of op) (target_of op) r q" by blast
  have "same_prazo r q" "d_Status q = t"
    using q(2) Cons.prems(1,3) by (auto simp: moves_def x)
  moreover obtain q' where "q' \<in> set (deadlines (run_history h (run_op E op db)))" "same_prazo q q'" "d_Status q' = t"
    using Cons.IH [OF _ q(1)] Cons.prems(1) calculation by auto
  ultimately show ?case
    by (auto simp: run_history_def x intro!: bexI [of _ q'] elim: same_prazo_trans)
qed

section \<open>Reachable databases\<close>

text \<open>What the use cases can make of a database that holds no prazo.\<close>

inductive reachable :: "prazo_db \<Rightarrow> bool" where
  empty_table: "deadlines db = [] \<Longrightarrow> reachable db"
| operation: "reachable db \<Longrightarrow> wired_env E \<Longrightarrow> reachable (run_op E op db)"

lemma reachable_history: "reachable db \<Longrightarrow> \<forall>(E, op) \<in> set h. wired_env E \<Longrightarrow> reachable (run_history h db)"
  unfolding run_history_def
  by (induction h arbitrary: db) (auto intro: operation)

lemma reachable_sound: "reachable db \<Longrightarrow> sound_table (deadlines db)"
  by (induction rule: reachable.induct) (simp_all add: sound_table_def op_sound [unfolded sound_table_def])

end
