(* ===== verification/DeadlineTasks.thy ===== *)
theory DeadlineTasks
  imports DeadlineStore
begin

text \<open>
  The task write paths: create, edit and transitions (\<open>tasks.go\<close>), the checklist
  (\<open>items.go\<close>), the comments and the activity log (\<open>comments.go\<close>), and the task of a
  providencia (\<open>actionitem_task.go\<close>).
\<close>

section \<open>Activity log and due date\<close>

definition recordActivity :: "env \<Rightarrow> string \<Rightarrow> string \<Rightarrow> string \<Rightarrow> activity_type \<Rightarrow> string \<Rightarrow> string \<Rightarrow> unit ptx" where
  "recordActivity E tenantID taskID actorID event from to =
     InsertTaskActivity E \<lparr>ta_TenantID = tenantID, ta_TaskID = taskID, ta_ActorUserID = actorID,
       ta_EventType = event, ta_FromValue = from, ta_ToValue = to\<rparr>"

definition wireDate :: "day option \<Rightarrow> string" where
  "wireDate d = (case d of None \<Rightarrow> '''' | Some t \<Rightarrow> fmtDateOnly t)"

definition task_edits :: "task \<Rightarrow> task \<Rightarrow> (activity_type \<times> string \<times> string) list" where
  "task_edits cur saved =
     [(ActivityTitleChanged, t_Title cur, t_Title saved),
      (ActivityDescriptionChanged, t_Description cur, t_Description saved),
      (ActivityKindChanged, t_Kind cur, t_Kind saved),
      (ActivityPriorityChanged, t_Priority cur, t_Priority saved),
      (ActivityDueDateChanged, wireDate (t_DueDate cur), wireDate (t_DueDate saved)),
      (ActivityAssigneeChanged, t_AssigneeUserID cur, t_AssigneeUserID saved)]"

definition recordTaskEdits :: "env \<Rightarrow> string \<Rightarrow> string \<Rightarrow> string \<Rightarrow> task \<Rightarrow> task \<Rightarrow> unit ptx" where
  "recordTaskEdits E tenantID taskID actorID cur saved =
     for_each (task_edits cur saved) (\<lambda>(event, from, to).
       if from = to then ret () else recordActivity E tenantID taskID actorID event from to)"

definition validateTaskDueDate :: "env \<Rightarrow> string \<Rightarrow> string \<Rightarrow> day option \<Rightarrow> unit ptx" where
  "validateTaskDueDate E deadlineID tenantID dueDate = (case dueDate of
     None \<Rightarrow> ret ()
   | Some due \<Rightarrow>
       if deadlineID = '''' then ret ()
       else bind (GetDeadlineEndDate E deadlineID tenantID) (\<lambda>endDate.
            if endDate < due
            then fail (NewInvalid (''task due_date '' @ fmtDateOnly due @ '' is after the deadline end_date ''
                                   @ fmtDateOnly endDate))
            else ret ()))"

section \<open>Create, edit, transitions (tasks.go)\<close>

record create_task_command =
  ct_TenantID :: string
  ct_UserID :: string
  ct_CourtRecordID :: string
  ct_DeadlineID :: string
  ct_IntimationID :: string
  ct_Title :: string
  ct_Description :: string
  ct_Kind :: string
  ct_Priority :: string
  ct_DueDate :: "day option"
  ct_AssigneeUserID :: string

definition inherit_assignee :: "env \<Rightarrow> create_task_command \<Rightarrow> string ptx" where
  "inherit_assignee E cmd =
     (if ct_IntimationID cmd \<noteq> '''' \<and> ct_AssigneeUserID cmd = ''''
      then bind (GetIntimationAssignee E (ct_IntimationID cmd) (ct_TenantID cmd)) (\<lambda>inherited.
             ret (case inherited of Some who \<Rightarrow> who | None \<Rightarrow> ct_AssigneeUserID cmd))
      else ret (ct_AssigneeUserID cmd))"

definition CreateTask :: "env \<Rightarrow> create_task_command \<Rightarrow> task ptx" where
  "CreateTask E cmd = uow_Do E (ct_TenantID cmd)
     (bind (validateTaskDueDate E (ct_DeadlineID cmd) (ct_TenantID cmd) (ct_DueDate cmd)) (\<lambda>_.
      bind (inherit_assignee E cmd) (\<lambda>assignee.
      bind (InsertTask E
              \<lparr>t_ID = '''', t_TenantID = ct_TenantID cmd, t_CourtRecordID = ct_CourtRecordID cmd,
               t_DeadlineID = ct_DeadlineID cmd, t_IntimationID = ct_IntimationID cmd,
               t_Title = ct_Title cmd, t_Description = ct_Description cmd, t_Kind = ct_Kind cmd,
               t_DueDate = ct_DueDate cmd, t_Status = TaskStatusOpen, t_Source = SourceManual,
               t_Priority = ct_Priority cmd, t_AssigneeUserID = assignee, t_CreatedBy = ct_UserID cmd,
               t_CompletedAt = None, t_ActionItemID = ''''\<rparr>) (\<lambda>saved.
      bind (publish_new E (newTaskCreatedFromTask saved)) (\<lambda>_.
      bind (recordActivity E (t_TenantID saved) (t_ID saved) (ct_UserID cmd) ActivityTaskCreated '''' '''') (\<lambda>_.
      ret saved))))))"

record update_task_command =
  ut_TenantID :: string
  ut_UserID :: string
  ut_TaskID :: string
  ut_Title :: "string option"
  ut_Description :: "string option"
  ut_Kind :: "string option"
  ut_Priority :: "string option"
  ut_DueDate :: "string option"
  ut_AssigneeUserID :: "string option"

definition UpdateTask :: "env \<Rightarrow> update_task_command \<Rightarrow> task ptx" where
  "UpdateTask E cmd = uow_Do E (ut_TenantID cmd)
     (bind (GetTaskForUpdate E (ut_TaskID cmd) (ut_TenantID cmd)) (\<lambda>cur.
      let dueDate = (case ut_DueDate cmd of None \<Rightarrow> t_DueDate cur | Some w \<Rightarrow> parseOptionalWireDate w) in
      bind (validateTaskDueDate E (t_DeadlineID cur) (ut_TenantID cmd) dueDate) (\<lambda>_.
      bind (RepoUpdateTask E (ut_TaskID cmd) (ut_TenantID cmd) (merged (ut_Title cmd) (t_Title cur))
              (merged (ut_Description cmd) (t_Description cur)) (merged (ut_Kind cmd) (t_Kind cur))
              (merged (ut_Priority cmd) (t_Priority cur)) dueDate
              (merged (ut_AssigneeUserID cmd) (t_AssigneeUserID cur))) (\<lambda>saved.
      bind (publish_new E (newTaskUpdated (t_ID saved))) (\<lambda>_.
      bind (recordTaskEdits E (ut_TenantID cmd) (t_ID saved) (ut_UserID cmd) cur saved) (\<lambda>_.
      ret saved))))))"

record task_transition =
  tt_ID :: string
  tt_Status :: task_status

definition newTaskTransitionEvent :: "task_status \<Rightarrow> string \<Rightarrow> string \<Rightarrow> payload event" where
  "newTaskTransitionEvent target taskID =
     (if target = TaskStatusDone then newTaskCompleted taskID else newTaskDismissed taskID)"

definition transitionActivity :: "task_status \<Rightarrow> activity_type" where
  "transitionActivity target = (if target = TaskStatusDone then ActivityTaskDone else ActivityTaskDismissed)"

definition completion_time :: "env \<Rightarrow> task_status \<Rightarrow> instant option ptx" where
  "completion_time E target =
     (if target = TaskStatusDone then bind (now_tx E) (\<lambda>now. ret (Some now)) else ret None)"

definition markTaskStatus :: "env \<Rightarrow> string \<Rightarrow> string \<Rightarrow> string \<Rightarrow> task_status \<Rightarrow> task_transition ptx" where
  "markTaskStatus E tenantID userID taskID target = uow_Do E tenantID
     (bind (GetTaskForTransition E taskID tenantID) (\<lambda>st.
      if st \<noteq> TaskStatusOpen then fail ErrTaskNotOpen
      else
      bind (completion_time E target) (\<lambda>completedAt.
      bind (RepoMarkTaskStatus E taskID tenantID TaskStatusOpen target completedAt) (\<lambda>i.
      bind (publish_new E (newTaskTransitionEvent target i)) (\<lambda>_.
      bind (recordActivity E tenantID i userID (transitionActivity target) '''' '''') (\<lambda>_.
      ret \<lparr>tt_ID = i, tt_Status = target\<rparr>))))))"

definition MarkTaskDone :: "env \<Rightarrow> string \<Rightarrow> string \<Rightarrow> string \<Rightarrow> task_transition ptx" where
  "MarkTaskDone E tenantID userID taskID = markTaskStatus E tenantID userID taskID TaskStatusDone"

definition DismissTask :: "env \<Rightarrow> string \<Rightarrow> string \<Rightarrow> string \<Rightarrow> task_transition ptx" where
  "DismissTask E tenantID userID taskID = markTaskStatus E tenantID userID taskID TaskStatusDismissed"

section \<open>Checklist (items.go)\<close>

definition CreateTaskItem :: "env \<Rightarrow> string \<Rightarrow> string \<Rightarrow> string \<Rightarrow> task_item ptx" where
  "CreateTaskItem E tenantID taskID title = uow_Do E tenantID
     (bind (EnsureTaskInTenant E taskID tenantID) (\<lambda>_.
      bind (NextTaskItemPosition E taskID tenantID) (\<lambda>position.
      InsertTaskItem E \<lparr>ti_ID = '''', ti_TenantID = tenantID, ti_TaskID = taskID, ti_Title = title,
        ti_Position = position, ti_Done = False, ti_DoneAt = None\<rparr>)))"

definition UpdateTaskItem :: "env \<Rightarrow> string \<Rightarrow> string \<Rightarrow> string \<Rightarrow> string option \<Rightarrow> bool option \<Rightarrow> task_item ptx" where
  "UpdateTaskItem E tenantID taskID itemID newTitle newDone = uow_Do E tenantID
     (bind (GetTaskItemForUpdate E itemID taskID tenantID) (\<lambda>cur.
      let title = merged newTitle (ti_Title cur); finished = merged newDone (ti_Done cur) in
      bind (if finished then bind (now_tx E) (\<lambda>now. ret (Some now)) else ret None) (\<lambda>doneAt.
      RepoUpdateTaskItem E itemID taskID tenantID title finished doneAt)))"

definition DeleteTaskItem :: "env \<Rightarrow> string \<Rightarrow> string \<Rightarrow> string \<Rightarrow> unit ptx" where
  "DeleteTaskItem E tenantID taskID itemID = uow_Do E tenantID (RepoDeleteTaskItem E itemID taskID tenantID)"

section \<open>Comments (comments.go)\<close>

definition CreateTaskComment :: "env \<Rightarrow> string \<Rightarrow> string \<Rightarrow> string \<Rightarrow> string \<Rightarrow> task_comment ptx" where
  "CreateTaskComment E tenantID userID taskID body = uow_Do E tenantID
     (bind (EnsureTaskExistsInTenant E taskID tenantID) (\<lambda>_.
      bind (InsertTaskComment E \<lparr>tc_ID = '''', tc_TenantID = tenantID, tc_TaskID = taskID,
              tc_AuthorUserID = userID, tc_Body = body\<rparr>) (\<lambda>saved.
      bind (recordActivity E tenantID taskID userID ActivityCommented '''' '''') (\<lambda>_.
      ret saved))))"

section \<open>The task of a providencia (actionitem_task.go)\<close>

record action_item_task =
  at_TenantID :: string
  at_ActionItemID :: string
  at_CourtRecordID :: string
  at_DeadlineID :: string
  at_IntimationID :: string
  at_Tipo :: string

text \<open>Runs inside the caller's transaction.\<close>

definition CreateForActionItem :: "env \<Rightarrow> action_item_task \<Rightarrow> string ptx" where
  "CreateForActionItem E inp =
     bind (attempt (InsertTask E
             \<lparr>t_ID = '''', t_TenantID = at_TenantID inp, t_CourtRecordID = at_CourtRecordID inp,
              t_DeadlineID = at_DeadlineID inp, t_IntimationID = at_IntimationID inp,
              t_Title = at_Tipo inp, t_Description = '''', t_Kind = '''', t_DueDate = None,
              t_Status = TaskStatusOpen, t_Source = SourceRule, t_Priority = '''',
              t_AssigneeUserID = '''', t_CreatedBy = '''', t_CompletedAt = None,
              t_ActionItemID = at_ActionItemID inp\<rparr>)) (\<lambda>r. case r of
        Inr saved \<Rightarrow> ret (t_ID saved)
      | Inl e \<Rightarrow> if e = ErrTaskExistsForActionItem
          then GetTaskIDByActionItem E (at_TenantID inp) (at_ActionItemID inp)
          else fail e)"

end
