(* ===== verification/DeadlineEffects.thy ===== *)
theory DeadlineEffects
  imports DeadlineInvariant DeadlineTasks
begin

text \<open>
  What a successful step of a transaction leaves behind, in two observations: the facts it
  announced through the outbox, in order, and the tables it wrote. The counters, the id
  sequence and the keys drawn from it are abstracted away. The outcome theorems of the use
  cases are compositions of these lemmas.
\<close>

section \<open>Observations of the prazo tables\<close>

lemma announced_tables [simp]:
  "announced (s\<lparr>deadlines := ds\<rparr>) = announced s"
  "announced (s\<lparr>deadline_events := des\<rparr>) = announced s" "announced (s\<lparr>calc_memories := cms\<rparr>) = announced s"
  "announced (s\<lparr>applied_holidays := ahs\<rparr>) = announced s" "announced (s\<lparr>cross_validations := cvs\<rparr>) = announced s"
  "announced (s\<lparr>tasks := ts\<rparr>) = announced s" "announced (s\<lparr>task_activities := tas\<rparr>) = announced s"
  by (simp_all add: announced_def)

lemma view_writes:
  "view (s\<lparr>deadlines := ds\<rparr>) = (view s)\<lparr>deadlines := ds\<rparr>"
  "view (s\<lparr>deadline_events := des\<rparr>) = (view s)\<lparr>deadline_events := des\<rparr>"
  "view (s\<lparr>calc_memories := cms\<rparr>) = (view s)\<lparr>calc_memories := cms\<rparr>"
  "view (s\<lparr>applied_holidays := ahs\<rparr>) = (view s)\<lparr>applied_holidays := ahs\<rparr>"
  "view (s\<lparr>cross_validations := cvs\<rparr>) = (view s)\<lparr>cross_validations := cvs\<rparr>"
  "view (s\<lparr>processed := ps\<rparr>) = (view s)\<lparr>processed := ps\<rparr>"
  "view (s\<lparr>tasks := ts\<rparr>) = (view s)\<lparr>tasks := ts\<rparr>"
  "view (s\<lparr>task_activities := tas\<rparr>) = (view s)\<lparr>task_activities := tas\<rparr>"
  by (simp_all add: view_def)

lemma view_reads [simp]:
  "deadlines (view s) = deadlines s" "deadline_events (view s) = deadline_events s"
  "calc_memories (view s) = calc_memories s" "applied_holidays (view s) = applied_holidays s"
  "cross_validations (view s) = cross_validations s" "processed (view s) = processed s"
  "tasks (view s) = tasks s" "task_activities (view s) = task_activities s"
  "court_records (view s) = court_records s" "intimations (view s) = intimations s"
  "docket_entries (view s) = docket_entries s" "rules (view s) = rules s" "policies (view s) = policies s"
  by (simp_all add: view_def)

text \<open>A unit of work hands its body a database with the tables of the one it started from.\<close>

lemma uow_body:
  assumes "uow_Do E tenant body db = (Inr x, db')"
  obtains s where "body s = (Inr x, db')" and "announced s = announced db" and "view s = view db"
    and "deadlines s = deadlines db"
proof -
  obtain n where "body (db\<lparr>reads := 0, stmts := n\<rparr>) = (Inr x, db')" using assms by (rule uow_Do_success)
  then show thesis by (rule that) simp_all
qed

lemma view_deadlines: "view s = view t \<Longrightarrow> deadlines s = deadlines t"
  and view_records: "view s = view t \<Longrightarrow> court_records s = court_records t"
  and view_intimations: "view s = view t \<Longrightarrow> intimations s = intimations t"
  by (auto dest: arg_cong [where f = deadlines] arg_cong [where f = court_records] arg_cong [where f = intimations])

section \<open>Silent steps\<close>

lemma silent_repository_reads [silent_rules]:
  "silent (GetCourtRecordClass E a b)" "silent (GetCourtRecordCourt E a b)" "silent (ResolveRule E a b c)"
  "silent (GetPolicy E a)" "silent (GetDeadlineForConfirm E a b)" "silent (GetDeadlineForAdjust E a b)"
  "silent (GetDeadlineForCheck E a b)" "silent (GetDeadlineEndDate E a b)" "silent (GetIntimationAnchors E a b)"
  "silent (list_deadlines E a b sts)" "silent (HasResponseMovement E a b st codes)"
  "silent (GetCrossValidation E a b)" "silent (GetLatestSuggestion E a b)" "silent (ListTaskTitlesByDeadline E a b)"
  unfolding GetCourtRecordClass_def GetCourtRecordCourt_def ResolveRule_def GetPolicy_def
    GetDeadlineForConfirm_def GetDeadlineForAdjust_def GetDeadlineForCheck_def GetDeadlineEndDate_def
    GetIntimationAnchors_def list_deadlines_def HasResponseMovement_def GetCrossValidation_def
    GetLatestSuggestion_def ListTaskTitlesByDeadline_def
  by (intro silent_rules)+

lemma silent_derivation [silent_rules]:
  "silent (derive_dates E ev)" "silent (cross_validate E ev c start e hs)" "silent (derive_deadline E ev)"
  "silent (resolveStart E i n a st)" "silent (recompute E c start days dbl extra court)"
  unfolding derive_deadline_def derive_dates_def cross_validate_def resolveStart_def recompute_def Let_def
  by (intro silent_rules)+

section \<open>Writing steps\<close>

lemma update_deadline_effect:
  assumes "update_deadline E Q f miss s = (Inr x, s')"
  shows "\<exists>r. find_row Q (deadlines s) = Some r \<and> x = f r \<and> announced s' = announced s
       \<and> view s' = (view s)\<lparr>deadlines := update_rows Q f (deadlines s)\<rparr>"
  using assms unfolding update_deadline_def
  by (auto dest!: stmt_InrD simp: view_writes split: option.splits)

lemma flip_status_effect:
  assumes "flip_status E i n ok f s = (Inr x, s')"
  shows "\<exists>a b r. e_parse_uuid E i = Some a \<and> e_parse_uuid E n = Some b
       \<and> find_row (\<lambda>r. d_ID r = a \<and> d_TenantID r = b \<and> ok r) (deadlines s) = Some r \<and> x = d_ID (f r)
       \<and> announced s' = announced s
       \<and> view s' = (view s)\<lparr>deadlines := update_rows (\<lambda>r. d_ID r = a \<and> d_TenantID r = b \<and> ok r) f (deadlines s)\<rparr>"
  using assms unfolding flip_status_def
  by (auto elim!: with_ids_InrE bind_InrE dest!: update_deadline_effect)

lemma InsertDeadlineEvent_effect:
  assumes "InsertDeadlineEvent E e s = (Inr u, s')"
  shows "\<exists>n i a. e_parse_uuid E (de_TenantID e) = Some n \<and> e_parse_uuid E (de_DeadlineID e) = Some i
       \<and> announced s' = announced s
       \<and> view s' = (view s)\<lparr>deadline_events := deadline_events s
           @ [e\<lparr>de_TenantID := n, de_DeadlineID := i, de_AtorID := a, de_Em := e_tx_time E\<rparr>]\<rparr>"
  using assms unfolding InsertDeadlineEvent_def pgOptionalUUID_def
  by (auto elim!: with_ids_InrE bind_InrE dest!: stmt_InrD parse_InrD simp: view_writes split: if_splits; blast)

lemma InsertCalcMemory_effect:
  assumes "InsertCalcMemory E m s = (Inr x, s')"
  shows "\<exists>i n d. x = m\<lparr>cm_ID := i\<rparr> \<and> e_parse_uuid E (cm_DeadlineID m) = Some d \<and> announced s' = announced s
       \<and> view s' = (view s)\<lparr>calc_memories := calc_memories s @ [m\<lparr>cm_ID := i, cm_TenantID := n, cm_DeadlineID := d\<rparr>]\<rparr>"
  using assms unfolding InsertCalcMemory_def
  by (auto elim!: with_ids_InrE bind_InrE dest!: stmt_InrD simp: next_id_apply view_writes split: if_splits; blast)

lemma InsertAppliedHoliday_effect:
  assumes "InsertAppliedHoliday E h s = (Inr x, s')"
  shows "\<exists>i n m. e_parse_uuid E (ah_CalcMemoryID h) = Some m \<and> announced s' = announced s
       \<and> view s' = (view s)\<lparr>applied_holidays := applied_holidays s
           @ [h\<lparr>ah_ID := i, ah_TenantID := n, ah_CalcMemoryID := m\<rparr>]\<rparr>"
  using assms unfolding InsertAppliedHoliday_def
  by (auto elim!: with_ids_InrE bind_InrE dest!: stmt_InrD simp: next_id_apply view_writes split: if_splits; blast)

lemma InsertCrossValidation_effect:
  assumes "InsertCrossValidation E cv s = (Inr x, s')"
  shows "\<exists>i n d b. e_parse_uuid E (cv_DeadlineID cv) = Some d \<and> announced s' = announced s
       \<and> view s' = (view s)\<lparr>cross_validations := cross_validations s
           @ [cv\<lparr>cv_ID := i, cv_TenantID := n, cv_DeadlineID := d, cv_DifDias := to_int32 (cv_DifDias cv),
                 cv_DecididoPor := b\<rparr>]\<rparr>"
  using assms unfolding InsertCrossValidation_def pgOptionalUUID_def
  by (auto elim!: with_ids_InrE bind_InrE dest!: stmt_InrD parse_InrD simp: next_id_apply view_writes split: if_splits; blast)

lemma InsertDeadline_effect:
  assumes "InsertDeadline E d s = (Inr x, s')"
  shows "\<exists>i n c m. x = d\<lparr>d_ID := i\<rparr> \<and> e_parse_uuid E (d_TenantID d) = Some n
       \<and> e_parse_uuid E (d_CourtRecordID d) = Some c \<and> e_parse_uuid E (d_IntimationID d) = Some m
       \<and> m \<notin> d_IntimationID ` set (deadlines s) \<and> i \<notin> d_ID ` set (deadlines s)
       \<and> announced s' = announced s
       \<and> view s' = (view s)\<lparr>deadlines := deadlines s
           @ [deadline.extend (d\<lparr>d_ID := i, d_TenantID := n, d_CourtRecordID := c, d_IntimationID := m,
                d_Days := to_int32 (d_Days d)\<rparr>) \<lparr>d_ManualExtraDays = 0\<rparr>]\<rparr>"
proof -
  obtain n c m where ids: "e_parse_uuid E (d_TenantID d) = Some n" "e_parse_uuid E (d_CourtRecordID d) = Some c"
      "e_parse_uuid E (d_IntimationID d) = Some m"
    and run: "panel_check (d_AnchorEvent d) 0" "\<forall>r \<in> set (deadlines s). d_IntimationID r \<noteq> m"
      "\<forall>r \<in> set (deadlines s). d_ID r \<noteq> e_gen E (id_seq s)" "x = d\<lparr>d_ID := e_gen E (id_seq s)\<rparr>"
      "s' = s\<lparr>id_seq := Suc (id_seq s), stmts := Suc (stmts s), deadlines := deadlines s
           @ [deadline.extend (d\<lparr>d_ID := e_gen E (id_seq s), d_TenantID := n, d_CourtRecordID := c, d_IntimationID := m,
                d_Days := to_int32 (d_Days d)\<rparr>) \<lparr>d_ManualExtraDays = 0\<rparr>]\<rparr>"
    using assms unfolding InsertDeadline_def
    by (auto elim!: bind_InrE dest!: stmt_InrD parse_InrD simp: next_id_apply find_row_None split: if_splits)
  show ?thesis
    by (rule exI [of _ "e_gen E (id_seq s)"], rule exI [of _ n], rule exI [of _ c], rule exI [of _ m])
       (use ids run in \<open>auto simp: view_writes\<close>)
qed

end
