(* ===== verification/DeadlineDelivery.thy ===== *)
theory DeadlineDelivery
  imports DeadlineEffects
begin

text \<open>
  At-least-once delivery: the relay may hand an event to a handler many times, at any later
  moment. A handled event leaves a permanent mark in \<open>processed_event\<close>, and a marked event
  changes nothing. The argument is the one of the \<open>deduper\<close> interface, on the units of work
  the handlers run in. A failed unit of work changes nothing at all.
\<close>

section \<open>Results and events\<close>

fun op_error :: "env \<Rightarrow> prazo_op \<Rightarrow> prazo_db \<Rightarrow> err option" where
  "op_error E (OpObserved ev) db = error_of (OnIntimationObserved E ev db)"
| "op_error E (OpReminder ev) db = error_of (OnReminderCheck E ev db)"
| "op_error E (OpMissedCheck ev) db = error_of (OnMissedCheck E ev db)"
| "op_error E (OpCancelled ev) db = error_of (OnIntimationCancelled E ev db)"
| "op_error E (OpDocketEntry ev) db = error_of (OnDocketEntryObserved E ev db)"
| "op_error E (OpArchived ev) db = error_of (OnCourtRecordArchived E ev db)"
| "op_error E (OpMet tenant i) db = error_of (MarkMet E tenant i db)"
| "op_error E (OpMissed tenant i) db = error_of (MarkMissed E tenant i db)"
| "op_error E (OpNoDeadline tenant user i) db = error_of (NoDeadline E tenant user i db)"
| "op_error E (OpReopen tenant i) db = error_of (Reopen E tenant i db)"
| "op_error E (OpConfirm cmd) db = error_of (Confirm E cmd db)"
| "op_error E (OpAdjust cmd) db = error_of (Adjust E cmd db)"
| "op_error E (OpApurar cmd) db = error_of (ApurarDivergencia E cmd db)"

text \<open>The mark an event handler leaves: the consumer's name and the event's id.\<close>

fun mark_of :: "prazo_op \<Rightarrow> (string \<times> string) option" where
  "mark_of (OpObserved ev) = (if io_Type ev = intimationTypeComunicacao then None
     else Some (consumerDeadline, io_EventID ev))"
| "mark_of (OpReminder ev) = Some (consumerDeadline, rc_EventID ev)"
| "mark_of (OpMissedCheck ev) = Some (consumerDeadline, mc_EventID ev)"
| "mark_of (OpCancelled ev) = Some (consumerDeadline, ic_EventID ev)"
| "mark_of (OpDocketEntry ev) = Some (consumerReconcile, re_EventID ev)"
| "mark_of (OpArchived ev) = Some (consumerConclusion, re_EventID ev)"
| "mark_of _ = None"

lemma op_error_atomic: "op_error E op db = Some e \<Longrightarrow> run_op E op db = db"
  by (cases op)
     (auto simp: OnIntimationObserved_def OnReminderCheck_def OnMissedCheck_def OnIntimationCancelled_def
        OnDocketEntryObserved_def OnCourtRecordArchived_def MarkMet_def MarkMissed_def markStatus_def
        NoDeadline_def Reopen_def Confirm_def Let_def Adjust_def ApurarDivergencia_def error_of_uow
        split: if_splits)

section \<open>Marks are permanent\<close>

named_theorems mark_rules "steps that keep the dedup marks"

lemma marked_simps [simp]:
  "marked x (insert_outbox ev s) = marked x s" "marked x (s\<lparr>deadlines := ds\<rparr>) = marked x s"
  "marked x (s\<lparr>deadline_events := des\<rparr>) = marked x s" "marked x (s\<lparr>calc_memories := cms\<rparr>) = marked x s"
  "marked x (s\<lparr>applied_holidays := ahs\<rparr>) = marked x s" "marked x (s\<lparr>cross_validations := cvs\<rparr>) = marked x s"
  by (simp_all add: marked_def)

lemma keeps_row:
  "(\<And>s r. P s \<Longrightarrow> P (snd (b r s))) \<Longrightarrow> keeps P (\<lambda>s. case g s of None \<Rightarrow> (a s, s) | Some r \<Rightarrow> b r s)"
  by (auto simp: keeps_def split: option.splits)

lemma mark_writes [mark_rules]:
  "keeps (marked x) (publish_new E mk)" "keeps (marked x) (publish E ev)" "keeps (marked x) (SeenOrMark E c i)"
  "keeps (marked x) (update_deadline E Q f miss)" "keeps (marked x) (InsertDeadlineEvent E de)"
  "keeps (marked x) (InsertCalcMemory E cm)" "keeps (marked x) (InsertAppliedHoliday E ah)"
  "keeps (marked x) (InsertCrossValidation E cv)" "keeps (marked x) (InsertDeadline E d)"
  "keeps (marked x) (UpdateCrossValidationDecision E a b dec u)"
  unfolding publish_new_def publish_def SeenOrMark_def update_deadline_def InsertDeadlineEvent_def
    InsertCalcMemory_def InsertAppliedHoliday_def InsertCrossValidation_def InsertDeadline_def
    UpdateCrossValidationDecision_def
  by (intro keeps_rules frame_marked keeps_row;
      auto simp: keeps_def marked_def seen_or_mark_def Let_def split: option.splits if_splits)+

lemma mark_flows [mark_rules]:
  "keeps (marked x) (ret y)" "keeps (marked x) (fail e)" "keeps (marked x) (lift_sum r)" "keeps (marked x) (now_tx E)"
  "keeps (marked x) (parseUUID E z)"
  by (rule keeps_rules; simp)+

lemmas mark_flow = keeps_bind keeps_attempt keeps_for_each keeps_if keeps_case_option keeps_case_sum
  keeps_case_prod keeps_with_ids

lemma mark_repository [mark_rules]:
  "keeps (marked x) (flip_status E i n ok f)" "keeps (marked x) (MarkNoDeadline E i n u t)"
  "keeps (marked x) (RevokeDeadlineByIntimation E i n)" "keeps (marked x) (UpdateDeadlineEndDate E n i e b)"
  "keeps (marked x) (UpdateDeadlineSelo E n i sl u t)"
  unfolding flip_status_def MarkNoDeadline_def RevokeDeadlineByIntimation_def UpdateDeadlineEndDate_def
    UpdateDeadlineSelo_def
  by (intro mark_rules mark_flow)+

lemma mark_transitions [mark_rules]:
  "keeps (marked x) (MarkDeadlineStatus E i n from to)" "keeps (marked x) (ReopenNoDeadline E i n)"
  "keeps (marked x) (RepoMarkMissed E i n)" "keeps (marked x) (RepoMarkMet E i n)"
  "keeps (marked x) (MarkResolvedOnConclusion E i n)"
  unfolding MarkDeadlineStatus_def ReopenNoDeadline_def RepoMarkMissed_def RepoMarkMet_def MarkResolvedOnConclusion_def
  by (rule mark_repository)+

lemma silent_lists [silent_rules]:
  "silent (ListReconcilableDeadlines E a b)" "silent (ListDeadlinesForConclusion E a b)"
  unfolding ListReconcilableDeadlines_def ListDeadlinesForConclusion_def by (intro silent_rules)+

lemmas mark_reads = silent_select [THEN silent_marked] silent_repository_reads [THEN silent_marked] silent_derivation [THEN silent_marked]
  silent_lists [THEN silent_marked]

lemma mark_panel [mark_rules]:
  "keeps (marked x) (ConfirmDeadline E p)" "keeps (marked x) (UpdateDeadlineAdjust E q)"
  unfolding ConfirmDeadline_def UpdateDeadlineAdjust_def
  by (intro mark_rules mark_flow mark_reads)+

lemma mark_births [mark_rules]:
  "keeps (marked x) (scheduleChecks E d)" "keeps (marked x) (insert_cross_validation E i cv)"
  "keeps (marked x) (insert_holidays E ev i hs)" "keeps (marked x) (announce_confirmation E d)"
  unfolding scheduleChecks_def insert_cross_validation_def insert_holidays_def announce_confirmation_def Let_def
  by (intro mark_rules mark_flow)+

lemma mark_persist [mark_rules]: "keeps (marked x) (persist_birth E ev d cv a b)"
  unfolding persist_birth_def by (intro mark_rules mark_flow)

lemma mark_open [mark_rules]: "keeps (marked x) (open_deadline E ev)"
  unfolding open_deadline_def by (intro mark_rules mark_flow mark_reads)

lemma mark_loops [mark_rules]:
  "keeps (marked x) (reconcile_one E re p)" "keeps (marked x) (conclude_one E re p)"
  unfolding reconcile_one_def conclude_one_def
  by (intro mark_rules mark_flow mark_reads)+

lemma mark_decide [mark_rules]: "keeps (marked x) (decide_end_date E au cur cv)"
  unfolding decide_end_date_def set_end_date_def
  by (cases "au_Decisao au"; simp only: apurar_decisao.case; intro mark_rules mark_flow mark_reads)

lemma mark_bodies [mark_rules]:
  "keeps (marked x) (confirm_body E cc)" "keeps (marked x) (adjust_body E ac)" "keeps (marked x) (apurar_body E au)"
  unfolding confirm_body_def adjust_body_def apurar_body_def suggestion_feedback_def Let_def
  by (intro mark_rules mark_flow mark_reads)+

lemma mark_ops:
  "keeps (marked x) (OnIntimationObserved E io)" "keeps (marked x) (OnReminderCheck E rc)"
  "keeps (marked x) (OnMissedCheck E mc)" "keeps (marked x) (OnIntimationCancelled E ic)"
  "keeps (marked x) (OnDocketEntryObserved E re)" "keeps (marked x) (OnCourtRecordArchived E re)"
  "keeps (marked x) (markStatus E n i t)" "keeps (marked x) (NoDeadline E n u i)" "keeps (marked x) (Reopen E n i)"
  "keeps (marked x) (Confirm E cc)" "keeps (marked x) (Adjust E ac)" "keeps (marked x) (ApurarDivergencia E au)"
  unfolding OnIntimationObserved_def OnReminderCheck_def OnMissedCheck_def OnIntimationCancelled_def
    OnDocketEntryObserved_def OnCourtRecordArchived_def markStatus_def NoDeadline_def Reopen_def Confirm_def
    Adjust_def ApurarDivergencia_def once_or_def Let_def
  by (intro mark_rules mark_flow keeps_uow frame_marked mark_reads)+

lemma op_keeps_marks: "marked x db \<Longrightarrow> marked x (run_op E op db)"
  by (cases op) (simp_all add: keepsD [OF mark_ops(1)] keepsD [OF mark_ops(2)] keepsD [OF mark_ops(3)]
     keepsD [OF mark_ops(4)] keepsD [OF mark_ops(5)] keepsD [OF mark_ops(6)] keepsD [OF mark_ops(7)]
     keepsD [OF mark_ops(8)] keepsD [OF mark_ops(9)] keepsD [OF mark_ops(10)] keepsD [OF mark_ops(11)]
     keepsD [OF mark_ops(12)] MarkMet_def MarkMissed_def)

lemma history_keeps_marks: "marked x db \<Longrightarrow> marked x (run_history h db)"
  unfolding run_history_def by (induction h arbitrary: db) (auto simp: op_keeps_marks)

section \<open>A handled event is marked, a marked event is a no-op\<close>

text \<open>The first handling of an event: the body runs from the marked database.\<close>

lemma first_handling:
  assumes "uow_Do E tenant (once E c i body) db = (Inr u, db')" and "(c, i) \<notin> set (processed db)"
  obtains s where "body s = (Inr u, db')" and "announced s = announced db"
    and "view s = (view db)\<lparr>processed := (c, i) # processed db\<rparr>" and "deadlines s = deadlines db"
proof -
  obtain s where s: "body s = (Inr u, db')" "announced s = announced db"
    "view s = (view db)\<lparr>processed := (c, i) # processed db\<rparr>"
    using assms by (rule first_run)
  moreover have "deadlines s = deadlines db" using s(3) [THEN arg_cong [where f = deadlines]] by simp
  ultimately show thesis by (rule that)
qed

lemma observed_once:
  "OnIntimationObserved E ev = (if io_Type ev = intimationTypeComunicacao then ret ()
     else uow_Do E (io_TenantID ev) (once E consumerDeadline (io_EventID ev) (open_deadline E ev)))"
  by (simp add: OnIntimationObserved_def once_or_def)

lemma mark_handler_bodies [mark_rules]:
  "keeps (marked x) (bind (GetDeadlineForCheck E a b) (\<lambda>d.
        if d_Status d \<noteq> StatusPending \<and> d_Status d \<noteq> StatusOpen then ret ()
        else publish_new E (mk (d_ID d))))"
  "keeps (marked x) (bind (ListReconcilableDeadlines E a b) (\<lambda>prazos. for_each prazos (reconcile_one E re)))"
  "keeps (marked x) (bind (ListDeadlinesForConclusion E a b) (\<lambda>prazos. for_each prazos (conclude_one E re)))"
  by (intro mark_rules mark_flow mark_reads)+

lemma op_marks:
  assumes "mark_of op = Some x" and "op_error E op db = None"
  shows "marked x (run_op E op db)"
  using assms
  by (cases op)
     (auto simp: observed_once OnReminderCheck_def OnMissedCheck_def OnIntimationCancelled_def
        OnDocketEntryObserved_def OnCourtRecordArchived_def
        intro!: once_marks mark_rules mark_handler_bodies mark_flow mark_reads split: if_splits)

lemma op_seen:
  assumes "mark_of op = Some x" and "marked x db"
  shows "announced (run_op E op db) = announced db \<and> view (run_op E op db) = view db"
  using assms
  by (cases op)
     (auto simp: observed_once OnReminderCheck_def OnMissedCheck_def OnIntimationCancelled_def
        OnDocketEntryObserved_def OnCourtRecordArchived_def once_seen split: if_splits)

end
