(* ===== verification/DeadlineSample.thy ===== *)
theory DeadlineSample
  imports DeadlineInvariant DeadlineTasks CalendarStore
begin

text \<open>
  A concrete office: one record of the TJSP, one rule of five business days, one holiday, and
  an environment in which nothing fails. The theorems are applied to it, so that their
  hypotheses are seen to hold of an actual run. The working day is Monday 2 March 2026
  (day 20514), noon UTC.
\<close>

definition monday :: day where
  "monday = 20514"

definition noon :: instant where
  "noon = midnight monday + 43200 * 1000000000"

definition office_holidays :: "holiday list" where
  "office_holidays =
     [\<lparr>Scope = ScopeCourt, ScopeID = ''TJSP'', HDate = monday + 2, Name = ''Suspensao do expediente''\<rparr>]"

definition office_env :: env where
  "office_env =
     \<lparr>e_tx_time = noon, e_clock = (\<lambda>n. noon + int n), e_parse_uuid = Some,
      e_gen = (\<lambda>n. replicate (Suc n) CHR ''u''), e_fault = (\<lambda>_. False), e_begin_fails = False,
      e_commit_fails = False, e_cal = store_calendar office_holidays, e_classifier = None\<rparr>"

definition office_rule :: rule_row where
  "office_rule =
     \<lparr>dr_RulesVersion = rulesVersion, dr_Kind = ''MANIFESTACAO'', dr_Days = 5,
      dr_Counting = CountingBusiness, dr_Doubled = False, dr_LegalCitation = '''',
      rr_IntimationType = ''*'', rr_CourtPrefix = None, rr_Priority = 0, rr_Active = True\<rparr>"

definition office_db :: prazo_db where
  "office_db =
     \<lparr>outbox = [], outbox_seq = 0, processed = [], id_seq = 0, stmts = 0, reads = 0,
      deadlines = [], calc_memories = [], applied_holidays = [], cross_validations = [],
      deadline_events = [], policies = [], rules = [office_rule],
      court_records = [\<lparr>cr_ID = ''rec'', cr_TenantID = ''ten'', cr_Class = '''', cr_Court = ''TJSP''\<rparr>],
      intimations = [\<lparr>in_ID = ''int'', in_TenantID = ''ten'', in_CourtRecordID = ''rec'',
         in_Anchors = \<lparr>MadeAvailableAt = monday - 4, PublishedAt = monday - 3, DeadlineStartAt = monday\<rparr>,
         in_AssigneeUserID = ''ana''\<rparr>],
      docket_entries = [], tasks = [], task_items = [], task_comments = [], task_activities = [],
      suggestions = [], action_items = []\<rparr>"

definition office_intimation :: intimation_observed where
  "office_intimation =
     \<lparr>io_EventID = ''ev1'', io_TenantID = ''ten'', io_IntimationID = ''int'', io_CourtRecordID = ''rec'',
      io_Type = ''INTIMACAO'', io_Court = ''TJSP'', io_UF = ''SP'', io_DeadlineStartAt = ''2026-03-02'',
      io_PrazoDeclarado = ''''\<rparr>"

text \<open>The same office with one prazo, open and ending on Tuesday 10 March 2026 (day 20522).\<close>

definition office_prazo :: deadline_row where
  "office_prazo =
     \<lparr>d_ID = ''p1'', d_TenantID = ''ten'', d_CourtRecordID = ''rec'', d_IntimationID = ''int'',
      d_Kind = ''MANIFESTACAO'', d_Days = 5, d_Counting = CountingBusiness, d_Doubled = False,
      d_DoubledReason = '''', d_HolidaysApplied = [monday + 2], d_StartDate = monday, d_EndDate = monday + 8,
      d_PrazoInterno = monday + 4, d_Status = StatusOpen, d_Source = SourceRule, d_RulesVersion = rulesVersion,
      d_AnchorEvent = AnchorDeadlineStart, d_LegalCitation = '''', d_Origem = OrigemCalculado,
      d_Seal = SealConfiavel, d_ConfirmacaoExigida = False, d_ConfirmedBy = None, d_ConfirmedAt = None,
      d_ManualExtraDays = 0\<rparr>"

definition open_office :: prazo_db where
  "open_office = office_db\<lparr>deadlines := [office_prazo]\<rparr>"

lemma open_office_simps [simp]:
  "deadlines open_office = [office_prazo]" "processed open_office = []" "outbox open_office = []"
  "court_records open_office = court_records office_db" "docket_entries open_office = []"
  by (simp_all add: open_office_def office_db_def)

lemma office_prazo_simps [simp]:
  "d_ID office_prazo = ''p1''" "d_TenantID office_prazo = ''ten''" "d_CourtRecordID office_prazo = ''rec''"
  "d_IntimationID office_prazo = ''int''" "d_Status office_prazo = StatusOpen" "d_StartDate office_prazo = monday"
  "d_EndDate office_prazo = monday + 8"
  by (simp_all add: office_prazo_def)

lemma office_parse [simp]: "e_parse_uuid office_env = Some"
  by (simp add: office_env_def)

lemma office_calm [simp]: "calm office_env"
  by (simp add: calm_def office_env_def)

lemma office_wired [simp]: "wired_env office_env"
  unfolding wired_env_def office_env_def store_calendar_def by auto

lemma office_reachable: "reachable office_db"
  by (rule empty_table) (simp add: office_db_def)

lemma office_compute:
  "compute (e_cal office_env) CountingBusiness monday 5 ''SP'' ''TJSP'' = Inr (monday + 8, [monday + 2])"
  "subtractBusiness (e_cal office_env) (monday + 8) 2 ''SP'' ''TJSP'' = Inr (monday + 4, [])"
  by code_simp+

text \<open>The definitions a short run is evaluated with.\<close>

lemmas evaluate = uow_Do_calm once_or_def SeenOrMark_def seen_or_mark_def stmt_calm with_ids_Some bind_def ret_def
  read_st_def attempt_def find_row_def update_rows_def publish_new_def publish_def next_id_def modify_st_def
  flip_status_def update_deadline_def now_tx_def InsertDeadlineEvent_def pgOptionalUUID_def

lemma open_office_sound: "sound_table (deadlines open_office)"
  by (simp add: sound_table_def sound_row_def office_prazo_def validAnchorEvent_def)

end
