(* ===== verification/BirthOutcome.thy ===== *)
theory BirthOutcome
  imports DeadlineDelivery DeadlineSample
begin

text \<open>
  The birth of a prazo, step by step: what each step of one successful handling of an
  observed intimation leaves in the database and announces, composed into the outcome of
  \<open>open_deadline\<close>.
\<close>

section \<open>Effects of the persistence steps\<close>

text \<open>The scheduled checks a prazo asks for, in the order they are considered.\<close>

definition marks :: "deadline \<Rightarrow> payload event list" where
  "marks d = map (\<lambda>n. newDeadlineReminderCheck (d_TenantID d) (d_ID d) n (d_EndDate d)) reminderDaysLeft
     @ [newDeadlineMissedCheck (d_TenantID d) (d_ID d) (d_EndDate d)]"

definition future_marks :: "instant \<Rightarrow> deadline \<Rightarrow> (string \<times> payload \<times> instant option) list" where
  "future_marks now d = map fact_of (filter (\<lambda>m. now < process_at m) (marks d))"

text \<open>What the birth announces at once.\<close>

definition birth_facts :: "deadline \<Rightarrow> (string \<times> payload \<times> instant option) list" where
  "birth_facts d =
     [fact_of (newDeadlineOpened d ''''), fact_of (newDeadlineCalculated d ''''),
      fact_of (newDeadlineSealAssigned (d_ID d) (d_Seal d) (d_Origem d) '''')]
     @ (if d_ConfirmacaoExigida d then [fact_of (newDeadlineConfirmationRequired (d_TenantID d) (d_ID d) '''')]
        else if d_Status d = StatusOpen then [fact_of (newDeadlineAssumed d '''')] else [])"

definition birth_tipos :: "deadline \<Rightarrow> string list" where
  "birth_tipos d = (if \<not> d_ConfirmacaoExigida d \<and> d_Status d = StatusOpen then [''assumido''] else []) @ [''calculado'']"

lemma fact_of_facts [simp]:
  "fact_of (deadline_fact typ i agg p) = (typ, p, None)" "fact_of (task_fact typ i agg p) = (typ, p, None)"
  by (simp_all add: fact_of_def deadline_fact_def task_fact_def scheduledAt_def)

lemmas event_defs = newDeadlineOpened_def newDeadlineCalculated_def newDeadlineSealAssigned_def
  newDeadlineConfirmationRequired_def newDeadlineAssumed_def

lemma for_each_marks:
  assumes "for_each xs (\<lambda>x. let m = f x in if \<not> process_at m > now then ret () else publish E m) s = (Inr u, s')"
  shows "announced s' = announced s @ map fact_of (filter (\<lambda>m. now < process_at m) (map f xs)) \<and> view s' = view s"
  using assms
proof (induction xs arbitrary: s)
  case (Cons x xs)
  then obtain s1 where 1: "(if \<not> process_at (f x) > now then ret () else publish E (f x)) s = (Inr (), s1)"
    and 2: "for_each xs (\<lambda>x. let m = f x in if \<not> process_at m > now then ret () else publish E m) s1 = (Inr u, s')"
    by (auto elim!: bind_InrE simp: Let_def)
  from Cons.IH [OF 2] 1 show ?case by (auto dest!: publish_effect split: if_splits)
qed simp

lemma scheduleChecks_effect:
  assumes "scheduleChecks E d s = (Inr u, s')"
  shows "\<exists>n. announced s' = announced s @ future_marks (e_clock E n) d \<and> view s' = view s"
proof -
  let ?f = "\<lambda>n. newDeadlineReminderCheck (d_TenantID d) (d_ID d) n (d_EndDate d)"
  let ?m = "newDeadlineMissedCheck (d_TenantID d) (d_ID d) (d_EndDate d)"
  obtain s1 s2 where 0: "s1 = s\<lparr>reads := Suc (reads s)\<rparr>"
    and 1: "for_each reminderDaysLeft (\<lambda>n. let m = ?f n in if \<not> process_at m > e_clock E (reads s) then ret () else publish E m) s1 = (Inr (), s2)"
    and 2: "(if process_at ?m > e_clock E (reads s) then publish E ?m else ret ()) s2 = (Inr u, s')"
    using assms unfolding scheduleChecks_def Let_def by (auto elim!: bind_InrE simp: now_tx_apply)
  have "announced s' = announced s @ future_marks (e_clock E (reads s)) d \<and> view s' = view s"
    using for_each_marks [OF 1] 2 unfolding 0 future_marks_def marks_def
    by (cases "process_at ?m > e_clock E (reads s)") (auto dest!: publish_effect)
  then show ?thesis by blast
qed

lemma announce_confirmation_effect:
  assumes "announce_confirmation E d s = (Inr u, s')"
  shows "\<exists>new. announced s' = announced s @ drop 3 (birth_facts d)
       \<and> view s' = (view s)\<lparr>deadline_events := deadline_events s @ new\<rparr>
       \<and> map de_Tipo new @ [''calculado''] = birth_tipos d"
proof (cases "d_ConfirmacaoExigida d \<or> d_Status d \<noteq> StatusOpen")
  case True
  then have "announced s' = announced s @ drop 3 (birth_facts d) \<and> view s' = view s" and "birth_tipos d = [''calculado'']"
    using assms by (auto simp: announce_confirmation_def birth_facts_def birth_tipos_def event_defs
        dest!: publish_new_effect split: if_splits)
  then show ?thesis by (intro exI [of _ "[]"]) (simp add: view_def)
next
  case False
  then obtain s1 s2 e where 1: "publish_new E (newDeadlineAssumed d) s = (Inr (), s1)"
    and 2: "s2 = s1\<lparr>reads := Suc (reads s1)\<rparr>" and 3: "InsertDeadlineEvent E e s2 = (Inr u, s')" "de_Tipo e = ''assumido''"
    using assms by (auto simp: announce_confirmation_def now_tx_apply elim!: bind_InrE)
  obtain i where p: "announced s1 = announced s @ [fact_of (newDeadlineAssumed d i)]" "view s1 = view s"
    using publish_new_effect [OF 1] by blast
  obtain n i2 a where q: "announced s' = announced s2" "view s' = (view s2)\<lparr>deadline_events := deadline_events s2
           @ [e\<lparr>de_TenantID := n, de_DeadlineID := i2, de_AtorID := a, de_Em := e_tx_time E\<rparr>]\<rparr>"
    using InsertDeadlineEvent_effect [OF 3(1)] by blast
  have "deadline_events s1 = deadline_events s" using arg_cong [OF p(2), of deadline_events] by simp
  then show ?thesis using False p q 2 3(2)
    by (intro exI [of _ "[e\<lparr>de_TenantID := n, de_DeadlineID := i2, de_AtorID := a, de_Em := e_tx_time E\<rparr>]"])
       (simp add: birth_facts_def birth_tipos_def event_defs)
qed

text \<open>The audit rows of the days off: one per day, in order, under the memory, labelled.\<close>

definition audit_rows :: "env \<Rightarrow> intimation_observed \<Rightarrow> string \<Rightarrow> day list \<Rightarrow> applied_holiday list \<Rightarrow> bool" where
  "audit_rows E ev memory holidays rows \<longleftrightarrow>
     map ah_Data rows = holidays \<and> (\<forall>r \<in> set rows. e_parse_uuid E memory = Some (ah_CalcMemoryID r))
     \<and> (holidays \<noteq> [] \<longrightarrow> (\<exists>labels. lookupHolidays (e_cal E) holidays (io_UF ev) (io_Court ev) = Inr labels
          \<and> (\<forall>r \<in> set rows. (ah_Nome r, ah_Ambito r) = label_of labels (ah_Data r))))"

lemma holiday_loop_effect:
  assumes "for_each hs (\<lambda>h. case label_of labels h of (nome, ambito) \<Rightarrow>
       bind (InsertAppliedHoliday E \<lparr>ah_ID = '''', ah_TenantID = t, ah_CalcMemoryID = i, ah_Data = h,
                ah_Nome = nome, ah_Ambito = ambito\<rparr>) (\<lambda>_. ret ())) s = (Inr u, s')"
  shows "\<exists>rows. announced s' = announced s
       \<and> view s' = (view s)\<lparr>applied_holidays := applied_holidays s @ rows\<rparr>
       \<and> map ah_Data rows = hs \<and> (\<forall>r \<in> set rows. e_parse_uuid E i = Some (ah_CalcMemoryID r))
       \<and> (\<forall>r \<in> set rows. (ah_Nome r, ah_Ambito r) = label_of labels (ah_Data r))"
  using assms
proof (induction hs arbitrary: s)
  case Nil
  then show ?case by (intro exI [of _ "[]"]) (simp add: view_def)
next
  case (Cons h hs)
  obtain nome ambito where l: "label_of labels h = (nome, ambito)" by (cases "label_of labels h")
  let ?body = "\<lambda>h. case label_of labels h of (nome, ambito) \<Rightarrow>
       bind (InsertAppliedHoliday E \<lparr>ah_ID = '''', ah_TenantID = t, ah_CalcMemoryID = i, ah_Data = h,
                ah_Nome = nome, ah_Ambito = ambito\<rparr>) (\<lambda>_. ret ())"
  obtain y s1 where 0: "?body h s = (Inr y, s1)" and 2: "for_each hs ?body s1 = (Inr u, s')"
    using Cons.prems unfolding for_each.simps by (rule bind_InrE) (rule that)
  obtain x where 1: "InsertAppliedHoliday E \<lparr>ah_ID = '''', ah_TenantID = t, ah_CalcMemoryID = i, ah_Data = h,
                ah_Nome = nome, ah_Ambito = ambito\<rparr> s = (Inr x, s1)"
    using 0 unfolding l prod.case by (auto elim!: bind_InrE)
  obtain k n m where row: "e_parse_uuid E i = Some m" "announced s1 = announced s"
    "view s1 = (view s)\<lparr>applied_holidays := applied_holidays s
       @ [\<lparr>ah_ID = k, ah_TenantID = n, ah_CalcMemoryID = m, ah_Data = h, ah_Nome = nome, ah_Ambito = ambito\<rparr>]\<rparr>"
    using InsertAppliedHoliday_effect [OF 1] by auto
  obtain rows where rows: "announced s' = announced s1"
    "view s' = (view s1)\<lparr>applied_holidays := applied_holidays s1 @ rows\<rparr>"
    "map ah_Data rows = hs" "\<forall>r \<in> set rows. e_parse_uuid E i = Some (ah_CalcMemoryID r)"
    "\<forall>r \<in> set rows. (ah_Nome r, ah_Ambito r) = label_of labels (ah_Data r)"
    using Cons.IH [OF 2] by blast
  have "applied_holidays s1 = applied_holidays s
      @ [\<lparr>ah_ID = k, ah_TenantID = n, ah_CalcMemoryID = m, ah_Data = h, ah_Nome = nome, ah_Ambito = ambito\<rparr>]"
    using arg_cong [OF row(3), of applied_holidays] by simp
  then show ?case using row rows l
    by (intro exI [of _ "\<lparr>ah_ID = k, ah_TenantID = n, ah_CalcMemoryID = m, ah_Data = h, ah_Nome = nome, ah_Ambito = ambito\<rparr> # rows"])
       simp
qed

lemma insert_holidays_effect:
  assumes "insert_holidays E ev i hs s = (Inr u, s')"
  shows "\<exists>rows. announced s' = announced s \<and> view s' = (view s)\<lparr>applied_holidays := applied_holidays s @ rows\<rparr>
       \<and> audit_rows E ev i hs rows"
proof -
  obtain labels where lab: "(if 0 < length hs then lift_sum (lookupHolidays (e_cal E) hs (io_UF ev) (io_Court ev))
      else ret Map.empty) s = (Inr labels, s)"
    and loop: "for_each hs (\<lambda>h. case label_of labels h of (nome, ambito) \<Rightarrow>
       bind (InsertAppliedHoliday E \<lparr>ah_ID = '''', ah_TenantID = io_TenantID ev, ah_CalcMemoryID = i, ah_Data = h,
                ah_Nome = nome, ah_Ambito = ambito\<rparr>) (\<lambda>_. ret ())) s = (Inr u, s')"
    using assms unfolding insert_holidays_def by (auto elim!: bind_InrE split: if_splits)
  obtain rows where rows: "announced s' = announced s"
    "view s' = (view s)\<lparr>applied_holidays := applied_holidays s @ rows\<rparr>" "map ah_Data rows = hs"
    "\<forall>r \<in> set rows. e_parse_uuid E i = Some (ah_CalcMemoryID r)"
    "\<forall>r \<in> set rows. (ah_Nome r, ah_Ambito r) = label_of labels (ah_Data r)"
    using holiday_loop_effect [OF loop] by blast
  have "lookupHolidays (e_cal E) hs (io_UF ev) (io_Court ev) = Inr labels" if "hs \<noteq> []" using lab that by simp
  then have "audit_rows E ev i hs rows" using rows(3-5) by (simp add: audit_rows_def)
  then show ?thesis using rows(1,2) by blast
qed

lemma insert_cross_validation_effect:
  assumes "insert_cross_validation E i crossVal s = (Inr u, s')"
  shows "\<exists>new. announced s' = announced s \<and> view s' = (view s)\<lparr>cross_validations := cross_validations s @ new\<rparr>
       \<and> map cv_Resultado new = (case crossVal of None \<Rightarrow> [] | Some cv \<Rightarrow> [cv_Resultado cv])
       \<and> (\<forall>c \<in> set new. e_parse_uuid E i = Some (cv_DeadlineID c))"
proof (cases crossVal)
  case None
  with assms show ?thesis by (intro exI [of _ "[]"]) (simp add: insert_cross_validation_def view_def)
next
  case (Some cv)
  then obtain x where "InsertCrossValidation E (cv\<lparr>cv_DeadlineID := i\<rparr>) s = (Inr x, s')"
    using assms by (auto simp: insert_cross_validation_def elim!: bind_InrE)
  from InsertCrossValidation_effect [OF this] Some show ?thesis by fastforce
qed

section \<open>The persisted birth\<close>

definition birth_memory :: "deadline \<Rightarrow> calc_memory \<Rightarrow> bool" where
  "birth_memory d m \<longleftrightarrow> cm_PrazoBase m = prazo_base d \<and> cm_DiasUteis m = (d_Counting d = CountingBusiness)
     \<and> cm_PrazoBaseFonte m = prazoBaseFonteLabel (d_LegalCitation d)"

text \<open>What a birth adds to the tables around the prazo row, and what it announces.\<close>

definition birth_recorded :: "env \<Rightarrow> intimation_observed \<Rightarrow> deadline \<Rightarrow> cross_validation option
    \<Rightarrow> prazo_db \<Rightarrow> prazo_db \<Rightarrow> bool" where
  "birth_recorded E ev d crossVal s s' \<longleftrightarrow>
     (\<exists>n i mem rows des cvs. e_parse_uuid E (d_ID d) = Some i
        \<and> announced s' = announced s @ birth_facts d @ future_marks (e_clock E n) d
        \<and> calc_memories s' = calc_memories s @ [mem] \<and> cm_DeadlineID mem = i \<and> birth_memory d mem
        \<and> applied_holidays s' = applied_holidays s @ rows
        \<and> audit_rows E ev (cm_ID mem) (d_HolidaysApplied d) rows
        \<and> deadline_events s' = deadline_events s @ des \<and> map de_Tipo des = birth_tipos d
        \<and> cross_validations s' = cross_validations s @ cvs
        \<and> map cv_Resultado cvs = (case crossVal of None \<Rightarrow> [] | Some cv \<Rightarrow> [cv_Resultado cv])
        \<and> tasks s' = tasks s \<and> processed s' = processed s \<and> deadlines s' = deadlines s)"

lemma persist_birth_steps:
  assumes "persist_birth E ev d crossVal a b s = (Inr u, s')"
  obtains u1 s1 u2 s2 u3 s3 u4 s4 u5 s5 mem s6 u7 s7 now s8 e u9 s9 m where
    "publish_new E (newDeadlineOpened d) s = (Inr u1, s1)"
    "publish_new E (newDeadlineCalculated d) s1 = (Inr u2, s2)"
    "publish_new E (newDeadlineSealAssigned (d_ID d) (d_Seal d) (d_Origem d)) s2 = (Inr u3, s3)"
    "announce_confirmation E d s3 = (Inr u4, s4)"
    "insert_cross_validation E (d_ID d) crossVal s4 = (Inr u5, s5)"
    "InsertCalcMemory E m s5 = (Inr mem, s6)" "cm_DeadlineID m = d_ID d" "birth_memory d m"
    "insert_holidays E ev (cm_ID mem) (d_HolidaysApplied d) s6 = (Inr u7, s7)"
    "now_tx E s7 = (Inr now, s8)"
    "InsertDeadlineEvent E e s8 = (Inr u9, s9)" "de_Tipo e = ''calculado''"
    "scheduleChecks E d s9 = (Inr u, s')"
proof -
  show ?thesis
    using assms unfolding persist_birth_def
    apply (elim bind_InrE)
    apply (rule that, assumption+)
    apply (simp, simp add: birth_memory_def, assumption+, simp, assumption)
    done
qed

lemma persist_birth_effect:
  assumes "persist_birth E ev d crossVal a b s = (Inr u, s')"
  shows "birth_recorded E ev d crossVal s s'"
  using assms
proof (rule persist_birth_steps)
  fix u1 s1 u2 s2 u3 s3 u4 s4 u5 s5 u7 s7 now s8 u9 s9
  fix m mem :: calc_memory and e :: deadline_event and s6 :: prazo_db
  assume st: "publish_new E (newDeadlineOpened d) s = (Inr u1, s1)"
    "publish_new E (newDeadlineCalculated d) s1 = (Inr u2, s2)"
    "publish_new E (newDeadlineSealAssigned (d_ID d) (d_Seal d) (d_Origem d)) s2 = (Inr u3, s3)"
    "announce_confirmation E d s3 = (Inr u4, s4)"
    "insert_cross_validation E (d_ID d) crossVal s4 = (Inr u5, s5)"
    "InsertCalcMemory E m s5 = (Inr mem, s6)" and m: "cm_DeadlineID m = d_ID d" "birth_memory d m"
    and st2: "insert_holidays E ev (cm_ID mem) (d_HolidaysApplied d) s6 = (Inr u7, s7)"
    "now_tx E s7 = (Inr now, s8)" "InsertDeadlineEvent E e s8 = (Inr u9, s9)" and e: "de_Tipo e = ''calculado''"
    and st3: "scheduleChecks E d s9 = (Inr u, s')"
  obtain i1 where f1: "announced s1 = announced s @ [fact_of (newDeadlineOpened d i1)]" "view s1 = view s"
    using publish_new_effect [OF st(1)] by blast
  obtain i2 where f2: "announced s2 = announced s1 @ [fact_of (newDeadlineCalculated d i2)]" "view s2 = view s1"
    using publish_new_effect [OF st(2)] by blast
  obtain i3 where f3: "announced s3 = announced s2 @ [fact_of (newDeadlineSealAssigned (d_ID d) (d_Seal d) (d_Origem d) i3)]"
    "view s3 = view s2"
    using publish_new_effect [OF st(3)] by blast
  obtain des where f4: "announced s4 = announced s3 @ drop 3 (birth_facts d)"
    "view s4 = (view s3)\<lparr>deadline_events := deadline_events s3 @ des\<rparr>" "map de_Tipo des @ [''calculado''] = birth_tipos d"
    using announce_confirmation_effect [OF st(4)] by blast
  obtain cvs where f5: "announced s5 = announced s4" "view s5 = (view s4)\<lparr>cross_validations := cross_validations s4 @ cvs\<rparr>"
    "map cv_Resultado cvs = (case crossVal of None \<Rightarrow> [] | Some cv \<Rightarrow> [cv_Resultado cv])"
    using insert_cross_validation_effect [OF st(5)] by blast
  obtain k n di where f6: "mem = m\<lparr>cm_ID := k\<rparr>" "e_parse_uuid E (d_ID d) = Some di" "announced s6 = announced s5"
    "view s6 = (view s5)\<lparr>calc_memories := calc_memories s5 @ [m\<lparr>cm_ID := k, cm_TenantID := n, cm_DeadlineID := di\<rparr>]\<rparr>"
    using InsertCalcMemory_effect [OF st(6)] m(1) by auto
  obtain rows where f7: "announced s7 = announced s6" "view s7 = (view s6)\<lparr>applied_holidays := applied_holidays s6 @ rows\<rparr>"
    "audit_rows E ev (cm_ID mem) (d_HolidaysApplied d) rows"
    using insert_holidays_effect [OF st2(1)] by blast
  have f8: "announced s8 = announced s7" "view s8 = view s7" using silent_run [OF silent_now st2(2)] by simp_all
  obtain n9 i9 a9 where f9: "announced s9 = announced s8" "view s9 = (view s8)\<lparr>deadline_events := deadline_events s8
           @ [e\<lparr>de_TenantID := n9, de_DeadlineID := i9, de_AtorID := a9, de_Em := e_tx_time E\<rparr>]\<rparr>"
    using InsertDeadlineEvent_effect [OF st2(3)] by blast
  obtain c where f10: "announced s' = announced s9 @ future_marks (e_clock E c) d" "view s' = view s9"
    using scheduleChecks_effect [OF st3] by blast
  note V = f1(2) f2(2) f3(2) f4(2) f5(2) f6(4) f7(2) f8(2) f9(2) f10(2)
  let ?e = "e\<lparr>de_TenantID := n9, de_DeadlineID := i9, de_AtorID := a9, de_Em := e_tx_time E\<rparr>"
  let ?m = "m\<lparr>cm_ID := k, cm_TenantID := n, cm_DeadlineID := di\<rparr>"
  have "deadline_events s' = deadline_events s @ des @ [?e]"
    using V [THEN arg_cong [where f = deadline_events]] by simp
  moreover have "calc_memories s' = calc_memories s @ [?m]"
    using V [THEN arg_cong [where f = calc_memories]] by simp
  moreover have "applied_holidays s' = applied_holidays s @ rows"
    using V [THEN arg_cong [where f = applied_holidays]] by simp
  moreover have "cross_validations s' = cross_validations s @ cvs"
    using V [THEN arg_cong [where f = cross_validations]] by simp
  moreover have "tasks s' = tasks s" using V [THEN arg_cong [where f = tasks]] by simp
  moreover have "processed s' = processed s" using V [THEN arg_cong [where f = processed]] by simp
  moreover have "deadlines s' = deadlines s" using V [THEN arg_cong [where f = deadlines]] by simp
  moreover have "announced s' = announced s @ birth_facts d @ future_marks (e_clock E c) d"
    using f1(1) f2(1) f3(1) f4(1) f5(1) f6(3) f7(1) f8(1) f9(1) f10(1)
    by (simp add: birth_facts_def event_defs)
  moreover have "map de_Tipo (des @ [?e]) = birth_tipos d" using f4(3) e by simp
  moreover have "birth_memory d ?m" using m(2) by (simp add: birth_memory_def)
  moreover have "audit_rows E ev (cm_ID ?m) (d_HolidaysApplied d) rows" using f7(3) f6(1) by simp
  moreover have "cm_DeadlineID ?m = di" by simp
  ultimately show ?thesis using f6(2) f5(3) unfolding birth_recorded_def by blast
qed

section \<open>The outcome\<close>

text \<open>The stored row of a derived prazo: the derived fields under a fresh id and canonical ids.\<close>

definition stored_prazo :: "env \<Rightarrow> deadline \<Rightarrow> deadline_row \<Rightarrow> bool" where
  "stored_prazo E d r \<longleftrightarrow> e_parse_uuid E (d_TenantID d) = Some (d_TenantID r)
     \<and> e_parse_uuid E (d_CourtRecordID d) = Some (d_CourtRecordID r)
     \<and> e_parse_uuid E (d_IntimationID d) = Some (d_IntimationID r)
     \<and> deadline.truncate r = d\<lparr>d_ID := d_ID r, d_TenantID := d_TenantID r, d_CourtRecordID := d_CourtRecordID r,
         d_IntimationID := d_IntimationID r, d_Days := to_int32 (d_Days d)\<rparr>
     \<and> d_ManualExtraDays r = 0"

text \<open>The intimation already has a prazo.\<close>

definition has_prazo :: "env \<Rightarrow> intimation_observed \<Rightarrow> prazo_db \<Rightarrow> bool" where
  "has_prazo E ev db \<longleftrightarrow> (\<exists>r \<in> set (deadlines db). e_parse_uuid E (io_IntimationID ev) = Some (d_IntimationID r))"

lemma birth_recorded_cong:
  assumes "announced s = announced t" and "view s = view t" and "birth_recorded E ev d cv s s'"
  shows "birth_recorded E ev d cv t s'"
proof -
  have "deadlines s = deadlines t" "calc_memories s = calc_memories t" "applied_holidays s = applied_holidays t"
    "cross_validations s = cross_validations t" "deadline_events s = deadline_events t" "tasks s = tasks t"
    "processed s = processed t"
    using assms(2) [THEN arg_cong [where f = deadlines]] assms(2) [THEN arg_cong [where f = calc_memories]]
      assms(2) [THEN arg_cong [where f = applied_holidays]] assms(2) [THEN arg_cong [where f = cross_validations]]
      assms(2) [THEN arg_cong [where f = deadline_events]] assms(2) [THEN arg_cong [where f = tasks]]
      assms(2) [THEN arg_cong [where f = processed]]
    by simp_all
  then show ?thesis using assms(1,3) by (simp add: birth_recorded_def)
qed

lemma InsertDeadline_exists:
  assumes "InsertDeadline E d s = (Inl ErrDeadlineExists, s')"
  shows "\<exists>r \<in> set (deadlines s). e_parse_uuid E (d_IntimationID d) = Some (d_IntimationID r)"
  using assms unfolding InsertDeadline_def parseUUID_def
  by (auto simp: bind_def stmt_def next_id_def Let_def WrapInfra_def ErrDeadlineExists_def NewInfra_def NewConflict_def
      dest!: find_row_Some split: option.splits if_splits)

lemma open_deadline_outcome:
  assumes run: "open_deadline E ev s = (Inr u, s')" and fresh: "\<not> has_prazo E ev s"
  shows "\<exists>d crossVal r. derived E ev d crossVal \<and> validate d = Inr () \<and> stored_prazo E d r
       \<and> birth_recorded E ev (d\<lparr>d_ID := d_ID r\<rparr>) crossVal (s\<lparr>deadlines := deadlines s @ [r]\<rparr>) s'"
proof -
  obtain x s1 where 1: "derive_deadline E ev s = (Inr x, s1)" and r1: "(case x of (d, crossVal, a, b) \<Rightarrow>
      bind (lift_sum (validate d)) (\<lambda>_. bind (attempt (InsertDeadline E d)) (\<lambda>r. case r of
         Inr saved \<Rightarrow> persist_birth E ev saved crossVal a b
       | Inl e \<Rightarrow> if e = ErrDeadlineExists then ret () else fail e))) s1 = (Inr u, s')"
    using run unfolding open_deadline_def by (rule bind_InrE) (rule that)
  obtain d crossVal a b where x: "x = (d, crossVal, a, b)" by (cases x)
  have drv: "derived E ev d crossVal" using derive_result 1 unfolding x .
  have same: "announced s1 = announced s" "view s1 = view s"
    using silent_run [OF silent_derivation(3) 1] by simp_all
  have ds: "deadlines s1 = deadlines s" using same(2) [THEN arg_cong [where f = deadlines]] by simp
  obtain v s2 where 2: "lift_sum (validate d) s1 = (Inr v, s2)"
    and r2: "bind (attempt (InsertDeadline E d)) (\<lambda>r. case r of
         Inr saved \<Rightarrow> persist_birth E ev saved crossVal a b
       | Inl e \<Rightarrow> if e = ErrDeadlineExists then ret () else fail e) s2 = (Inr u, s')"
    using r1 unfolding x prod.case by (rule bind_InrE) (rule that)
  have s2: "s2 = s1" and val: "validate d = Inr ()" using 2 by auto
  obtain ins s3 where 3: "InsertDeadline E d s1 = (ins, s3)"
    and r3: "(case ins of Inr saved \<Rightarrow> persist_birth E ev saved crossVal a b
       | Inl e \<Rightarrow> if e = ErrDeadlineExists then ret () else fail e) s3 = (Inr u, s')"
    using r2 unfolding s2 by (auto elim!: bind_InrE attempt_InrE)
  show ?thesis
  proof (cases ins)
    case (Inl e)
    with r3 have "e = ErrDeadlineExists" by (auto split: if_splits)
    with InsertDeadline_exists 3 Inl derived_fields(3) [OF drv] fresh ds show ?thesis
      by (fastforce simp: has_prazo_def)
  next
    case (Inr saved)
    from InsertDeadline_effect [OF 3 [unfolded Inr]] obtain i n c m where
      ins: "saved = d\<lparr>d_ID := i\<rparr>" "e_parse_uuid E (d_TenantID d) = Some n"
        "e_parse_uuid E (d_CourtRecordID d) = Some c" "e_parse_uuid E (d_IntimationID d) = Some m"
        "announced s3 = announced s1"
        "view s3 = (view s1)\<lparr>deadlines := deadlines s1
           @ [deadline.extend (d\<lparr>d_ID := i, d_TenantID := n, d_CourtRecordID := c, d_IntimationID := m,
                d_Days := to_int32 (d_Days d)\<rparr>) \<lparr>d_ManualExtraDays = 0\<rparr>]\<rparr>"
      by auto
    let ?r = "deadline.extend (d\<lparr>d_ID := i, d_TenantID := n, d_CourtRecordID := c, d_IntimationID := m,
                d_Days := to_int32 (d_Days d)\<rparr>) \<lparr>d_ManualExtraDays = 0\<rparr>"
    have "birth_recorded E ev saved crossVal s3 s'"
      using r3 Inr by (auto intro: persist_birth_effect)
    then have "birth_recorded E ev saved crossVal (s\<lparr>deadlines := deadlines s @ [?r]\<rparr>) s'"
      by (rule birth_recorded_cong [rotated 2]) (simp_all add: ins same ds view_writes)
    moreover have "stored_prazo E d ?r" using ins(2-4) by (simp add: stored_prazo_def deadline.defs)
    moreover have "saved = d\<lparr>d_ID := d_ID ?r\<rparr>" using ins(1) by (simp add: deadline.defs)
    ultimately show ?thesis using drv val by blast
  qed
qed

end
