(* ===== verification/BirthLiveness.thy ===== *)
theory BirthLiveness
  imports BirthOutcome
begin

text \<open>
  Total correctness of a birth: when nothing fails in the driver and the inputs of the
  derivation are there, the handling of an observed intimation does return, so the outcome
  theorem of the birth is not vacuous.
\<close>

section \<open>A birth succeeds\<close>

text \<open>
  Total correctness: \<open>returns P m Q\<close> says that from every state of \<open>P\<close> the step returns a value
  and leaves a state of \<open>Q\<close>.
\<close>

definition returns :: "(prazo_db \<Rightarrow> bool) \<Rightarrow> 'a ptx \<Rightarrow> ('a \<Rightarrow> prazo_db \<Rightarrow> bool) \<Rightarrow> bool" where
  "returns P m Q \<longleftrightarrow> (\<forall>s. P s \<longrightarrow> (\<exists>x s'. m s = (Inr x, s') \<and> Q x s'))"

lemma returnsI: "(\<And>s. P s \<Longrightarrow> \<exists>x s'. m s = (Inr x, s') \<and> Q x s') \<Longrightarrow> returns P m Q"
  by (simp add: returns_def)

lemma returnsD: "returns P m Q \<Longrightarrow> P s \<Longrightarrow> \<exists>x s'. m s = (Inr x, s') \<and> Q x s'"
  by (simp add: returns_def)

lemma returns_bind: "returns P m Q \<Longrightarrow> (\<And>x. returns (Q x) (f x) R) \<Longrightarrow> returns P (bind m f) R"
  unfolding returns_def by (fastforce simp: bind_def)

lemma returns_weaken: "returns P' m Q' \<Longrightarrow> (\<And>s. P s \<Longrightarrow> P' s) \<Longrightarrow> (\<And>x s. Q' x s \<Longrightarrow> Q x s) \<Longrightarrow> returns P m Q"
  unfolding returns_def by meson

lemma returns_ret: "(\<And>s. P s \<Longrightarrow> Q x s) \<Longrightarrow> returns P (ret x) Q"
  by (simp add: returns_def)

lemma returns_lift: "r = Inr x \<Longrightarrow> (\<And>s. P s \<Longrightarrow> Q x s) \<Longrightarrow> returns P (lift_sum r) Q"
  by (simp add: returns_def)

lemma returns_for_each: "(\<And>x. x \<in> set xs \<Longrightarrow> returns P (body x) (\<lambda>_. P)) \<Longrightarrow> returns P (for_each xs body) (\<lambda>_. P)"
  by (induction xs) (auto intro: returns_ret returns_bind)

text \<open>
  The generator yields canonical ids, all different; the ids still to come are in use
  nowhere, and a fresh prazo has no memory and no cross-validation yet.
\<close>

definition good_ids :: "env \<Rightarrow> bool" where
  "good_ids E \<longleftrightarrow> inj (e_gen E) \<and> (\<forall>k. e_parse_uuid E (e_gen E k) = Some (e_gen E k))"

definition ready :: "env \<Rightarrow> prazo_db \<Rightarrow> bool" where
  "ready E s \<longleftrightarrow> (\<forall>k \<ge> id_seq s. e_gen E k \<notin> d_ID ` set (deadlines s)
     \<and> e_gen E k \<notin> cm_ID ` set (calc_memories s) \<and> e_gen E k \<notin> cm_DeadlineID ` set (calc_memories s)
     \<and> e_gen E k \<notin> ah_ID ` set (applied_holidays s)
     \<and> e_gen E k \<notin> cv_ID ` set (cross_validations s) \<and> e_gen E k \<notin> cv_DeadlineID ` set (cross_validations s))"

definition computed :: "env \<Rightarrow> string \<Rightarrow> prazo_db \<Rightarrow> bool" where
  "computed E i s \<longleftrightarrow> ready E s \<and> (\<forall>k \<ge> id_seq s. e_gen E k \<noteq> i)
     \<and> e_parse_uuid E i = Some i \<and> i \<notin> cm_DeadlineID ` set (calc_memories s)"

definition newborn :: "env \<Rightarrow> string \<Rightarrow> prazo_db \<Rightarrow> bool" where
  "newborn E i s \<longleftrightarrow> computed E i s \<and> i \<notin> cv_DeadlineID ` set (cross_validations s)"

text \<open>Announcing and logging keep all three.\<close>

definition settled :: "env \<Rightarrow> (prazo_db \<Rightarrow> bool) \<Rightarrow> bool" where
  "settled E P \<longleftrightarrow> (\<exists>i. P = newborn E i \<or> P = computed E i) \<or> P = ready E"

lemma settled_simps:
  assumes "settled E P" and "P s"
  shows "P (s\<lparr>stmts := n\<rparr>)" "P (s\<lparr>reads := n\<rparr>)" "P (insert_outbox ev s)" "P (s\<lparr>id_seq := Suc (id_seq s)\<rparr>)"
    "P (s\<lparr>deadline_events := des\<rparr>)"
  using assms by (auto simp: settled_def newborn_def computed_def ready_def insert_outbox_def)

lemma settled_instances [simp]: "settled E (newborn E i)" "settled E (computed E i)" "settled E (ready E)"
  by (auto simp: settled_def)

lemma publish_returns: "calm E \<Longrightarrow> settled E P \<Longrightarrow> returns P (publish E ev) (\<lambda>_. P)"
  by (rule returnsI) (simp add: publish_def stmt_calm settled_simps)

lemma publish_new_returns: "calm E \<Longrightarrow> settled E P \<Longrightarrow> returns P (publish_new E mk) (\<lambda>_. P)"
  unfolding publish_new_def
  by (rule returns_bind [OF returnsI publish_returns]) (simp_all add: next_id_apply settled_simps)

lemma now_returns: "settled E P \<Longrightarrow> returns P (now_tx E) (\<lambda>_. P)"
  by (rule returnsI) (simp add: now_tx_apply settled_simps)

lemma InsertDeadlineEvent_returns:
  assumes "calm E" "settled E P" "e_parse_uuid E (de_TenantID e) = Some n" "e_parse_uuid E (de_DeadlineID e) = Some i"
    and "de_AtorID e = ''''"
  shows "returns P (InsertDeadlineEvent E e) (\<lambda>_. P)"
  using assms by (intro returnsI) (simp add: InsertDeadlineEvent_def with_ids_Some pgOptionalUUID_def bind_def stmt_calm settled_simps)

lemma scheduleChecks_returns: "calm E \<Longrightarrow> settled E P \<Longrightarrow> returns P (scheduleChecks E d) (\<lambda>_. P)"
  unfolding scheduleChecks_def Let_def
  by (rule returns_bind [OF now_returns], assumption, rule returns_bind [OF returns_for_each])
     (auto intro: publish_returns returns_ret)

lemma announce_returns:
  assumes "calm E" "settled E P" "e_parse_uuid E (d_TenantID d) = Some n" "e_parse_uuid E (d_ID d) = Some i"
  shows "returns P (announce_confirmation E d) (\<lambda>_. P)"
  using assms unfolding announce_confirmation_def
  by (auto intro!: publish_new_returns returns_ret returns_bind [OF publish_new_returns] returns_bind [OF now_returns]
      InsertDeadlineEvent_returns)

lemma insert_cross_validation_returns:
  assumes "calm E" "good_ids E" "\<And>cv. crossVal = Some cv \<Longrightarrow> e_parse_uuid E (cv_TenantID cv) = Some n \<and> cv_DecididoPor cv = ''''"
  shows "returns (newborn E i) (insert_cross_validation E i crossVal) (\<lambda>_. computed E i)"
proof (cases crossVal)
  case None
  then show ?thesis by (auto simp: insert_cross_validation_def newborn_def intro: returns_ret)
next
  case (Some cv)
  show ?thesis
  proof (rule returnsI)
    fix s assume nb: "newborn E i s"
    let ?k = "e_gen E (id_seq s)"
    let ?row = "cv\<lparr>cv_ID := ?k, cv_TenantID := n, cv_DeadlineID := i, cv_DifDias := to_int32 (cv_DifDias cv)\<rparr>"
    let ?s = "s\<lparr>id_seq := Suc (id_seq s), stmts := Suc (stmts s), cross_validations := cross_validations s @ [?row]\<rparr>"
    have i: "e_parse_uuid E i = Some i" "find_row (\<lambda>r. cv_DeadlineID r = i) (cross_validations s) = None"
      "find_row (\<lambda>r. cv_ID r = ?k) (cross_validations s) = None"
      using nb by (auto simp: newborn_def computed_def ready_def find_row_None dest: image_eqI [where f = cv_ID, OF sym])
    have "insert_cross_validation E i crossVal s = (Inr (), ?s)"
      using assms(3) [OF Some] i Some
      by (simp add: insert_cross_validation_def InsertCrossValidation_def with_ids_Some pgOptionalUUID_def
         bind_def stmt_calm [OF assms(1)] next_id_def)
    moreover have "computed E i ?s"
      using nb assms(2) by (auto simp: newborn_def computed_def ready_def good_ids_def inj_eq)
    ultimately show "\<exists>x s'. insert_cross_validation E i crossVal s = (Inr x, s') \<and> computed E i s'" by blast
  qed
qed

lemma InsertCalcMemory_returns:
  assumes "calm E" "good_ids E" "e_parse_uuid E (cm_TenantID m) = Some n"
  shows "returns (computed E (cm_DeadlineID m)) (InsertCalcMemory E m)
     (\<lambda>x s. ready E s \<and> e_parse_uuid E (cm_ID x) = Some (cm_ID x))"
proof (rule returnsI)
  fix s assume c: "computed E (cm_DeadlineID m) s"
  let ?k = "e_gen E (id_seq s)"
  let ?s = "s\<lparr>id_seq := Suc (id_seq s), stmts := Suc (stmts s), calc_memories := calc_memories s
      @ [m\<lparr>cm_ID := ?k, cm_TenantID := n\<rparr>]\<rparr>"
  have i: "e_parse_uuid E (cm_DeadlineID m) = Some (cm_DeadlineID m)"
    "find_row (\<lambda>r. cm_DeadlineID r = cm_DeadlineID m) (calc_memories s) = None"
    "find_row (\<lambda>r. cm_ID r = ?k) (calc_memories s) = None"
    using c by (auto simp: computed_def ready_def find_row_None dest: image_eqI [where f = cm_ID, OF sym]
        image_eqI [where f = cm_DeadlineID, OF sym])
  have "InsertCalcMemory E m s = (Inr (m\<lparr>cm_ID := ?k\<rparr>), ?s)"
    using assms(3) i by (simp add: InsertCalcMemory_def with_ids_Some bind_def stmt_calm [OF assms(1)] next_id_def)
  moreover have "ready E ?s" using c assms(2) by (auto simp: computed_def ready_def good_ids_def inj_eq)
  moreover have "e_parse_uuid E ?k = Some ?k" using assms(2) by (simp add: good_ids_def)
  ultimately show "\<exists>x s'. InsertCalcMemory E m s = (Inr x, s') \<and> ready E s' \<and> e_parse_uuid E (cm_ID x) = Some (cm_ID x)"
    by fastforce
qed

lemma InsertAppliedHoliday_returns:
  assumes "calm E" "good_ids E" "e_parse_uuid E (ah_TenantID h) = Some n" "e_parse_uuid E (ah_CalcMemoryID h) = Some m"
  shows "returns (ready E) (InsertAppliedHoliday E h) (\<lambda>_. ready E)"
proof (rule returnsI)
  fix s assume r: "ready E s"
  let ?k = "e_gen E (id_seq s)"
  let ?s = "s\<lparr>id_seq := Suc (id_seq s), stmts := Suc (stmts s), applied_holidays := applied_holidays s
      @ [h\<lparr>ah_ID := ?k, ah_TenantID := n, ah_CalcMemoryID := m\<rparr>]\<rparr>"
  have "find_row (\<lambda>r. ah_ID r = ?k) (applied_holidays s) = None"
    using r by (auto simp: ready_def find_row_None dest: image_eqI [where f = ah_ID, OF sym])
  then have "InsertAppliedHoliday E h s = (Inr (h\<lparr>ah_ID := ?k\<rparr>), ?s)"
    using assms(3,4) by (simp add: InsertAppliedHoliday_def with_ids_Some bind_def stmt_calm [OF assms(1)] next_id_def)
  moreover have "ready E ?s" using r assms(2) by (auto simp: ready_def good_ids_def inj_eq)
  ultimately show "\<exists>x s'. InsertAppliedHoliday E h s = (Inr x, s') \<and> ready E s'" by blast
qed

lemma insert_holidays_returns:
  assumes "calm E" "good_ids E" "e_parse_uuid E (io_TenantID ev) = Some n" "e_parse_uuid E i = Some m"
    and "hs \<noteq> [] \<Longrightarrow> lookupHolidays (e_cal E) hs (io_UF ev) (io_Court ev) = Inr labels"
  shows "returns (ready E) (insert_holidays E ev i hs) (\<lambda>_. ready E)"
proof -
  have "returns (ready E) (for_each hs (\<lambda>h. case label_of lb h of (nome, ambito) \<Rightarrow>
       bind (InsertAppliedHoliday E \<lparr>ah_ID = [], ah_TenantID = io_TenantID ev, ah_CalcMemoryID = i, ah_Data = h,
                ah_Nome = nome, ah_Ambito = ambito\<rparr>) (\<lambda>_. ret ()))) (\<lambda>_. ready E)" for lb
    by (rule returns_for_each)
       (auto intro!: returns_bind [OF InsertAppliedHoliday_returns [OF assms(1,2)]] returns_ret simp: assms(3,4) split: prod.splits)
  then show ?thesis using assms(5) unfolding insert_holidays_def
    by (intro returns_bind [where Q = "\<lambda>_. ready E"]) (auto intro: returns_lift returns_ret)
qed

section \<open>The inputs of a derivation\<close>

text \<open>
  What has to be there: canonical ids, the record, a rule for the type and the court with a
  positive count of days, a calendar that answers, a parsable day count when one is declared.
\<close>

definition derivation_inputs :: "env \<Rightarrow> intimation_observed \<Rightarrow> prazo_db \<Rightarrow> day \<Rightarrow> court_record \<Rightarrow> rule_row
    \<Rightarrow> counting \<Rightarrow> day \<Rightarrow> day list \<Rightarrow> day \<Rightarrow> bool" where
  "derivation_inputs E ev s start cr q c e hs p \<longleftrightarrow>
     parseWireDate (io_DeadlineStartAt ev) = Inr start
     \<and> (\<forall>x \<in> {io_TenantID ev, io_CourtRecordID ev, io_IntimationID ev}. e_parse_uuid E x = Some x)
     \<and> find_row (\<lambda>r. cr_ID r = io_CourtRecordID ev \<and> cr_TenantID r = io_TenantID ev) (court_records s) = Some cr
     \<and> best_rule (io_Type ev) (filter (rule_applies rulesVersion (io_Type ev) (io_Court ev)) (rules s)) = Some q
     \<and> c = decideCounting (dr_Counting q) (io_Court ev) (cr_Class cr)
     \<and> c \<in> {CountingBusiness, CountingCalendar} \<and> 0 < dr_Days q
     \<and> compute (e_cal E) c start (dr_Days q) (io_UF ev) (io_Court ev) = Inr (e, hs) \<and> start < e
     \<and> (\<exists>h2. subtractBusiness (e_cal E) e 2 (io_UF ev) (io_Court ev) = Inr (p, h2))
     \<and> (hs \<noteq> [] \<longrightarrow> (\<exists>labels. lookupHolidays (e_cal E) hs (io_UF ev) (io_Court ev) = Inr labels))
     \<and> (\<forall>k. parseDeclaradoDays (io_PrazoDeclarado ev) = Some k
          \<longrightarrow> (\<exists>x. compute (e_cal E) c start k (io_UF ev) (io_Court ev) = Inr x))"

definition derivable :: "env \<Rightarrow> intimation_observed \<Rightarrow> prazo_db \<Rightarrow> bool" where
  "derivable E ev s \<longleftrightarrow> (\<exists>start cr q c e hs p. derivation_inputs E ev s start cr q c e hs p)"

text \<open>A derived prazo that the rest of the birth can persist.\<close>

definition persistable :: "env \<Rightarrow> intimation_observed \<Rightarrow> deadline \<Rightarrow> cross_validation option \<Rightarrow> bool" where
  "persistable E ev d crossVal \<longleftrightarrow> validate d = Inr () \<and> d_AnchorEvent d = AnchorDeadlineStart
     \<and> d_TenantID d = io_TenantID ev \<and> d_CourtRecordID d = io_CourtRecordID ev \<and> d_IntimationID d = io_IntimationID ev
     \<and> (d_HolidaysApplied d \<noteq> [] \<longrightarrow>
          (\<exists>labels. lookupHolidays (e_cal E) (d_HolidaysApplied d) (io_UF ev) (io_Court ev) = Inr labels))
     \<and> (\<forall>cv. crossVal = Some cv \<longrightarrow> cv_TenantID cv = io_TenantID ev \<and> cv_DecididoPor cv = '''')"

lemma derive_returns:
  assumes "calm E" and "derivable E ev s0"
  shows "returns (\<lambda>s. ready E s \<and> court_records s = court_records s0 \<and> rules s = rules s0 \<and> deadlines s = deadlines s0)
     (derive_deadline E ev)
     (\<lambda>(d, crossVal, a, b) s. persistable E ev d crossVal \<and> ready E s \<and> deadlines s = deadlines s0)"
proof (rule returnsI)
  fix s
  assume s: "ready E s \<and> court_records s = court_records s0 \<and> rules s = rules s0 \<and> deadlines s = deadlines s0"
  obtain start cr q c e hs p where D: "derivation_inputs E ev s start cr q c e hs p"
    using assms(2) s by (auto simp: derivable_def derivation_inputs_def)
  have start: "parseWireDate (io_DeadlineStartAt ev) = Inr start"
    and ids: "e_parse_uuid E (io_TenantID ev) = Some (io_TenantID ev)"
      "e_parse_uuid E (io_CourtRecordID ev) = Some (io_CourtRecordID ev)"
    and cr: "find_row (\<lambda>r. cr_ID r = io_CourtRecordID ev \<and> cr_TenantID r = io_TenantID ev) (court_records s) = Some cr"
    and q: "best_rule (io_Type ev) (filter (rule_applies rulesVersion (io_Type ev) (io_Court ev)) (rules s)) = Some q"
    and c: "c = decideCounting (dr_Counting q) (io_Court ev) (cr_Class cr)"
      "c \<in> {CountingBusiness, CountingCalendar}" "0 < dr_Days q"
    and e: "compute (e_cal E) c start (dr_Days q) (io_UF ev) (io_Court ev) = Inr (e, hs)" "start < e"
    and lab: "hs \<noteq> [] \<longrightarrow> (\<exists>labels. lookupHolidays (e_cal E) hs (io_UF ev) (io_Court ev) = Inr labels)"
    and decl: "\<forall>k. parseDeclaradoDays (io_PrazoDeclarado ev) = Some k
             \<longrightarrow> (\<exists>x. compute (e_cal E) c start k (io_UF ev) (io_Court ev) = Inr x)"
    using D unfolding derivation_inputs_def by blast+
  obtain h2 where p: "subtractBusiness (e_cal E) e 2 (io_UF ev) (io_Court ev) = Inr (p, h2)"
    using D unfolding derivation_inputs_def by blast
  let ?q = "deadline_rule.truncate q"
  have dates: "derive_dates E ev t = (Inr (cr_Class cr, ?q, c, start, e, hs, p), t\<lparr>stmts := Suc (Suc (stmts t))\<rparr>)"
    if "court_records t = court_records s" "rules t = rules s" for t
    using start ids cr q c(1) e p that
    by (simp add: derive_dates_def GetCourtRecordClass_def with_ids_Some select_one_def bind_def stmt_calm [OF assms(1)]
        ResolveRule_def deadline_rule.defs internalBufferBusinessDays_def Let_def)
  define s1 where "s1 = s\<lparr>stmts := Suc (Suc (stmts s))\<rparr>"
  have 1: "derive_dates E ev s = (Inr (cr_Class cr, ?q, c, start, e, hs, p), s1)" by (simp add: dates s1_def)
  obtain pol :: deadline_policy where 2: "GetPolicy E (io_TenantID ev) s1 = (Inr pol, s1\<lparr>stmts := Suc (stmts s1)\<rparr>)"
    using ids by (cases "find_row (\<lambda>p. dp_TenantID p = io_TenantID ev) (policies s1)")
      (auto simp: GetPolicy_def parseUUID_Some bind_def stmt_calm [OF assms(1)])
  define s2 where "s2 = s1\<lparr>stmts := Suc (stmts s1)\<rparr>"
  obtain cv where 3: "cross_validate E ev c start e hs s2 = (Inr cv, s2)"
    using decl by (cases "parseDeclaradoDays (io_PrazoDeclarado ev)") (auto simp: cross_validate_def bind_def)
  obtain ia t f where ia: "classify_omitted E ev (cr_Class cr) = (ia, t, f)" by (cases "classify_omitted E ev (cr_Class cr)")
  let ?d = "judged_prazo ev ?q c start e hs p cv ia (dp_ConfirmacaoObrigatoria pol) (e_clock E (reads s2))"
  have "derive_deadline E ev s = (Inr (?d, cv, t, f), s2\<lparr>reads := Suc (reads s2)\<rparr>)"
    unfolding derive_deadline_def using 1 2 3 ia by (simp add: bind_def now_tx_apply s2_def)
  moreover have "persistable E ev ?d cv"
    using c(2,3) e(2) lab cross_validate_result [OF 3]
    by (auto simp: persistable_def judged_prazo_def new_prazo_def Let_def validate_ok deadline_rule.defs
        cross_validate_def buildCrossValidation_def)
  moreover have "ready E (s2\<lparr>reads := Suc (reads s2)\<rparr>)" using s by (auto simp: s2_def s1_def ready_def)
  ultimately show "\<exists>x s'. derive_deadline E ev s = (Inr x, s')
      \<and> (case x of (d, crossVal, a, b) \<Rightarrow> \<lambda>s. persistable E ev d crossVal \<and> ready E s \<and> deadlines s = deadlines s0) s'"
    using s by (auto simp: s2_def s1_def)
qed

section \<open>The whole birth\<close>

lemma InsertDeadline_returns:
  assumes "calm E" "good_ids E" and d: "persistable E ev d crossVal"
    and ids: "\<forall>x \<in> {io_TenantID ev, io_CourtRecordID ev, io_IntimationID ev}. e_parse_uuid E x = Some x"
  shows "returns (\<lambda>s. ready E s \<and> io_IntimationID ev \<notin> d_IntimationID ` set (deadlines s)) (InsertDeadline E d)
     (\<lambda>x s. x = d\<lparr>d_ID := d_ID x\<rparr> \<and> newborn E (d_ID x) s)"
proof (rule returnsI)
  fix s assume s: "ready E s \<and> io_IntimationID ev \<notin> d_IntimationID ` set (deadlines s)"
  let ?k = "e_gen E (id_seq s)"
  let ?s = "s\<lparr>id_seq := Suc (id_seq s), stmts := Suc (stmts s), deadlines := deadlines s
      @ [deadline.extend (d\<lparr>d_ID := ?k, d_TenantID := io_TenantID ev, d_CourtRecordID := io_CourtRecordID ev,
           d_IntimationID := io_IntimationID ev, d_Days := to_int32 (d_Days d)\<rparr>) \<lparr>d_ManualExtraDays = 0\<rparr>]\<rparr>"
  have f: "find_row (\<lambda>r. d_IntimationID r = io_IntimationID ev) (deadlines s) = None"
    "find_row (\<lambda>r. d_ID r = ?k) (deadlines s) = None"
    using s by (auto simp: ready_def find_row_None dest: image_eqI [where f = d_ID, OF sym]
        image_eqI [where f = d_IntimationID, OF sym])
  have "InsertDeadline E d s = (Inr (d\<lparr>d_ID := ?k\<rparr>), ?s)"
    using d ids f by (simp add: InsertDeadline_def persistable_def parseUUID_Some bind_def
        stmt_calm [OF assms(1)] next_id_def panel_check_def validAnchorEvent_def)
  moreover have "newborn E ?k ?s"
    using s assms(2) by (auto simp: newborn_def computed_def ready_def good_ids_def inj_eq deadline.defs)
  ultimately show "\<exists>x s'. InsertDeadline E d s = (Inr x, s') \<and> x = d\<lparr>d_ID := d_ID x\<rparr> \<and> newborn E (d_ID x) s'"
    by fastforce
qed

lemma persist_returns:
  assumes "calm E" "good_ids E" and d: "persistable E ev d crossVal"
    and n: "e_parse_uuid E (io_TenantID ev) = Some (io_TenantID ev)" and x: "x = d\<lparr>d_ID := d_ID x\<rparr>"
  shows "returns (newborn E (d_ID x)) (persist_birth E ev x crossVal a b) (\<lambda>_ _. True)"
proof (cases "e_parse_uuid E (d_ID x) = Some (d_ID x)")
  case False
  then show ?thesis by (simp add: returns_def newborn_def computed_def)
next
  case True
  note p = publish_new_returns [OF assms(1)]
  have tn: "d_TenantID x = io_TenantID ev" "d_HolidaysApplied x = d_HolidaysApplied d"
    using arg_cong [OF x, of d_TenantID] arg_cong [OF x, of d_HolidaysApplied] d by (simp_all add: persistable_def)
  have cv: "e_parse_uuid E (cv_TenantID cv) = Some (io_TenantID ev) \<and> cv_DecididoPor cv = []"
    if "crossVal = Some cv" for cv using d that n by (simp add: persistable_def)
  obtain labels where lab: "d_HolidaysApplied x \<noteq> [] \<Longrightarrow>
      lookupHolidays (e_cal E) (d_HolidaysApplied x) (io_UF ev) (io_Court ev) = Inr labels"
    using d unfolding tn(2) persistable_def by blast
  have memory: "returns (\<lambda>s. ready E s \<and> e_parse_uuid E m = Some m) (insert_holidays E ev m (d_HolidaysApplied x)) (\<lambda>_. ready E)" for m
    using insert_holidays_returns [OF assms(1,2) n _ lab, of m m] by (auto simp: returns_def)
  show ?thesis
    unfolding persist_birth_def
    apply (rule returns_bind [OF p], simp)
    apply (rule returns_bind [OF p], simp)
    apply (rule returns_bind [OF p], simp)
    apply (rule returns_bind [OF announce_returns [OF assms(1)]], simp, simp add: tn n, rule True)
    apply (rule returns_bind [OF insert_cross_validation_returns [OF assms(1,2)]], erule cv)
    apply (rule returns_bind [OF returns_weaken [OF InsertCalcMemory_returns [OF assms(1,2)]]])
       apply (simp add: n, simp, assumption)
    apply (rule returns_bind [OF memory])
    apply (rule returns_bind [OF now_returns], simp)
    apply (rule returns_bind [OF InsertDeadlineEvent_returns [OF assms(1)]], simp, simp add: n, simp add: True, simp)
    apply (rule returns_weaken [OF scheduleChecks_returns [OF assms(1) settled_instances(3)]], assumption, simp)
    done
qed

lemma open_deadline_returns:
  assumes "calm E" "good_ids E" and "derivable E ev s0" and "io_IntimationID ev \<notin> d_IntimationID ` set (deadlines s0)"
  shows "returns (\<lambda>s. ready E s \<and> court_records s = court_records s0 \<and> rules s = rules s0 \<and> deadlines s = deadlines s0)
     (open_deadline E ev) (\<lambda>_ _. True)"
proof -
  have ids: "\<forall>x \<in> {io_TenantID ev, io_CourtRecordID ev, io_IntimationID ev}. e_parse_uuid E x = Some x"
    using assms(3) unfolding derivable_def derivation_inputs_def by blast
  have rest: "returns (\<lambda>s. persistable E ev d crossVal \<and> ready E s \<and> deadlines s = deadlines s0)
      (bind (lift_sum (validate d)) (\<lambda>_. bind (attempt (InsertDeadline E d)) (\<lambda>r. case r of
         Inr saved \<Rightarrow> persist_birth E ev saved crossVal a b
       | Inl e \<Rightarrow> if e = ErrDeadlineExists then ret () else fail e))) (\<lambda>_ _. True)" for d crossVal a b
  proof (rule returnsI)
    fix s assume s: "persistable E ev d crossVal \<and> ready E s \<and> deadlines s = deadlines s0"
    then have d: "persistable E ev d crossVal" by simp
    obtain x s1 where 1: "InsertDeadline E d s = (Inr x, s1)" "x = d\<lparr>d_ID := d_ID x\<rparr>" "newborn E (d_ID x) s1"
      using returnsD [OF InsertDeadline_returns [OF assms(1,2) d ids], of s] s assms(4) by auto
    obtain y s2 where 2: "persist_birth E ev x crossVal a b s1 = (Inr y, s2)"
      using returnsD [OF persist_returns [OF assms(1,2) d _ 1(2)] 1(3)] ids by blast
    from d 1(1) 2 show "\<exists>y s'. bind (lift_sum (validate d)) (\<lambda>_. bind (attempt (InsertDeadline E d)) (\<lambda>r. case r of
         Inr saved \<Rightarrow> persist_birth E ev saved crossVal a b
       | Inl e \<Rightarrow> if e = ErrDeadlineExists then ret () else fail e)) s = (Inr y, s') \<and> True"
      by (simp add: bind_def attempt_def persistable_def)
  qed
  show ?thesis
    unfolding open_deadline_def
    by (rule returns_bind [OF derive_returns [OF assms(1,3)]]) (use rest in \<open>auto split: prod.splits\<close>)
qed

lemma birth_returns:
  assumes "calm E" "good_ids E" "ready E db" and "derivable E ev db" and "\<not> has_prazo E ev db"
  shows "\<exists>db'. OnIntimationObserved E ev db = (Inr (), db')"
proof (cases "io_Type ev = intimationTypeComunicacao \<or> (consumerDeadline, io_EventID ev) \<in> set (processed db)")
  case True
  then show ?thesis
    by (auto simp: observed_once uow_Do_calm [OF assms(1)] once_or_def SeenOrMark_def stmt_calm [OF assms(1)]
        bind_def seen_or_mark_def)
next
  case False
  have new: "io_IntimationID ev \<notin> d_IntimationID ` set (deadlines db)"
    using assms(4,5) unfolding derivable_def derivation_inputs_def has_prazo_def by auto
  let ?s = "\<lambda>n. db\<lparr>reads := 0, stmts := n, processed := (consumerDeadline, io_EventID ev) # processed db\<rparr>"
  have "ready E (?s n)" for n using assms(3) by (simp add: ready_def)
  then have run: "\<exists>u s'. open_deadline E ev (?s n) = (Inr u, s')" for n
    using returnsD [OF open_deadline_returns [OF assms(1,2,4) new], of "?s n"] by simp
  have once: "once E consumerDeadline (io_EventID ev) (open_deadline E ev) (db\<lparr>reads := 0, stmts := n\<rparr>)
      = open_deadline E ev (?s (Suc n))" for n
    using False by (simp add: once_or_def SeenOrMark_def stmt_calm [OF assms(1)] bind_def seen_or_mark_def)
  obtain u s' where "open_deadline E ev (?s (Suc (if io_TenantID ev \<noteq> [] then 1 else 0))) = (Inr u, s')"
    using run by blast
  then show ?thesis using False by (simp add: observed_once uow_Do_calm [OF assms(1)] once del: split_paired_Ex)
qed

end
