(* ===== verification/BirthProperties.thy ===== *)
theory BirthProperties
  imports BirthLiveness
begin

text \<open>
  The properties of a birth, applied to the concrete office: its outcome, that it does
  succeed, that handling the event again changes nothing, and how the seal, the duty of
  confirmation and the rule are chosen.
\<close>

section \<open>The office can give birth to a prazo\<close>

lemma office_ids: "good_ids office_env"
  by (auto simp: good_ids_def office_env_def inj_def dest: arg_cong [where f = length])

lemma office_ready: "ready office_env office_db"
  by (simp add: ready_def office_db_def)

lemma office_derivable: "derivable office_env office_intimation office_db"
  unfolding derivable_def
proof (intro exI)
  show "derivation_inputs office_env office_intimation office_db monday
     \<lparr>cr_ID = ''rec'', cr_TenantID = ''ten'', cr_Class = '''', cr_Court = ''TJSP''\<rparr> office_rule CountingBusiness
     (monday + 8) [monday + 2] (monday + 4)"
    unfolding derivation_inputs_def
  proof (intro conjI)
    show "parseWireDate (io_DeadlineStartAt office_intimation) = Inr monday" by code_simp
    show "find_row (\<lambda>r. cr_ID r = io_CourtRecordID office_intimation \<and> cr_TenantID r = io_TenantID office_intimation)
       (court_records office_db) = Some \<lparr>cr_ID = ''rec'', cr_TenantID = ''ten'', cr_Class = '''', cr_Court = ''TJSP''\<rparr>"
      by (simp add: office_db_def office_intimation_def find_row_def)
    show "best_rule (io_Type office_intimation) (filter (rule_applies rulesVersion (io_Type office_intimation)
       (io_Court office_intimation)) (rules office_db)) = Some office_rule"
      by (simp add: office_db_def office_intimation_def office_rule_def rule_applies_def best_rule_def)
    show "CountingBusiness = decideCounting (dr_Counting office_rule) (io_Court office_intimation)
       (cr_Class \<lparr>cr_ID = ''rec'', cr_TenantID = ''ten'', cr_Class = '''', cr_Court = ''TJSP''\<rparr>)" by code_simp
    show "compute (e_cal office_env) CountingBusiness monday (dr_Days office_rule) (io_UF office_intimation)
      (io_Court office_intimation) = Inr (monday + 8, [monday + 2])"
      using office_compute(1) by (simp add: office_rule_def office_intimation_def)
    show "\<exists>h2. subtractBusiness (e_cal office_env) (monday + 8) 2 (io_UF office_intimation) (io_Court office_intimation)
      = Inr (monday + 4, h2)"
      using office_compute(2) by (simp add: office_intimation_def)
    show "[monday + 2] \<noteq> [] \<longrightarrow> (\<exists>labels. lookupHolidays (e_cal office_env) [monday + 2] (io_UF office_intimation)
      (io_Court office_intimation) = Inr labels)"
      by (simp add: office_env_def store_calendar_def calendar_New_def Store_LookupHolidays_def)
  qed (auto simp: office_env_def office_intimation_def office_rule_def parseDeclaradoDays_def)
qed

lemma office_no_prazo: "\<not> has_prazo office_env office_intimation office_db"
  by (simp add: has_prazo_def office_db_def)

lemma office_birth_returns: "\<exists>db'. OnIntimationObserved office_env office_intimation office_db = (Inr (), db')"
  by (rule birth_returns [OF office_calm office_ids office_ready office_derivable office_no_prazo])

section \<open>The outcome\<close>



text \<open>
  C4: delivery is at least once. Once the handling of an event has succeeded, handling the
  same event again, at any later moment, after any other operations, in any environment and
  with any failures, announces nothing and changes no table.
\<close>

theorem redelivery_is_noop:
  assumes "mark_of op = Some x" and "op_error E op db = None"
    and "db' = run_history h (run_op E op db)"
  shows "announced (run_op E' op db') = announced db' \<and> view (run_op E' op db') = view db'"
  unfolding assms(3) by (rule op_seen [OF assms(1) history_keeps_marks [OF op_marks [OF assms(1,2)]]])

theorem redelivery_is_noop_witness:
  "view (run_op office_env (OpObserved office_intimation) (run_op office_env (OpObserved office_intimation) office_db))
     = view (run_op office_env (OpObserved office_intimation) office_db)"
proof -
  have m: "mark_of (OpObserved office_intimation) = Some (consumerDeadline, ''ev1'')"
    by (simp add: office_intimation_def intimationTypeComunicacao_def)
  have e: "op_error office_env (OpObserved office_intimation) office_db = None"
    using office_birth_returns by (auto simp: error_of_def)
  show ?thesis
    using redelivery_is_noop [OF m e, where h = "[]" and E' = office_env] by (simp add: run_history_def)
qed

text \<open>
  C16: a birth succeeds. When nothing fails in the driver, ids are fresh and canonical, and the
  derivation has what it needs (the record, an active rule for the type and court, a calendar
  that answers), the handling of an intimation without a prazo returns without an error.
\<close>

theorem birth_succeeds:
  assumes "calm E" and "good_ids E" and "ready E db" and "derivable E ev db" and "\<not> has_prazo E ev db"
  shows "\<exists>db'. OnIntimationObserved E ev db = (Inr (), db')"
  using assms by (rule birth_returns)

theorem birth_succeeds_witness:
  "\<exists>db'. OnIntimationObserved office_env office_intimation office_db = (Inr (), db')"
  by (rule birth_succeeds [OF office_calm office_ids office_ready office_derivable office_no_prazo])

section \<open>What is decided at birth\<close>










end
