(* ===== verification/DeadlineSweep.thy ===== *)
theory DeadlineSweep
  imports DeadlineDelivery
begin

text \<open>
  The two handlers that walk over the prazos of a record (the reconciliation with the docket
  and the conclusion) share a contract: each step, on a prazo of the table, either flips that
  one row and reports it, or does nothing. The interface is stated as a locale, what the whole
  walk does is proved once inside it, and the two steps of the code interpret it.
\<close>

section \<open>The contract of a step\<close>

text \<open>
  \<open>body\<close> is the step, \<open>due\<close> decides whether a prazo is flipped, \<open>flip\<close> is the change of its
  row, \<open>fact\<close> what is announced and \<open>trail\<close> what is appended to the audit trail. \<open>due\<close> reads
  only tables the walk does not write.
\<close>

locale sweep =
  fixes body :: "deadline_row \<Rightarrow> unit ptx"
    and admitted :: "deadline_row \<Rightarrow> bool"
    and due :: "prazo_db \<Rightarrow> deadline_row \<Rightarrow> bool"
    and flip :: "deadline_row \<Rightarrow> deadline_row"
    and fact :: "deadline_row \<Rightarrow> string \<times> payload \<times> instant option"
    and trail :: "deadline_row \<Rightarrow> deadline_event list"
  assumes step: "body p s = (Inr u, s') \<Longrightarrow> admitted p \<Longrightarrow> p \<in> set (deadlines s)
      \<Longrightarrow> distinct (map d_ID (deadlines s))
      \<Longrightarrow> announced s' = announced s @ (if due s p then [fact p] else [])
        \<and> view s' = (if due s p
            then (view s)\<lparr>deadlines := update_rows (\<lambda>r. r = p) flip (deadlines s),
                          deadline_events := deadline_events s @ trail p\<rparr>
            else view s)"
    and due_frame: "court_records s' = court_records s \<Longrightarrow> docket_entries s' = docket_entries s
      \<Longrightarrow> due s' p = due s p"
    and flip_id: "d_ID (flip r) = d_ID r"
begin

text \<open>Flipping one row and then others of the old table is flipping them all.\<close>

lemma update_step:
  assumes "distinct (map d_ID T)" and "p \<in> set T" and "p \<notin> set ps" and "set ps \<subseteq> set T"
  shows "update_rows (\<lambda>r. r \<in> set ps \<and> D r) flip (update_rows (\<lambda>r. r = p) flip T)
       = update_rows (\<lambda>r. r = p \<or> r \<in> set ps \<and> D r) flip T"
proof -
  have "flip p \<notin> set ps"
  proof
    assume "flip p \<in> set ps"
    then have "flip p = p" using assms(2,4) by (intro distinct_map_inj [OF assms(1)]) (auto simp: flip_id)
    then show False using \<open>flip p \<in> set ps\<close> assms(3) by simp
  qed
  then show ?thesis using assms(3) by (auto simp: update_rows_def)
qed

lemma update_keeps:
  assumes "distinct (map d_ID T)" and "p \<notin> set ps" and "set ps \<subseteq> set T"
  shows "distinct (map d_ID (update_rows (\<lambda>r. r = p) flip T))
       \<and> set ps \<subseteq> set (update_rows (\<lambda>r. r = p) flip T)"
  using assms map_update_rows [of "\<lambda>r. r = p" d_ID flip T] flip_id
  by (auto simp: set_update_rows) (metis subsetD)

lemma walk:
  assumes "for_each ps body s = (Inr u, s')"
    and "distinct (map d_ID (deadlines s))" and "distinct ps" and "set ps \<subseteq> set (deadlines s)"
    and "\<forall>p \<in> set ps. admitted p"
  shows "announced s' = announced s @ map fact (filter (due s) ps)
       \<and> view s' = (view s)\<lparr>deadlines := update_rows (\<lambda>r. r \<in> set ps \<and> due s r) flip (deadlines s),
           deadline_events := deadline_events s @ concat (map trail (filter (due s) ps))\<rparr>"
  using assms
proof (induction ps arbitrary: s)
  case Nil
  then show ?case by (simp add: ret_def update_rows_def)
next
  case (Cons p ps)
  obtain v s1 where 1: "body p s = (Inr v, s1)" and 2: "for_each ps body s1 = (Inr u, s')"
    using Cons.prems(1) by (auto elim: bind_InrE)
  have p: "p \<in> set (deadlines s)" "p \<notin> set ps" "set ps \<subseteq> set (deadlines s)" using Cons.prems by auto
  note st = step [OF 1 _ p(1) Cons.prems(2)]
  have a1: "announced s1 = announced s @ (if due s p then [fact p] else [])"
    and v1: "view s1 = (if due s p
            then (view s)\<lparr>deadlines := update_rows (\<lambda>r. r = p) flip (deadlines s),
                          deadline_events := deadline_events s @ trail p\<rparr>
            else view s)"
    using st Cons.prems(5) by simp_all
  have ds: "deadlines s1 = (if due s p then update_rows (\<lambda>r. r = p) flip (deadlines s) else deadlines s)"
    and es: "deadline_events s1 = deadline_events s @ (if due s p then trail p else [])"
    and cs: "court_records s1 = court_records s" and ks: "docket_entries s1 = docket_entries s"
    using v1 [THEN arg_cong [where f = deadlines]] v1 [THEN arg_cong [where f = deadline_events]]
      v1 [THEN arg_cong [where f = court_records]] v1 [THEN arg_cong [where f = docket_entries]]
    by (simp_all split: if_splits)
  have due: "due s1 = due s" by (rule ext) (rule due_frame [OF cs ks])
  have keep: "distinct (map d_ID (deadlines s1))" "set ps \<subseteq> set (deadlines s1)"
    using update_keeps [OF Cons.prems(2) p(2,3)] Cons.prems(2) p(3) by (simp_all add: ds)
  have IH: "announced s' = announced s1 @ map fact (filter (due s) ps)"
    "view s' = (view s1)\<lparr>deadlines := update_rows (\<lambda>r. r \<in> set ps \<and> due s r) flip (deadlines s1),
           deadline_events := deadline_events s1 @ concat (map trail (filter (due s) ps))\<rparr>"
    using Cons.IH [OF 2 keep(1) _ keep(2)] Cons.prems(3,5) by (simp_all add: due)
  have all: "update_rows (\<lambda>r. r \<in> set ps \<and> due s r) flip (deadlines s1)
      = update_rows (\<lambda>r. r \<in> set (p # ps) \<and> due s r) flip (deadlines s)"
    using update_step [OF Cons.prems(2) p(1,2,3), of "due s"]
    by (auto simp: ds intro!: arg_cong [where f = "\<lambda>P. update_rows P flip (deadlines s)"])
  show ?case using IH by (simp add: all a1 v1 es)
qed

end


section \<open>The steps of the code\<close>

text \<open>A guarded flip of a row that is there and passes the guard hits that row, unless the driver fails.\<close>

lemma find_this_row:
  assumes "distinct (map d_ID T)" and "p \<in> set T" and "Q p" and "\<And>r. Q r \<Longrightarrow> d_ID r = d_ID p"
  shows "find_row Q T = Some p \<and> update_rows Q f T = update_rows (\<lambda>r. r = p) f T"
proof -
  have one: "Q r \<longleftrightarrow> r = p" if "r \<in> set T" for r
    using distinct_map_inj [OF assms(1) that assms(2)] assms(3) assms(4) [of r] by blast
  have "find_row Q T = Some p"
    by (rule find_row_unique [where k = d_ID], rule assms(1), rule assms(2), rule assms(3), rule assms(4))
  moreover have "update_rows Q f T = update_rows (\<lambda>r. r = p) f T" using one by (auto simp: update_rows_def)
  ultimately show ?thesis by simp
qed

lemma infra_is_not_missing [simp]: "WrapInfra \<noteq> ErrDeadlineNotFound"
  by (simp add: WrapInfra_def ErrDeadlineNotFound_def NewNotFound_def NewInfra_def)

lemma handled_flip:
  assumes run: "bind (attempt (flip_status E (d_ID p) n ok f))
       (\<lambda>r. case r of Inl e \<Rightarrow> if e = ErrDeadlineNotFound then ret () else fail e | Inr i \<Rightarrow> k i) s = (Inr u, s')"
    and ids: "e_parse_uuid E (d_ID p) = Some (d_ID p)" "e_parse_uuid E n = Some (d_TenantID p)"
    and p: "p \<in> set (deadlines s)" "distinct (map d_ID (deadlines s))" "ok p" "d_ID (f p) = d_ID p"
  shows "\<exists>s1. announced s1 = announced s
       \<and> view s1 = (view s)\<lparr>deadlines := update_rows (\<lambda>r. r = p) f (deadlines s)\<rparr>
       \<and> k (d_ID p) s1 = (Inr u, s')"
proof -
  let ?Q = "\<lambda>r. d_ID r = d_ID p \<and> d_TenantID r = d_TenantID p \<and> ok r"
  have hit: "find_row ?Q (deadlines s) = Some p"
    "update_rows ?Q f (deadlines s) = update_rows (\<lambda>r. r = p) f (deadlines s)"
    using find_this_row [OF p(2,1), of ?Q f] p(3) by simp_all
  obtain r s1 where r: "flip_status E (d_ID p) n ok f s = (r, s1)" by (cases "flip_status E (d_ID p) n ok f s")
  show ?thesis
  proof (cases r)
    case (Inl e)
    have "e = WrapInfra"
      using r Inl hit(1)
      by (auto simp: flip_status_def with_ids_def parseUUID_def ids bind_def ret_def update_deadline_def stmt_def
          Let_def split: option.splits if_splits)
    then show ?thesis using run r Inl by (simp add: bind_def attempt_apply fail_def)
  next
    case (Inr i)
    from flip_status_effect [OF r [unfolded Inr]] ids hit p(4)
    have "i = d_ID p \<and> announced s1 = announced s
      \<and> view s1 = (view s)\<lparr>deadlines := update_rows (\<lambda>r. r = p) f (deadlines s)\<rparr>" by auto
    then show ?thesis using run r Inr by (intro exI [of _ s1]) (simp add: bind_def attempt_apply)
  qed
qed

definition canonical :: "env \<Rightarrow> record_event \<Rightarrow> status set \<Rightarrow> deadline_row \<Rightarrow> bool" where
  "canonical E ev sts p \<longleftrightarrow> e_parse_uuid E (d_ID p) = Some (d_ID p)
     \<and> e_parse_uuid E (re_TenantID ev) = Some (d_TenantID p)
     \<and> e_parse_uuid E (re_CourtRecordID ev) = Some (d_CourtRecordID p) \<and> d_Status p \<in> sts"

definition met_fact :: "record_event \<Rightarrow> deadline_row \<Rightarrow> string \<times> payload \<times> instant option" where
  "met_fact ev p = (''deadline.met'', DeadlineMet (re_TenantID ev) (d_ID p), None)"

definition resolved_fact :: "record_event \<Rightarrow> deadline_row \<Rightarrow> string \<times> payload \<times> instant option" where
  "resolved_fact ev p = (''deadline.resolved_on_conclusion'', DeadlineResolvedOnConclusion (re_TenantID ev) (d_ID p), None)"

definition resolved_trail :: "env \<Rightarrow> deadline_row \<Rightarrow> deadline_event" where
  "resolved_trail E p = \<lparr>de_TenantID = d_TenantID p, de_DeadlineID = d_ID p, de_Tipo = ''resolvido_por_conclusao'',
     de_Detalhe = ''Prazo resolvido: processo conclu'' @ [CHR 0xC3, CHR 0xAD] @ ''do (arquivado)'',
     de_AtorID = '''', de_Em = e_tx_time E\<rparr>"

lemma fact_of_check_facts [simp]:
  "fact_of (newDeadlineMet n i eid) = (''deadline.met'', DeadlineMet n i, None)"
  "fact_of (newDeadlineResolvedOnConclusion n i eid) = (''deadline.resolved_on_conclusion'', DeadlineResolvedOnConclusion n i, None)"
  "fact_of (newDeadlineMissed n i eid) = (''deadline.missed'', DeadlineMissed n i, None)"
  "fact_of (newDeadlineRevoked i m why eid) = (''deadline.revoked'', DeadlineRevoked i m why, None)"
  "fact_of (newDeadlineNoDeadline n i eid) = (''deadline.no_deadline'', DeadlineNoDeadline n i, None)"
  "fact_of (newDeadlineReopened n i eid) = (''deadline.reopened'', DeadlineReopened n i, None)"
  by (simp_all add: fact_of_def scheduledAt_def newDeadlineMet_def newDeadlineResolvedOnConclusion_def
      newDeadlineMissed_def newDeadlineRevoked_def newDeadlineNoDeadline_def newDeadlineReopened_def deadline_fact_def)

text \<open>An audit event of the system (no author) is stored as given, at the time of the transaction.\<close>

lemma system_event_effect:
  assumes "InsertDeadlineEvent E e s = (Inr u, s')" and "de_AtorID e = ''''"
    and "e_parse_uuid E (de_TenantID e) = Some n" and "e_parse_uuid E (de_DeadlineID e) = Some i"
  shows "announced s' = announced s
       \<and> view s' = (view s)\<lparr>deadline_events := deadline_events s
           @ [e\<lparr>de_TenantID := n, de_DeadlineID := i, de_AtorID := '''', de_Em := e_tx_time E\<rparr>]\<rparr>"
  using assms(1) unfolding InsertDeadlineEvent_def with_ids_Some [OF assms(3,4)] pgOptionalUUID_def assms(2)
  by (auto dest!: stmt_InrD simp: view_writes)

lemma conclude_step:
  assumes "conclude_one E ev p s = (Inr u, s')" and "canonical E ev {StatusPending, StatusOpen, StatusMissed} p"
    and "p \<in> set (deadlines s)" and "distinct (map d_ID (deadlines s))"
  shows "announced s' = announced s @ [resolved_fact ev p]
     \<and> view s' = (view s)\<lparr>deadlines := update_rows (\<lambda>r. r = p) (\<lambda>r. r\<lparr>d_Status := StatusResolvedOnConclusion\<rparr>) (deadlines s),
         deadline_events := deadline_events s @ [resolved_trail E p]\<rparr>"
proof -
  note c = assms(2) [unfolded canonical_def]
  obtain s1 where s1: "announced s1 = announced s"
    "view s1 = (view s)\<lparr>deadlines := update_rows (\<lambda>r. r = p) (\<lambda>r. r\<lparr>d_Status := StatusResolvedOnConclusion\<rparr>) (deadlines s)\<rparr>"
    and k: "bind (now_tx E) (\<lambda>now. bind (InsertDeadlineEvent E
              \<lparr>de_TenantID = re_TenantID ev, de_DeadlineID = d_ID p, de_Tipo = ''resolvido_por_conclusao'',
               de_Detalhe = ''Prazo resolvido: processo conclu'' @ [CHR 0xC3, CHR 0xAD] @ ''do (arquivado)'',
               de_AtorID = '''', de_Em = now\<rparr>)
            (\<lambda>_. publish_new E (newDeadlineResolvedOnConclusion (re_TenantID ev) (d_ID p)))) s1 = (Inr u, s')"
    using handled_flip [OF assms(1) [unfolded conclude_one_def MarkResolvedOnConclusion_def]] c assms(3,4) by auto
  obtain now s2 s3 v where 2: "now_tx E s1 = (Inr now, s2)"
    and 3: "InsertDeadlineEvent E
              \<lparr>de_TenantID = re_TenantID ev, de_DeadlineID = d_ID p, de_Tipo = ''resolvido_por_conclusao'',
               de_Detalhe = ''Prazo resolvido: processo conclu'' @ [CHR 0xC3, CHR 0xAD] @ ''do (arquivado)'',
               de_AtorID = '''', de_Em = now\<rparr> s2 = (Inr v, s3)"
    and 4: "publish_new E (newDeadlineResolvedOnConclusion (re_TenantID ev) (d_ID p)) s3 = (Inr u, s')"
    using k by (auto elim!: bind_InrE)
  have v2: "announced s2 = announced s1" "view s2 = view s1" using silent_run [OF silent_now 2] by simp_all
  have v3: "announced s3 = announced s2 \<and> view s3 = (view s2)\<lparr>deadline_events := deadline_events s2 @ [resolved_trail E p]\<rparr>"
    using system_event_effect [OF 3] c by (simp add: resolved_trail_def)
  have "deadline_events s2 = deadline_events s"
    using v2(2) [THEN arg_cong [where f = deadline_events]] s1(2) [THEN arg_cong [where f = deadline_events]] by simp
  with publish_new_effect [OF 4] v2 v3 s1 show ?thesis by (auto simp: resolved_fact_def)
qed

interpretation conclusion: sweep "conclude_one E ev" "canonical E ev {StatusPending, StatusOpen, StatusMissed}"
  "\<lambda>_ _. True" "\<lambda>r. r\<lparr>d_Status := StatusResolvedOnConclusion\<rparr>" "resolved_fact ev" "\<lambda>p. [resolved_trail E p]" for E ev
  by unfold_locales (auto dest!: conclude_step)


definition answered_in_docket :: "prazo_db \<Rightarrow> deadline_row \<Rightarrow> bool" where
  "answered_in_docket s p = has_response responseTPUCodes s (d_CourtRecordID p) (d_TenantID p) (d_StartDate p)"

lemma reconcile_step:
  assumes "reconcile_one E ev p s = (Inr u, s')" and "canonical E ev {StatusMissed, StatusOpen} p"
    and "p \<in> set (deadlines s)" and "distinct (map d_ID (deadlines s))"
  shows "announced s' = announced s @ (if answered_in_docket s p then [met_fact ev p] else [])
     \<and> view s' = (if answered_in_docket s p
         then (view s)\<lparr>deadlines := update_rows (\<lambda>r. r = p) (\<lambda>r. r\<lparr>d_Status := StatusMet\<rparr>) (deadlines s),
                       deadline_events := deadline_events s @ []\<rparr>
         else view s)"
proof -
  note c = assms(2) [unfolded canonical_def]
  obtain b s1 where 1: "HasResponseMovement E (re_CourtRecordID ev) (re_TenantID ev) (d_StartDate p) responseTPUCodes s = (Inr b, s1)"
    and 2: "(if \<not> b then ret ()
     else bind (attempt (RepoMarkMet E (d_ID p) (re_TenantID ev))) (\<lambda>r. case r of
        Inl e \<Rightarrow> if e = ErrDeadlineNotFound then ret () else fail e
      | Inr metID \<Rightarrow> publish_new E (newDeadlineMet (re_TenantID ev) metID))) s1 = (Inr u, s')"
    using assms(1) unfolding reconcile_one_def by (rule bind_InrE)
  have b: "b = answered_in_docket s p"
    using 1 c unfolding HasResponseMovement_def answered_in_docket_def
    by (auto simp: with_ids_Some read_st_def has_response_def dest!: stmt_InrD)
  have v1: "announced s1 = announced s" "view s1 = view s"
    using silent_run [OF silent_repository_reads(11) 1] by simp_all
  have ds: "deadlines s1 = deadlines s" and es: "deadline_events s1 = deadline_events s"
    using v1(2) [THEN arg_cong [where f = deadlines]] v1(2) [THEN arg_cong [where f = deadline_events]] by simp_all
  show ?thesis
  proof (cases b)
    case False
    then show ?thesis using 2 v1 b by simp
  next
    case True
    then have "bind (attempt (flip_status E (d_ID p) (re_TenantID ev) (\<lambda>r. d_Status r \<in> {StatusMissed, StatusOpen})
        (\<lambda>r. r\<lparr>d_Status := StatusMet\<rparr>))) (\<lambda>r. case r of
        Inl e \<Rightarrow> if e = ErrDeadlineNotFound then ret () else fail e
      | Inr metID \<Rightarrow> publish_new E (newDeadlineMet (re_TenantID ev) metID)) s1 = (Inr u, s')"
      using 2 by (simp add: RepoMarkMet_def)
    then obtain s2 where s2: "announced s2 = announced s1"
      "view s2 = (view s1)\<lparr>deadlines := update_rows (\<lambda>r. r = p) (\<lambda>r. r\<lparr>d_Status := StatusMet\<rparr>) (deadlines s1)\<rparr>"
      and k: "publish_new E (newDeadlineMet (re_TenantID ev) (d_ID p)) s2 = (Inr u, s')"
      using handled_flip [of E p "re_TenantID ev" "\<lambda>r. d_Status r \<in> {StatusMissed, StatusOpen}"
          "\<lambda>r. r\<lparr>d_Status := StatusMet\<rparr>" "\<lambda>i. publish_new E (newDeadlineMet (re_TenantID ev) i)" s1 u s']
        c assms(3,4) ds by auto
    from publish_new_effect [OF k] s2 v1 ds True b show ?thesis
      by (auto simp: met_fact_def view_def)
  qed
qed

interpretation reconciliation: sweep "reconcile_one E ev" "canonical E ev {StatusMissed, StatusOpen}"
  answered_in_docket "\<lambda>r. r\<lparr>d_Status := StatusMet\<rparr>" "met_fact ev" "\<lambda>_. []" for E ev
  by unfold_locales (auto dest!: reconcile_step simp: answered_in_docket_def has_response_def)

section \<open>The walk over the prazos of a record\<close>

lemma list_deadlines_effect:
  assumes "list_deadlines E a b sts s = (Inr ps, s')"
  shows "\<exists>record tenant. e_parse_uuid E a = Some record \<and> e_parse_uuid E b = Some tenant
     \<and> ps = filter (\<lambda>r. d_CourtRecordID r = record \<and> d_TenantID r = tenant \<and> d_Status r \<in> sts) (deadlines s)
     \<and> announced s' = announced s \<and> view s' = view s"
  using assms silent_run [OF silent_repository_reads(10) assms] unfolding list_deadlines_def
  by (auto elim!: with_ids_InrE dest!: stmt_InrD simp: read_st_def)

text \<open>The prazos of a record that a walk lists.\<close>

definition of_record :: "env \<Rightarrow> record_event \<Rightarrow> status set \<Rightarrow> deadline_row \<Rightarrow> bool" where
  "of_record E ev sts r \<longleftrightarrow> e_parse_uuid E (re_CourtRecordID ev) = Some (d_CourtRecordID r)
     \<and> e_parse_uuid E (re_TenantID ev) = Some (d_TenantID r) \<and> d_Status r \<in> sts"

text \<open>Stored ids are canonical: the parser returns them as they are.\<close>

definition canonical_ids :: "env \<Rightarrow> prazo_db \<Rightarrow> bool" where
  "canonical_ids E s \<longleftrightarrow> (\<forall>r \<in> set (deadlines s). e_parse_uuid E (d_ID r) = Some (d_ID r))"

lemma listed_prazos:
  assumes "list_deadlines E (re_CourtRecordID ev) (re_TenantID ev) sts s = (Inr ps, s1)"
    and "distinct (map d_ID (deadlines s))" and "canonical_ids E s"
  shows "ps = filter (of_record E ev sts) (deadlines s) \<and> announced s1 = announced s \<and> view s1 = view s
     \<and> deadlines s1 = deadlines s \<and> distinct ps \<and> set ps \<subseteq> set (deadlines s) \<and> (\<forall>p \<in> set ps. canonical E ev sts p)"
proof -
  obtain rid tenant where ids: "e_parse_uuid E (re_CourtRecordID ev) = Some rid"
      "e_parse_uuid E (re_TenantID ev) = Some tenant"
    and ps: "ps = filter (\<lambda>r. d_CourtRecordID r = rid \<and> d_TenantID r = tenant \<and> d_Status r \<in> sts) (deadlines s)"
    and 0: "announced s1 = announced s" "view s1 = view s"
    using list_deadlines_effect [OF assms(1)] by blast
  have "of_record E ev sts = (\<lambda>r. d_CourtRecordID r = rid \<and> d_TenantID r = tenant \<and> d_Status r \<in> sts)"
    by (auto simp: fun_eq_iff of_record_def ids)
  with ps 0 have 1: "ps = filter (of_record E ev sts) (deadlines s)" "announced s1 = announced s" "view s1 = view s"
    by simp_all
  moreover have "deadlines s1 = deadlines s" using 1(3) [THEN arg_cong [where f = deadlines]] by simp
  moreover have "distinct ps" using assms(2) 1(1) by (simp add: distinct_map)
  ultimately show ?thesis using assms(3) by (auto simp: canonical_def of_record_def canonical_ids_def)
qed


section \<open>Handlers of one prazo\<close>

lemma filter_at_most_one:
  assumes "distinct (map k T)" and "\<And>r q. Q r \<Longrightarrow> Q q \<Longrightarrow> k r = k q"
  shows "filter Q T = (case find_row Q T of None \<Rightarrow> [] | Some r \<Rightarrow> [r])"
  using assms(1)
proof (induction T)
  case (Cons r T)
  have "filter Q T = []" if "Q r"
    unfolding filter_empty_conv
  proof (intro ballI notI)
    fix q assume "q \<in> set T" "Q q"
    with assms(2) [OF that this(2)] Cons.prems show False by simp
  qed
  then show ?case using Cons by (simp add: find_row_def)
qed (simp add: find_row_def)

lemma view_same_table: "(view s)\<lparr>deadlines := deadlines s\<rparr> = view s"
  by (simp add: view_def)

lemma update_deadline_missing:
  assumes "update_deadline E Q f miss s = (Inl ErrDeadlineNotFound, s')"
  shows "find_row Q (deadlines s) = None \<and> announced s' = announced s \<and> view s' = view s"
  using assms infra_is_not_missing unfolding update_deadline_def stmt_def Let_def
  by (auto split: if_splits option.splits)

lemma parse_missing [simp]: "fst (parseUUID E x s) \<noteq> Inl ErrDeadlineNotFound"
  by (simp add: parseUUID_def fail_def ret_def split: option.splits)

text \<open>
  A guarded update whose miss is swallowed: it changes and announces the row it hits, if any.
\<close>

lemma handled_update:
  assumes run: "bind (attempt m) (\<lambda>r. case r of Inl e \<Rightarrow> if e = ErrDeadlineNotFound then ret () else fail e
        | Inr x \<Rightarrow> publish_new E (mk x)) s = (Inr u, s')"
    and hit: "\<And>x s'. m s = (Inr x, s') \<Longrightarrow> \<exists>r. find_row Q (deadlines s) = Some r \<and> x = v r \<and> announced s' = announced s
        \<and> view s' = (view s)\<lparr>deadlines := update_rows Q f (deadlines s)\<rparr>"
    and miss: "\<And>s'. m s = (Inl ErrDeadlineNotFound, s') \<Longrightarrow> find_row Q (deadlines s) = None
        \<and> announced s' = announced s \<and> view s' = view s"
    and fact: "\<And>r i. fact_of (mk (v r) i) = g r"
    and one: "distinct (map k (deadlines s))" "\<And>r q. Q r \<Longrightarrow> Q q \<Longrightarrow> k r = k q"
  shows "announced s' = announced s @ map g (filter Q (deadlines s))
       \<and> view s' = (view s)\<lparr>deadlines := update_rows Q f (deadlines s)\<rparr>"
proof -
  note rows = filter_at_most_one [OF one]
  obtain r s1 where m: "m s = (r, s1)" by (cases "m s")
  show ?thesis
  proof (cases r)
    case (Inl e)
    then have e: "e = ErrDeadlineNotFound" and "s' = s1"
      using run m by (auto simp: bind_def attempt_apply fail_def ret_def split: if_splits)
    with miss m Inl have "find_row Q (deadlines s) = None" "announced s' = announced s" "view s' = view s" by auto
    then show ?thesis using update_rows_none [of Q "deadlines s" f] rows by (simp add: view_same_table)
  next
    case (Inr x)
    then have "publish_new E (mk x) s1 = (Inr u, s')" using run m by (simp add: bind_def attempt_apply)
    from publish_new_effect [OF this] hit m Inr rows fact show ?thesis by fastforce
  qed
qed

end
