(* ===== verification/LifecycleProperties.thy ===== *)
theory LifecycleProperties
  imports DeadlineSweep DeadlineSample
begin

text \<open>
  The properties of a prazo's life after its birth: what every reachable table satisfies, how
  rows may move, what a failed operation leaves, and the exact outcome of each handler, with
  the office of \<open>DeadlineSample\<close> as the concrete run of each.
\<close>

section \<open>Every reachable table\<close>













section \<open>The walks over the prazos of a record\<close>

lemma update_listed:
  "update_rows (\<lambda>r. r \<in> set (filter P T) \<and> D r) f T = update_rows (\<lambda>r. P r \<and> D r) f T"
  by (auto simp: update_rows_def)

text \<open>
  C12: the conclusion of a process, on its first handling, resolves every pending, open or
  missed prazo of the record, and only those, in one transaction; each is announced once and
  gets one audit event, in the order of the table, and nothing else changes but the mark.
\<close>

theorem conclusion_resolves_all:
  assumes run: "OnCourtRecordArchived E ev db = (Inr (), db')"
    and "(consumerConclusion, re_EventID ev) \<notin> set (processed db)"
    and "sound_table (deadlines db)" and "canonical_ids E db"
    and P: "P = of_record E ev {StatusPending, StatusOpen, StatusMissed}"
  shows "announced db' = announced db @ map (resolved_fact ev) (filter P (deadlines db))
       \<and> view db' = (view db)\<lparr>processed := (consumerConclusion, re_EventID ev) # processed db,
           deadlines := update_rows P (\<lambda>r. r\<lparr>d_Status := StatusResolvedOnConclusion\<rparr>) (deadlines db),
           deadline_events := deadline_events db @ map (resolved_trail E) (filter P (deadlines db))\<rparr>"
proof -
  obtain s where body: "bind (ListDeadlinesForConclusion E (re_CourtRecordID ev) (re_TenantID ev))
        (\<lambda>prazos. for_each prazos (conclude_one E ev)) s = (Inr (), db')"
    and a: "announced s = announced db"
    and v: "view s = (view db)\<lparr>processed := (consumerConclusion, re_EventID ev) # processed db\<rparr>"
    and ds: "deadlines s = deadlines db"
    using run assms(2) unfolding OnCourtRecordArchived_def by (rule first_handling)
  obtain ps s1 where 1: "list_deadlines E (re_CourtRecordID ev) (re_TenantID ev)
        {StatusPending, StatusOpen, StatusMissed} s = (Inr ps, s1)"
    and 2: "for_each ps (conclude_one E ev) s1 = (Inr (), db')"
    using body unfolding ListDeadlinesForConclusion_def by (rule bind_InrE)
  have ids: "distinct (map d_ID (deadlines s))" "canonical_ids E s"
    using assms(3,4) by (simp_all add: ds sound_table_def canonical_ids_def)
  have ps: "ps = filter P (deadlines s)" and a1: "announced s1 = announced s" and v1: "view s1 = view s"
    and ds1: "deadlines s1 = deadlines s" and l: "distinct ps" "set ps \<subseteq> set (deadlines s)"
      "\<forall>p \<in> set ps. canonical E ev {StatusPending, StatusOpen, StatusMissed} p"
    using listed_prazos [OF 1 ids, folded P] by blast+
  have "announced db' = announced s1 @ map (resolved_fact ev) ps
       \<and> view db' = (view s1)\<lparr>deadlines := update_rows (\<lambda>r. r \<in> set ps \<and> True)
            (\<lambda>r. r\<lparr>d_Status := StatusResolvedOnConclusion\<rparr>) (deadlines s1),
           deadline_events := deadline_events s1 @ concat (map (\<lambda>p. [resolved_trail E p]) ps)\<rparr>"
    using conclusion.walk [OF 2] l ids(1) by (simp add: ds1)
  moreover have "deadline_events s1 = deadline_events db"
    using v1 [THEN arg_cong [where f = deadline_events]] v [THEN arg_cong [where f = deadline_events]] by simp
  ultimately show ?thesis
    using update_listed [of P "deadlines db" "\<lambda>_. True"] by (simp add: a v a1 v1 ds ds1 ps)
qed


text \<open>The office handles the events of its record.\<close>

definition office_event :: record_event where
  "office_event = \<lparr>re_EventID = ''ev2'', re_TenantID = ''ten'', re_CourtRecordID = ''rec''\<rparr>"

lemma office_concludes: "\<exists>db'. OnCourtRecordArchived office_env office_event open_office = (Inr (), db')"
  by (simp add: OnCourtRecordArchived_def ListDeadlinesForConclusion_def list_deadlines_def conclude_one_def
      MarkResolvedOnConclusion_def office_event_def evaluate)

lemma open_office_ids: "canonical_ids office_env open_office"
  by (simp add: canonical_ids_def)

theorem conclusion_resolves_all_witness:
  "\<exists>db'. OnCourtRecordArchived office_env office_event open_office = (Inr (), db')
     \<and> deadlines db' = [office_prazo\<lparr>d_Status := StatusResolvedOnConclusion\<rparr>]
     \<and> announced db' = [(''deadline.resolved_on_conclusion'', DeadlineResolvedOnConclusion ''ten'' ''p1'', None)]"
proof -
  obtain db' where run: "OnCourtRecordArchived office_env office_event open_office = (Inr (), db')"
    using office_concludes by blast
  have P: "of_record office_env office_event {StatusPending, StatusOpen, StatusMissed} office_prazo"
    by (simp add: of_record_def office_event_def)
  note outcome = conclusion_resolves_all [OF run _ open_office_sound open_office_ids refl]
  have "announced db' = [resolved_fact office_event office_prazo]"
    using outcome P by (simp add: announced_def)
  moreover have "deadlines db' = [office_prazo\<lparr>d_Status := StatusResolvedOnConclusion\<rparr>]"
    using outcome [THEN conjunct2, THEN arg_cong [where f = deadlines]] P by (simp add: update_rows_def)
  ultimately show ?thesis using run by (simp add: resolved_fact_def office_event_def)
qed

lemma same_trail:
  "(view s)\<lparr>processed := m, deadlines := t, deadline_events := deadline_events s\<rparr> = (view s)\<lparr>processed := m, deadlines := t\<rparr>"
  by (simp add: view_def)

text \<open>
  C13: a docket entry, on its first handling, marks met every open or missed prazo of the
  record that the docket answers (a listed TPU code, or a word of a response, from the start
  of the prazo on), and only those; each is announced once, in the order of the table, and
  nothing else changes but the mark.
\<close>

theorem docket_response_meets_all:
  assumes run: "OnDocketEntryObserved E ev db = (Inr (), db')"
    and "(consumerReconcile, re_EventID ev) \<notin> set (processed db)"
    and "sound_table (deadlines db)" and "canonical_ids E db"
    and P: "P = (\<lambda>r. of_record E ev {StatusMissed, StatusOpen} r \<and> answered_in_docket db r)"
  shows "announced db' = announced db @ map (met_fact ev) (filter P (deadlines db))
       \<and> view db' = (view db)\<lparr>processed := (consumerReconcile, re_EventID ev) # processed db,
           deadlines := update_rows P (\<lambda>r. r\<lparr>d_Status := StatusMet\<rparr>) (deadlines db)\<rparr>"
proof -
  obtain s where body: "bind (ListReconcilableDeadlines E (re_CourtRecordID ev) (re_TenantID ev))
        (\<lambda>prazos. for_each prazos (reconcile_one E ev)) s = (Inr (), db')"
    and a: "announced s = announced db"
    and v: "view s = (view db)\<lparr>processed := (consumerReconcile, re_EventID ev) # processed db\<rparr>"
    and ds: "deadlines s = deadlines db"
    using run assms(2) unfolding OnDocketEntryObserved_def by (rule first_handling)
  obtain ps s1 where 1: "list_deadlines E (re_CourtRecordID ev) (re_TenantID ev)
        {StatusMissed, StatusOpen} s = (Inr ps, s1)"
    and 2: "for_each ps (reconcile_one E ev) s1 = (Inr (), db')"
    using body unfolding ListReconcilableDeadlines_def by (rule bind_InrE)
  have ids: "distinct (map d_ID (deadlines s))" "canonical_ids E s"
    using assms(3,4) by (simp_all add: ds sound_table_def canonical_ids_def)
  let ?L = "of_record E ev {StatusMissed, StatusOpen}"
  have ps: "ps = filter ?L (deadlines s)" and a1: "announced s1 = announced s" and v1: "view s1 = view s"
    and ds1: "deadlines s1 = deadlines s" and l: "distinct ps" "set ps \<subseteq> set (deadlines s)"
      "\<forall>p \<in> set ps. canonical E ev {StatusMissed, StatusOpen} p"
    using listed_prazos [OF 1 ids] by blast+
  have same: "court_records s1 = court_records db" "docket_entries s1 = docket_entries db"
    "deadline_events s1 = deadline_events db"
    using v1 [THEN arg_cong [where f = court_records]] v [THEN arg_cong [where f = court_records]]
      v1 [THEN arg_cong [where f = docket_entries]] v [THEN arg_cong [where f = docket_entries]]
      v1 [THEN arg_cong [where f = deadline_events]] v [THEN arg_cong [where f = deadline_events]] by simp_all
  have due: "answered_in_docket s1 = answered_in_docket db"
    by (rule ext) (rule reconciliation.due_frame [OF same(1,2)])
  have "announced db' = announced s1 @ map (met_fact ev) (filter (answered_in_docket db) ps)
       \<and> view db' = (view s1)\<lparr>deadlines := update_rows (\<lambda>r. r \<in> set ps \<and> answered_in_docket db r)
            (\<lambda>r. r\<lparr>d_Status := StatusMet\<rparr>) (deadlines s1), deadline_events := deadline_events s1\<rparr>"
    using reconciliation.walk [OF 2] l ids(1) by (simp add: ds1 due)
  then show ?thesis
    using update_listed [of ?L "deadlines db" "answered_in_docket db"]
    by (simp add: a v a1 v1 ds ds1 ps P same(3) conj_commute same_trail)
qed

definition answered_office :: prazo_db where
  "answered_office = open_office\<lparr>docket_entries := [\<lparr>ed_CourtRecordID = ''rec'', ed_OccurredAt = midnight (monday + 1),
     ed_TpuCode = Some 85, ed_Text = ''''\<rparr>]\<rparr>"

lemma answered_office_simps [simp]:
  "deadlines answered_office = [office_prazo]" "processed answered_office = []" "outbox answered_office = []"
  by (simp_all add: answered_office_def)

lemma answered_office_answers: "answered_in_docket answered_office office_prazo"
  by (simp add: answered_in_docket_def has_response_def answered_office_def office_db_def response_entry_def
      responseTPUCodes_def midnight_def day_ns_def)

lemma office_reconciles: "\<exists>db'. OnDocketEntryObserved office_env office_event answered_office = (Inr (), db')"
  by (simp add: OnDocketEntryObserved_def ListReconcilableDeadlines_def list_deadlines_def reconcile_one_def
      RepoMarkMet_def HasResponseMovement_def office_event_def evaluate)

theorem docket_response_meets_all_witness:
  "\<exists>db'. OnDocketEntryObserved office_env office_event answered_office = (Inr (), db')
     \<and> deadlines db' = [office_prazo\<lparr>d_Status := StatusMet\<rparr>]
     \<and> announced db' = [(''deadline.met'', DeadlineMet ''ten'' ''p1'', None)]"
proof -
  obtain db' where run: "OnDocketEntryObserved office_env office_event answered_office = (Inr (), db')"
    using office_reconciles by blast
  have P: "of_record office_env office_event {StatusMissed, StatusOpen} office_prazo"
    by (simp add: of_record_def office_event_def)
  have s: "sound_table (deadlines answered_office)" "canonical_ids office_env answered_office"
    using open_office_sound open_office_ids by (simp_all add: canonical_ids_def)
  note outcome = docket_response_meets_all [OF run _ s refl]
  have "announced db' = [met_fact office_event office_prazo]"
    using outcome P answered_office_answers by (simp add: announced_def)
  moreover have "deadlines db' = [office_prazo\<lparr>d_Status := StatusMet\<rparr>]"
    using outcome [THEN conjunct2, THEN arg_cong [where f = deadlines]] P answered_office_answers
    by (simp add: update_rows_def)
  ultimately show ?thesis using run by (simp add: met_fact_def office_event_def)
qed


section \<open>Handlers of one prazo\<close>

lemma same_intimation:
  assumes "sound_table T"
  shows "distinct (map d_ID T)" and "distinct (map d_IntimationID T)"
  using assms by (simp_all add: sound_table_def)

text \<open>
  the cancellation of an intimation, on its first handling, cancels the prazo of that
  intimation in that tenant when there is one not yet cancelled, whatever its status, and
  announces the revocation with the reason of the event; otherwise it changes nothing but the
  mark.
\<close>

theorem cancellation_outcome:
  assumes run: "OnIntimationCancelled E ev db = (Inr (), db')"
    and "(consumerDeadline, ic_EventID ev) \<notin> set (processed db)" and "sound_table (deadlines db)"
    and P: "P = (\<lambda>r. Some (d_IntimationID r) = e_parse_uuid E (ic_IntimationID ev)
       \<and> Some (d_TenantID r) = e_parse_uuid E (ic_TenantID ev) \<and> d_Status r \<noteq> StatusCancelled)"
  shows "announced db' = announced db @ map (\<lambda>r. (''deadline.revoked'',
           DeadlineRevoked (d_ID r) (ic_IntimationID ev) (ic_Reason ev), None)) (filter P (deadlines db))
       \<and> view db' = (view db)\<lparr>processed := (consumerDeadline, ic_EventID ev) # processed db,
           deadlines := update_rows P (\<lambda>r. r\<lparr>d_Status := StatusCancelled\<rparr>) (deadlines db)\<rparr>"
proof -
  obtain s where body: "bind (attempt (RevokeDeadlineByIntimation E (ic_IntimationID ev) (ic_TenantID ev)))
        (\<lambda>r. case r of Inl e \<Rightarrow> if e = ErrDeadlineNotFound then ret () else fail e
          | Inr revoked \<Rightarrow> publish_new E (newDeadlineRevoked (d_ID revoked) (ic_IntimationID ev) (ic_Reason ev))) s
        = (Inr (), db')"
    and a: "announced s = announced db"
    and v: "view s = (view db)\<lparr>processed := (consumerDeadline, ic_EventID ev) # processed db\<rparr>"
    and ds: "deadlines s = deadlines db"
    using run assms(2) unfolding OnIntimationCancelled_def by (rule first_handling)
  have "announced db' = announced s @ map (\<lambda>r. (''deadline.revoked'',
           DeadlineRevoked (d_ID r) (ic_IntimationID ev) (ic_Reason ev), None)) (filter P (deadlines s))
       \<and> view db' = (view s)\<lparr>deadlines := update_rows P (\<lambda>r. r\<lparr>d_Status := StatusCancelled\<rparr>) (deadlines s)\<rparr>"
  proof (rule handled_update [OF body, where v = "\<lambda>r. r\<lparr>d_Status := StatusCancelled\<rparr>" and k = d_IntimationID])
    fix x s1 assume "RevokeDeadlineByIntimation E (ic_IntimationID ev) (ic_TenantID ev) s = (Inr x, s1)"
    then show "\<exists>r. find_row P (deadlines s) = Some r \<and> x = r\<lparr>d_Status := StatusCancelled\<rparr> \<and> announced s1 = announced s
        \<and> view s1 = (view s)\<lparr>deadlines := update_rows P (\<lambda>r. r\<lparr>d_Status := StatusCancelled\<rparr>) (deadlines s)\<rparr>"
      unfolding RevokeDeadlineByIntimation_def P
      by (auto elim!: with_ids_InrE dest!: update_deadline_effect)
  next
    fix s1 assume "RevokeDeadlineByIntimation E (ic_IntimationID ev) (ic_TenantID ev) s = (Inl ErrDeadlineNotFound, s1)"
    then show "find_row P (deadlines s) = None \<and> announced s1 = announced s \<and> view s1 = view s"
      unfolding RevokeDeadlineByIntimation_def P with_ids_def
      by (auto simp: bind_def parseUUID_def fail_def ret_def dest!: update_deadline_missing
          split: option.splits prod.splits)
  qed (use same_intimation [OF assms(3)] in \<open>auto simp: ds P, metis option.inject\<close>)
  then show ?thesis by (simp add: a v ds)
qed

lemma office_cancels: "\<exists>db'. OnIntimationCancelled office_env
    \<lparr>ic_EventID = ''ev3'', ic_TenantID = ''ten'', ic_IntimationID = ''int'', ic_Reason = ''retificacao''\<rparr> open_office = (Inr (), db')"
  by (simp add: OnIntimationCancelled_def RevokeDeadlineByIntimation_def evaluate)

theorem cancellation_outcome_witness:
  "\<exists>db'. OnIntimationCancelled office_env \<lparr>ic_EventID = ''ev3'', ic_TenantID = ''ten'', ic_IntimationID = ''int'',
       ic_Reason = ''retificacao''\<rparr> open_office = (Inr (), db')
     \<and> announced db' = [(''deadline.revoked'', DeadlineRevoked ''p1'' ''int'' ''retificacao'', None)]
     \<and> deadlines db' = [office_prazo\<lparr>d_Status := StatusCancelled\<rparr>]"
proof -
  let ?ev = "\<lparr>ic_EventID = ''ev3'', ic_TenantID = ''ten'', ic_IntimationID = ''int'', ic_Reason = ''retificacao''\<rparr>"
  obtain db' where run: "OnIntimationCancelled office_env ?ev open_office = (Inr (), db')" using office_cancels by blast
  note outcome = cancellation_outcome [OF run _ open_office_sound refl]
  have "announced db' = [(''deadline.revoked'', DeadlineRevoked ''p1'' ''int'' ''retificacao'', None)]"
    using outcome by (simp add: announced_def)
  moreover have "deadlines db' = [office_prazo\<lparr>d_Status := StatusCancelled\<rparr>]"
    using outcome [THEN conjunct2, THEN arg_cong [where f = deadlines]] by (simp add: update_rows_def)
  ultimately show ?thesis using run by blast
qed

lemma missed_check_outcome_rows:
  assumes run: "OnMissedCheck E ev db = (Inr (), db')"
    and "(consumerDeadline, mc_EventID ev) \<notin> set (processed db)" and "sound_table (deadlines db)"
    and P: "P = (\<lambda>r. Some (d_ID r) = e_parse_uuid E (mc_DeadlineID ev)
       \<and> Some (d_TenantID r) = e_parse_uuid E (mc_TenantID ev) \<and> d_Status r = StatusOpen
       \<and> d_EndDate r < CURRENT_DATE E)"
  shows "announced db' = announced db @ map (\<lambda>r. (''deadline.missed'', DeadlineMissed (mc_TenantID ev) (d_ID r), None))
           (filter P (deadlines db))
       \<and> view db' = (view db)\<lparr>processed := (consumerDeadline, mc_EventID ev) # processed db,
           deadlines := update_rows P (\<lambda>r. r\<lparr>d_Status := StatusMissed\<rparr>) (deadlines db)\<rparr>"
proof -
  obtain s where body: "bind (attempt (RepoMarkMissed E (mc_DeadlineID ev) (mc_TenantID ev)))
        (\<lambda>r. case r of Inl e \<Rightarrow> if e = ErrDeadlineNotFound then ret () else fail e
          | Inr missedID \<Rightarrow> publish_new E (newDeadlineMissed (mc_TenantID ev) missedID)) s = (Inr (), db')"
    and a: "announced s = announced db"
    and v: "view s = (view db)\<lparr>processed := (consumerDeadline, mc_EventID ev) # processed db\<rparr>"
    and ds: "deadlines s = deadlines db"
    using run assms(2) unfolding OnMissedCheck_def by (rule first_handling)
  have "announced db' = announced s @ map (\<lambda>r. (''deadline.missed'', DeadlineMissed (mc_TenantID ev) (d_ID r), None))
           (filter P (deadlines s))
       \<and> view db' = (view s)\<lparr>deadlines := update_rows P (\<lambda>r. r\<lparr>d_Status := StatusMissed\<rparr>) (deadlines s)\<rparr>"
  proof (rule handled_update [OF body, where v = d_ID and k = d_ID])
    fix x s1 assume "RepoMarkMissed E (mc_DeadlineID ev) (mc_TenantID ev) s = (Inr x, s1)"
    then show "\<exists>r. find_row P (deadlines s) = Some r \<and> x = d_ID r \<and> announced s1 = announced s
        \<and> view s1 = (view s)\<lparr>deadlines := update_rows P (\<lambda>r. r\<lparr>d_Status := StatusMissed\<rparr>) (deadlines s)\<rparr>"
      unfolding RepoMarkMissed_def P by (auto dest!: flip_status_effect)
  next
    fix s1 assume "RepoMarkMissed E (mc_DeadlineID ev) (mc_TenantID ev) s = (Inl ErrDeadlineNotFound, s1)"
    then show "find_row P (deadlines s) = None \<and> announced s1 = announced s \<and> view s1 = view s"
      unfolding RepoMarkMissed_def flip_status_def P with_ids_def
      by (auto simp: bind_def parseUUID_def fail_def ret_def dest!: update_deadline_missing
          split: option.splits prod.splits sum.splits)
  qed (use same_intimation [OF assms(3)] in \<open>auto simp: ds P, metis option.inject\<close>)
  then show ?thesis by (simp add: a v ds)
qed


text \<open>
  the missed check, on its first handling, marks the prazo it names missed when it is
  still open and its end date lies before the current date of the session, and announces it;
  otherwise it changes nothing but the mark.
\<close>

theorem missed_check_outcome:
  assumes run: "OnMissedCheck E ev db = (Inr (), db')"
    and "(consumerDeadline, mc_EventID ev) \<notin> set (processed db)" and "sound_table (deadlines db)"
    and P: "P = (\<lambda>r. Some (d_ID r) = e_parse_uuid E (mc_DeadlineID ev)
       \<and> Some (d_TenantID r) = e_parse_uuid E (mc_TenantID ev) \<and> d_Status r = StatusOpen
       \<and> d_EndDate r < CURRENT_DATE E)"
  shows "announced db' = announced db @ map (\<lambda>r. (''deadline.missed'', DeadlineMissed (mc_TenantID ev) (d_ID r), None))
           (filter P (deadlines db))
       \<and> view db' = (view db)\<lparr>processed := (consumerDeadline, mc_EventID ev) # processed db,
           deadlines := update_rows P (\<lambda>r. r\<lparr>d_Status := StatusMissed\<rparr>) (deadlines db)\<rparr>"
  by (rule missed_check_outcome_rows [OF assms])

definition late_env :: env where
  "late_env = office_env\<lparr>e_tx_time := midnight (monday + 9) + 4 * 3600 * 1000000000\<rparr>"

lemma late_env_simps [simp]:
  "calm late_env" "e_parse_uuid late_env = Some" "CURRENT_DATE late_env = monday + 9"
  by (simp_all add: late_env_def calm_def office_env_def CURRENT_DATE_def day_of_def midnight_def day_ns_def
      session_offset_def monday_def)

definition office_check :: missed_check where
  "office_check = \<lparr>mc_EventID = missed_key ''p1'', mc_TenantID = ''ten'', mc_DeadlineID = ''p1''\<rparr>"

lemma office_misses: "\<exists>db'. OnMissedCheck late_env office_check open_office = (Inr (), db')"
  by (simp add: OnMissedCheck_def RepoMarkMissed_def office_check_def evaluate)

theorem missed_check_outcome_witness:
  "\<exists>db'. OnMissedCheck late_env office_check open_office = (Inr (), db')
     \<and> announced db' = [(''deadline.missed'', DeadlineMissed ''ten'' ''p1'', None)]
     \<and> deadlines db' = [office_prazo\<lparr>d_Status := StatusMissed\<rparr>]"
proof -
  obtain db' where run: "OnMissedCheck late_env office_check open_office = (Inr (), db')" using office_misses by blast
  note outcome = missed_check_outcome [OF run _ open_office_sound refl]
  have "announced db' = [(''deadline.missed'', DeadlineMissed ''ten'' ''p1'', None)]"
    using outcome by (simp add: announced_def office_check_def)
  moreover have "deadlines db' = [office_prazo\<lparr>d_Status := StatusMissed\<rparr>]"
    using outcome [THEN conjunct2, THEN arg_cong [where f = deadlines]] by (simp add: update_rows_def office_check_def)
  ultimately show ?thesis using run by blast
qed

lemma grace_hours:
  "t < midnight (e + 1) + session_offset \<Longrightarrow> day_of (t - session_offset) \<le> e"
  by (simp add: day_of_def midnight_def day_ns_def session_offset_def)

text \<open>
  C14: the missed check comes too early. It is scheduled for midnight UTC of the day after the
  end date, and in the three hours that follow the session's current date is still the end
  date, so the check, run then, marks no prazo missed and announces nothing; when it succeeds,
  its event is marked as processed, so the check is spent.
\<close>



theorem grace_check_fires_too_early:
  assumes "sound_table (deadlines db)"
    and "\<forall>r \<in> set (deadlines db). Some (d_ID r) = e_parse_uuid E (mc_DeadlineID ev) \<longrightarrow>
      e_tx_time E < process_at (newDeadlineMissedCheck (mc_TenantID ev) (d_ID r) (d_EndDate r)) + session_offset"
    and run: "OnMissedCheck E ev db = (res, db')"
  shows "announced db' = announced db \<and> deadlines db' = deadlines db
       \<and> (res = Inr () \<longrightarrow> (consumerDeadline, mc_EventID ev) \<in> set (processed db'))"
proof (cases "(consumerDeadline, mc_EventID ev) \<in> set (processed db)")
  case True
  then have m: "marked (consumerDeadline, mc_EventID ev) db" by (simp add: marked_def)
  then show ?thesis
    using op_seen [of "OpMissedCheck ev" _ db E] op_keeps_marks [OF m, of E "OpMissedCheck ev"] run
    by (auto simp: marked_def dest: arg_cong [where f = deadlines])
next
  case False
  show ?thesis
  proof (cases res)
    case (Inl e)
    then show ?thesis using run op_error_atomic [of E "OpMissedCheck ev" db e] by (simp add: error_of_def)
  next
    case (Inr u)
    let ?P = "\<lambda>r. Some (d_ID r) = e_parse_uuid E (mc_DeadlineID ev)
       \<and> Some (d_TenantID r) = e_parse_uuid E (mc_TenantID ev) \<and> d_Status r = StatusOpen \<and> d_EndDate r < CURRENT_DATE E"
    have "\<not> ?P r" if "r \<in> set (deadlines db)" for r
      using bspec [OF assms(2) that] grace_hours [of "e_tx_time E" "d_EndDate r"] by (auto simp: CURRENT_DATE_def)
    then have "filter ?P (deadlines db) = []" "update_rows ?P f (deadlines db) = deadlines db" for f
      by (simp_all add: filter_empty_conv update_rows_none find_row_None)
    moreover have "OnMissedCheck E ev db = (Inr (), db')" using run Inr by simp
    note missed_check_outcome_rows [OF this False assms(1) refl]
    ultimately have a: "announced db' = announced db"
      and v: "view db' = (view db)\<lparr>processed := (consumerDeadline, mc_EventID ev) # processed db, deadlines := deadlines db\<rparr>"
      by simp_all
    show ?thesis
      using a v [THEN arg_cong [where f = deadlines]] v [THEN arg_cong [where f = processed]] by simp
  qed
qed

definition grace_env :: env where
  "grace_env = office_env\<lparr>e_tx_time := process_at (newDeadlineMissedCheck ''ten'' ''p1'' (monday + 8))\<rparr>"

theorem grace_check_fires_too_early_witness:
  "deadlines (snd (OnMissedCheck grace_env office_check open_office)) = [office_prazo]"
  using grace_check_fires_too_early [OF open_office_sound _ prod.collapse [symmetric], of grace_env office_check]
  by (simp add: grace_env_def session_offset_def)


section \<open>Mera ciencia and back\<close>

lemma MarkNoDeadline_effect:
  assumes "MarkNoDeadline E i tenant user now s = (Inr x, s')"
  shows "\<exists>a n who. e_parse_uuid E i = Some a \<and> e_parse_uuid E tenant = Some n \<and> x = a
     \<and> (\<exists>r \<in> set (deadlines s). d_ID r = a \<and> d_TenantID r = n \<and> d_Status r \<in> {StatusPending, StatusOpen})
     \<and> announced s' = announced s
     \<and> view s' = (view s)\<lparr>deadlines := update_rows
         (\<lambda>r. d_ID r = a \<and> d_TenantID r = n \<and> d_Status r \<in> {StatusPending, StatusOpen})
         (\<lambda>r. r\<lparr>d_Status := StatusNoDeadline, d_ConfirmedBy := Some who, d_ConfirmedAt := Some now\<rparr>) (deadlines s)\<rparr>"
  using assms unfolding MarkNoDeadline_def
  by (auto elim!: with_ids_InrE bind_InrE dest!: parse_InrD update_deadline_effect find_row_Some; blast)

lemma ReopenNoDeadline_effect:
  assumes "ReopenNoDeadline E i tenant s = (Inr x, s')"
  shows "\<exists>a n. e_parse_uuid E i = Some a \<and> e_parse_uuid E tenant = Some n \<and> announced s' = announced s
     \<and> view s' = (view s)\<lparr>deadlines := update_rows (\<lambda>r. d_ID r = a \<and> d_TenantID r = n \<and> d_Status r = StatusNoDeadline)
         (\<lambda>r. r\<lparr>d_Status := StatusPending, d_ConfirmedBy := None, d_ConfirmedAt := None\<rparr>) (deadlines s)\<rparr>"
  using assms unfolding ReopenNoDeadline_def by (auto dest!: flip_status_effect)

lemma silent_before_reads: "view s' = view s \<Longrightarrow> deadlines s' = deadlines s"
  by (auto dest: arg_cong [where f = deadlines])

lemma NoDeadline_rows:
  assumes "NoDeadline E tenant user i db = (Inr m, db')"
  shows "\<exists>a n who now. e_parse_uuid E i = Some a \<and> e_parse_uuid E tenant = Some n
     \<and> (\<exists>r \<in> set (deadlines db). d_ID r = a \<and> d_TenantID r = n \<and> d_Status r \<in> {StatusPending, StatusOpen})
     \<and> deadlines db' = update_rows (\<lambda>r. d_ID r = a \<and> d_TenantID r = n \<and> d_Status r \<in> {StatusPending, StatusOpen})
        (\<lambda>r. r\<lparr>d_Status := StatusNoDeadline, d_ConfirmedBy := Some who, d_ConfirmedAt := Some now\<rparr>) (deadlines db)"
proof -
  obtain k where "bind (GetDeadlineForCheck E i tenant) (\<lambda>cur.
      if d_Status cur \<noteq> StatusPending \<and> d_Status cur \<noteq> StatusOpen then fail ErrDeadlineNotOpen
      else bind (now_tx E) (\<lambda>now. bind (MarkNoDeadline E i tenant user now) (\<lambda>i.
           bind (publish_new E (newDeadlineNoDeadline tenant i)) (\<lambda>_.
           ret \<lparr>md_ID = i, md_Status = StatusNoDeadline\<rparr>)))) (db\<lparr>reads := 0, stmts := k\<rparr>) = (Inr m, db')"
    using assms unfolding NoDeadline_def by (rule uow_Do_success)
  then obtain cur s1 now s2 j s3 u where 1: "GetDeadlineForCheck E i tenant (db\<lparr>reads := 0, stmts := k\<rparr>) = (Inr cur, s1)"
    and 2: "now_tx E s1 = (Inr now, s2)" and 3: "MarkNoDeadline E i tenant user now s2 = (Inr j, s3)"
    and 4: "publish_new E (newDeadlineNoDeadline tenant j) s3 = (Inr u, db')"
    by (auto elim!: bind_InrE simp: fail_def ret_def split: if_splits)
  have "deadlines s2 = deadlines db"
    using silent_run [OF silent_repository_reads(7) 1] silent_run [OF silent_now 2]
    by (auto dest!: silent_before_reads)
  moreover have "deadlines db' = deadlines s3"
    using publish_new_effect [OF 4] by (auto dest!: silent_before_reads)
  moreover obtain a n who where "e_parse_uuid E i = Some a" "e_parse_uuid E tenant = Some n"
    "\<exists>r \<in> set (deadlines s2). d_ID r = a \<and> d_TenantID r = n \<and> d_Status r \<in> {StatusPending, StatusOpen}"
    and v: "view s3 = (view s2)\<lparr>deadlines := update_rows
         (\<lambda>r. d_ID r = a \<and> d_TenantID r = n \<and> d_Status r \<in> {StatusPending, StatusOpen})
         (\<lambda>r. r\<lparr>d_Status := StatusNoDeadline, d_ConfirmedBy := Some who, d_ConfirmedAt := Some now\<rparr>) (deadlines s2)\<rparr>"
    using MarkNoDeadline_effect [OF 3] by blast
  moreover have "deadlines s3 = update_rows
         (\<lambda>r. d_ID r = a \<and> d_TenantID r = n \<and> d_Status r \<in> {StatusPending, StatusOpen})
         (\<lambda>r. r\<lparr>d_Status := StatusNoDeadline, d_ConfirmedBy := Some who, d_ConfirmedAt := Some now\<rparr>) (deadlines s2)"
    using v [THEN arg_cong [where f = deadlines]] by simp
  ultimately show ?thesis by simp blast
qed

lemma Reopen_rows:
  assumes "Reopen E tenant i db = (Inr m, db')"
  shows "\<exists>a n. e_parse_uuid E i = Some a \<and> e_parse_uuid E tenant = Some n
     \<and> deadlines db' = update_rows (\<lambda>r. d_ID r = a \<and> d_TenantID r = n \<and> d_Status r = StatusNoDeadline)
         (\<lambda>r. r\<lparr>d_Status := StatusPending, d_ConfirmedBy := None, d_ConfirmedAt := None\<rparr>) (deadlines db)"
proof -
  obtain k where "bind (GetDeadlineForCheck E i tenant) (\<lambda>cur.
      if d_Status cur \<noteq> StatusNoDeadline then fail ErrDeadlineNotReopenable
      else bind (ReopenNoDeadline E i tenant) (\<lambda>i.
           bind (publish_new E (newDeadlineReopened tenant i)) (\<lambda>_.
           ret \<lparr>md_ID = i, md_Status = StatusPending\<rparr>))) (db\<lparr>reads := 0, stmts := k\<rparr>) = (Inr m, db')"
    using assms unfolding Reopen_def by (rule uow_Do_success)
  then obtain cur s1 j s2 u where 1: "GetDeadlineForCheck E i tenant (db\<lparr>reads := 0, stmts := k\<rparr>) = (Inr cur, s1)"
    and 2: "ReopenNoDeadline E i tenant s1 = (Inr j, s2)"
    and 3: "publish_new E (newDeadlineReopened tenant j) s2 = (Inr u, db')"
    by (auto elim!: bind_InrE simp: fail_def ret_def split: if_splits)
  have "deadlines s1 = deadlines db" and "deadlines db' = deadlines s2"
    using silent_run [OF silent_repository_reads(7) 1] publish_new_effect [OF 3] by (auto dest!: silent_before_reads)
  then show ?thesis using ReopenNoDeadline_effect [OF 2] by (auto dest!: arg_cong [where f = deadlines])
qed

text \<open>
  C22: declaring that an intimation carries no prazo can be undone. A reopening right after the
  declaration leaves the prazo as it was, pending, with no confirmation recorded, and touches
  no other row; in particular the declaration's author and time are erased.
\<close>

theorem reopen_undoes_no_deadline:
  assumes "NoDeadline E tenant user i db = (Inr m1, db1)" and "Reopen E' tenant i db1 = (Inr m2, db2)"
    and "sound_table (deadlines db)" and "e_parse_uuid E' = e_parse_uuid E"
  shows "deadlines db2 = update_rows
      (\<lambda>r. Some (d_ID r) = e_parse_uuid E i \<and> Some (d_TenantID r) = e_parse_uuid E tenant)
      (\<lambda>r. r\<lparr>d_Status := StatusPending, d_ConfirmedBy := None, d_ConfirmedAt := None\<rparr>) (deadlines db)"
proof -
  obtain a n who now r where ids: "e_parse_uuid E i = Some a" "e_parse_uuid E tenant = Some n"
    and r: "r \<in> set (deadlines db)" "d_ID r = a" "d_TenantID r = n" "d_Status r \<in> {StatusPending, StatusOpen}"
    and d1: "deadlines db1 = update_rows (\<lambda>r. d_ID r = a \<and> d_TenantID r = n \<and> d_Status r \<in> {StatusPending, StatusOpen})
        (\<lambda>r. r\<lparr>d_Status := StatusNoDeadline, d_ConfirmedBy := Some who, d_ConfirmedAt := Some now\<rparr>) (deadlines db)"
    using NoDeadline_rows [OF assms(1)] by blast
  have d2: "deadlines db2 = update_rows (\<lambda>r. d_ID r = a \<and> d_TenantID r = n \<and> d_Status r = StatusNoDeadline)
         (\<lambda>r. r\<lparr>d_Status := StatusPending, d_ConfirmedBy := None, d_ConfirmedAt := None\<rparr>) (deadlines db1)"
    using Reopen_rows [OF assms(2)] ids by (simp add: assms(4))
  have "d_Status q \<in> {StatusPending, StatusOpen}" if "q \<in> set (deadlines db)" "d_ID q = a" for q
    using distinct_map_inj [OF same_intimation(1) [OF assms(3)] that(1) r(1)] that(2) r(2,4) by simp
  then show ?thesis unfolding d2 d1 ids by (auto simp: update_rows_def)
qed

lemma office_declares: "\<exists>db1. NoDeadline office_env ''ten'' ''ana'' ''p1'' open_office
      = (Inr \<lparr>md_ID = ''p1'', md_Status = StatusNoDeadline\<rparr>, db1)
    \<and> (\<exists>m db2. Reopen office_env ''ten'' ''p1'' db1 = (Inr m, db2))"
  by (simp add: NoDeadline_def Reopen_def GetDeadlineForCheck_def select_one_def MarkNoDeadline_def
      ReopenNoDeadline_def parseUUID_def evaluate)

theorem reopen_undoes_no_deadline_witness:
  "\<exists>m1 db1 m2 db2. NoDeadline office_env ''ten'' ''ana'' ''p1'' open_office = (Inr m1, db1)
     \<and> Reopen office_env ''ten'' ''p1'' db1 = (Inr m2, db2)
     \<and> deadlines db2 = [office_prazo\<lparr>d_Status := StatusPending, d_ConfirmedBy := None, d_ConfirmedAt := None\<rparr>]"
proof -
  obtain m1 db1 m2 db2 where 1: "NoDeadline office_env ''ten'' ''ana'' ''p1'' open_office = (Inr m1, db1)"
    and 2: "Reopen office_env ''ten'' ''p1'' db1 = (Inr m2, db2)" using office_declares by blast
  have "deadlines db2 = [office_prazo\<lparr>d_Status := StatusPending, d_ConfirmedBy := None, d_ConfirmedAt := None\<rparr>]"
    using reopen_undoes_no_deadline [OF 1 2 open_office_sound refl] by (simp add: update_rows_def)
  with 1 2 show ?thesis by blast
qed

end
