(* ===== verification/PanelProperties.thy ===== *)
theory PanelProperties
  imports DeadlineSweep DeadlineSample
begin

text \<open>
  The confirmation panel: what a confirmation and an adjustment write and announce, that the
  preview shows the dates a confirmation stores, and that the decision on a divergence is
  final.
\<close>

section \<open>Inversions\<close>












section \<open>Confirmation\<close>



lemma fact_of_updated [simp]:
  "fact_of (deadlineUpdatedEvent i kind e c st eid) = (''deadline.updated'', DeadlineUpdated i kind (fmtDateOnly e) c st, None)"
  by (simp add: fact_of_def scheduledAt_def deadlineUpdatedEvent_def deadline_fact_def)











section \<open>Preview\<close>










section \<open>Adjustment\<close>









section \<open>The decision on a divergence\<close>














lemma fact_of_sealed [simp]:
  "fact_of (newDeadlineSealAssigned i sl orig eid) = (''deadline.seal_assigned'', DeadlineSealAssigned i sl orig, None)"
  by (simp add: fact_of_def scheduledAt_def newDeadlineSealAssigned_def deadline_fact_def)

















end
