(* ===== verification/TaskProperties.thy ===== *)
theory TaskProperties
  imports DeadlineSweep DeadlineSample
begin

text \<open>
  The tasks: what a creation, an edit and a transition write and announce, that a task of a
  prazo is never due after it, that the task of a providencia is created once, and the
  feedback that compares suggested and confirmed titles.
\<close>

section \<open>Steps\<close>

lemma silent_task_reads [silent_rules]:
  "silent (GetIntimationAssignee E a b)" "silent (GetTaskForUpdate E a b)" "silent (GetTaskForTransition E a b)"
  "silent (GetTaskIDByActionItem E a b)" "silent (inherit_assignee E cmd)" "silent (validateTaskDueDate E d n due)"
  unfolding GetIntimationAssignee_def GetTaskForUpdate_def GetTaskForTransition_def GetTaskIDByActionItem_def
    inherit_assignee_def validateTaskDueDate_def
  by (intro silent_rules)+

lemma view_tasks: "view s = view t \<Longrightarrow> tasks s = tasks t"
  and view_activities: "view s = view t \<Longrightarrow> task_activities s = task_activities t"
  by (auto dest: arg_cong [where f = tasks] arg_cong [where f = task_activities])


text \<open>The stored row of a new task: the references as the database parsed them.\<close>

definition task_row_of :: "env \<Rightarrow> task \<Rightarrow> task \<Rightarrow> bool" where
  "task_row_of E t row \<longleftrightarrow> e_parse_uuid E (t_TenantID t) = Some (t_TenantID row)
     \<and> opt_ref E (t_CourtRecordID t) (t_CourtRecordID row) \<and> opt_ref E (t_DeadlineID t) (t_DeadlineID row)
     \<and> opt_ref E (t_IntimationID t) (t_IntimationID row) \<and> opt_ref E (t_AssigneeUserID t) (t_AssigneeUserID row)
     \<and> opt_ref E (t_CreatedBy t) (t_CreatedBy row) \<and> opt_ref E (t_ActionItemID t) (t_ActionItemID row)
     \<and> row = t\<lparr>t_TenantID := t_TenantID row, t_CourtRecordID := t_CourtRecordID row,
           t_DeadlineID := t_DeadlineID row, t_IntimationID := t_IntimationID row,
           t_AssigneeUserID := t_AssigneeUserID row, t_CreatedBy := t_CreatedBy row,
           t_CompletedAt := None, t_ActionItemID := t_ActionItemID row\<rparr>"

lemma InsertTask_effect:
  assumes "InsertTask E t s = (Inr x, s')"
  shows "\<exists>row. task_row_of E x row \<and> x = t\<lparr>t_ID := t_ID row\<rparr>
     \<and> validTaskPriority (t_Priority t) \<and> t_ID row \<notin> t_ID ` set (tasks s)
     \<and> (t_ActionItemID row \<noteq> '''' \<longrightarrow> t_ActionItemID row \<notin> t_ActionItemID ` set (tasks s))
     \<and> announced s' = announced s \<and> view s' = (view s)\<lparr>tasks := tasks s @ [row]\<rparr>"
  using assms unfolding InsertTask_def
  apply (elim parse_then optional_then id_then)
  subgoal for n c d m w b it i
    apply (drule stmt_InrD)
    apply (rule exI [of _ "t\<lparr>t_ID := i, t_TenantID := n, t_CourtRecordID := c, t_DeadlineID := d,
        t_IntimationID := m, t_AssigneeUserID := w, t_CreatedBy := b, t_CompletedAt := None, t_ActionItemID := it\<rparr>"])
    apply (simp add: view_writes find_row_None task_row_of_def split: if_splits)
    apply (elim conjE, hypsubst)
    by (auto simp: view_writes)
  done


lemma InsertTaskActivity_effect:
  assumes "InsertTaskActivity E a s = (Inr u, s')"
  shows "\<exists>n i who. e_parse_uuid E (ta_TenantID a) = Some n \<and> e_parse_uuid E (ta_TaskID a) = Some i
     \<and> e_parse_uuid E (ta_ActorUserID a) = Some who \<and> announced s' = announced s
     \<and> view s' = (view s)\<lparr>task_activities := task_activities s
         @ [a\<lparr>ta_TenantID := n, ta_TaskID := i, ta_ActorUserID := who\<rparr>]\<rparr>"
  using assms unfolding InsertTaskActivity_def
  by (elim parse_then) (auto dest!: stmt_InrD simp: modify_st_def view_writes)

text \<open>What is recorded about a task: who did what, with the old and the new value.\<close>

definition activity_row :: "env \<Rightarrow> string \<Rightarrow> string \<Rightarrow> string \<Rightarrow> activity_type \<times> string \<times> string \<Rightarrow> task_activity" where
  "activity_row E tenantID taskID userID x = (case x of (event, from, to) \<Rightarrow>
     \<lparr>ta_TenantID = the (e_parse_uuid E tenantID), ta_TaskID = the (e_parse_uuid E taskID),
      ta_ActorUserID = the (e_parse_uuid E userID), ta_EventType = event, ta_FromValue = from, ta_ToValue = to\<rparr>)"

lemma recordActivity_effect:
  assumes "recordActivity E n i who event from to s = (Inr u, s')"
  shows "announced s' = announced s
     \<and> view s' = (view s)\<lparr>task_activities := task_activities s @ [activity_row E n i who (event, from, to)]\<rparr>"
  using InsertTaskActivity_effect [OF assms [unfolded recordActivity_def]] by (auto simp: activity_row_def)

lemma update_task_row_effect:
  assumes "update_task_row E P f s = (Inr x, s')"
  shows "\<exists>r. find_row P (tasks s) = Some r \<and> x = f r \<and> validTaskPriority (t_Priority (f r))
     \<and> announced s' = announced s \<and> view s' = (view s)\<lparr>tasks := update_rows P f (tasks s)\<rparr>"
  using assms unfolding update_task_row_def
  by (auto dest!: stmt_InrD simp: view_writes split: option.splits if_splits)

lemma task_read:
  assumes "GetTaskForUpdate E i n s = (Inr t, s')"
  shows "t \<in> set (tasks s) \<and> e_parse_uuid E i = Some (t_ID t) \<and> e_parse_uuid E n = Some (t_TenantID t)
     \<and> announced s' = announced s \<and> view s' = view s"
  using assms silent_run [OF silent_task_reads(2) assms] unfolding GetTaskForUpdate_def select_one_def
  by (auto elim!: with_ids_InrE dest!: stmt_InrD find_row_Some split: option.splits)

lemma status_read:
  assumes "GetTaskForTransition E i n s = (Inr st, s')"
  shows "\<exists>t \<in> set (tasks s). e_parse_uuid E i = Some (t_ID t) \<and> e_parse_uuid E n = Some (t_TenantID t)
     \<and> t_Status t = st \<and> announced s' = announced s \<and> view s' = view s"
  using assms silent_run [OF silent_task_reads(3) assms] unfolding GetTaskForTransition_def select_one_def
  by (auto elim!: with_ids_InrE bind_InrE dest!: stmt_InrD find_row_Some split: option.splits)

text \<open>The due date check: a task of a prazo may not be due after its end date.\<close>

definition due_in_time :: "env \<Rightarrow> prazo_db \<Rightarrow> string \<Rightarrow> string \<Rightarrow> day option \<Rightarrow> bool" where
  "due_in_time E s deadlineID tenantID due \<longleftrightarrow> (\<forall>d. due = Some d \<longrightarrow> deadlineID \<noteq> '''' \<longrightarrow>
     (\<exists>r \<in> set (deadlines s). e_parse_uuid E deadlineID = Some (d_ID r)
        \<and> e_parse_uuid E tenantID = Some (d_TenantID r) \<and> d \<le> d_EndDate r))"

lemma due_date_checked:
  assumes "validateTaskDueDate E i n due s = (Inr u, s')"
  shows "due_in_time E s i n due \<and> announced s' = announced s \<and> view s' = view s"
  using assms silent_run [OF silent_task_reads(6) assms]
  unfolding validateTaskDueDate_def due_in_time_def GetDeadlineEndDate_def select_one_def
  by (auto elim!: with_ids_InrE bind_InrE dest!: stmt_InrD find_row_Some
      split: option.splits if_splits)


section \<open>Creation\<close>

text \<open>
  C20: a successful creation of a task writes one new row, open and manual, with the fields of
  the command and the references the database parsed, one activity of its author, and
  announces the task; a due date on a task of a prazo of the tenant is at most the end date
  of that prazo.
\<close>

theorem create_task_outcome:
  assumes run: "CreateTask E cmd db = (Inr t, db')"
  shows "due_in_time E db (ct_DeadlineID cmd) (ct_TenantID cmd) (ct_DueDate cmd)
     \<and> (\<exists>row i. task_row_of E t row \<and> t_ID t = t_ID row \<and> t_ID row \<notin> t_ID ` set (tasks db)
         \<and> t_Status t = TaskStatusOpen \<and> t_Source t = SourceManual \<and> t_DueDate t = ct_DueDate cmd
         \<and> t_DeadlineID t = ct_DeadlineID cmd \<and> t_TenantID t = ct_TenantID cmd \<and> t_Title t = ct_Title cmd
         \<and> announced db' = announced db @ [fact_of (newTaskCreatedFromTask t i)]
         \<and> view db' = (view db)\<lparr>tasks := tasks db @ [row], task_activities := task_activities db
             @ [activity_row E (ct_TenantID cmd) (t_ID t) (ct_UserID cmd) (ActivityTaskCreated, '''', '''')]\<rparr>)"
proof -
  obtain s u s1 w s2 s3 v s4 v' where 0: "announced s = announced db" "view s = view db" "deadlines s = deadlines db"
    and 1: "validateTaskDueDate E (ct_DeadlineID cmd) (ct_TenantID cmd) (ct_DueDate cmd) s = (Inr u, s1)"
    and 2: "inherit_assignee E cmd s1 = (Inr w, s2)"
    and 3: "InsertTask E
              \<lparr>t_ID = [], t_TenantID = ct_TenantID cmd, t_CourtRecordID = ct_CourtRecordID cmd,
               t_DeadlineID = ct_DeadlineID cmd, t_IntimationID = ct_IntimationID cmd,
               t_Title = ct_Title cmd, t_Description = ct_Description cmd, t_Kind = ct_Kind cmd,
               t_DueDate = ct_DueDate cmd, t_Status = TaskStatusOpen, t_Source = SourceManual,
               t_Priority = ct_Priority cmd, t_AssigneeUserID = w, t_CreatedBy = ct_UserID cmd,
               t_CompletedAt = None, t_ActionItemID = []\<rparr> s2 = (Inr t, s3)"
    and 4: "publish_new E (newTaskCreatedFromTask t) s3 = (Inr v, s4)"
    and 5: "recordActivity E (t_TenantID t) (t_ID t) (ct_UserID cmd) ActivityTaskCreated [] [] s4 = (Inr v', db')"
    using run [unfolded CreateTask_def]
    by (elim uow_body bind_InrE) (simp only: ret_apply prod.inject sum.inject)
  have v2: "announced s2 = announced db" "view s2 = view db"
    using silent_run [OF silent_task_reads(5) 2] due_date_checked [OF 1] 0 by simp_all
  have due: "due_in_time E db (ct_DeadlineID cmd) (ct_TenantID cmd) (ct_DueDate cmd)"
    using due_date_checked [OF 1] 0(3) by (simp add: due_in_time_def)
  obtain row where row: "task_row_of E t row" "t_ID row \<notin> t_ID ` set (tasks s2)" "announced s3 = announced s2"
      "view s3 = (view s2)\<lparr>tasks := tasks s2 @ [row]\<rparr>"
    and t: "t = \<lparr>t_ID = t_ID row, t_TenantID = ct_TenantID cmd, t_CourtRecordID = ct_CourtRecordID cmd,
               t_DeadlineID = ct_DeadlineID cmd, t_IntimationID = ct_IntimationID cmd,
               t_Title = ct_Title cmd, t_Description = ct_Description cmd, t_Kind = ct_Kind cmd,
               t_DueDate = ct_DueDate cmd, t_Status = TaskStatusOpen, t_Source = SourceManual,
               t_Priority = ct_Priority cmd, t_AssigneeUserID = w, t_CreatedBy = ct_UserID cmd,
               t_CompletedAt = None, t_ActionItemID = []\<rparr>"
    using InsertTask_effect [OF 3] unfolding task.update_convs by blast
  have fields: "t_ID t = t_ID row" "t_Status t = TaskStatusOpen" "t_Source t = SourceManual" "t_DueDate t = ct_DueDate cmd"
      "t_DeadlineID t = ct_DeadlineID cmd" "t_TenantID t = ct_TenantID cmd" "t_Title t = ct_Title cmd"
    by (subst t, simp)+
  note row = row [unfolded v2 view_tasks [OF v2(2)]]
  obtain i where i: "announced s4 = announced db @ [fact_of (newTaskCreatedFromTask t i)]" "view s4 = view s3"
    using publish_new_effect [OF 4] row(3) by auto
  have "task_activities s4 = task_activities db"
    using i(2) row(4) by (auto dest!: arg_cong [where f = task_activities])
  then show ?thesis using recordActivity_effect [OF 5] i row due fields
    by (intro conjI exI [of _ row] exI [of _ i]) simp_all
qed

definition office_new_task :: create_task_command where
  "office_new_task = \<lparr>ct_TenantID = ''ten'', ct_UserID = ''ana'', ct_CourtRecordID = ''rec'',
     ct_DeadlineID = ''p1'', ct_IntimationID = ''int'', ct_Title = ''Minutar'', ct_Description = '''',
     ct_Kind = '''', ct_Priority = '''', ct_DueDate = Some (monday + 8), ct_AssigneeUserID = ''''\<rparr>"

lemmas task_writes = InsertTask_def InsertTaskActivity_def update_task_row_def recordActivity_def
  pgOptionalUUID_def parseUUID_def select_one_def

lemma office_creates: "\<exists>t db'. CreateTask office_env office_new_task open_office = (Inr t, db')"
  by (simp add: CreateTask_def office_new_task_def validateTaskDueDate_def inherit_assignee_def
      GetDeadlineEndDate_def GetIntimationAssignee_def task_writes validTaskPriority_def open_office_def
      office_db_def evaluate)

theorem create_task_outcome_witness:
  "\<exists>t db'. CreateTask office_env office_new_task open_office = (Inr t, db') \<and> length (tasks db') = 1
     \<and> t_DueDate t = Some (monday + 8)"
proof -
  obtain t db' where run: "CreateTask office_env office_new_task open_office = (Inr t, db')" using office_creates by blast
  obtain row where "view db' = (view open_office)\<lparr>tasks := tasks open_office @ [row], task_activities :=
      task_activities open_office @ [activity_row office_env (ct_TenantID office_new_task) (t_ID t)
        (ct_UserID office_new_task) (ActivityTaskCreated, '''', '''')]\<rparr>" and "t_DueDate t = ct_DueDate office_new_task"
    using create_task_outcome [OF run] by blast
  then have "tasks db' = tasks open_office @ [row] \<and> t_DueDate t = Some (monday + 8)"
    by (auto simp: office_new_task_def dest!: arg_cong [where f = tasks])
  then show ?thesis using run by (intro exI [of _ t] exI [of _ db']) (simp add: open_office_def office_db_def)
qed

section \<open>Edits\<close>

lemma for_each_activities:
  assumes "for_each xs (\<lambda>(event, from, to). if from = to then ret () else recordActivity E n i who event from to) s
      = (Inr u, s')"
  shows "announced s' = announced s
     \<and> view s' = (view s)\<lparr>task_activities := task_activities s
         @ map (activity_row E n i who) (filter (\<lambda>(event, from, to). from \<noteq> to) xs)\<rparr>"
  using assms
proof (induction xs arbitrary: s)
  case Nil
  then show ?case by (simp add: view_def)
next
  case (Cons x xs)
  obtain ev fv tv where x: "x = (ev, fv, tv)" by (cases x)
  obtain v s1 where 1: "(if fv = tv then ret () else recordActivity E n i who ev fv tv) s = (Inr v, s1)"
    and 2: "for_each xs (\<lambda>(event, from, to). if from = to then ret () else recordActivity E n i who event from to) s1
      = (Inr u, s')"
    using Cons.prems by (auto simp: x elim: bind_InrE)
  note IH = Cons.IH [OF 2]
  show ?case
  proof (cases "fv = tv")
    case True
    then show ?thesis using 1 IH by (simp add: x)
  next
    case False
    then have "recordActivity E n i who ev fv tv s = (Inr v, s1)" using 1 by simp
    note r = recordActivity_effect [OF this]
    then have "task_activities s1 = task_activities s @ [activity_row E n i who x]"
      by (auto simp: x dest!: arg_cong [where f = task_activities])
    then show ?thesis using r IH False by (simp add: x)
  qed
qed

text \<open>The row of a task after an edit: the fields of the patch, the others as they were.\<close>

definition edited_due :: "update_task_command \<Rightarrow> task \<Rightarrow> day option" where
  "edited_due cmd t = (case ut_DueDate cmd of None \<Rightarrow> t_DueDate t | Some w \<Rightarrow> parseOptionalWireDate w)"

definition edited_task :: "update_task_command \<Rightarrow> task \<Rightarrow> string \<Rightarrow> task \<Rightarrow> task" where
  "edited_task cmd cur who t = t\<lparr>t_Title := merged (ut_Title cmd) (t_Title cur),
     t_Description := merged (ut_Description cmd) (t_Description cur), t_Kind := merged (ut_Kind cmd) (t_Kind cur),
     t_Priority := merged (ut_Priority cmd) (t_Priority cur), t_DueDate := edited_due cmd cur, t_AssigneeUserID := who\<rparr>"

lemma RepoUpdateTask_effect:
  assumes "RepoUpdateTask E i n title descr kind prio due who s = (Inr x, s')"
    and "t \<in> set (tasks s)" and "distinct (map t_ID (tasks s))"
    and "e_parse_uuid E i = Some (t_ID t)" and "e_parse_uuid E n = Some (t_TenantID t)"
  shows "\<exists>w. opt_ref E who w \<and> (let f = (\<lambda>t. t\<lparr>t_Title := title, t_Description := descr, t_Kind := kind,
                t_Priority := prio, t_DueDate := due, t_AssigneeUserID := w\<rparr>) in
       x = f t \<and> announced s' = announced s \<and> view s' = (view s)\<lparr>tasks := update_rows (\<lambda>r. r = t) f (tasks s)\<rparr>)"
proof -
  obtain w where w: "opt_ref E who w" and u: "update_task_row E (\<lambda>r. t_ID r = t_ID t \<and> t_TenantID r = t_TenantID t)
         (\<lambda>t. t\<lparr>t_Title := title, t_Description := descr, t_Kind := kind,
                t_Priority := prio, t_DueDate := due, t_AssigneeUserID := w\<rparr>) s = (Inr x, s')"
    using assms(1) unfolding RepoUpdateTask_def with_ids_Some [OF assms(4,5)] by (elim optional_then)
  have one: "find_row (\<lambda>r. t_ID r = t_ID t \<and> t_TenantID r = t_TenantID t) (tasks s) = Some t"
    by (rule find_row_unique [OF assms(3,2)]) simp_all
  have "update_rows (\<lambda>r. t_ID r = t_ID t \<and> t_TenantID r = t_TenantID t) f (tasks s)
      = update_rows (\<lambda>r. r = t) f (tasks s)" for f
    using distinct_map_inj [OF assms(3) _ assms(2)] by (auto simp: update_rows_def)
  then show ?thesis using update_task_row_effect [OF u] one w by (intro exI [of _ w]) (simp add: Let_def)
qed


text \<open>
  a successful edit of a task rewrites that one row with the patch merged into it, keeps
  the due date of the result within its prazo, announces it, and records one activity per
  field whose old and new wire forms differ, in the order of the code, and none for the
  others.
\<close>

theorem edits_are_recorded:
  assumes run: "UpdateTask E cmd db = (Inr saved, db')" and ids: "distinct (map t_ID (tasks db))"
  shows "\<exists>t who i. t \<in> set (tasks db) \<and> e_parse_uuid E (ut_TaskID cmd) = Some (t_ID t)
     \<and> e_parse_uuid E (ut_TenantID cmd) = Some (t_TenantID t)
     \<and> opt_ref E (merged (ut_AssigneeUserID cmd) (t_AssigneeUserID t)) who \<and> saved = edited_task cmd t who t
     \<and> due_in_time E db (t_DeadlineID t) (ut_TenantID cmd) (edited_due cmd t)
     \<and> announced db' = announced db @ [fact_of (newTaskUpdated (t_ID t) i)]
     \<and> view db' = (view db)\<lparr>tasks := update_rows (\<lambda>r. r = t) (edited_task cmd t who) (tasks db),
         task_activities := task_activities db @ map (activity_row E (ut_TenantID cmd) (t_ID t) (ut_UserID cmd))
           (filter (\<lambda>(event, from, to). from \<noteq> to) (task_edits t saved))\<rparr>"
proof -
  obtain s t s1 u s2 s3 v s4 v' where 0: "announced s = announced db" "view s = view db" "deadlines s = deadlines db"
    and 1: "GetTaskForUpdate E (ut_TaskID cmd) (ut_TenantID cmd) s = (Inr t, s1)"
    and 2: "validateTaskDueDate E (t_DeadlineID t) (ut_TenantID cmd) (edited_due cmd t) s1 = (Inr u, s2)"
    and 3: "RepoUpdateTask E (ut_TaskID cmd) (ut_TenantID cmd) (merged (ut_Title cmd) (t_Title t))
              (merged (ut_Description cmd) (t_Description t)) (merged (ut_Kind cmd) (t_Kind t))
              (merged (ut_Priority cmd) (t_Priority t)) (edited_due cmd t)
              (merged (ut_AssigneeUserID cmd) (t_AssigneeUserID t)) s2 = (Inr saved, s3)"
    and 4: "publish_new E (newTaskUpdated (t_ID saved)) s3 = (Inr v, s4)"
    and 5: "recordTaskEdits E (ut_TenantID cmd) (t_ID saved) (ut_UserID cmd) t saved s4 = (Inr v', db')"
    using run [unfolded UpdateTask_def Let_def edited_due_def [symmetric]]
    by (elim uow_body bind_InrE) (simp only: ret_apply prod.inject sum.inject)
  have t: "t \<in> set (tasks db)" "e_parse_uuid E (ut_TaskID cmd) = Some (t_ID t)"
      "e_parse_uuid E (ut_TenantID cmd) = Some (t_TenantID t)"
    and v1: "announced s1 = announced db" "view s1 = view db" "deadlines s1 = deadlines db"
    using task_read [OF 1] 0 view_tasks [OF 0(2)] view_deadlines [of s1 s] by simp_all
  have v2: "announced s2 = announced db" "view s2 = view db"
    and due: "due_in_time E db (t_DeadlineID t) (ut_TenantID cmd) (edited_due cmd t)"
    using due_date_checked [OF 2] v1 by (simp_all add: due_in_time_def)
  have T: "tasks s2 = tasks db" by (rule view_tasks [OF v2(2)])
  obtain w where w: "opt_ref E (merged (ut_AssigneeUserID cmd) (t_AssigneeUserID t)) w" "saved = edited_task cmd t w t"
      "announced s3 = announced s2"
      "view s3 = (view s2)\<lparr>tasks := update_rows (\<lambda>r. r = t) (edited_task cmd t w) (tasks s2)\<rparr>"
    using RepoUpdateTask_effect [OF 3 _ _ t(2,3), unfolded T, OF t(1) ids]
    by (auto simp: Let_def edited_task_def [abs_def] T)
  have id: "t_ID saved = t_ID t" by (simp add: w(2) edited_task_def)
  obtain i where i: "announced s4 = announced s3 @ [fact_of (newTaskUpdated (t_ID t) i)]" "view s4 = view s3"
    using publish_new_effect [OF 4] id by auto
  have A: "task_activities s4 = task_activities db"
    using i(2) w(4) v2(2) by (auto dest!: arg_cong [where f = task_activities])
  show ?thesis
    using for_each_activities [OF 5 [unfolded recordTaskEdits_def]] t w(1,2,3) due i id v2(1)
    by (intro exI [of _ t] exI [of _ w] exI [of _ i]) (simp add: A T v2(2) w(4))
qed

definition office_task :: task where
  "office_task = \<lparr>t_ID = ''k1'', t_TenantID = ''ten'', t_CourtRecordID = ''rec'', t_DeadlineID = ''p1'',
     t_IntimationID = ''int'', t_Title = ''Minutar'', t_Description = '''', t_Kind = '''', t_DueDate = None,
     t_Status = TaskStatusOpen, t_Source = SourceManual, t_Priority = '''', t_AssigneeUserID = '''',
     t_CreatedBy = ''ana'', t_CompletedAt = None, t_ActionItemID = ''''\<rparr>"

definition busy_office :: prazo_db where
  "busy_office = open_office\<lparr>tasks := [office_task]\<rparr>"

lemma busy_office_simps [simp]: "tasks busy_office = [office_task]" "task_activities busy_office = []"
  "deadlines busy_office = [office_prazo]" "outbox busy_office = []"
  by (simp_all add: busy_office_def open_office_def office_db_def)

definition office_edit :: update_task_command where
  "office_edit = \<lparr>ut_TenantID = ''ten'', ut_UserID = ''ana'', ut_TaskID = ''k1'', ut_Title = Some ''Revisar'',
     ut_Description = None, ut_Kind = Some '''', ut_Priority = Some ''HIGH'', ut_DueDate = None,
     ut_AssigneeUserID = None\<rparr>"

lemma office_edits: "\<exists>t db'. UpdateTask office_env office_edit busy_office = (Inr t, db')"
  by (simp add: UpdateTask_def office_edit_def office_task_def GetTaskForUpdate_def RepoUpdateTask_def
      recordTaskEdits_def task_edits_def wireDate_def validateTaskDueDate_def merged_def task_writes
      validTaskPriority_def evaluate)

theorem edits_are_recorded_witness:
  "\<exists>t db'. UpdateTask office_env office_edit busy_office = (Inr t, db')
     \<and> map (\<lambda>a. (ta_EventType a, ta_FromValue a, ta_ToValue a)) (task_activities db')
       = [(ActivityTitleChanged, ''Minutar'', ''Revisar''), (ActivityPriorityChanged, '''', ''HIGH'')]"
proof -
  obtain t db' where run: "UpdateTask office_env office_edit busy_office = (Inr t, db')" using office_edits by blast
  have "distinct (map t_ID (tasks busy_office))" by simp
  from edits_are_recorded [OF run this]
  have "task_activities db' = map (activity_row office_env ''ten'' ''k1'' ''ana'')
      (filter (\<lambda>(event, from, to). from \<noteq> to) (task_edits office_task t)) \<and> (\<exists>who. t = edited_task office_edit office_task who office_task
        \<and> opt_ref office_env '''' who)"
    by (auto simp: office_edit_def office_task_def merged_def dest!: arg_cong [where f = task_activities])
  then show ?thesis using run
    by (intro exI [of _ t] exI [of _ db']) (auto simp: task_edits_def edited_task_def edited_due_def office_edit_def
        office_task_def merged_def activity_row_def opt_ref_def wireDate_def)
qed


section \<open>Transitions\<close>

lemma RepoMarkTaskStatus_effect:
  assumes "RepoMarkTaskStatus E i n st to done_at s = (Inr x, s')"
    and "t \<in> set (tasks s)" and "distinct (map t_ID (tasks s))"
    and "e_parse_uuid E i = Some (t_ID t)" and "e_parse_uuid E n = Some (t_TenantID t)" and "t_Status t = st"
  shows "x = t_ID t \<and> announced s' = announced s
     \<and> view s' = (view s)\<lparr>tasks := update_rows (\<lambda>r. r = t) (\<lambda>t. t\<lparr>t_Status := to, t_CompletedAt := done_at\<rparr>) (tasks s)\<rparr>"
proof -
  let ?Q = "\<lambda>r. t_ID r = t_ID t \<and> t_TenantID r = t_TenantID t \<and> t_Status r = st"
  obtain y where u: "update_task_row E ?Q (\<lambda>t. t\<lparr>t_Status := to, t_CompletedAt := done_at\<rparr>) s = (Inr y, s')"
    and x: "x = t_ID y"
    using assms(1) unfolding RepoMarkTaskStatus_def with_ids_Some [OF assms(4,5)] by (auto elim!: bind_InrE)
  have one: "find_row ?Q (tasks s) = Some t"
    by (rule find_row_unique [OF assms(3,2)]) (simp_all add: assms(6))
  have "update_rows ?Q f (tasks s) = update_rows (\<lambda>r. r = t) f (tasks s)" for f
    using distinct_map_inj [OF assms(3) _ assms(2)] assms(6) by (auto simp: update_rows_def)
  then show ?thesis using update_task_row_effect [OF u] one x by simp
qed

lemma transition_read_keeps_clock: "GetTaskForTransition E i n s = (r, s1) \<Longrightarrow> reads s1 = reads s"
  by (auto simp: GetTaskForTransition_def with_ids_def parseUUID_def select_one_def stmt_def bind_def Let_def ret_def fail_def
      split: option.splits if_splits)

text \<open>A task that is not open admits no transition.\<close>

lemma closed_task_is_final:
  assumes "t \<in> set (tasks db)" and "distinct (map t_ID (tasks db))" and "t_Status t \<noteq> TaskStatusOpen"
    and "e_parse_uuid E i = Some (t_ID t)"
  shows "fst (markTaskStatus E n user i target db) \<noteq> Inr x"
proof
  assume "fst (markTaskStatus E n user i target db) = Inr x"
  then obtain db' where run: "markTaskStatus E n user i target db = (Inr x, db')"
    by (cases "markTaskStatus E n user i target db") auto
  obtain s st s1 where 0: "view s = view db" and 1: "GetTaskForTransition E i n s = (Inr st, s1)"
    and 2: "st = TaskStatusOpen"
    using run [unfolded markTaskStatus_def] by (elim uow_body bind_InrE) (simp split: if_splits)
  then show False
    using status_read [OF 1] view_tasks [OF 0] assms distinct_map_inj [OF assms(2)] by (metis option.inject)
qed

text \<open>
  marking a task done or dismissed succeeds only from OPEN; it changes the status of that
  one task, stamps the completion of a done one with the time read in the transaction,
  announces it and records who did it; and the task admits no further transition.
\<close>

theorem task_transition_outcome:
  assumes run: "(case target of TaskStatusDone \<Rightarrow> MarkTaskDone E n user i db | _ \<Rightarrow> DismissTask E n user i db)
      = (Inr x, db')"
    and target: "target \<in> {TaskStatusDone, TaskStatusDismissed}" and ids: "distinct (map t_ID (tasks db))"
  shows "(\<exists>t eid. t \<in> set (tasks db) \<and> e_parse_uuid E i = Some (t_ID t) \<and> e_parse_uuid E n = Some (t_TenantID t)
       \<and> t_Status t = TaskStatusOpen \<and> x = \<lparr>tt_ID = t_ID t, tt_Status = target\<rparr>
       \<and> announced db' = announced db @ [fact_of (newTaskTransitionEvent target (t_ID t) eid)]
       \<and> view db' = (view db)\<lparr>tasks := update_rows (\<lambda>r. r = t) (\<lambda>t. t\<lparr>t_Status := target,
             t_CompletedAt := (if target = TaskStatusDone then Some (e_clock E 0) else None)\<rparr>) (tasks db),
           task_activities := task_activities db @ [activity_row E n (t_ID t) user (transitionActivity target, '''', '''')]\<rparr>)
     \<and> (\<forall>user' target' y. fst (markTaskStatus E n user' i target' db') \<noteq> Inr y)"
proof -
  have "markTaskStatus E n user i target db = (Inr x, db')"
    using run target by (auto simp: MarkTaskDone_def DismissTask_def)
  then obtain m s1 done_at s2 k s3 v s4 v'
    where 1: "GetTaskForTransition E i n (db\<lparr>reads := 0, stmts := m\<rparr>) = (Inr TaskStatusOpen, s1)"
    and 2: "completion_time E target s1 = (Inr done_at, s2)"
    and 3: "RepoMarkTaskStatus E i n TaskStatusOpen target done_at s2 = (Inr k, s3)"
    and 4: "publish_new E (newTaskTransitionEvent target k) s3 = (Inr v, s4)"
    and 5: "recordActivity E n k user (transitionActivity target) [] [] s4 = (Inr v', db')"
    and x: "x = \<lparr>tt_ID = k, tt_Status = target\<rparr>"
    unfolding markTaskStatus_def by (elim uow_Do_success bind_InrE) (simp split: if_splits; elim bind_InrE; simp)
  obtain t where t: "t \<in> set (tasks db)" "e_parse_uuid E i = Some (t_ID t)" "e_parse_uuid E n = Some (t_TenantID t)"
      "t_Status t = TaskStatusOpen" and v1: "announced s1 = announced db" "view s1 = view db"
    using status_read [OF 1] by auto
  have at: "done_at = (if target = TaskStatusDone then Some (e_clock E 0) else None)"
    and v2: "announced s2 = announced db" "view s2 = view db"
    using 2 v1 transition_read_keeps_clock [OF 1]
    by (auto simp: completion_time_def now_tx_apply elim!: bind_InrE split: if_splits)
  have T: "tasks s2 = tasks db" by (rule view_tasks [OF v2(2)])
  note m = RepoMarkTaskStatus_effect [OF 3 _ _ t(2,3,4), unfolded T v2, OF t(1) ids]
  obtain eid where e: "announced s4 = announced s3 @ [fact_of (newTaskTransitionEvent target k eid)]" "view s4 = view s3"
    using publish_new_effect [OF 4] by auto
  have A: "task_activities s4 = task_activities db"
    using e(2) m by (auto dest!: arg_cong [where f = task_activities])
  define U :: "task \<Rightarrow> task" where "U = (\<lambda>t. t\<lparr>t_Status := target, t_CompletedAt := done_at\<rparr>)"
  have v: "view db' = (view db)\<lparr>tasks := update_rows (\<lambda>r. r = t) U (tasks db),
      task_activities := task_activities db @ [activity_row E n (t_ID t) user (transitionActivity target, '''', '''')]\<rparr>"
    using recordActivity_effect [OF 5] e m A by (simp add: U_def)
  then have T': "tasks db' = update_rows (\<lambda>r. r = t) U (tasks db)" by (auto dest!: arg_cong [where f = tasks])
  have "U t \<in> set (tasks db')" using t(1) by (auto simp: T' set_update_rows)
  moreover have "distinct (map t_ID (tasks db'))" using ids by (simp add: T' map_update_rows U_def)
  ultimately have final: "fst (markTaskStatus E n user' i target' db') \<noteq> Inr y" for user' target' y
    by (rule closed_task_is_final) (use target t(2) in \<open>auto simp: U_def\<close>)
  have "announced db' = announced db @ [fact_of (newTaskTransitionEvent target (t_ID t) eid)]"
    using recordActivity_effect [OF 5] e m v2 by simp
  then show ?thesis using t x m v final unfolding U_def at by blast
qed


lemma office_finishes: "\<exists>x db'. MarkTaskDone office_env ''ten'' ''ana'' ''k1'' busy_office = (Inr x, db')"
  by (simp add: MarkTaskDone_def markTaskStatus_def office_task_def GetTaskForTransition_def RepoMarkTaskStatus_def
      completion_time_def task_writes validTaskPriority_def evaluate)

theorem task_transition_outcome_witness:
  "\<exists>x db'. MarkTaskDone office_env ''ten'' ''ana'' ''k1'' busy_office = (Inr x, db')
     \<and> tasks db' = [office_task\<lparr>t_Status := TaskStatusDone, t_CompletedAt := Some noon\<rparr>]"
proof -
  obtain x db' where run: "MarkTaskDone office_env ''ten'' ''ana'' ''k1'' busy_office = (Inr x, db')"
    using office_finishes by blast
  have "distinct (map t_ID (tasks busy_office))" by simp
  from task_transition_outcome [where target = TaskStatusDone and E = office_env and n = "''ten''" and user = "''ana''"
      and i = "''k1''" and x = x and db' = db', OF _ _ this] run
  have "tasks db' = [office_task\<lparr>t_Status := TaskStatusDone, t_CompletedAt := Some (e_clock office_env 0)\<rparr>]"
    by (auto simp: update_rows_def dest!: arg_cong [where f = tasks])
  then show ?thesis using run by (simp add: office_env_def)
qed

section \<open>The task of a providencia\<close>

lemma task_exists_read:
  assumes "GetTaskIDByActionItem E n item s = (Inr i, s')"
  shows "\<exists>t \<in> set (tasks s). e_parse_uuid E item = Some (t_ActionItemID t) \<and> t_ID t = i
     \<and> announced s' = announced s \<and> view s' = view s"
  using assms silent_run [OF silent_task_reads(4) assms] unfolding GetTaskIDByActionItem_def select_one_def
  by (auto elim!: with_ids_InrE bind_InrE dest!: stmt_InrD find_row_Some split: option.splits)

lemma rejected_task_changes_nothing:
  assumes "InsertTask E t s = (Inl e, s')"
  shows "announced s' = announced s \<and> view s' = view s"
proof -
  have "harmless (InsertTask E t)"
    unfolding InsertTask_def
    by (intro harmless_after silent_rules harmless_stmt) (simp add: harmless_def split: if_splits)
  then show ?thesis using assms by (simp add: harmless_def)
qed

lemma create_for_item_cases:
  assumes run: "CreateForActionItem E inp s = (Inr i, s')" and item: "e_parse_uuid E (at_ActionItemID inp) = Some it" "it \<noteq> ''''"
     "at_ActionItemID inp \<noteq> ''''"
  shows "announced s' = announced s
     \<and> (it \<in> t_ActionItemID ` set (tasks s) \<and> view s' = view s
          \<and> (\<exists>t \<in> set (tasks s). t_ActionItemID t = it \<and> t_ID t = i)
        \<or> it \<notin> t_ActionItemID ` set (tasks s)
          \<and> (\<exists>row. t_ActionItemID row = it \<and> t_ID row = i \<and> t_Status row = TaskStatusOpen
               \<and> i \<notin> t_ID ` set (tasks s) \<and> view s' = (view s)\<lparr>tasks := tasks s @ [row]\<rparr>))"
proof -
  define t0 where "t0 = \<lparr>t_ID = '''', t_TenantID = at_TenantID inp, t_CourtRecordID = at_CourtRecordID inp,
              t_DeadlineID = at_DeadlineID inp, t_IntimationID = at_IntimationID inp,
              t_Title = at_Tipo inp, t_Description = '''', t_Kind = '''', t_DueDate = None,
              t_Status = TaskStatusOpen, t_Source = SourceRule, t_Priority = '''',
              t_AssigneeUserID = '''', t_CreatedBy = '''', t_CompletedAt = None,
              t_ActionItemID = at_ActionItemID inp\<rparr>"
  obtain r s1 where m: "InsertTask E t0 s = (r, s1)" by (cases "InsertTask E t0 s")
  have k: "(case r of Inr saved \<Rightarrow> ret (t_ID saved)
      | Inl e \<Rightarrow> if e = ErrTaskExistsForActionItem
          then GetTaskIDByActionItem E (at_TenantID inp) (at_ActionItemID inp) else fail e) s1 = (Inr i, s')"
    using run m unfolding CreateForActionItem_def t0_def [symmetric] by (simp add: bind_def attempt_apply)
  show ?thesis
  proof (cases r)
    case (Inr saved)
    from InsertTask_effect [OF m [unfolded Inr]] obtain row where row: "task_row_of E saved row"
        "saved = t0\<lparr>t_ID := t_ID row\<rparr>" "t_ID row \<notin> t_ID ` set (tasks s)"
        "t_ActionItemID row \<noteq> '''' \<longrightarrow> t_ActionItemID row \<notin> t_ActionItemID ` set (tasks s)"
        "announced s1 = announced s" "view s1 = (view s)\<lparr>tasks := tasks s @ [row]\<rparr>" by blast
    have "t_ActionItemID saved = at_ActionItemID inp" "t_Status saved = TaskStatusOpen"
      by (simp_all add: row(2) t0_def)
    then have "t_ActionItemID row = it" using row(1) item by (simp add: task_row_of_def opt_ref_def)
    moreover have "t_Status row = t_Status saved"
    proof -
      obtain n c d m w b it where row_eq: "row = saved\<lparr>t_TenantID := n, t_CourtRecordID := c, t_DeadlineID := d,
          t_IntimationID := m, t_AssigneeUserID := w, t_CreatedBy := b, t_CompletedAt := None, t_ActionItemID := it\<rparr>"
        using row(1) unfolding task_row_of_def by blast
      show ?thesis by (simp add: row_eq)
    qed
    moreover have "i = t_ID row" "s' = s1" using k Inr by (simp_all add: row(2))
    ultimately show ?thesis using row item(2) \<open>t_Status saved = TaskStatusOpen\<close> by auto
  next
    case (Inl e)
    then have g: "GetTaskIDByActionItem E (at_TenantID inp) (at_ActionItemID inp) s1 = (Inr i, s')"
      using k by (simp split: if_splits)
    have s1: "announced s1 = announced s" "view s1 = view s" using rejected_task_changes_nothing m Inl by auto
    then show ?thesis using task_exists_read [OF g] view_tasks [OF s1(2)] item(1) by auto
  qed
qed


text \<open>
  C21: the task of a providencia is created once. A creation leaves exactly one task with the
  providencia's id; any later creation for it, with other tasks edited or added in between,
  returns the id of that same task and writes nothing.
\<close>

theorem action_item_task_once:
  assumes first: "CreateForActionItem E inp s = (Inr i, s1)" and again: "CreateForActionItem E inp2 s2 = (Inr j, s3)"
    and item: "e_parse_uuid E (at_ActionItemID inp) = Some it" "it \<noteq> ''''" "at_ActionItemID inp \<noteq> ''''"
    and same: "at_ActionItemID inp2 = at_ActionItemID inp"
    and later: "(\<lambda>t. (t_ID t, t_ActionItemID t)) ` set (tasks s1) \<subseteq> (\<lambda>t. (t_ID t, t_ActionItemID t)) ` set (tasks s2)"
    and unique: "distinct (filter (\<lambda>a. a \<noteq> '''') (map t_ActionItemID (tasks s2)))"
  shows "j = i \<and> announced s3 = announced s2 \<and> view s3 = view s2"
proof -
  have "\<exists>t \<in> set (tasks s1). t_ActionItemID t = it \<and> t_ID t = i"
    using create_for_item_cases [OF first item]
  proof (elim conjE disjE exE bexE)
    fix t assume "view s1 = view s" "t \<in> set (tasks s)" "t_ActionItemID t = it" "t_ID t = i"
    then show ?thesis by (metis view_tasks)
  next
    fix row assume v: "view s1 = (view s)\<lparr>tasks := tasks s @ [row]\<rparr>" and row: "t_ActionItemID row = it" "t_ID row = i"
    have "tasks s1 = tasks s @ [row]" using arg_cong [OF v, of tasks] by simp
    then show ?thesis using row by simp
  qed
  then have "(i, it) \<in> (\<lambda>t. (t_ID t, t_ActionItemID t)) ` set (tasks s1)" by force
  from subsetD [OF later this]
  obtain t where t: "t \<in> set (tasks s2)" "t_ActionItemID t = it" "t_ID t = i" by auto
  then have known: "it \<in> t_ActionItemID ` set (tasks s2)" by force
  obtain q where q: "q \<in> set (tasks s2)" "t_ActionItemID q = it" "t_ID q = j"
    and kept: "announced s3 = announced s2" "view s3 = view s2"
    using create_for_item_cases [OF again, unfolded same, OF item] known by blast
  have "q = t"
    by (rule distinct_keys_inj [OF unique q(1) t(1)]) (simp_all add: q(2) t(2) item(2))
  then show ?thesis using q t kept by simp
qed

definition office_item :: action_item_task where
  "office_item = \<lparr>at_TenantID = ''ten'', at_ActionItemID = ''ai1'', at_CourtRecordID = ''rec'', at_DeadlineID = '''',
     at_IntimationID = ''int'', at_Tipo = ''Contestar''\<rparr>"

lemma office_item_simps [simp]: "e_gen office_env n = replicate (Suc n) CHR ''u''" "id_seq busy_office = 0"
  by (simp_all add: office_env_def busy_office_def open_office_def office_db_def)

lemma office_item_run: "\<exists>s1. CreateForActionItem office_env office_item busy_office = (Inr ''u'', s1)
    \<and> map (\<lambda>t. (t_ID t, t_ActionItemID t)) (tasks s1) = [(''k1'', ''''), (''u'', ''ai1'')]
    \<and> (\<exists>s3. CreateForActionItem office_env office_item s1 = (Inr ''u'', s3))"
  by (simp add: CreateForActionItem_def office_item_def GetTaskIDByActionItem_def task_writes validTaskPriority_def
      evaluate office_task_def)

theorem action_item_task_once_witness:
  "\<exists>s1 s3. CreateForActionItem office_env office_item busy_office = (Inr ''u'', s1)
     \<and> CreateForActionItem office_env office_item s1 = (Inr ''u'', s3) \<and> view s3 = view s1"
proof -
  obtain s1 s3 where run: "CreateForActionItem office_env office_item busy_office = (Inr ''u'', s1)"
      "CreateForActionItem office_env office_item s1 = (Inr ''u'', s3)"
    and ts: "map (\<lambda>t. (t_ID t, t_ActionItemID t)) (tasks s1) = [(''k1'', ''''), (''u'', ''ai1'')]"
    using office_item_run by (elim exE conjE) (rule that)
  have "map t_ActionItemID (tasks s1) = ['''', ''ai1'']" using arg_cong [OF ts, of "map snd"] by (simp add: comp_def)
  then have "distinct (filter (\<lambda>a. a \<noteq> '''') (map t_ActionItemID (tasks s1)))" by simp
  from action_item_task_once [OF run _ _ _ refl order_refl this, of "''ai1''"]
  have "view s3 = view s1" by (simp add: office_item_def)
  then show ?thesis using run by blast
qed

section \<open>Feedback on suggestions\<close>

text \<open>
  the delta between the suggested and the confirmed titles, up to case and white space:
  every suggested title is kept or removed, never both; kept are those that were confirmed;
  added are the confirmed ones nobody suggested; the titles are shown as they were written,
  each once.
\<close>

theorem suggestion_delta_partitions:
  fixes r titles
  defines "d \<equiv> computeSuggestionDelta r titles" and "suggested \<equiv> map st_Title (sr_Tasks r)"
    and "keys \<equiv> \<lambda>ts. set (map normalizeTitle ts)"
  shows "keys (sd_Kept d) \<union> keys (sd_Removed d) = keys suggested \<and> keys (sd_Kept d) \<inter> keys (sd_Removed d) = {}
     \<and> keys (sd_Kept d) = keys suggested \<inter> keys titles \<and> keys (sd_Added d) = keys titles - keys suggested
     \<and> set (sd_Kept d @ sd_Removed d) \<subseteq> set suggested \<and> set (sd_Added d) \<subseteq> set titles
     \<and> distinct (map normalizeTitle (sd_Kept d @ sd_Removed d @ sd_Added d))"
proof -
  have K: "keys (sd_Kept d) = keys suggested \<inter> keys titles" "keys (sd_Removed d) = keys suggested - keys titles"
    "keys (sd_Added d) = keys titles - keys suggested"
    by (auto simp: d_def keys_def suggested_def computeSuggestionDelta_def Let_def first_titles_keys)
  have S: "set (sd_Kept d) \<subseteq> set suggested" "set (sd_Removed d) \<subseteq> set suggested" "set (sd_Added d) \<subseteq> set titles"
    unfolding d_def suggested_def computeSuggestionDelta_def Let_def suggestion_delta.simps
    by (rule first_titles_subset)+
  have D: "distinct (map normalizeTitle (sd_Kept d))" "distinct (map normalizeTitle (sd_Removed d))"
    "distinct (map normalizeTitle (sd_Added d))"
    by (simp_all add: d_def computeSuggestionDelta_def Let_def first_titles_distinct)
  have "distinct (map normalizeTitle (sd_Kept d @ sd_Removed d @ sd_Added d))"
    using D K by (auto simp: keys_def)
  then show ?thesis using K S by auto
qed

end
