(* ===== verification/Billing.thy ===== *)
theory Billing
  imports Transaction
begin

text \<open>
  \<open>internal/billing\<close>: the local projection of a tenant's subscription, driven by the webhooks
  of the payment provider, the trial a new tenant starts on, and the ceiling on active
  processes other slices ask for. The provider (Stripe) is behind \<open>StripeGateway\<close>, whose calls
  are ports of the environment. A nullable text column read as the empty string is a string,
  a NULL integer read as 0 is 0. Times of creation and update are left out.
\<close>

section \<open>Entities (entity.go)\<close>

datatype sub_status = StatusTrialing | StatusActive | StatusPastDue | StatusCanceled | StatusRaw string

definition sub_status_valid :: "sub_status \<Rightarrow> bool" where
  "sub_status_valid s \<longleftrightarrow> s \<in> {StatusTrialing, StatusActive, StatusPastDue, StatusCanceled}"

record subscription =
  sb_ID :: string
  sb_TenantID :: string
  sb_StripeCustomerID :: string
  sb_StripeSubscriptionID :: string
  sb_Status :: sub_status
  sb_Plan :: string
  sb_CurrentPeriodEnd :: "instant option"
  sb_ActiveProcessLimit :: int
  sb_PlanID :: "string option"
  sb_CustomPricePerProcessCents :: "int option"
  sb_TrialEndsAt :: "instant option"

record plan =
  pl_ID :: string
  pl_Code :: string
  pl_Name :: string
  pl_MinProcesses :: int
  pl_MaxProcesses :: "int option"
  pl_PricePerProcessCents :: int
  pl_StripePriceID :: "string option"
  pl_Active :: bool

record trial_policy =
  tp_Name :: string
  tp_IsDefault :: bool
  tp_TrialDays :: int
  tp_ActiveProcessLimit :: int
  tp_Active :: bool

section \<open>Sentinels (errors.go)\<close>

definition ErrMalformedEvent :: err where
  "ErrMalformedEvent = NewInvalid ''malformed stripe event payload''"

definition ErrMissingTenant :: err where
  "ErrMissingTenant = NewInvalid ''stripe event missing tenant_id metadata''"

definition ErrSubscriptionNotFound :: err where
  "ErrSubscriptionNotFound = NewNotFound ''subscription not found''"

definition ErrPlanUnresolved :: err where
  "ErrPlanUnresolved = NewInvalid ''stripe product metadata missing active_process_limit''"

definition ErrAlreadySubscribed :: err where
  "ErrAlreadySubscribed = NewConflict ''tenant already has an active subscription''"

definition ErrNoStripeCustomer :: err where
  "ErrNoStripeCustomer = NewNotFound ''no stripe customer for tenant''"

definition ErrPlanNotFound :: err where
  "ErrPlanNotFound = NewNotFound ''plan not found''"

definition ErrNoDefaultTrialPolicy :: err where
  "ErrNoDefaultTrialPolicy = NewNotFound ''no default trial policy configured''"

section \<open>What the provider hands over (gateway.go)\<close>

record stripe_subscription =
  ss_ID :: string
  ss_CustomerID :: string
  ss_Status :: string
  ss_PriceID :: string
  ss_CurrentPeriodEnd :: instant

record stripe_invoice =
  si_ID :: string
  si_CustomerID :: string
  si_AmountDue :: int

record stripe_event =
  se_ID :: string
  se_Type :: string
  se_TenantID :: string
  se_Subscription :: "stripe_subscription option"
  se_Invoice :: "stripe_invoice option"

record checkout_params =
  co_CustomerID :: string
  co_PriceID :: string
  co_TenantID :: string
  co_SuccessURL :: string
  co_CancelURL :: string
  co_TrialDays :: int

record stripe_plan =
  sp_PriceID :: string
  sp_Name :: string
  sp_Amount :: int
  sp_Interval :: string
  sp_ActiveProcessLimit :: int

section \<open>Events (events.go)\<close>

datatype billing_payload =
    SubscriptionActivated string string instant
  | SubscriptionUpdated string string sub_status
  | SubscriptionCanceled string
  | PaymentFailed string string int
  | NotificationRequested string string string string int
  | TrialEndingSoonCheck string string instant
  | TrialEndingSoon string instant int

record tenant_provisioned =
  tv_EventID :: string
  tv_TenantID :: string

record trial_check =
  tk_EventID :: string
  tk_TenantID :: string

definition aggregateTypeTenant :: string where
  "aggregateTypeTenant = ''tenant''"

definition trialEndingSoonLeadDays :: int where
  "trialEndingSoonLeadDays = 2"

definition tenant_fact :: "string \<Rightarrow> string \<Rightarrow> string \<Rightarrow> billing_payload \<Rightarrow> billing_payload event" where
  "tenant_fact typ eid tenantID p =
     \<lparr>ev_type = typ, ev_aggregate_type = aggregateTypeTenant, ev_aggregate_id = tenantID,
      ev_key = eid, ev_schedule = None, ev_payload = p\<rparr>"

definition derefTime :: "instant option \<Rightarrow> instant" where
  "derefTime t = (case t of None \<Rightarrow> zero_time | Some x \<Rightarrow> x)"

definition newSubscriptionActivated :: "subscription \<Rightarrow> string \<Rightarrow> billing_payload event" where
  "newSubscriptionActivated s eid = tenant_fact ''billing.subscription_activated'' eid (sb_TenantID s)
     (SubscriptionActivated (sb_TenantID s) (sb_Plan s) (derefTime (sb_CurrentPeriodEnd s)))"

definition newSubscriptionUpdated :: "subscription \<Rightarrow> string \<Rightarrow> billing_payload event" where
  "newSubscriptionUpdated s eid = tenant_fact ''billing.subscription_updated'' eid (sb_TenantID s)
     (SubscriptionUpdated (sb_TenantID s) (sb_Plan s) (sb_Status s))"

definition newSubscriptionCanceled :: "string \<Rightarrow> string \<Rightarrow> billing_payload event" where
  "newSubscriptionCanceled tenantID eid =
     tenant_fact ''billing.subscription_canceled'' eid tenantID (SubscriptionCanceled tenantID)"

definition newPaymentFailed :: "string \<Rightarrow> string \<Rightarrow> int \<Rightarrow> string \<Rightarrow> billing_payload event" where
  "newPaymentFailed tenantID invoiceID amountDue eid =
     tenant_fact ''billing.payment_failed'' eid tenantID (PaymentFailed tenantID invoiceID amountDue)"

definition newPaymentFailedAdminNotification :: "string \<Rightarrow> string \<Rightarrow> string \<Rightarrow> int \<Rightarrow> string \<Rightarrow> billing_payload event" where
  "newPaymentFailedAdminNotification tenantID adminID invoiceID amountDue eid =
     tenant_fact ''notification.requested'' eid tenantID
       (NotificationRequested tenantID adminID ''payment_failed'' invoiceID amountDue)"

definition newTrialEndingSoonCheck :: "string \<Rightarrow> string \<Rightarrow> instant \<Rightarrow> billing_payload event" where
  "newTrialEndingSoonCheck tenantID subscriptionID trialEndsAt =
     \<lparr>ev_type = ''billing.trial_ending_soon_check'', ev_aggregate_type = aggregateTypeTenant,
      ev_aggregate_id = tenantID, ev_key = ''trial-ending-soon:'' @ subscriptionID,
      ev_schedule = Some (midnight (day_of trialEndsAt - trialEndingSoonLeadDays), True),
      ev_payload = TrialEndingSoonCheck tenantID subscriptionID trialEndsAt\<rparr>"

definition newTrialEndingSoon :: "string \<Rightarrow> instant \<Rightarrow> int \<Rightarrow> string \<Rightarrow> billing_payload event" where
  "newTrialEndingSoon tenantID trialEndsAt daysLeft eid =
     tenant_fact ''billing.trial_ending_soon'' eid tenantID (TrialEndingSoon tenantID trialEndsAt daysLeft)"

text \<open>Whole days between two instants, on start-of-day boundaries (the process runs in UTC).\<close>

definition daysUntil :: "instant \<Rightarrow> instant \<Rightarrow> int" where
  "daysUntil t now = day_of t - day_of now"

section \<open>State and environment\<close>

record billing_db = "billing_payload tx_db" +
  subscriptions :: "subscription list"
  plans :: "plan list"
  trial_policies :: "trial_policy list"

text \<open>
  The ports: the optional lister of a tenant's admins, the calls of the gateway, and the
  configuration of the checkout.
\<close>

record billing_env = tx_env +
  b_admins :: "(string \<Rightarrow> err + string list) option"
  b_verify :: "string \<Rightarrow> string \<Rightarrow> err + stripe_event"
  b_ensure_customer :: "string \<Rightarrow> err + string"
  b_checkout :: "checkout_params \<Rightarrow> err + string"
  b_portal :: "string \<Rightarrow> string \<Rightarrow> err + string"
  b_list_plans :: "err + stripe_plan list"
  b_success_url :: string
  b_cancel_url :: string
  b_return_url :: string
  b_trial_days :: int

type_synonym 'a btx = "(billing_db, 'a) tx"


section \<open>Repository (repository.go, mapper.go)\<close>

definition timeToTimestamptz :: "instant \<Rightarrow> instant option" where
  "timeToTimestamptz t = (if t = zero_time then None else Some t)"

definition timePtrToTimestamptz :: "instant option \<Rightarrow> instant option" where
  "timePtrToTimestamptz t = (case t of None \<Rightarrow> None | Some x \<Rightarrow> timeToTimestamptz x)"

definition strPtrToUUID :: "billing_env \<Rightarrow> string option \<Rightarrow> string option" where
  "strPtrToUUID E s = (case s of None \<Rightarrow> None | Some x \<Rightarrow> e_parse_uuid E x)"

record upsert_params =
  up_TenantID :: string
  up_StripeCustomerID :: string
  up_StripeSubscriptionID :: string
  up_Status :: sub_status
  up_Plan :: string
  up_CurrentPeriodEnd :: instant
  up_ActiveProcessLimit :: int
  up_PlanID :: "string option"
  up_CustomPricePerProcessCents :: "int option"
  up_TrialEndsAt :: "instant option"

definition coalesce :: "'a option \<Rightarrow> 'a option \<Rightarrow> 'a option" where
  "coalesce new old = (case new of None \<Rightarrow> old | Some x \<Rightarrow> Some x)"

text \<open>The row of an upsert: \<open>old\<close> is the price and the trial end of the row it replaces.\<close>

definition upsert_row :: "billing_env \<Rightarrow> upsert_params \<Rightarrow> string \<Rightarrow> string \<Rightarrow> int option \<Rightarrow> instant option
    \<Rightarrow> subscription" where
  "upsert_row E p i tenant old_price old_end =
     \<lparr>sb_ID = i, sb_TenantID = tenant, sb_StripeCustomerID = up_StripeCustomerID p,
      sb_StripeSubscriptionID = up_StripeSubscriptionID p, sb_Status = up_Status p, sb_Plan = up_Plan p,
      sb_CurrentPeriodEnd = timeToTimestamptz (up_CurrentPeriodEnd p),
      sb_ActiveProcessLimit = to_int32 (up_ActiveProcessLimit p), sb_PlanID = strPtrToUUID E (up_PlanID p),
      sb_CustomPricePerProcessCents = coalesce (map_option to_int32 (up_CustomPricePerProcessCents p)) old_price,
      sb_TrialEndsAt = coalesce (timePtrToTimestamptz (up_TrialEndsAt p)) old_end\<rparr>"

text \<open>
  \<open>INSERT ... ON CONFLICT (tenant_id) DO UPDATE ... RETURNING\<close>. Another tenant's row with the
  same customer violates the unique constraint; NULL (empty) customers never do.
\<close>

definition UpsertSubscription :: "billing_env \<Rightarrow> upsert_params \<Rightarrow> subscription btx" where
  "UpsertSubscription E p =
     bind (parseUUID E (up_TenantID p)) (\<lambda>tenant.
     bind (next_id E) (\<lambda>i. stmt E (\<lambda>s.
       if up_StripeCustomerID p \<noteq> ''''
          \<and> find_row (\<lambda>r. sb_StripeCustomerID r = up_StripeCustomerID p \<and> sb_TenantID r \<noteq> tenant) (subscriptions s) \<noteq> None
       then (Inl WrapInfra, s)
       else case find_row (\<lambda>r. sb_TenantID r = tenant) (subscriptions s) of
         None \<Rightarrow>
           let row = upsert_row E p i tenant None None in
           if find_row (\<lambda>r. sb_ID r = i) (subscriptions s) \<noteq> None then (Inl WrapInfra, s)
           else (Inr row, s\<lparr>subscriptions := subscriptions s @ [row]\<rparr>)
       | Some r \<Rightarrow>
           let row = upsert_row E p (sb_ID r) tenant (sb_CustomPricePerProcessCents r) (sb_TrialEndsAt r) in
           (Inr row, s\<lparr>subscriptions := update_rows (\<lambda>q. sb_TenantID q = tenant) (\<lambda>_. row) (subscriptions s)\<rparr>))))"

definition UpdateSubscriptionStatus :: "billing_env \<Rightarrow> string \<Rightarrow> sub_status \<Rightarrow> subscription btx" where
  "UpdateSubscriptionStatus E tenantID st =
     bind (parseUUID E tenantID) (\<lambda>tenant. stmt E (\<lambda>s.
       case find_row (\<lambda>r. sb_TenantID r = tenant) (subscriptions s) of
         None \<Rightarrow> (Inl ErrSubscriptionNotFound, s)
       | Some r \<Rightarrow> (Inr (r\<lparr>sb_Status := st\<rparr>),
           s\<lparr>subscriptions := update_rows (\<lambda>q. sb_TenantID q = tenant) (\<lambda>q. q\<lparr>sb_Status := st\<rparr>) (subscriptions s)\<rparr>)))"

definition FindByTenant :: "billing_env \<Rightarrow> string \<Rightarrow> subscription btx" where
  "FindByTenant E tenantID = bind (parseUUID E tenantID) (\<lambda>tenant.
     select_one E subscriptions (\<lambda>r. sb_TenantID r = tenant) ErrSubscriptionNotFound)"

text \<open>An empty id is NULL, which equals nothing.\<close>

definition FindByStripeCustomer :: "billing_env \<Rightarrow> string \<Rightarrow> subscription btx" where
  "FindByStripeCustomer E customerID =
     select_one E subscriptions (\<lambda>r. customerID \<noteq> '''' \<and> sb_StripeCustomerID r = customerID) ErrSubscriptionNotFound"

definition FindPlanByID :: "billing_env \<Rightarrow> string \<Rightarrow> plan btx" where
  "FindPlanByID E planID = bind (parseUUID E planID) (\<lambda>i. select_one E plans (\<lambda>p. pl_ID p = i) ErrPlanNotFound)"

definition FindPlanByStripePriceID :: "billing_env \<Rightarrow> string \<Rightarrow> plan btx" where
  "FindPlanByStripePriceID E priceID =
     select_one E plans (\<lambda>p. priceID \<noteq> '''' \<and> pl_StripePriceID p = Some priceID \<and> pl_Active p) ErrPlanNotFound"

definition FindPlanByCode :: "billing_env \<Rightarrow> string \<Rightarrow> plan btx" where
  "FindPlanByCode E code = select_one E plans (\<lambda>p. pl_Code p = code \<and> pl_Active p) ErrPlanNotFound"

definition ListActivePlans :: "billing_env \<Rightarrow> plan list btx" where
  "ListActivePlans E = stmt E (read_st (\<lambda>s. sort_key pl_MinProcesses (filter pl_Active (plans s))))"

definition FindDefaultTrialPolicy :: "billing_env \<Rightarrow> trial_policy btx" where
  "FindDefaultTrialPolicy E =
     select_one E trial_policies (\<lambda>p. tp_IsDefault p \<and> tp_Active p) ErrNoDefaultTrialPolicy"

section \<open>Entitlement\<close>

definition unlimitedActiveProcesses :: int where
  "unlimitedActiveProcesses = 2147483647"

text \<open>Of the subscription only its negotiated price takes part.\<close>

definition effectiveEntitlement :: "int option \<Rightarrow> plan \<Rightarrow> int \<times> int" where
  "effectiveEntitlement custom_price p =
     (case pl_MaxProcesses p of None \<Rightarrow> unlimitedActiveProcesses | Some n \<Rightarrow> n,
      case custom_price of None \<Rightarrow> pl_PricePerProcessCents p | Some c \<Rightarrow> c)"

definition resolveLimit :: "billing_env \<Rightarrow> subscription \<Rightarrow> int btx" where
  "resolveLimit E sub = (case sb_PlanID sub of None \<Rightarrow> ret 0
   | Some planID \<Rightarrow> bind (FindPlanByID E planID) (\<lambda>p.
       ret (fst (effectiveEntitlement (sb_CustomPricePerProcessCents sub) p))))"

text \<open>The trial end is compared with the clock only for a trialing subscription that has one.\<close>

definition trial_lapsed :: "billing_env \<Rightarrow> subscription \<Rightarrow> bool btx" where
  "trial_lapsed E sub = (if sb_Status sub \<noteq> StatusTrialing then ret False
     else case sb_TrialEndsAt sub of None \<Rightarrow> ret False
     | Some t \<Rightarrow> bind (now_tx E) (\<lambda>now. ret (t < now)))"

definition ActiveProcessLimit :: "billing_env \<Rightarrow> string \<Rightarrow> int btx" where
  "ActiveProcessLimit E tenantID =
     bind (attempt (FindByTenant E tenantID)) (\<lambda>r. case r of
       Inl e \<Rightarrow> if e = ErrSubscriptionNotFound then ret 0 else fail e
     | Inr sub \<Rightarrow>
         if sb_Status sub = StatusCanceled \<or> sb_Status sub = StatusPastDue then ret 0
         else bind (trial_lapsed E sub) (\<lambda>lapsed.
           if lapsed then ret 0
           else if sb_Status sub = StatusActive \<or> sb_Status sub = StatusTrialing then resolveLimit E sub
           else ret 0))"


section \<open>Webhooks (domain.go)\<close>

definition consumerBilling :: string where
  "consumerBilling = ''billing''"

definition consumerBillingTrialProvision :: string where
  "consumerBillingTrialProvision = ''billing-trial-provision''"

definition consumerBillingTrialEndSoon :: string where
  "consumerBillingTrialEndSoon = ''billing-trial-ending-soon''"

definition starterPlanCode :: string where
  "starterPlanCode = ''starter''"

definition normalizeStatus :: "string \<Rightarrow> sub_status" where
  "normalizeStatus raw =
     (if raw = ''trialing'' then StatusTrialing
      else if raw = ''past_due'' then StatusPastDue
      else if raw = ''canceled'' then StatusCanceled
      else StatusActive)"

definition resolve_price :: "billing_env \<Rightarrow> string \<Rightarrow> plan btx" where
  "resolve_price E priceID = bind (attempt (FindPlanByStripePriceID E priceID)) (\<lambda>r. case r of
     Inl e \<Rightarrow> if e = ErrPlanNotFound then fail ErrPlanUnresolved else fail e
   | Inr p \<Rightarrow> ret p)"

definition applySubscription :: "billing_env \<Rightarrow> stripe_event \<Rightarrow> (subscription \<Rightarrow> string \<Rightarrow> billing_payload event)
    \<Rightarrow> unit btx" where
  "applySubscription E ev newEvent =
     (if se_TenantID ev = '''' then fail ErrMissingTenant
      else case se_Subscription ev of None \<Rightarrow> fail ErrMalformedEvent
      | Some sub \<Rightarrow> uow_Do E (se_TenantID ev) (once E consumerBilling (se_ID ev)
          (bind (resolve_price E (ss_PriceID sub)) (\<lambda>p.
           bind (UpsertSubscription E
                   \<lparr>up_TenantID = se_TenantID ev, up_StripeCustomerID = ss_CustomerID sub,
                    up_StripeSubscriptionID = ss_ID sub, up_Status = normalizeStatus (ss_Status sub),
                    up_Plan = pl_Name p, up_CurrentPeriodEnd = ss_CurrentPeriodEnd sub,
                    up_ActiveProcessLimit = fst (effectiveEntitlement None p), up_PlanID = Some (pl_ID p),
                    up_CustomPricePerProcessCents = None, up_TrialEndsAt = None\<rparr>) (\<lambda>saved.
           publish_new E (newEvent saved))))))"

definition cancelSubscription :: "billing_env \<Rightarrow> stripe_event \<Rightarrow> unit btx" where
  "cancelSubscription E ev =
     (if se_TenantID ev = '''' then fail ErrMissingTenant
      else uow_Do E (se_TenantID ev) (once E consumerBilling (se_ID ev)
          (bind (UpdateSubscriptionStatus E (se_TenantID ev) StatusCanceled) (\<lambda>_.
           publish_new E (newSubscriptionCanceled (se_TenantID ev))))))"

definition notifyAdmins :: "billing_env \<Rightarrow> string \<Rightarrow> string \<Rightarrow> int \<Rightarrow> unit btx" where
  "notifyAdmins E tenantID invoiceID amountDue = (case b_admins E of None \<Rightarrow> ret ()
   | Some admins \<Rightarrow> bind (lift_sum (admins tenantID)) (\<lambda>ids.
       for_each ids (\<lambda>adminID.
         publish_new E (newPaymentFailedAdminNotification tenantID adminID invoiceID amountDue))))"

definition resolveInvoiceTenant :: "billing_env \<Rightarrow> stripe_event \<Rightarrow> stripe_invoice \<Rightarrow> string btx" where
  "resolveInvoiceTenant E ev invoice =
     (if se_TenantID ev \<noteq> '''' then ret (se_TenantID ev)
      else bind (FindByStripeCustomer E (si_CustomerID invoice)) (\<lambda>sub. ret (sb_TenantID sub)))"

definition failPayment :: "billing_env \<Rightarrow> stripe_event \<Rightarrow> unit btx" where
  "failPayment E ev = (case se_Invoice ev of None \<Rightarrow> fail ErrMalformedEvent
   | Some invoice \<Rightarrow> bind (resolveInvoiceTenant E ev invoice) (\<lambda>tenantID.
       uow_Do E tenantID (once E consumerBilling (se_ID ev)
         (bind (UpdateSubscriptionStatus E tenantID StatusPastDue) (\<lambda>_.
          bind (publish_new E (newPaymentFailed tenantID (si_ID invoice) (si_AmountDue invoice))) (\<lambda>_.
          notifyAdmins E tenantID (si_ID invoice) (si_AmountDue invoice)))))))"

definition dispatch :: "billing_env \<Rightarrow> stripe_event \<Rightarrow> unit btx" where
  "dispatch E ev =
     (if se_Type ev = ''customer.subscription.created'' then applySubscription E ev newSubscriptionActivated
      else if se_Type ev = ''customer.subscription.updated'' then applySubscription E ev newSubscriptionUpdated
      else if se_Type ev = ''customer.subscription.deleted'' then cancelSubscription E ev
      else if se_Type ev = ''invoice.payment_failed'' then failPayment E ev
      else ret ())"

definition HandleWebhook :: "billing_env \<Rightarrow> string \<Rightarrow> string \<Rightarrow> unit btx" where
  "HandleWebhook E payload sigHeader = bind (lift_sum (b_verify E payload sigHeader)) (dispatch E)"

section \<open>Checkout and portal (domain.go)\<close>

definition open_checkout :: "billing_env \<Rightarrow> string \<Rightarrow> string \<Rightarrow> string \<Rightarrow> string btx" where
  "open_checkout E tenantID priceID stored =
     bind (if stored = '''' then lift_sum (b_ensure_customer E tenantID) else ret stored) (\<lambda>customerID.
     lift_sum (b_checkout E
       \<lparr>co_CustomerID = customerID, co_PriceID = priceID, co_TenantID = tenantID,
        co_SuccessURL = b_success_url E, co_CancelURL = b_cancel_url E, co_TrialDays = b_trial_days E\<rparr>))"

definition StartCheckout :: "billing_env \<Rightarrow> string \<Rightarrow> string \<Rightarrow> string btx" where
  "StartCheckout E tenantID priceID =
     bind (attempt (FindByTenant E tenantID)) (\<lambda>r. case r of
       Inl e \<Rightarrow> if e \<noteq> ErrSubscriptionNotFound then fail e else open_checkout E tenantID priceID ''''
     | Inr sub \<Rightarrow>
         if sb_Status sub = StatusActive \<or> sb_Status sub = StatusTrialing then fail ErrAlreadySubscribed
         else open_checkout E tenantID priceID (sb_StripeCustomerID sub))"

definition OpenPortal :: "billing_env \<Rightarrow> string \<Rightarrow> string btx" where
  "OpenPortal E tenantID =
     bind (attempt (FindByTenant E tenantID)) (\<lambda>r. case r of
       Inl e \<Rightarrow> if e = ErrSubscriptionNotFound then fail ErrNoStripeCustomer else fail e
     | Inr sub \<Rightarrow>
         if sb_StripeCustomerID sub = '''' then fail ErrNoStripeCustomer
         else lift_sum (b_portal E (sb_StripeCustomerID sub) (b_return_url E)))"

definition GetSubscription :: "billing_env \<Rightarrow> string \<Rightarrow> subscription btx" where
  "GetSubscription E tenantID = FindByTenant E tenantID"

definition ListPlans :: "billing_env \<Rightarrow> stripe_plan list btx" where
  "ListPlans E = lift_sum (b_list_plans E)"

section \<open>The trial (domain.go)\<close>

definition OnTenantProvisioned :: "billing_env \<Rightarrow> tenant_provisioned \<Rightarrow> unit btx" where
  "OnTenantProvisioned E ev = uow_Do E (tv_TenantID ev)
     (once E consumerBillingTrialProvision (tv_EventID ev)
        (bind (FindDefaultTrialPolicy E) (\<lambda>policy.
         bind (FindPlanByCode E starterPlanCode) (\<lambda>p.
         bind (now_tx E) (\<lambda>now.
         let trialEndsAt = now + tp_TrialDays policy * day_ns in
         bind (UpsertSubscription E
                 \<lparr>up_TenantID = tv_TenantID ev, up_StripeCustomerID = '''', up_StripeSubscriptionID = '''',
                  up_Status = StatusTrialing, up_Plan = pl_Name p, up_CurrentPeriodEnd = zero_time,
                  up_ActiveProcessLimit = tp_ActiveProcessLimit policy, up_PlanID = Some (pl_ID p),
                  up_CustomPricePerProcessCents = None, up_TrialEndsAt = Some trialEndsAt\<rparr>) (\<lambda>saved.
         bind (publish_new E (newSubscriptionActivated saved)) (\<lambda>_.
         publish E (newTrialEndingSoonCheck (sb_TenantID saved) (sb_ID saved) trialEndsAt))))))))"

definition OnTrialEndingSoonCheck :: "billing_env \<Rightarrow> trial_check \<Rightarrow> unit btx" where
  "OnTrialEndingSoonCheck E ev = uow_Do E (tk_TenantID ev)
     (once E consumerBillingTrialEndSoon (tk_EventID ev)
        (bind (attempt (FindByTenant E (tk_TenantID ev))) (\<lambda>r. case r of
           Inl e \<Rightarrow> if e = ErrSubscriptionNotFound then ret () else fail e
         | Inr sub \<Rightarrow> (case (if sb_Status sub = StatusTrialing then sb_TrialEndsAt sub else None) of
             None \<Rightarrow> ret ()
           | Some t \<Rightarrow> bind (now_tx E) (\<lambda>now.
               let daysLeft = daysUntil t now in
               if daysLeft < 0 \<or> trialEndingSoonLeadDays < daysLeft then ret ()
               else publish_new E (newTrialEndingSoon (tk_TenantID ev) t daysLeft))))))"

section \<open>Read model and listener\<close>

datatype trial_view = NotInTrial | TrialActive | TrialEndingSoonView | TrialExpired

record subscription_view =
  sv_Plan :: string
  sv_Status :: sub_status
  sv_CurrentPeriodEnd :: "instant option"
  sv_ActiveProcessLimit :: int
  sv_LocalPlanID :: "string option"
  sv_TrialEndsAt :: "instant option"
  sv_DaysUntilTrialEnd :: "int option"
  sv_TrialStatus :: trial_view

definition newSubscriptionView :: "subscription \<Rightarrow> instant \<Rightarrow> subscription_view" where
  "newSubscriptionView sub now =
     (let v = \<lparr>sv_Plan = sb_Plan sub, sv_Status = sb_Status sub, sv_CurrentPeriodEnd = sb_CurrentPeriodEnd sub,
               sv_ActiveProcessLimit = sb_ActiveProcessLimit sub, sv_LocalPlanID = sb_PlanID sub,
               sv_TrialEndsAt = sb_TrialEndsAt sub, sv_DaysUntilTrialEnd = None, sv_TrialStatus = NotInTrial\<rparr>
      in case (if sb_Status sub = StatusTrialing then sb_TrialEndsAt sub else None) of
        None \<Rightarrow> v
      | Some t \<Rightarrow>
          let daysLeft = daysUntil t now in
          v\<lparr>sv_DaysUntilTrialEnd := Some daysLeft,
            sv_TrialStatus := (if daysLeft < 0 then TrialExpired
              else if daysLeft \<le> trialEndingSoonLeadDays then TrialEndingSoonView else TrialActive)\<rparr>)"

fun isTerminal :: "err \<Rightarrow> bool" where
  "isTerminal (AppErr k msg) \<longleftrightarrow> k = KindInvalid \<or> k = KindNotFound"
| "isTerminal (PlainErr msg) \<longleftrightarrow> False"

end
