(* ===== verification/BillingProperties.thy ===== *)
theory BillingProperties
  imports Billing
begin

text \<open>
  What the billing slice promises: every table of subscriptions its operations lead to is
  sound, the ceiling other slices enforce fails closed, what a trial leaves behind, and what
  a tenant on a trial can and cannot do.
\<close>

section \<open>Operations and reachable databases\<close>

datatype billing_op =
    OpWebhook string string
  | OpProvisioned tenant_provisioned
  | OpTrialCheck trial_check
  | OpCheckout string string
  | OpPortal string
  | OpLimit string

fun run_billing :: "billing_env \<Rightarrow> billing_op \<Rightarrow> billing_db \<Rightarrow> billing_db" where
  "run_billing E (OpWebhook p sig) db = snd (HandleWebhook E p sig db)"
| "run_billing E (OpProvisioned ev) db = snd (OnTenantProvisioned E ev db)"
| "run_billing E (OpTrialCheck ev) db = snd (OnTrialEndingSoonCheck E ev db)"
| "run_billing E (OpCheckout t p) db = snd (StartCheckout E t p db)"
| "run_billing E (OpPortal t) db = snd (OpenPortal E t db)"
| "run_billing E (OpLimit t) db = snd (ActiveProcessLimit E t db)"

text \<open>The catalogs (plans, trial policies) are data of the migrations; no operation writes them.\<close>

inductive billing_reachable :: "billing_db \<Rightarrow> bool" where
  no_subscription: "subscriptions db = [] \<Longrightarrow> billing_reachable db"
| billing_operation: "billing_reachable db \<Longrightarrow> billing_reachable (run_billing E op db)"

definition sound_subscription :: "subscription \<Rightarrow> bool" where
  "sound_subscription r \<longleftrightarrow> sub_status_valid (sb_Status r)
     \<and> - (2 ^ 31) \<le> sb_ActiveProcessLimit r \<and> sb_ActiveProcessLimit r < 2 ^ 31"

definition sound_subscriptions :: "subscription list \<Rightarrow> bool" where
  "sound_subscriptions S \<longleftrightarrow> distinct (map sb_ID S) \<and> distinct (map sb_TenantID S)
     \<and> distinct (filter (\<lambda>c. c \<noteq> '''') (map sb_StripeCustomerID S)) \<and> (\<forall>r \<in> set S. sound_subscription r)"

section \<open>Writes keep the table sound\<close>

lemma to_int32_range: "- (2 ^ 31) \<le> to_int32 x \<and> to_int32 x < 2 ^ 31"
  unfolding to_int32_def
  using signed_take_bit_int_greater_eq_minus_exp [of 31 x] signed_take_bit_int_less_exp [of 31 x] by simp

lemma sound_insert:
  assumes "sound_subscriptions S" and "sound_subscription row" and "sb_ID row \<notin> sb_ID ` set S"
    and "sb_TenantID row \<notin> sb_TenantID ` set S"
    and "sb_StripeCustomerID row \<noteq> '''' \<Longrightarrow> sb_StripeCustomerID row \<notin> sb_StripeCustomerID ` set S"
  shows "sound_subscriptions (S @ [row])"
  using assms by (auto simp: sound_subscriptions_def)

lemma sound_replace:
  assumes S: "sound_subscriptions S" and r: "r \<in> set S" and row: "sound_subscription row"
    and same: "sb_ID row = sb_ID r" "sb_TenantID row = sb_TenantID r"
    and free: "\<forall>q \<in> set S. sb_TenantID q \<noteq> sb_TenantID r \<longrightarrow> sb_StripeCustomerID row \<noteq> ''''
        \<longrightarrow> sb_StripeCustomerID q \<noteq> sb_StripeCustomerID row"
  shows "sound_subscriptions (update_rows (\<lambda>q. sb_TenantID q = sb_TenantID r) (\<lambda>_. row) S)"
proof -
  have d: "distinct (map sb_ID S)" "distinct (map sb_TenantID S)"
    "distinct (filter (\<lambda>c. c \<noteq> '''') (map sb_StripeCustomerID S))" using S by (simp_all add: sound_subscriptions_def)
  have only: "q = r" if "q \<in> set S" "sb_TenantID q = sb_TenantID r" for q
    using distinct_map_inj [OF d(2) that(1) r that(2)] .
  have "map sb_ID (update_rows (\<lambda>q. sb_TenantID q = sb_TenantID r) (\<lambda>_. row) S) = map sb_ID S"
    "map sb_TenantID (update_rows (\<lambda>q. sb_TenantID q = sb_TenantID r) (\<lambda>_. row) S) = map sb_TenantID S"
    using only same by (auto simp: update_rows_def)
  moreover have "distinct (filter (\<lambda>c. c \<noteq> '''') (map sb_StripeCustomerID
      (update_rows (\<lambda>q. sb_TenantID q = sb_TenantID r) (\<lambda>_. row) S)))"
    by (rule filtered_update [OF d(2) r d(3) _ refl]) (use free in auto)
  moreover have "\<forall>q \<in> set (update_rows (\<lambda>q. sb_TenantID q = sb_TenantID r) (\<lambda>_. row) S). sound_subscription q"
    using S row by (auto simp: set_update_rows sound_subscriptions_def)
  ultimately show ?thesis using d by (simp add: sound_subscriptions_def)
qed


section \<open>Every operation keeps it\<close>

abbreviation subs_sound :: "billing_db \<Rightarrow> bool" where
  "subs_sound s \<equiv> sound_subscriptions (subscriptions s)"

lemma frame_subs [simp]: "frame subs_sound"
  by (simp add: frame_def)

lemma subs_publish [keeps_rules]: "keeps subs_sound (publish E ev)"
  unfolding publish_def by (rule keeps_stmt) (auto simp: keeps_def modify_st_def insert_outbox_def)

lemma subs_publish_new [keeps_rules]: "keeps subs_sound (publish_new E mk)"
  unfolding publish_new_def by (intro keeps_bind keeps_next_id subs_publish frame_subs)

lemma subs_mark [keeps_rules]: "keeps subs_sound (SeenOrMark E c i)"
  unfolding SeenOrMark_def by (rule keeps_stmt) (auto simp: keeps_def seen_or_mark_def split: if_splits)

lemma subs_upsert [keeps_rules]:
  assumes "sub_status_valid (up_Status p)"
  shows "keeps subs_sound (UpsertSubscription E p)"
  unfolding UpsertSubscription_def
proof (intro keeps_bind keeps_parse keeps_next_id keeps_stmt frame_subs, unfold keeps_def, intro allI impI)
  fix tenant i s
  assume S: "subs_sound s"
  define taken where "taken \<longleftrightarrow> up_StripeCustomerID p \<noteq> ''''
      \<and> find_row (\<lambda>r. sb_StripeCustomerID r = up_StripeCustomerID p \<and> sb_TenantID r \<noteq> tenant) (subscriptions s) \<noteq> None"
  have ok: "sound_subscription (upsert_row E p i n a b)" for i n a b
    using assms to_int32_range by (simp add: sound_subscription_def upsert_row_def)
  have new: "sound_subscriptions (subscriptions s @ [upsert_row E p i tenant None None])"
    if "\<not> taken" "find_row (\<lambda>r. sb_TenantID r = tenant) (subscriptions s) = None"
      "find_row (\<lambda>r. sb_ID r = i) (subscriptions s) = None"
    using that by (intro sound_insert [OF S ok]) (auto simp: upsert_row_def find_row_None taken_def)
  have old: "sound_subscriptions (update_rows (\<lambda>q. sb_TenantID q = tenant) (\<lambda>_. upsert_row E p (sb_ID r) tenant a b) (subscriptions s))"
    if "\<not> taken" "find_row (\<lambda>r. sb_TenantID r = tenant) (subscriptions s) = Some r" for r a b
  proof -
    have r: "r \<in> set (subscriptions s)" "sb_TenantID r = tenant" using find_row_Some [OF that(2)] by simp_all
    show ?thesis unfolding r(2) [symmetric]
      by (rule sound_replace [OF S r(1) ok]) (use that(1) r(2) in \<open>auto simp: upsert_row_def find_row_None taken_def\<close>)
  qed
  show "subs_sound (snd (if up_StripeCustomerID p \<noteq> ''''
          \<and> find_row (\<lambda>r. sb_StripeCustomerID r = up_StripeCustomerID p \<and> sb_TenantID r \<noteq> tenant) (subscriptions s) \<noteq> None
       then (Inl WrapInfra, s)
       else case find_row (\<lambda>r. sb_TenantID r = tenant) (subscriptions s) of
         None \<Rightarrow>
           let row = upsert_row E p i tenant None None in
           if find_row (\<lambda>r. sb_ID r = i) (subscriptions s) \<noteq> None then (Inl WrapInfra, s)
           else (Inr row, s\<lparr>subscriptions := subscriptions s @ [row]\<rparr>)
       | Some r \<Rightarrow>
           let row = upsert_row E p (sb_ID r) tenant (sb_CustomPricePerProcessCents r) (sb_TrialEndsAt r) in
           (Inr row, s\<lparr>subscriptions := update_rows (\<lambda>q. sb_TenantID q = tenant) (\<lambda>_. row) (subscriptions s)\<rparr>)))"
    unfolding taken_def [symmetric]
    using S new old by (auto simp: Let_def split: option.splits)
qed

lemma subs_flip [keeps_rules]:
  assumes "sub_status_valid st"
  shows "keeps subs_sound (UpdateSubscriptionStatus E n st)"
  unfolding UpdateSubscriptionStatus_def
proof (intro keeps_bind keeps_parse keeps_stmt frame_subs, unfold keeps_def, intro allI impI)
  fix tenant s assume S: "subs_sound s"
  let ?S = "update_rows (\<lambda>q. sb_TenantID q = tenant) (\<lambda>q. q\<lparr>sb_Status := st\<rparr>) (subscriptions s)"
  have "map sb_ID ?S = map sb_ID (subscriptions s)" "map sb_TenantID ?S = map sb_TenantID (subscriptions s)"
    "map sb_StripeCustomerID ?S = map sb_StripeCustomerID (subscriptions s)"
    by (simp_all add: map_update_rows)
  moreover have "\<forall>r \<in> set ?S. sound_subscription r"
    using S assms by (auto simp: set_update_rows sound_subscriptions_def sound_subscription_def)
  ultimately have "sound_subscriptions ?S" using S by (simp add: sound_subscriptions_def)
  then show "subs_sound (snd (case find_row (\<lambda>r. sb_TenantID r = tenant) (subscriptions s) of
         None \<Rightarrow> (Inl ErrSubscriptionNotFound, s)
       | Some r \<Rightarrow> (Inr (r\<lparr>sb_Status := st\<rparr>), s\<lparr>subscriptions := ?S\<rparr>)))"
    using S by (simp split: option.splits)
qed


lemma normal_status_valid [simp]: "sub_status_valid (normalizeStatus raw)"
  by (simp add: normalizeStatus_def sub_status_valid_def)

lemma product_status_valid [simp]:
  "sub_status_valid StatusTrialing" "sub_status_valid StatusCanceled" "sub_status_valid StatusPastDue"
  by (simp_all add: sub_status_valid_def)

lemma billing_reads_keep [keeps_rules]:
  "keeps subs_sound (FindByTenant E t)" "keeps subs_sound (FindByStripeCustomer E c)"
  "keeps subs_sound (FindPlanByID E i)" "keeps subs_sound (FindPlanByStripePriceID E p)"
  "keeps subs_sound (FindPlanByCode E c)" "keeps subs_sound (FindDefaultTrialPolicy E)"
  unfolding FindByTenant_def FindByStripeCustomer_def FindPlanByID_def FindPlanByStripePriceID_def
    FindPlanByCode_def FindDefaultTrialPolicy_def
  by (intro keeps_rules frame_subs)+

lemma billing_steps_keep:
  "keeps subs_sound (dispatch E ev)" "keeps subs_sound (OnTenantProvisioned E tv)"
  "keeps subs_sound (OnTrialEndingSoonCheck E tk)" "keeps subs_sound (StartCheckout E t p)"
  "keeps subs_sound (OpenPortal E t)" "keeps subs_sound (ActiveProcessLimit E t)"
  unfolding dispatch_def applySubscription_def cancelSubscription_def failPayment_def resolveInvoiceTenant_def
    resolve_price_def notifyAdmins_def once_or_def OnTenantProvisioned_def OnTrialEndingSoonCheck_def
    StartCheckout_def open_checkout_def OpenPortal_def ActiveProcessLimit_def trial_lapsed_def resolveLimit_def Let_def
  by (intro keeps_rules keeps_uow frame_subs; simp)+

lemma run_billing_keeps: "subs_sound db \<Longrightarrow> subs_sound (run_billing E op db)"
proof (cases op)
  case (OpWebhook p sig)
  assume S: "subs_sound db"
  have "keeps subs_sound (HandleWebhook E p sig)"
    unfolding HandleWebhook_def by (intro keeps_bind keeps_lift billing_steps_keep(1))
  from keepsD [OF this S] OpWebhook show ?thesis by simp
qed (auto intro: keepsD [OF billing_steps_keep(2)] keepsD [OF billing_steps_keep(3)] keepsD [OF billing_steps_keep(4)]
      keepsD [OF billing_steps_keep(5)] keepsD [OF billing_steps_keep(6)])

text \<open>
  C25: whatever webhooks, events and requests arrive, in any order and with any failures, a
  tenant has at most one subscription, a customer of the provider belongs to at most one
  tenant, every status is one of the four of the product and every ceiling fits its column.
\<close>

theorem subscriptions_sound:
  assumes "billing_reachable db"
  shows "sound_subscriptions (subscriptions db)"
  using assms
  by induction (simp add: sound_subscriptions_def, rule run_billing_keeps)

section \<open>The enforced ceiling\<close>

lemma billing_reads_silent [silent_rules]:
  "silent (FindByTenant E t)" "silent (FindByStripeCustomer E c)" "silent (FindPlanByID E i)"
  "silent (FindPlanByStripePriceID E p)" "silent (FindPlanByCode E c)" "silent (FindDefaultTrialPolicy E)"
  "silent (resolveLimit E sub)" "silent (trial_lapsed E sub)"
  unfolding FindByTenant_def FindByStripeCustomer_def FindPlanByID_def FindPlanByStripePriceID_def
    FindPlanByCode_def FindDefaultTrialPolicy_def resolveLimit_def trial_lapsed_def
  by (intro silent_rules)+

lemma billing_view_tables:
  "plans (view s) = plans s" "subscriptions (view s) = subscriptions s" "trial_policies (view s) = trial_policies s"
  by (simp_all add: view_def)

lemma found_tenant:
  assumes "FindByTenant E t s = (Inr sub, s')"
  shows "e_parse_uuid E t = Some (sb_TenantID sub)" and "sub \<in> set (subscriptions s)"
    and "reads s' = reads s" and "view s' = view s"
  using assms silent_run [OF billing_reads_silent(1) assms] unfolding FindByTenant_def select_one_def stmt_def Let_def
  by (auto elim!: parse_then dest!: find_row_Some split: option.splits if_splits)


text \<open>
  C26: a ceiling other than 0 is given only to a tenant whose subscription is active, or on a
  trial that has not ended, and it is the ceiling of the subscription's plan; in every other
  case in which the call answers at all, the answer is 0.
\<close>

theorem entitlement_fails_closed:
  assumes run: "ActiveProcessLimit E tenantID s = (Inr n, s')" and pos: "n \<noteq> 0"
  shows "\<exists>sub p. sub \<in> set (subscriptions s) \<and> e_parse_uuid E tenantID = Some (sb_TenantID sub)
     \<and> (sb_Status sub = StatusActive
         \<or> sb_Status sub = StatusTrialing \<and> (case sb_TrialEndsAt sub of None \<Rightarrow> True | Some t \<Rightarrow> e_clock E (reads s) \<le> t))
     \<and> p \<in> set (plans s) \<and> Some (Some (pl_ID p)) = map_option (e_parse_uuid E) (sb_PlanID sub)
     \<and> n = fst (effectiveEntitlement None p)"
proof -
  obtain sub s1 where f: "FindByTenant E tenantID s = (Inr sub, s1)"
    and st: "sb_Status sub \<noteq> StatusCanceled" "sb_Status sub \<noteq> StatusPastDue"
    and rest: "bind (trial_lapsed E sub) (\<lambda>lapsed. if lapsed then ret 0
        else if sb_Status sub = StatusActive \<or> sb_Status sub = StatusTrialing then resolveLimit E sub
        else ret 0) s1 = (Inr n, s')"
    using run pos unfolding ActiveProcessLimit_def
    by (auto elim!: bind_InrE attempt_InrE split: sum.splits if_splits)
  obtain lapsed s2 where l: "trial_lapsed E sub s1 = (Inr lapsed, s2)" and "\<not> lapsed"
    and act: "sb_Status sub = StatusActive \<or> sb_Status sub = StatusTrialing"
    and r: "resolveLimit E sub s2 = (Inr n, s')"
    using rest pos by (auto elim!: bind_InrE split: if_splits)
  note found = found_tenant [OF f]
  have v: "view s2 = view s" using silent_run [OF billing_reads_silent(8) l] found(4) by simp
  then have pl: "plans s2 = plans s" by (metis billing_view_tables(1))
  have time: "sb_Status sub = StatusTrialing \<Longrightarrow>
      (case sb_TrialEndsAt sub of None \<Rightarrow> True | Some t \<Rightarrow> e_clock E (reads s) \<le> t)"
    using l \<open>\<not> lapsed\<close> found(3) unfolding trial_lapsed_def
    by (auto elim!: bind_InrE simp: now_tx_apply split: option.splits)
  obtain i p where "sb_PlanID sub = Some i" "e_parse_uuid E i = Some (pl_ID p)" "p \<in> set (plans s2)"
    and "n = fst (effectiveEntitlement (sb_CustomPricePerProcessCents sub) p)"
    using r pos unfolding resolveLimit_def FindPlanByID_def select_one_def
    by (auto elim!: bind_InrE dest!: parse_InrD stmt_InrD find_row_Some split: option.splits)
  then show ?thesis using found(1,2) act time pl
    by (intro exI [of _ sub] exI [of _ p]) (auto simp: effectiveEntitlement_def)
qed


section \<open>A tenant on a local trial\<close>

definition on_local_trial :: "string \<Rightarrow> billing_db \<Rightarrow> bool" where
  "on_local_trial u s \<longleftrightarrow> u \<in> sb_TenantID ` set (subscriptions s)
     \<and> (\<forall>r \<in> set (subscriptions s). sb_TenantID r = u \<longrightarrow> sb_Status r = StatusTrialing \<and> sb_StripeCustomerID r = '''')"

lemma frame_trial [simp]: "frame (on_local_trial u)"
  by (simp add: frame_def on_local_trial_def)

lemma upsert_row_fields [simp]:
  "sb_TenantID (upsert_row E p i t a b) = t" "sb_Status (upsert_row E p i t a b) = up_Status p"
  "sb_StripeCustomerID (upsert_row E p i t a b) = up_StripeCustomerID p"
  by (simp_all add: upsert_row_def)

lemma tenants_update:
  assumes "sb_TenantID row = x"
  shows "sb_TenantID ` set (update_rows (\<lambda>q. sb_TenantID q = x) (\<lambda>_. row) S) = sb_TenantID ` set S"
proof -
  have "map sb_TenantID (update_rows (\<lambda>q. sb_TenantID q = x) (\<lambda>_. row) S) = map sb_TenantID S"
    using assms by (auto simp: update_rows_def)
  from arg_cong [OF this, of set] show ?thesis by (simp only: set_map)
qed

lemma trial_upsert:
  assumes "UpsertSubscription E p s = (Inr saved, s')" and "up_Status p = StatusTrialing" and "up_StripeCustomerID p = ''''"
    and "e_parse_uuid E (up_TenantID p) = Some u"
  shows "on_local_trial u s'"
proof -
  have "\<exists>i a b. (subscriptions s' = subscriptions s @ [upsert_row E p i u a b]
        \<and> find_row (\<lambda>r. sb_TenantID r = u) (subscriptions s) = None)
      \<or> (subscriptions s' = update_rows (\<lambda>q. sb_TenantID q = u) (\<lambda>_. upsert_row E p i u a b) (subscriptions s)
        \<and> find_row (\<lambda>r. sb_TenantID r = u) (subscriptions s) \<noteq> None)"
    using assms(1,3,4) unfolding UpsertSubscription_def
    by (auto elim!: parse_then id_then dest!: stmt_InrD simp: Let_def split: option.splits if_splits) blast+
  then show ?thesis
    by (elim exE disjE conjE) (auto simp: on_local_trial_def assms(2,3) tenants_update set_update_rows find_row_None)
qed

lemma trial_writes_keep [keeps_rules]:
  "keeps (on_local_trial u) (publish_new E mk)" "keeps (on_local_trial u) (publish E ev)"
  "keeps (on_local_trial u) (SeenOrMark E c i)"
  unfolding publish_new_def publish_def SeenOrMark_def
  by (intro keeps_bind keeps_next_id keeps_stmt frame_trial;
      auto simp: keeps_def modify_st_def insert_outbox_def on_local_trial_def seen_or_mark_def split: if_splits)+

lemma trial_upsert_keeps:
  assumes "up_Status p = StatusTrialing" and "up_StripeCustomerID p = ''''"
  shows "keeps (on_local_trial u) (UpsertSubscription E p)"
  using assms unfolding UpsertSubscription_def
  by (intro keeps_bind keeps_parse keeps_next_id keeps_stmt frame_trial)
    (auto simp: keeps_def Let_def on_local_trial_def set_update_rows tenants_update split: option.splits)

lemma trial_steps_keep:
  "keeps (on_local_trial u) (OnTenantProvisioned E tv)"
  "keeps (on_local_trial u) (OnTrialEndingSoonCheck E tk)" "keeps (on_local_trial u) (StartCheckout E t p)"
  "keeps (on_local_trial u) (OpenPortal E t)" "keeps (on_local_trial u) (ActiveProcessLimit E t)"
  unfolding once_or_def OnTenantProvisioned_def OnTrialEndingSoonCheck_def FindByTenant_def FindPlanByID_def
    FindPlanByCode_def FindDefaultTrialPolicy_def StartCheckout_def open_checkout_def OpenPortal_def
    ActiveProcessLimit_def trial_lapsed_def resolveLimit_def Let_def
  by (intro keeps_rules keeps_uow trial_upsert_keeps frame_trial; simp)+


fun is_webhook :: "billing_op \<Rightarrow> bool" where
  "is_webhook (OpWebhook p sig) \<longleftrightarrow> True"
| "is_webhook op \<longleftrightarrow> False"

lemma trial_kept: "on_local_trial u db \<Longrightarrow> \<not> is_webhook op \<Longrightarrow> on_local_trial u (run_billing E op db)"
  by (cases op) (auto intro: keepsD [OF trial_steps_keep(1)] keepsD [OF trial_steps_keep(2)]
      keepsD [OF trial_steps_keep(3)] keepsD [OF trial_steps_keep(4)] keepsD [OF trial_steps_keep(5)])

lemma trials_kept:
  "on_local_trial u db \<Longrightarrow> list_all (\<lambda>op. \<not> is_webhook op) ops \<Longrightarrow> on_local_trial u (fold (run_billing E) ops db)"
  by (induction ops arbitrary: db) (simp_all add: trial_kept)

lemma trial_provisioned:
  assumes run: "OnTenantProvisioned E ev db = (Inr (), db')"
    and new: "(consumerBillingTrialProvision, tv_EventID ev) \<notin> set (processed db)"
    and u: "e_parse_uuid E (tv_TenantID ev) = Some u"
  shows "on_local_trial u db'"
  apply (rule first_run [OF run [unfolded OnTenantProvisioned_def] new])
  apply (unfold Let_def, elim bind_InrE)
  apply (rule keeps_run [OF trial_writes_keep(2)], assumption)
  apply (rule keeps_run [OF trial_writes_keep(1)], assumption)
  apply (rule trial_upsert, assumption)
    apply (simp_all add: u)
  done

lemma trial_found:
  assumes trial: "on_local_trial u s" and u: "e_parse_uuid E t = Some u" and run: "FindByTenant E t s = (r, s')"
  shows "case r of Inl e \<Rightarrow> e = WrapInfra
         | Inr sub \<Rightarrow> sb_Status sub = StatusTrialing \<and> sb_StripeCustomerID sub = ''''"
proof -
  obtain sub where f: "find_row (\<lambda>q. sb_TenantID q = u) (subscriptions s) = Some sub"
    using trial unfolding on_local_trial_def by (metis (mono_tags, lifting) find_row_None imageE not_None_eq)
  then have "sb_Status sub = StatusTrialing \<and> sb_StripeCustomerID sub = ''''"
    using find_row_Some [OF f] trial by (simp add: on_local_trial_def)
  then show ?thesis using run f
    by (auto simp: FindByTenant_def select_one_def stmt_def Let_def parseUUID_def u split: if_splits)
qed

text \<open>
  C27: a tenant provisioned on a local trial cannot leave it by its own requests: after any
  sequence of handlers and requests other than webhooks of the provider, the checkout answers
  with an error whatever the price asked for, and so does the portal.
\<close>

theorem trial_locks_checkout:
  assumes "OnTenantProvisioned E ev db = (Inr (), db')"
    and "(consumerBillingTrialProvision, tv_EventID ev) \<notin> set (processed db)"
    and "e_parse_uuid E (tv_TenantID ev) = Some u" and "e_parse_uuid E' t = Some u"
    and "list_all (\<lambda>op. \<not> is_webhook op) ops"
  shows "isl (fst (StartCheckout E' t price (fold (run_billing E') ops db')))
       \<and> isl (fst (OpenPortal E' t (fold (run_billing E') ops db')))"
proof -
  have trial: "on_local_trial u (fold (run_billing E') ops db')"
    using trials_kept [OF trial_provisioned [OF assms(1-3)] assms(5)] .
  obtain r s' where f: "FindByTenant E' t (fold (run_billing E') ops db') = (r, s')" by fastforce
  have "WrapInfra \<noteq> ErrSubscriptionNotFound"
    by (simp add: WrapInfra_def ErrSubscriptionNotFound_def NewInfra_def NewNotFound_def)
  then show ?thesis
    using trial_found [OF trial assms(4) f] unfolding StartCheckout_def OpenPortal_def
    by (cases r) (simp_all add: bind_def attempt_apply f)
qed


section \<open>A concrete office\<close>

text \<open>
  The catalogs of the migrations: the Starter plan, up to 100 processes, and the default trial
  policy of 14 days and 20 processes. Noon of 2 March 2026 is the clock of the first run.
\<close>

definition bill_env :: billing_env where
  "bill_env =
     \<lparr>e_tx_time = midnight 20514, e_clock = (\<lambda>n. midnight 20514 + int n), e_parse_uuid = Some,
      e_gen = (\<lambda>n. replicate (Suc n) CHR ''u''), e_fault = (\<lambda>_. False), e_begin_fails = False,
      e_commit_fails = False, b_admins = None, b_verify = (\<lambda>_ _. Inl ErrMalformedEvent),
      b_ensure_customer = (\<lambda>t. Inr (''cus_'' @ t)), b_checkout = (\<lambda>_. Inr ''https://pay''),
      b_portal = (\<lambda>_ _. Inr ''https://portal''), b_list_plans = Inr [], b_success_url = ''s'',
      b_cancel_url = ''c'', b_return_url = ''r'', b_trial_days = 0\<rparr>"

definition bill_db :: billing_db where
  "bill_db =
     \<lparr>outbox = [], outbox_seq = 0, processed = [], id_seq = 0, stmts = 0, reads = 0, subscriptions = [],
      plans = [\<lparr>pl_ID = ''p1'', pl_Code = ''starter'', pl_Name = ''Starter'', pl_MinProcesses = 1,
        pl_MaxProcesses = Some 100, pl_PricePerProcessCents = 50, pl_StripePriceID = None, pl_Active = True\<rparr>],
      trial_policies = [\<lparr>tp_Name = ''default'', tp_IsDefault = True, tp_TrialDays = 14,
        tp_ActiveProcessLimit = 20, tp_Active = True\<rparr>]\<rparr>"

definition bill_event :: tenant_provisioned where
  "bill_event = \<lparr>tv_EventID = ''ev1'', tv_TenantID = ''ten''\<rparr>"

definition trial_db :: billing_db where
  "trial_db = snd (OnTenantProvisioned bill_env bill_event bill_db)"

lemma trial_run: "OnTenantProvisioned bill_env bill_event bill_db = (Inr (), trial_db)"
  unfolding trial_db_def by code_simp

lemma trial_limits: "map sb_ActiveProcessLimit (subscriptions trial_db) = [20]"
  "fst (ActiveProcessLimit bill_env ''ten'' trial_db) = Inr 100"
  unfolding trial_db_def by code_simp+


lemma subscriptions_sound_witness: "sound_subscriptions (subscriptions trial_db) \<and> subscriptions trial_db \<noteq> []"
proof -
  have "billing_reachable (run_billing bill_env (OpProvisioned bill_event) bill_db)"
    by (intro billing_operation no_subscription) (simp add: bill_db_def)
  then have "billing_reachable trial_db" by (simp only: run_billing.simps trial_db_def)
  from subscriptions_sound [OF this] trial_limits(1) show ?thesis by auto
qed

text \<open>The office stores the 20 processes of the trial policy; the ceiling in force is the 100 of the plan.\<close>

lemma entitlement_fails_closed_witness:
  "\<exists>sub p. sub \<in> set (subscriptions trial_db) \<and> sb_ActiveProcessLimit sub = 20
     \<and> p \<in> set (plans trial_db) \<and> fst (effectiveEntitlement None p) = 100"
proof -
  obtain s' where run: "ActiveProcessLimit bill_env ''ten'' trial_db = (Inr 100, s')"
    using trial_limits(2) by (metis prod.collapse)
  obtain sub p where "sub \<in> set (subscriptions trial_db)" "p \<in> set (plans trial_db)"
    "100 = fst (effectiveEntitlement None p)"
    using entitlement_fails_closed [OF run] by auto
  moreover have "sb_ActiveProcessLimit sub = 20"
    using trial_limits(1) calculation(1) by auto
  ultimately show ?thesis by auto
qed

lemma trial_locks_checkout_witness:
  "isl (fst (StartCheckout bill_env ''ten'' ''price_growth'' (fold (run_billing bill_env) [OpPortal ''ten'', OpLimit ''ten''] trial_db)))
   \<and> isl (fst (OpenPortal bill_env ''ten'' (fold (run_billing bill_env) [OpPortal ''ten'', OpLimit ''ten''] trial_db)))
   \<and> fst (StartCheckout bill_env ''ten'' ''price_growth'' bill_db) = Inr ''https://pay''"
proof -
  have "fst (StartCheckout bill_env ''ten'' ''price_growth'' bill_db) = Inr ''https://pay''" by code_simp
  then show ?thesis
    using trial_locks_checkout [OF trial_run, of "''ten''" bill_env "''ten''"
        "[OpPortal ''ten'', OpLimit ''ten'']" "''price_growth''"]
    by (simp add: bill_event_def bill_env_def bill_db_def del: fold.simps)
qed

end
