(* ===== verification/Notifications.thy ===== *)
theory Notifications
  imports Transaction "HOL-Library.Char_ord" "HOL-Library.List_Lexorder" "HOL-Library.Product_Lexorder"
begin

text \<open>
  \<open>internal/notifications\<close>: the avisos. Events of the other slices become rows of
  \<open>notification\<close> with one delivery each; the ones by e-mail are sent after the transaction
  that wrote them has committed, the ones in the app are pushed to the browsers of the tenant.
  Users have preferences and read receipts; the e-mail provider reports bounces. A nullable
  text or uuid read as the empty string is a string. What leaves the process, the e-mails
  handed to the provider and the pushes, is logged in the state.
\<close>

section \<open>Entities (entity.go, errors.go)\<close>

datatype delivery_status =
    DeliveryQueued | DeliverySent | DeliveryFailed | DeliveryBounced | DeliveryComplained | DeliverySkipped

definition ChannelEmail :: string where
  "ChannelEmail = ''EMAIL''"

definition ChannelInApp :: string where
  "ChannelInApp = ''IN_APP''"

definition ValidChannel :: "string \<Rightarrow> bool" where
  "ValidChannel c \<longleftrightarrow> c = ChannelEmail \<or> c = ChannelInApp"

definition TypeImportFinished :: string where "TypeImportFinished = ''import_finished''"
definition TypeNewAndamento :: string where "TypeNewAndamento = ''new_andamento''"
definition TypeDeadlineDueSoonAviso :: string where "TypeDeadlineDueSoonAviso = ''deadline_due_soon''"
definition TypeDeadlineMissedAviso :: string where "TypeDeadlineMissedAviso = ''deadline_missed''"
definition TypeTrialEndingSoonAviso :: string where "TypeTrialEndingSoonAviso = ''trial_ending_soon''"
definition TypePaymentFailedAviso :: string where "TypePaymentFailedAviso = ''payment_failed''"
definition TypeFilingSucceededAviso :: string where "TypeFilingSucceededAviso = ''filing_succeeded''"
definition TypeFilingFailedAviso :: string where "TypeFilingFailedAviso = ''filing_failed''"
definition TypeDeadlineResolvedOnConclusionAviso :: string where
  "TypeDeadlineResolvedOnConclusionAviso = ''deadline_resolved_on_conclusion''"
definition TypeMemberJoinedAviso :: string where "TypeMemberJoinedAviso = ''member_joined''"

definition validNotificationTypes :: "string list" where
  "validNotificationTypes =
     [TypeImportFinished, TypeNewAndamento, TypeDeadlineDueSoonAviso, TypeDeadlineMissedAviso,
      TypeTrialEndingSoonAviso, TypePaymentFailedAviso, TypeMemberJoinedAviso, TypeFilingSucceededAviso,
      TypeFilingFailedAviso, TypeDeadlineResolvedOnConclusionAviso]"

definition ValidNotificationType :: "string \<Rightarrow> bool" where
  "ValidNotificationType t \<longleftrightarrow> t \<in> set validNotificationTypes"

text \<open>The values a payload holds, and a payload: the fields in order.\<close>

datatype jval = JStr string | JInt int | JTime instant

type_synonym json = "(string \<times> jval) list"

record notification =
  nt_ID :: string
  nt_TenantID :: string
  nt_RecipientUserID :: string
  nt_Type :: string
  nt_Title :: string
  nt_Body :: string
  nt_Payload :: json
  nt_CreatedAt :: instant

record notification_preference =
  np_TenantID :: string
  np_AppUserID :: string
  np_Type :: string
  np_Channels :: "string list"

record notification_delivery =
  nd_ID :: string
  nd_NotificationID :: string
  nd_TenantID :: string
  nd_Channel :: string
  nd_Status :: delivery_status
  nd_ProviderMessageID :: string
  nd_Error :: string

definition ErrRecipientNotFound :: err where
  "ErrRecipientNotFound = NewNotFound ''notification recipient not found''"

definition ErrDeliveryNotFound :: err where
  "ErrDeliveryNotFound = NewNotFound ''notification delivery not found''"

definition ErrNotificationNotFound :: err where
  "ErrNotificationNotFound = NewNotFound ''notification not found''"

definition ErrTemplateNotFound :: err where
  "ErrTemplateNotFound = NewInvalid ''no email template for notification type''"

definition ErrPreferenceNotFound :: err where
  "ErrPreferenceNotFound = NewNotFound ''notification preference not found''"

definition noRecipientEmailReason :: string where
  "noRecipientEmailReason = ''recipient could not be resolved to an e-mail''"

definition skippedByPreferenceReason :: string where
  "skippedByPreferenceReason = ''recipient opted this type out of this channel''"

section \<open>State and environment\<close>

text \<open>The tables of the slice, the two foreign tables it reads, and the two logs.\<close>

record app_user_row =
  au_ID :: string
  au_TenantID :: string
  au_Email :: string

record backfill_row =
  bj_TenantID :: string
  bj_Status :: string

text \<open>Read receipts, the primary key being (notification, user).\<close>

record read_receipt =
  rr_NotificationID :: string
  rr_UserID :: string
  rr_TenantID :: string

record email =
  em_To :: string
  em_Subject :: string
  em_Body :: string

record in_app_push =
  ip_Channel :: string
  ip_ID :: string
  ip_Type :: string
  ip_Title :: string
  ip_Body :: string
  ip_CreatedAt :: instant

record notif_db = "unit tx_db" +
  notifications :: "notification list"
  deliveries :: "notification_delivery list"
  receipts :: "read_receipt list"
  preferences :: "notification_preference list"
  app_users :: "app_user_row list"
  backfill_jobs :: "backfill_row list"
  mailed :: "email list"
  pushed :: "in_app_push list"

text \<open>
  The ports: the execution of a named template on a payload, and the client of the provider,
  which answers the n-th e-mail handed to it with a message id or an error.
\<close>

record notif_env = tx_env +
  n_render :: "string \<Rightarrow> json \<Rightarrow> err + string"
  n_client :: "nat \<Rightarrow> email \<Rightarrow> err + string"

type_synonym 'a ntx = "(notif_db, 'a) tx"

section \<open>Repository (repository.go, queries/notifications.sql)\<close>

record insert_notification_params =
  ni_TenantID :: string
  ni_RecipientUserID :: string
  ni_Type :: string
  ni_Title :: string
  ni_Body :: string
  ni_Payload :: json

text \<open>The primary keys are drawn by \<open>gen_random_uuid\<close>; a collision is a driver error.\<close>

definition InsertNotification :: "notif_env \<Rightarrow> insert_notification_params \<Rightarrow> notification ntx" where
  "InsertNotification E p =
     bind (parseUUID E (ni_TenantID p)) (\<lambda>tenant.
     bind (pgOptionalUUID E (ni_RecipientUserID p)) (\<lambda>recipient.
     bind (next_id E) (\<lambda>i. stmt E (\<lambda>s.
       if find_row (\<lambda>n. nt_ID n = i) (notifications s) \<noteq> None then (Inl WrapInfra, s)
       else let row = \<lparr>nt_ID = i, nt_TenantID = tenant, nt_RecipientUserID = recipient, nt_Type = ni_Type p,
                       nt_Title = ni_Title p, nt_Body = ni_Body p, nt_Payload = ni_Payload p,
                       nt_CreatedAt = e_tx_time E\<rparr>
            in (Inr row, s\<lparr>notifications := notifications s @ [row]\<rparr>)))))"

record insert_delivery_params =
  di_NotificationID :: string
  di_TenantID :: string
  di_Channel :: string
  di_Status :: delivery_status
  di_Error :: string

text \<open>\<open>UNIQUE (notification_id, channel)\<close>.\<close>

definition InsertDelivery :: "notif_env \<Rightarrow> insert_delivery_params \<Rightarrow> notification_delivery ntx" where
  "InsertDelivery E p =
     bind (parseUUID E (di_NotificationID p)) (\<lambda>nid.
     bind (parseUUID E (di_TenantID p)) (\<lambda>tenant.
     bind (next_id E) (\<lambda>i. stmt E (\<lambda>s.
       if find_row (\<lambda>d. nd_ID d = i \<or> (nd_NotificationID d = nid \<and> nd_Channel d = di_Channel p)) (deliveries s) \<noteq> None
       then (Inl WrapInfra, s)
       else let row = \<lparr>nd_ID = i, nd_NotificationID = nid, nd_TenantID = tenant, nd_Channel = di_Channel p,
                       nd_Status = di_Status p, nd_ProviderMessageID = '''', nd_Error = di_Error p\<rparr>
            in (Inr row, s\<lparr>deliveries := deliveries s @ [row]\<rparr>)))))"

record update_delivery_params =
  ud_DeliveryID :: string
  ud_TenantID :: string
  ud_Status :: delivery_status
  ud_ProviderMessageID :: string
  ud_Error :: string

definition delivery_outcome :: "update_delivery_params \<Rightarrow> notification_delivery \<Rightarrow> notification_delivery" where
  "delivery_outcome p d = d\<lparr>nd_Status := ud_Status p, nd_ProviderMessageID := ud_ProviderMessageID p,
     nd_Error := ud_Error p\<rparr>"

definition UpdateDeliveryStatus :: "notif_env \<Rightarrow> update_delivery_params \<Rightarrow> notification_delivery ntx" where
  "UpdateDeliveryStatus E p =
     bind (parseUUID E (ud_DeliveryID p)) (\<lambda>i.
     bind (parseUUID E (ud_TenantID p)) (\<lambda>tenant. stmt E (\<lambda>s.
       case find_row (\<lambda>d. nd_ID d = i \<and> nd_TenantID d = tenant) (deliveries s) of
         None \<Rightarrow> (Inl ErrDeliveryNotFound, s)
       | Some d \<Rightarrow> (Inr (delivery_outcome p d),
           s\<lparr>deliveries := update_rows (\<lambda>d. nd_ID d = i \<and> nd_TenantID d = tenant) (delivery_outcome p) (deliveries s)\<rparr>))))"

definition FindRecipientEmail :: "notif_env \<Rightarrow> string \<Rightarrow> string \<Rightarrow> string ntx" where
  "FindRecipientEmail E tenantID appUserID = with_ids E tenantID appUserID (\<lambda>tenant user.
     bind (select_one E app_users (\<lambda>u. au_ID u = user \<and> au_TenantID u = tenant) ErrRecipientNotFound) (\<lambda>u.
     ret (au_Email u)))"

text \<open>On the pool, across tenants; an empty id is NULL, which equals nothing.\<close>

definition FindDeliveryByProviderMessageID :: "notif_env \<Rightarrow> string \<Rightarrow> notification_delivery ntx" where
  "FindDeliveryByProviderMessageID E msgID =
     select_one E deliveries (\<lambda>d. msgID \<noteq> '''' \<and> nd_ProviderMessageID d = msgID) ErrDeliveryNotFound"

definition HasRunningBackfillForTenant :: "notif_env \<Rightarrow> string \<Rightarrow> bool ntx" where
  "HasRunningBackfillForTenant E tenantID = bind (parseUUID E tenantID) (\<lambda>tenant.
     stmt E (read_st (\<lambda>s. find_row (\<lambda>j. bj_TenantID j = tenant \<and> bj_Status j = ''RUNNING'') (backfill_jobs s) \<noteq> None)))"

text \<open>What a user may see, and what they have read.\<close>

definition visible_to :: "string \<Rightarrow> string \<Rightarrow> notification \<Rightarrow> bool" where
  "visible_to tenant user n \<longleftrightarrow> nt_TenantID n = tenant \<and> (nt_RecipientUserID n = '''' \<or> nt_RecipientUserID n = user)"

definition read_by :: "notif_db \<Rightarrow> string \<Rightarrow> notification \<Rightarrow> bool" where
  "read_by s user n \<longleftrightarrow> find_row (\<lambda>r. rr_NotificationID r = nt_ID n \<and> rr_UserID r = user) (receipts s) \<noteq> None"

record list_query =
  lq_TenantID :: string
  lq_UserID :: string
  lq_LastCreated :: instant
  lq_LastID :: string
  lq_UnreadOnly :: bool
  lq_Type :: string
  lq_Limit :: int

record notification_view =
  nv_ID :: string
  nv_Type :: string
  nv_Title :: string
  nv_Body :: string
  nv_Payload :: json
  nv_Read :: bool
  nv_CreatedAt :: instant

definition view_of :: "notif_db \<Rightarrow> string \<Rightarrow> notification \<Rightarrow> notification_view" where
  "view_of s user n = \<lparr>nv_ID = nt_ID n, nv_Type = nt_Type n, nv_Title = nt_Title n, nv_Body = nt_Body n,
     nv_Payload = nt_Payload n, nv_Read = read_by s user n, nv_CreatedAt = nt_CreatedAt n\<rparr>"

text \<open>
  The inbox: newest first by \<open>(created_at, id)\<close>, strictly below the cursor. Ids are canonical
  uuids, whose order is the order of their text. The cursor's time comes in parsed.
\<close>

definition inbox_key :: "notification \<Rightarrow> instant \<times> string" where
  "inbox_key n = (nt_CreatedAt n, nt_ID n)"

definition in_page :: "notif_db \<Rightarrow> list_query \<Rightarrow> string \<Rightarrow> string \<Rightarrow> string \<Rightarrow> notification \<Rightarrow> bool" where
  "in_page s q tenant user lastID n \<longleftrightarrow> visible_to tenant user n \<and> nt_Title n \<noteq> ''''
     \<and> (lq_Type q = '''' \<or> nt_Type n = lq_Type q) \<and> (lq_UnreadOnly q \<longrightarrow> \<not> read_by s user n)
     \<and> inbox_key n < (lq_LastCreated q, lastID)"

definition ListNotifications :: "notif_env \<Rightarrow> list_query \<Rightarrow> notification_view list ntx" where
  "ListNotifications E q = with_ids E (lq_TenantID q) (lq_UserID q) (\<lambda>tenant user.
     bind (parseUUID E (lq_LastID q)) (\<lambda>lastID. stmt E (\<lambda>s.
       (Inr (map (view_of s user) (take (nat (lq_Limit q))
          (rev (sort_key inbox_key (filter (in_page s q tenant user lastID) (notifications s)))))), s))))"

definition CountUnread :: "notif_env \<Rightarrow> string \<Rightarrow> string \<Rightarrow> int ntx" where
  "CountUnread E tenantID userID = with_ids E tenantID userID (\<lambda>tenant user. stmt E (\<lambda>s.
     (Inr (int (length (filter (\<lambda>n. visible_to tenant user n \<and> nt_Title n \<noteq> '''' \<and> \<not> read_by s user n)
        (notifications s)))), s)))"

definition NotificationVisibleTo :: "notif_env \<Rightarrow> string \<Rightarrow> string \<Rightarrow> string \<Rightarrow> bool ntx" where
  "NotificationVisibleTo E notificationID tenantID userID = (case e_parse_uuid E notificationID of
     None \<Rightarrow> ret False
   | Some i \<Rightarrow> with_ids E tenantID userID (\<lambda>tenant user.
       stmt E (read_st (\<lambda>s. find_row (\<lambda>n. nt_ID n = i \<and> visible_to tenant user n) (notifications s) \<noteq> None))))"

text \<open>\<open>ON CONFLICT (notification_id, user_id) DO NOTHING\<close>.\<close>

definition add_receipt :: "string \<Rightarrow> string \<Rightarrow> string \<Rightarrow> notif_db \<Rightarrow> notif_db" where
  "add_receipt tenant user i s =
     (if find_row (\<lambda>r. rr_NotificationID r = i \<and> rr_UserID r = user) (receipts s) \<noteq> None then s
      else s\<lparr>receipts := receipts s @ [\<lparr>rr_NotificationID = i, rr_UserID = user, rr_TenantID = tenant\<rparr>]\<rparr>)"

definition RepoMarkRead :: "notif_env \<Rightarrow> string \<Rightarrow> string \<Rightarrow> string \<Rightarrow> unit ntx" where
  "RepoMarkRead E notificationID tenantID userID =
     bind (parseUUID E notificationID) (\<lambda>i. with_ids E tenantID userID (\<lambda>tenant user.
       stmt E (modify_st (add_receipt tenant user i))))"

definition RepoMarkAllRead :: "notif_env \<Rightarrow> string \<Rightarrow> string \<Rightarrow> unit ntx" where
  "RepoMarkAllRead E tenantID userID = with_ids E tenantID userID (\<lambda>tenant user.
     stmt E (modify_st (\<lambda>s. fold (\<lambda>n. add_receipt tenant user (nt_ID n))
       (filter (\<lambda>n. visible_to tenant user n \<and> \<not> read_by s user n) (notifications s)) s)))"

definition same_preference :: "string \<Rightarrow> string \<Rightarrow> string \<Rightarrow> notification_preference \<Rightarrow> bool" where
  "same_preference tenant user typ p \<longleftrightarrow> np_TenantID p = tenant \<and> np_AppUserID p = user \<and> np_Type p = typ"

definition FindPreferenceChannels :: "notif_env \<Rightarrow> string \<Rightarrow> string \<Rightarrow> string \<Rightarrow> string list ntx" where
  "FindPreferenceChannels E tenantID appUserID typ = with_ids E tenantID appUserID (\<lambda>tenant user.
     bind (select_one E preferences (same_preference tenant user typ) ErrPreferenceNotFound) (\<lambda>p.
     ret (np_Channels p)))"

definition ListPreferences :: "notif_env \<Rightarrow> string \<Rightarrow> string \<Rightarrow> notification_preference list ntx" where
  "ListPreferences E tenantID appUserID = with_ids E tenantID appUserID (\<lambda>tenant user.
     stmt E (read_st (\<lambda>s. sort_key np_Type
       (filter (\<lambda>p. np_TenantID p = tenant \<and> np_AppUserID p = user) (preferences s)))))"

text \<open>The channels of the request: \<open>None\<close> is the nil slice, which the driver writes as NULL.\<close>

definition UpsertPreference :: "notif_env \<Rightarrow> string \<Rightarrow> string \<Rightarrow> string \<Rightarrow> string list option
    \<Rightarrow> notification_preference ntx" where
  "UpsertPreference E tenantID appUserID typ channels = with_ids E tenantID appUserID (\<lambda>tenant user. stmt E (\<lambda>s.
     case channels of None \<Rightarrow> (Inl WrapInfra, s)
     | Some cs \<Rightarrow>
         let row = \<lparr>np_TenantID = tenant, np_AppUserID = user, np_Type = typ, np_Channels = cs\<rparr> in
         (Inr row, if find_row (same_preference tenant user typ) (preferences s) = None
           then s\<lparr>preferences := preferences s @ [row]\<rparr>
           else s\<lparr>preferences := update_rows (same_preference tenant user typ) (\<lambda>_. row) (preferences s)\<rparr>)))"

section \<open>The e-mail channel (email_channel.go, templates)\<close>

text \<open>The templates the files under \<open>templates/\<close> define.\<close>

definition template_names :: "string list" where
  "template_names = [''member_joined.subject'', ''member_joined.body'']"

definition render :: "notif_env \<Rightarrow> string \<Rightarrow> json \<Rightarrow> err + string" where
  "render E name data =
     (if name \<notin> set template_names
      then (case ErrTemplateNotFound of AppErr k msg \<Rightarrow> Inl (AppErr k (msg @ '': '' @ [CHR 0x22] @ name @ [CHR 0x22]))
            | e \<Rightarrow> Inl e)
      else n_render E name data)"

definition Send :: "notif_env \<Rightarrow> string \<Rightarrow> string \<Rightarrow> json \<Rightarrow> string ntx" where
  "Send E to typ data =
     bind (lift_sum (render E (typ @ ''.subject'') data)) (\<lambda>subject.
     bind (lift_sum (render E (typ @ ''.body'') data)) (\<lambda>content.
     (\<lambda>s. let m = \<lparr>em_To = to, em_Subject = subject, em_Body = content\<rparr> in
        (n_client E (length (mailed s)) m, s\<lparr>mailed := mailed s @ [m]\<rparr>))))"

section \<open>Avisos by e-mail (domain.go)\<close>

definition consumerNotifications :: string where
  "consumerNotifications = ''notifications''"

record notification_requested =
  nr_EventID :: string
  nr_TenantID :: string
  nr_RecipientUserID :: string
  nr_Type :: string
  nr_Payload :: json

record pending_send =
  ps_deliveryID :: string
  ps_tenantID :: string
  ps_email :: string
  ps_notifType :: string
  ps_payload :: json

definition resolveEmail :: "notif_env \<Rightarrow> notification_requested \<Rightarrow> string ntx" where
  "resolveEmail E ev = (if nr_RecipientUserID ev = '''' then ret ''''
     else bind (attempt (FindRecipientEmail E (nr_TenantID ev) (nr_RecipientUserID ev))) (\<lambda>r. case r of
       Inl e \<Rightarrow> if e = ErrRecipientNotFound then ret '''' else fail e
     | Inr addr \<Rightarrow> ret addr))"

definition channelEnabled :: "notif_env \<Rightarrow> string \<Rightarrow> string \<Rightarrow> string \<Rightarrow> string \<Rightarrow> bool ntx" where
  "channelEnabled E tenantID recipientID typ channel = (if recipientID = '''' then ret True
     else bind (attempt (FindPreferenceChannels E tenantID recipientID typ)) (\<lambda>r. case r of
       Inl e \<Rightarrow> if e = ErrPreferenceNotFound then ret True else fail e
     | Inr channels \<Rightarrow> ret (channel \<in> set channels)))"

definition open_delivery :: "notif_env \<Rightarrow> notification_requested \<Rightarrow> notification \<Rightarrow> delivery_status \<Rightarrow> string
    \<Rightarrow> notification_delivery ntx" where
  "open_delivery E ev notif st reason = InsertDelivery E
     \<lparr>di_NotificationID = nt_ID notif, di_TenantID = nr_TenantID ev, di_Channel = ChannelEmail,
      di_Status = st, di_Error = reason\<rparr>"

definition requested_params :: "notification_requested \<Rightarrow> string \<Rightarrow> insert_notification_params" where
  "requested_params ev addr =
     \<lparr>ni_TenantID = nr_TenantID ev, ni_RecipientUserID = (if addr = '''' then '''' else nr_RecipientUserID ev),
      ni_Type = nr_Type ev, ni_Title = '''', ni_Body = '''', ni_Payload = nr_Payload ev\<rparr>"

definition pending_of :: "notification_requested \<Rightarrow> string \<Rightarrow> notification_delivery \<Rightarrow> pending_send" where
  "pending_of ev addr d = \<lparr>ps_deliveryID = nd_ID d, ps_tenantID = nr_TenantID ev, ps_email = addr,
     ps_notifType = nr_Type ev, ps_payload = nr_Payload ev\<rparr>"

text \<open>The delivery of a recorded request: failed without an address, skipped by a preference, or queued.\<close>

definition route :: "notif_env \<Rightarrow> notification_requested \<Rightarrow> string \<Rightarrow> notification \<Rightarrow> pending_send option ntx" where
  "route E ev addr notif =
     (if addr = '''' then bind (open_delivery E ev notif DeliveryFailed noRecipientEmailReason) (\<lambda>_. ret None)
      else bind (channelEnabled E (nr_TenantID ev) (nr_RecipientUserID ev) (nr_Type ev) ChannelEmail) (\<lambda>enabled.
        if \<not> enabled then bind (open_delivery E ev notif DeliverySkipped skippedByPreferenceReason) (\<lambda>_. ret None)
        else bind (open_delivery E ev notif DeliveryQueued '''') (\<lambda>d. ret (Some (pending_of ev addr d)))))"

text \<open>Phase one, in the transaction of the tenant: what is left to send, if anything.\<close>

definition request_body :: "notif_env \<Rightarrow> notification_requested \<Rightarrow> pending_send option ntx" where
  "request_body E ev =
     bind (resolveEmail E ev) (\<lambda>addr.
     bind (InsertNotification E (requested_params ev addr)) (\<lambda>notif.
     route E ev addr notif))"

text \<open>Phase two: send, and record the outcome in a transaction of its own.\<close>

definition deliver :: "notif_env \<Rightarrow> pending_send \<Rightarrow> unit ntx" where
  "deliver E p =
     bind (attempt (Send E (ps_email p) (ps_notifType p) (ps_payload p))) (\<lambda>r.
     bind (uow_Do E (ps_tenantID p) (UpdateDeliveryStatus E
       (case r of
          Inr msgID \<Rightarrow> \<lparr>ud_DeliveryID = ps_deliveryID p, ud_TenantID = ps_tenantID p, ud_Status = DeliverySent,
                       ud_ProviderMessageID = msgID, ud_Error = ''''\<rparr>
        | Inl e \<Rightarrow> \<lparr>ud_DeliveryID = ps_deliveryID p, ud_TenantID = ps_tenantID p, ud_Status = DeliveryFailed,
                    ud_ProviderMessageID = '''', ud_Error = Error_text e\<rparr>))) (\<lambda>_. ret ()))"

text \<open>\<open>E\<close> is the environment of the first transaction, \<open>E'\<close> the one of the second.\<close>

definition OnNotificationRequested :: "notif_env \<Rightarrow> notif_env \<Rightarrow> notification_requested \<Rightarrow> unit ntx" where
  "OnNotificationRequested E E' ev =
     bind (uow_Do E (nr_TenantID ev)
             (once_or E None consumerNotifications (nr_EventID ev) (request_body E ev))) (\<lambda>pending.
     case pending of None \<Rightarrow> ret () | Some p \<Rightarrow> deliver E' p)"

section \<open>Preferences\<close>

definition GetPreferences :: "notif_env \<Rightarrow> string \<Rightarrow> string \<Rightarrow> notification_preference list ntx" where
  "GetPreferences E tenantID appUserID = ListPreferences E tenantID appUserID"

definition SetPreference :: "notif_env \<Rightarrow> string \<Rightarrow> string \<Rightarrow> string \<Rightarrow> string list option
    \<Rightarrow> notification_preference ntx" where
  "SetPreference E tenantID appUserID typ channels =
     uow_Do E tenantID (UpsertPreference E tenantID appUserID typ channels)"

text \<open>The checks of the request (validation.go).\<close>

definition valid_preference_request :: "string \<Rightarrow> string list option \<Rightarrow> bool" where
  "valid_preference_request typ channels \<longleftrightarrow> typ \<noteq> '''' \<and> ValidNotificationType typ
     \<and> (case channels of None \<Rightarrow> True | Some cs \<Rightarrow> list_all ValidChannel cs)"

section \<open>Avisos in the app (domain.go, dedup.go)\<close>

definition consumerBackfill :: string where "consumerBackfill = ''notifications.backfill''"
definition consumerDocket :: string where "consumerDocket = ''notifications.docket''"
definition consumerDeadlineDueSoon :: string where
  "consumerDeadlineDueSoon = ''notifications.deadline_due_soon''"
definition consumerDeadlineMissed :: string where
  "consumerDeadlineMissed = ''notifications.deadline_missed''"
definition consumerDeadlineResolvedOnConclusion :: string where
  "consumerDeadlineResolvedOnConclusion = ''notifications.deadline_resolved_on_conclusion''"
definition consumerTrialEndingSoon :: string where
  "consumerTrialEndingSoon = ''notifications.trial_ending_soon''"
definition consumerPaymentFailed :: string where "consumerPaymentFailed = ''notifications.payment_failed''"
definition consumerFilingSucceeded :: string where
  "consumerFilingSucceeded = ''notifications.filing_succeeded''"
definition consumerFilingFailed :: string where "consumerFilingFailed = ''notifications.filing_failed''"

text \<open>The consumed events (events.go); each carries its id and its tenant.\<close>

record in_app_event =
  ie_EventID :: string
  ie_TenantID :: string

record backfill_finished = in_app_event +
  bf_BackfillJobID :: string
  bf_IntegrationID :: string
  bf_TotalSlices :: int
  bf_SlicesOK :: int
  bf_SlicesError :: int
  bf_Status :: string

record docket_entry_event = in_app_event +
  dv_SyncRunID :: string
  dv_CourtRecordID :: string
  dv_DocketEntryID :: string
  dv_Hash :: string

record deadline_due_soon = in_app_event +
  ds_DeadlineID :: string
  ds_DaysLeft :: int

record deadline_notice = in_app_event +
  dn_DeadlineID :: string

record trial_ending_soon = in_app_event +
  te_TrialEndsAt :: instant
  te_DaysLeft :: int

record payment_failed = in_app_event +
  pf_InvoiceID :: string
  pf_AmountDue :: int

record filing_event = in_app_event +
  fe_DraftID :: string
  fe_FilingAttemptID :: string
  fe_Detail :: string

text \<open>The texts of the avisos.\<close>

definition dias :: "int \<Rightarrow> string" where
  "dias n = itoa n @ '' dia(s).''"

definition importFinishedTitle :: string where
  "importFinishedTitle = ''Importa'' @ [CHR 0xC3, CHR 0xA7, CHR 0xC3, CHR 0xA3] @ ''o de processos conclu'' @ [CHR 0xC3, CHR 0xAD] @ ''da''"

definition renderImportFinished :: "backfill_finished \<Rightarrow> string \<times> string" where
  "renderImportFinished ev = (importFinishedTitle,
     if bf_Status ev = ''PARTIAL''
     then ''A importa'' @ [CHR 0xC3, CHR 0xA7, CHR 0xC3, CHR 0xA3] @ ''o inicial dos seus processos foi conclu'' @ [CHR 0xC3, CHR 0xAD] @ ''da, mas '' @ itoa (bf_SlicesError ev)
        @ '' janela(s) n'' @ [CHR 0xC3, CHR 0xA3] @ ''o puderam ser sincronizadas e ser'' @ [CHR 0xC3, CHR 0xA3] @ ''o retentadas automaticamente.''
     else ''A importa'' @ [CHR 0xC3, CHR 0xA7, CHR 0xC3, CHR 0xA3] @ ''o inicial dos seus processos foi conclu'' @ [CHR 0xC3, CHR 0xAD] @ ''da com sucesso.'')"

definition newAndamentoText :: "string \<times> string" where
  "newAndamentoText = (''Novo andamento processual'', ''Um novo andamento foi identificado em um dos seus processos.'')"

definition renderDeadlineDueSoon :: "int \<Rightarrow> string \<times> string" where
  "renderDeadlineDueSoon daysLeft = (''Prazo a vencer'',
     if daysLeft = 0 then ''Prazo vence hoje.'' else ''Prazo vence em '' @ dias daysLeft)"

definition deadlineMissedText :: "string \<times> string" where
  "deadlineMissedText = (''Prazo vencido'', ''Um prazo venceu sem confirma'' @ [CHR 0xC3, CHR 0xA7, CHR 0xC3, CHR 0xA3] @ ''o.'')"

definition deadlineResolvedOnConclusionText :: "string \<times> string" where
  "deadlineResolvedOnConclusionText = (''Prazo resolvido'',
     ''Um prazo foi resolvido automaticamente porque o processo foi conclu'' @ [CHR 0xC3, CHR 0xAD] @ ''do.'')"

definition renderTrialEndingSoon :: "int \<Rightarrow> string \<times> string" where
  "renderTrialEndingSoon daysLeft = (''Per'' @ [CHR 0xC3, CHR 0xAD] @ ''odo de teste terminando'',
     if daysLeft = 0 then ''Seu per'' @ [CHR 0xC3, CHR 0xAD] @ ''odo de teste termina hoje.''
     else ''Seu per'' @ [CHR 0xC3, CHR 0xAD] @ ''odo de teste termina em '' @ dias daysLeft)"

text \<open>
  \<open>%.2f\<close> of the cents divided by 100 in floating point: the exact decimal, for the amounts
  (below \<open>2 ^ 45\<close>) whose quotient a float64 keeps to the cent.
\<close>

definition reais :: "int \<Rightarrow> string" where
  "reais c = (if c < 0 then ''-'' else '''') @ itoa (\<bar>c\<bar> div 100) @ ''.''
     @ itoa (\<bar>c\<bar> mod 100 div 10) @ itoa (\<bar>c\<bar> mod 10)"

definition renderPaymentFailed :: "int \<Rightarrow> string \<times> string" where
  "renderPaymentFailed amountDueCents = (''Falha no pagamento da assinatura'',
     ''N'' @ [CHR 0xC3, CHR 0xA3] @ ''o conseguimos cobrar sua fatura de R$ '' @ reais amountDueCents
       @ ''. Atualize a forma de pagamento para evitar a suspens'' @ [CHR 0xC3, CHR 0xA3] @ ''o do acesso.'')"

definition renderFilingSucceeded :: "string \<times> string" where
  "renderFilingSucceeded = (''Pe'' @ [CHR 0xC3, CHR 0xA7] @ ''a protocolada automaticamente'',
     ''Sua pe'' @ [CHR 0xC3, CHR 0xA7] @ ''a foi protocolada no e-SAJ com sucesso.'')"

definition renderFilingFailed :: "string \<Rightarrow> string \<times> string" where
  "renderFilingFailed reason = (''Falha no protocolo autom'' @ [CHR 0xC3, CHR 0xA1] @ ''tico'',
     if reason = '''' then ''N'' @ [CHR 0xC3, CHR 0xA3] @ ''o foi poss'' @ [CHR 0xC3, CHR 0xAD] @ ''vel protocolar a pe'' @ [CHR 0xC3, CHR 0xA7] @ ''a no e-SAJ automaticamente. Protocole manualmente.''
     else ''N'' @ [CHR 0xC3, CHR 0xA3] @ ''o foi poss'' @ [CHR 0xC3, CHR 0xAD] @ ''vel protocolar a pe'' @ [CHR 0xC3, CHR 0xA7] @ ''a no e-SAJ: '' @ reason @ ''. Protocole manualmente.'')"

text \<open>The fact and its one delivery; the payload links back to the source.\<close>

definition record_aviso :: "notif_env \<Rightarrow> string \<Rightarrow> string \<Rightarrow> string \<times> string \<Rightarrow> json \<Rightarrow> notification ntx" where
  "record_aviso E tenantID typ txt payload =
     bind (InsertNotification E
             \<lparr>ni_TenantID = tenantID, ni_RecipientUserID = '''', ni_Type = typ, ni_Title = fst txt,
              ni_Body = snd txt, ni_Payload = payload\<rparr>) (\<lambda>notif.
     bind (InsertDelivery E
             \<lparr>di_NotificationID = nt_ID notif, di_TenantID = tenantID, di_Channel = ChannelInApp,
              di_Status = DeliveryQueued, di_Error = ''''\<rparr>) (\<lambda>_.
     ret notif))"

definition pushChannel :: "string \<Rightarrow> string" where
  "pushChannel tenantID = ''notif:'' @ tenantID"

text \<open>Best effort: a push that fails is logged by the code and swallowed, so only the attempt is kept.\<close>

definition publish_push :: "string \<Rightarrow> notification option \<Rightarrow> unit ntx" where
  "publish_push tenantID notif = (case notif of None \<Rightarrow> ret ()
   | Some n \<Rightarrow> modify_st (\<lambda>s. s\<lparr>pushed := pushed s @
       [\<lparr>ip_Channel = pushChannel tenantID, ip_ID = nt_ID n, ip_Type = nt_Type n, ip_Title = nt_Title n,
         ip_Body = nt_Body n, ip_CreatedAt = nt_CreatedAt n\<rparr>]\<rparr>))"

text \<open>The shape all handlers share: dedup, record, and push what is new once it is committed.\<close>

definition in_app :: "notif_env \<Rightarrow> string \<Rightarrow> 'e in_app_event_scheme \<Rightarrow> notification option ntx \<Rightarrow> unit ntx" where
  "in_app E consumer ev body =
     bind (uow_Do E (ie_TenantID ev) (once_or E None consumer (ie_EventID ev) body)) (\<lambda>created.
     publish_push (ie_TenantID ev) created)"

definition aviso :: "notif_env \<Rightarrow> 'e in_app_event_scheme \<Rightarrow> string \<Rightarrow> string \<times> string \<Rightarrow> json
    \<Rightarrow> notification option ntx" where
  "aviso E ev typ txt payload = bind (record_aviso E (ie_TenantID ev) typ txt payload) (\<lambda>n. ret (Some n))"

definition OnBackfillFinished :: "notif_env \<Rightarrow> backfill_finished \<Rightarrow> unit ntx" where
  "OnBackfillFinished E ev = in_app E consumerBackfill ev
     (aviso E ev TypeImportFinished (renderImportFinished ev)
        [(''backfill_job_id'', JStr (bf_BackfillJobID ev)), (''integration_id'', JStr (bf_IntegrationID ev)),
         (''status'', JStr (bf_Status ev)), (''total_slices'', JInt (bf_TotalSlices ev)),
         (''slices_ok'', JInt (bf_SlicesOK ev)), (''slices_error'', JInt (bf_SlicesError ev))])"

definition OnDocketEntryObserved_inApp :: "notif_env \<Rightarrow> docket_entry_event \<Rightarrow> unit ntx" where
  "OnDocketEntryObserved_inApp E ev = in_app E consumerDocket ev
     (bind (HasRunningBackfillForTenant E (ie_TenantID ev)) (\<lambda>running.
      if running then ret None
      else aviso E ev TypeNewAndamento newAndamentoText
        [(''court_record_id'', JStr (dv_CourtRecordID ev)), (''docket_entry_id'', JStr (dv_DocketEntryID ev)),
         (''sync_run_id'', JStr (dv_SyncRunID ev))]))"

definition OnDeadlineDueSoon :: "notif_env \<Rightarrow> deadline_due_soon \<Rightarrow> unit ntx" where
  "OnDeadlineDueSoon E ev = in_app E consumerDeadlineDueSoon ev
     (aviso E ev TypeDeadlineDueSoonAviso (renderDeadlineDueSoon (ds_DaysLeft ev))
        [(''deadline_id'', JStr (ds_DeadlineID ev)), (''days_left'', JInt (ds_DaysLeft ev))])"

definition OnDeadlineMissed :: "notif_env \<Rightarrow> deadline_notice \<Rightarrow> unit ntx" where
  "OnDeadlineMissed E ev = in_app E consumerDeadlineMissed ev
     (aviso E ev TypeDeadlineMissedAviso deadlineMissedText [(''deadline_id'', JStr (dn_DeadlineID ev))])"

definition OnDeadlineResolvedOnConclusion :: "notif_env \<Rightarrow> deadline_notice \<Rightarrow> unit ntx" where
  "OnDeadlineResolvedOnConclusion E ev = in_app E consumerDeadlineResolvedOnConclusion ev
     (aviso E ev TypeDeadlineResolvedOnConclusionAviso deadlineResolvedOnConclusionText
        [(''deadline_id'', JStr (dn_DeadlineID ev))])"

definition OnTrialEndingSoon :: "notif_env \<Rightarrow> trial_ending_soon \<Rightarrow> unit ntx" where
  "OnTrialEndingSoon E ev = in_app E consumerTrialEndingSoon ev
     (aviso E ev TypeTrialEndingSoonAviso (renderTrialEndingSoon (te_DaysLeft ev))
        [(''trial_ends_at'', JTime (te_TrialEndsAt ev)), (''days_left'', JInt (te_DaysLeft ev))])"

definition OnPaymentFailed :: "notif_env \<Rightarrow> payment_failed \<Rightarrow> unit ntx" where
  "OnPaymentFailed E ev = in_app E consumerPaymentFailed ev
     (aviso E ev TypePaymentFailedAviso (renderPaymentFailed (pf_AmountDue ev))
        [(''invoice_id'', JStr (pf_InvoiceID ev)), (''amount_due'', JInt (pf_AmountDue ev))])"

definition OnFilingSucceeded :: "notif_env \<Rightarrow> filing_event \<Rightarrow> unit ntx" where
  "OnFilingSucceeded E ev = in_app E consumerFilingSucceeded ev
     (aviso E ev TypeFilingSucceededAviso renderFilingSucceeded
        [(''draft_id'', JStr (fe_DraftID ev)), (''filing_attempt_id'', JStr (fe_FilingAttemptID ev)),
         (''filing_number'', JStr (fe_Detail ev))])"

definition OnFilingFailed :: "notif_env \<Rightarrow> filing_event \<Rightarrow> unit ntx" where
  "OnFilingFailed E ev = in_app E consumerFilingFailed ev
     (aviso E ev TypeFilingFailedAviso (renderFilingFailed (fe_Detail ev))
        [(''draft_id'', JStr (fe_DraftID ev)), (''filing_attempt_id'', JStr (fe_FilingAttemptID ev)),
         (''failure_reason'', JStr (fe_Detail ev))])"

section \<open>The inbox (read.go)\<close>

definition List_inbox :: "notif_env \<Rightarrow> list_query \<Rightarrow> (notification_view list \<times> bool) ntx" where
  "List_inbox E q =
     bind (ListNotifications E (q\<lparr>lq_Limit := lq_Limit q + 1\<rparr>)) (\<lambda>rows.
     ret (if lq_Limit q < int (length rows) then (take (nat (lq_Limit q)) rows, True) else (rows, False)))"

definition UnreadCount :: "notif_env \<Rightarrow> string \<Rightarrow> string \<Rightarrow> int ntx" where
  "UnreadCount E tenantID userID = CountUnread E tenantID userID"

definition MarkRead :: "notif_env \<Rightarrow> string \<Rightarrow> string \<Rightarrow> string \<Rightarrow> unit ntx" where
  "MarkRead E tenantID userID notificationID = uow_Do E tenantID
     (bind (NotificationVisibleTo E notificationID tenantID userID) (\<lambda>visible.
      if \<not> visible then fail ErrNotificationNotFound
      else RepoMarkRead E notificationID tenantID userID))"

definition MarkAllRead :: "notif_env \<Rightarrow> string \<Rightarrow> string \<Rightarrow> unit ntx" where
  "MarkAllRead E tenantID userID = uow_Do E tenantID (RepoMarkAllRead E tenantID userID)"

text \<open>The next page is asked for from the last row of this one (\<open>newNotificationsPage\<close>).\<close>

definition next_cursor :: "notification_view list \<times> bool \<Rightarrow> (instant \<times> string) option" where
  "next_cursor page = (if snd page \<and> fst page \<noteq> []
     then Some (nv_CreatedAt (last (fst page)), nv_ID (last (fst page))) else None)"

definition isKnownNotificationType :: "string \<Rightarrow> bool" where
  "isKnownNotificationType v \<longleftrightarrow> v \<in> {TypeImportFinished, TypeNewAndamento, TypeDeadlineDueSoonAviso,
     TypeDeadlineMissedAviso, TypeTrialEndingSoonAviso}"

section \<open>Outcomes reported by the provider (domain.go, webhook.go)\<close>

definition MarkDeliveryOutcome :: "notif_env \<Rightarrow> string \<Rightarrow> delivery_status \<Rightarrow> string \<Rightarrow> unit ntx" where
  "MarkDeliveryOutcome E providerMessageID st reason =
     (if providerMessageID = '''' then ret ()
      else bind (attempt (FindDeliveryByProviderMessageID E providerMessageID)) (\<lambda>r. case r of
        Inl e \<Rightarrow> if e = ErrDeliveryNotFound then ret () else fail e
      | Inr d \<Rightarrow> if nd_Status d = st then ret ()
          else bind (uow_Do E (nd_TenantID d) (UpdateDeliveryStatus E
                 \<lparr>ud_DeliveryID = nd_ID d, ud_TenantID = nd_TenantID d, ud_Status = st,
                  ud_ProviderMessageID = nd_ProviderMessageID d, ud_Error = reason\<rparr>)) (\<lambda>_. ret ())))"

definition bounceReason :: string where
  "bounceReason = ''recipient's mail server permanently rejected the message''"

definition complaintReason :: string where
  "complaintReason = ''recipient marked the message as spam''"

record resend_event =
  rv_Type :: string
  rv_EmailID :: string
  rv_BounceMessage :: string

definition dispatch_resend :: "notif_env \<Rightarrow> resend_event \<Rightarrow> unit ntx" where
  "dispatch_resend E ev =
     (if rv_Type ev = ''email.bounced''
      then MarkDeliveryOutcome E (rv_EmailID ev) DeliveryBounced
             (if rv_BounceMessage ev = '''' then bounceReason else rv_BounceMessage ev)
      else if rv_Type ev = ''email.complained''
      then MarkDeliveryOutcome E (rv_EmailID ev) DeliveryComplained complaintReason
      else ret ())"

end
