(* ===== verification/NotificationProperties.thy ===== *)
theory NotificationProperties
  imports Notifications Billing
begin

text \<open>
  What the notifications slice promises: avisos and deliveries stay in step, an event mails at
  most once, preferences are respected, the badge and the pages of the inbox are right, and
  which e-mails can never be sent.
\<close>

section \<open>What the repository writes\<close>

lemma notif_view [simp]:
  "notifications (view s) = notifications s" "deliveries (view s) = deliveries s" "receipts (view s) = receipts s"
  "preferences (view s) = preferences s" "app_users (view s) = app_users s" "mailed (view s) = mailed s"
  "pushed (view s) = pushed s" "processed (view s) = processed s" "backfill_jobs (view s) = backfill_jobs s"
  by (simp_all add: view_def)

lemma view_table:
  "view (s\<lparr>notifications := ns\<rparr>) = (view s)\<lparr>notifications := ns\<rparr>"
  "view (s\<lparr>deliveries := ds\<rparr>) = (view s)\<lparr>deliveries := ds\<rparr>"
  "view (s\<lparr>receipts := rs\<rparr>) = (view s)\<lparr>receipts := rs\<rparr>"
  "view (s\<lparr>preferences := ps\<rparr>) = (view s)\<lparr>preferences := ps\<rparr>"
  "view (s\<lparr>mailed := ms\<rparr>) = (view s)\<lparr>mailed := ms\<rparr>"
  by (simp_all add: view_def)

lemma InsertNotification_effect:
  assumes "InsertNotification E p s = (Inr n, s')"
  shows "view s' = (view s)\<lparr>notifications := notifications s @ [n]\<rparr> \<and> (\<forall>r \<in> set (notifications s). nt_ID r \<noteq> nt_ID n)
       \<and> nt_ID n = e_gen E (id_seq s) \<and> nt_Title n = ni_Title p \<and> nt_Type n = ni_Type p
       \<and> e_parse_uuid E (ni_TenantID p) = Some (nt_TenantID n)"
  using assms unfolding InsertNotification_def
  by (auto elim!: parse_then optional_then gen_then dest!: stmt_InrD
      simp: Let_def view_table find_row_None split: if_splits)

lemma InsertDelivery_effect:
  assumes "InsertDelivery E p s = (Inr d, s')"
  shows "view s' = (view s)\<lparr>deliveries := deliveries s @ [d]\<rparr> \<and> (\<forall>r \<in> set (deliveries s). nd_ID r \<noteq> nd_ID d)
       \<and> nd_ID d = e_gen E (id_seq s) \<and> e_parse_uuid E (di_NotificationID p) = Some (nd_NotificationID d) \<and> nd_Channel d = di_Channel p
       \<and> e_parse_uuid E (di_TenantID p) = Some (nd_TenantID d) \<and> nd_Status d = di_Status p
       \<and> nd_ProviderMessageID d = '''' \<and> nd_Error d = di_Error p"
  using assms unfolding InsertDelivery_def
  by (auto elim!: parse_then gen_then dest!: stmt_InrD simp: Let_def view_table find_row_None split: if_splits)

lemma notif_reads_silent [silent_rules]:
  "silent (FindRecipientEmail E t u)" "silent (FindDeliveryByProviderMessageID E i)"
  "silent (HasRunningBackfillForTenant E t)" "silent (FindPreferenceChannels E t u typ)"
  "silent (NotificationVisibleTo E i t u)" "silent (CountUnread E t u)"
  unfolding FindRecipientEmail_def FindDeliveryByProviderMessageID_def HasRunningBackfillForTenant_def
    FindPreferenceChannels_def NotificationVisibleTo_def CountUnread_def
  by (intro silent_rules silent_read; simp add: silent_def)+

lemma routing_silent [silent_rules]: "silent (resolveEmail E ev)" "silent (channelEnabled E t u typ ch)"
  unfolding resolveEmail_def channelEnabled_def by (intro silent_rules)+


section \<open>Avisos and deliveries in step\<close>

datatype notif_op =
    OpRequest notif_env notification_requested
  | OpBackfillDone backfill_finished
  | OpAndamento docket_entry_event
  | OpDueSoon deadline_due_soon
  | OpMissedNotice deadline_notice
  | OpResolvedNotice deadline_notice
  | OpTrialNotice trial_ending_soon
  | OpPaymentNotice payment_failed
  | OpFiled filing_event
  | OpNotFiled filing_event
  | OpPreference string string string "string list option"
  | OpRead string string string
  | OpReadAll string string
  | OpResend resend_event

fun run_notif :: "notif_env \<Rightarrow> notif_op \<Rightarrow> notif_db \<Rightarrow> notif_db" where
  "run_notif E (OpRequest E' ev) s = snd (OnNotificationRequested E E' ev s)"
| "run_notif E (OpBackfillDone ev) s = snd (OnBackfillFinished E ev s)"
| "run_notif E (OpAndamento ev) s = snd (OnDocketEntryObserved_inApp E ev s)"
| "run_notif E (OpDueSoon ev) s = snd (OnDeadlineDueSoon E ev s)"
| "run_notif E (OpMissedNotice ev) s = snd (OnDeadlineMissed E ev s)"
| "run_notif E (OpResolvedNotice ev) s = snd (OnDeadlineResolvedOnConclusion E ev s)"
| "run_notif E (OpTrialNotice ev) s = snd (OnTrialEndingSoon E ev s)"
| "run_notif E (OpPaymentNotice ev) s = snd (OnPaymentFailed E ev s)"
| "run_notif E (OpFiled ev) s = snd (OnFilingSucceeded E ev s)"
| "run_notif E (OpNotFiled ev) s = snd (OnFilingFailed E ev s)"
| "run_notif E (OpPreference t u typ cs) s = snd (SetPreference E t u typ cs s)"
| "run_notif E (OpRead t u i) s = snd (MarkRead E t u i s)"
| "run_notif E (OpReadAll t u) s = snd (MarkAllRead E t u s)"
| "run_notif E (OpResend ev) s = snd (dispatch_resend E ev s)"

definition channel_of :: "notification \<Rightarrow> string" where
  "channel_of n = (if nt_Title n = '''' then ChannelEmail else ChannelInApp)"

definition in_step :: "notif_db \<Rightarrow> bool" where
  "in_step s \<longleftrightarrow> distinct (map nt_ID (notifications s)) \<and> distinct (map nd_ID (deliveries s))
     \<and> map (\<lambda>d. (nd_NotificationID d, nd_TenantID d, nd_Channel d)) (deliveries s)
         = map (\<lambda>n. (nt_ID n, nt_TenantID n, channel_of n)) (notifications s)
     \<and> distinct (map (\<lambda>r. (rr_NotificationID r, rr_UserID r)) (receipts s))
     \<and> distinct (map (\<lambda>p. (np_TenantID p, np_AppUserID p, np_Type p)) (preferences s))"

lemma in_step_view: "in_step (view s) = in_step s"
  by (simp add: in_step_def)

lemma frame_in_step [simp]: "frame in_step"
  by (simp add: frame_def in_step_def)

lemma silent_in_step: "silent m \<Longrightarrow> keeps in_step m"
  unfolding silent_def keeps_def by (metis in_step_view)

lemma in_step_add:
  assumes "in_step s" and "view s' = (view s)\<lparr>notifications := notifications s @ [n], deliveries := deliveries s @ [d]\<rparr>"
    and "\<forall>r \<in> set (notifications s). nt_ID r \<noteq> nt_ID n" and "\<forall>r \<in> set (deliveries s). nd_ID r \<noteq> nd_ID d"
    and "nd_NotificationID d = nt_ID n" and "nd_TenantID d = nt_TenantID n" and "nd_Channel d = channel_of n"
  shows "in_step s'"
proof -
  have "in_step (view s')" using assms unfolding in_step_def assms(2) by auto
  then show ?thesis by (simp add: in_step_view)
qed

text \<open>An aviso and its one delivery, whatever the texts and the status.\<close>

definition recorded :: "notif_db \<Rightarrow> notif_db \<Rightarrow> notification \<Rightarrow> notification_delivery \<Rightarrow> bool" where
  "recorded s s' n d \<longleftrightarrow>
     view s' = (view s)\<lparr>notifications := notifications s @ [n], deliveries := deliveries s @ [d]\<rparr>
     \<and> (\<forall>r \<in> set (notifications s). nt_ID r \<noteq> nt_ID n) \<and> (\<forall>r \<in> set (deliveries s). nd_ID r \<noteq> nd_ID d)
     \<and> nd_NotificationID d = nt_ID n \<and> nd_TenantID d = nt_TenantID n"

lemma recorded_pair:
  assumes E: "canonical_gen E" and n: "InsertNotification E p s = (Inr n, s1)" and v: "view s2 = view s1"
    and d: "InsertDelivery E q s2 = (Inr d, s')" and q: "di_NotificationID q = nt_ID n" "di_TenantID q = ni_TenantID p"
  shows "recorded s s' n d"
proof -
  have 1: "view s1 = (view s)\<lparr>notifications := notifications s @ [n]\<rparr>" "nt_ID n = e_gen E (id_seq s)"
    "\<forall>r \<in> set (notifications s). nt_ID r \<noteq> nt_ID n" "e_parse_uuid E (ni_TenantID p) = Some (nt_TenantID n)"
    using InsertNotification_effect [OF n] by blast+
  have ds: "deliveries s2 = deliveries s"
    using arg_cong [OF v, of deliveries] arg_cong [OF 1(1), of deliveries] by simp
  have 2: "view s' = (view s2)\<lparr>deliveries := deliveries s2 @ [d]\<rparr>" "\<forall>r \<in> set (deliveries s2). nd_ID r \<noteq> nd_ID d"
    "e_parse_uuid E (nt_ID n) = Some (nd_NotificationID d)" "e_parse_uuid E (ni_TenantID p) = Some (nd_TenantID d)"
    using InsertDelivery_effect [OF d] q by fastforce+
  show ?thesis
    using 1 2 ds v E by (simp add: recorded_def canonical_gen_def)
qed


lemma aviso_effect:
  assumes "canonical_gen E" and "aviso E ev typ txt payload s = (Inr created, s')"
  shows "\<exists>n d. created = Some n \<and> recorded s s' n d \<and> nd_Channel d = ChannelInApp
     \<and> nt_Title n = fst txt \<and> nt_Type n = typ"
proof -
  obtain n d s1 where n: "InsertNotification E \<lparr>ni_TenantID = ie_TenantID ev, ni_RecipientUserID = '''', ni_Type = typ,
        ni_Title = fst txt, ni_Body = snd txt, ni_Payload = payload\<rparr> s = (Inr n, s1)"
    and d: "InsertDelivery E \<lparr>di_NotificationID = nt_ID n, di_TenantID = ie_TenantID ev, di_Channel = ChannelInApp,
        di_Status = DeliveryQueued, di_Error = ''''\<rparr> s1 = (Inr d, s')"
    and c: "created = Some n"
    using assms(2) unfolding aviso_def record_aviso_def by (auto elim!: bind_InrE)
  have "recorded s s' n d" by (rule recorded_pair [OF assms(1) n refl d]) simp_all
  then show ?thesis using InsertNotification_effect [OF n] InsertDelivery_effect [OF d] c by auto
qed

lemma recorded_from:
  assumes "view s1 = view s"
  shows "recorded s1 s' n d = recorded s s' n d"
proof -
  have "notifications s1 = notifications s" "deliveries s1 = deliveries s"
    using arg_cong [OF assms, of notifications] arg_cong [OF assms, of deliveries] by simp_all
  then show ?thesis using assms by (simp add: recorded_def)
qed

lemma open_delivery_pair:
  assumes "canonical_gen E" and n: "InsertNotification E p s = (Inr n, s1)" and "view s2 = view s1"
    and d: "open_delivery E ev n st reason s2 = (Inr d, s')" and "ni_TenantID p = nr_TenantID ev"
  shows "recorded s s' n d \<and> nd_Channel d = ChannelEmail \<and> nd_Status d = st \<and> nd_Error d = reason
     \<and> e_parse_uuid E (nd_ID d) = Some (nd_ID d) \<and> e_parse_uuid E (nr_TenantID ev) = Some (nd_TenantID d)"
  using recorded_pair [OF assms(1) n assms(3) d [unfolded open_delivery_def]] assms(1,5)
    InsertDelivery_effect [OF d [unfolded open_delivery_def]] by (simp add: canonical_gen_def)

text \<open>What is left to send says how the delivery was opened.\<close>

definition opened :: "notification_requested \<Rightarrow> string \<Rightarrow> pending_send option \<Rightarrow> notification_delivery \<Rightarrow> bool" where
  "opened ev addr pending d \<longleftrightarrow> nd_Channel d = ChannelEmail \<and> (case pending of
       None \<Rightarrow> nd_Status d = DeliveryFailed \<and> nd_Error d = noRecipientEmailReason \<and> addr = ''''
            \<or> nd_Status d = DeliverySkipped \<and> nd_Error d = skippedByPreferenceReason \<and> addr \<noteq> ''''
     | Some p \<Rightarrow> nd_Status d = DeliveryQueued \<and> addr \<noteq> '''' \<and> p = pending_of ev addr d)"

lemma route_delivers:
  assumes "route E ev addr n s1 = (Inr pending, s')"
  shows "\<exists>d st reason s2. view s2 = view s1 \<and> open_delivery E ev n st reason s2 = (Inr d, s')
     \<and> (nd_Channel d = ChannelEmail \<longrightarrow> nd_Status d = st \<longrightarrow> nd_Error d = reason \<longrightarrow> opened ev addr pending d)"
proof (cases "addr = ''''")
  case True
  then show ?thesis using assms unfolding route_def opened_def by (auto elim!: bind_InrE) blast
next
  case False
  then obtain enabled s2 where c: "channelEnabled E (nr_TenantID ev) (nr_RecipientUserID ev) (nr_Type ev) ChannelEmail s1
      = (Inr enabled, s2)"
    and k: "(if \<not> enabled then bind (open_delivery E ev n DeliverySkipped skippedByPreferenceReason) (\<lambda>_. ret None)
        else bind (open_delivery E ev n DeliveryQueued '''') (\<lambda>d. ret (Some (pending_of ev addr d)))) s2 = (Inr pending, s')"
    using assms unfolding route_def by (auto elim!: bind_InrE)
  have "view s2 = view s1" using silent_run [OF routing_silent(2) c] by simp
  then show ?thesis using k False unfolding opened_def by (cases enabled) (auto elim!: bind_InrE, blast+)
qed

lemma request_effect:
  assumes E: "canonical_gen E" and run: "request_body E ev s = (Inr pending, s')"
  shows "\<exists>addr n d. recorded s s' n d \<and> nt_Title n = '''' \<and> nt_Type n = nr_Type ev \<and> opened ev addr pending d
     \<and> e_parse_uuid E (nd_ID d) = Some (nd_ID d) \<and> e_parse_uuid E (nr_TenantID ev) = Some (nd_TenantID d)
     \<and> fst (resolveEmail E ev s) = Inr addr"
proof -
  obtain addr s0 n s1 where r: "resolveEmail E ev s = (Inr addr, s0)"
    and n: "InsertNotification E (requested_params ev addr) s0 = (Inr n, s1)"
    and k: "route E ev addr n s1 = (Inr pending, s')"
    using run unfolding request_body_def by (auto elim!: bind_InrE)
  obtain d st reason s2 where d: "view s2 = view s1" "open_delivery E ev n st reason s2 = (Inr d, s')"
    and o: "nd_Channel d = ChannelEmail \<longrightarrow> nd_Status d = st \<longrightarrow> nd_Error d = reason \<longrightarrow> opened ev addr pending d"
    using route_delivers [OF k] by blast
  have v0: "view s0 = view s" using silent_run [OF routing_silent(1) r] by simp
  have "recorded s0 s' n d" "opened ev addr pending d" "e_parse_uuid E (nd_ID d) = Some (nd_ID d)"
    "e_parse_uuid E (nr_TenantID ev) = Some (nd_TenantID d)"
    using open_delivery_pair [OF E n d] o by (simp_all add: requested_params_def)
  then show ?thesis
    using InsertNotification_effect [OF n] r recorded_from [OF v0]
    by (intro exI [of _ addr] exI [of _ n] exI [of _ d]) (simp add: requested_params_def)
qed


lemma in_step_tables:
  assumes "notifications s' = notifications s" and "deliveries s' = deliveries s" and "receipts s' = receipts s"
    and "preferences s' = preferences s"
  shows "in_step s' = in_step s"
  using assms by (simp add: in_step_def)

lemma in_step_mark: "keeps in_step (SeenOrMark E c i)"
  unfolding SeenOrMark_def
  by (rule keeps_stmt) (auto simp: keeps_def seen_or_mark_def in_step_def split: if_splits)

lemma in_step_once: "keeps_ok in_step body \<Longrightarrow> keeps in_step (uow_Do E t (once_or E d c i body))"
  unfolding once_or_def
  by (intro keeps_uow_ok keeps_ok_bind frame_in_step)
    (auto intro: keeps_ok_keeps in_step_mark simp: keeps_ret)

lemma in_step_recorded: "in_step s \<Longrightarrow> recorded s s' n d \<Longrightarrow> nd_Channel d = channel_of n \<Longrightarrow> in_step s'"
  unfolding recorded_def by (elim conjE) (rule in_step_add)

lemma in_step_push: "keeps in_step (publish_push t n)"
  unfolding publish_push_def by (intro keeps_rules) (simp add: in_step_def)

lemma in_step_aviso: "canonical_gen E \<Longrightarrow> fst txt \<noteq> '''' \<Longrightarrow> keeps_ok in_step (aviso E ev typ txt payload)"
  by (rule keeps_okI) (auto dest!: aviso_effect intro: in_step_recorded simp: channel_of_def)

lemma in_step_in_app: "keeps_ok in_step body \<Longrightarrow> keeps in_step (in_app E c ev body)"
  unfolding in_app_def by (intro keeps_bind in_step_once in_step_push)

lemma in_step_request: "canonical_gen E \<Longrightarrow> keeps_ok in_step (request_body E ev)"
  by (rule keeps_okI) (auto dest!: request_effect intro: in_step_recorded simp: channel_of_def opened_def)

lemma in_step_update: "keeps in_step (UpdateDeliveryStatus E p)"
proof -
  have "map nd_ID (update_rows Q (delivery_outcome p) ds) = map nd_ID ds"
    "map (\<lambda>d. (nd_NotificationID d, nd_TenantID d, nd_Channel d)) (update_rows Q (delivery_outcome p) ds)
      = map (\<lambda>d. (nd_NotificationID d, nd_TenantID d, nd_Channel d)) ds" for Q ds
    by (simp_all add: map_update_rows delivery_outcome_def)
  then show ?thesis unfolding UpdateDeliveryStatus_def
    by (intro keeps_bind keeps_parse keeps_stmt frame_in_step) (auto simp: keeps_def in_step_def split: option.splits)
qed

lemma in_step_deliver: "keeps in_step (deliver E p)"
  unfolding deliver_def Send_def
  by (intro keeps_bind keeps_attempt keeps_uow keeps_lift keeps_ret in_step_update frame_in_step)
    (auto simp: keeps_def in_step_def Let_def)

lemma in_step_receipt: "in_step s \<Longrightarrow> in_step (add_receipt t u i s)"
  by (auto simp: add_receipt_def in_step_def find_row_None)

lemma in_step_receipts: "in_step s \<Longrightarrow> in_step (fold (\<lambda>n. add_receipt t u (nt_ID n)) ns s)"
  by (induction ns arbitrary: s) (auto intro: in_step_receipt)

lemma in_step_reads: "keeps in_step (MarkRead E t u i)" "keeps in_step (MarkAllRead E t u)"
  unfolding MarkRead_def MarkAllRead_def RepoMarkRead_def RepoMarkAllRead_def
  by (intro keeps_rules keeps_uow frame_in_step silent_in_step silent_rules notif_reads_silent;
      simp add: in_step_receipt in_step_receipts)+

lemma in_step_preference: "keeps in_step (SetPreference E t u typ cs)"
proof -
  have "distinct (map (\<lambda>p. (np_TenantID p, np_AppUserID p, np_Type p))
      (update_rows (same_preference a b typ) (\<lambda>_. \<lparr>np_TenantID = a, np_AppUserID = b, np_Type = typ, np_Channels = c\<rparr>) ps))"
    if "distinct (map (\<lambda>p. (np_TenantID p, np_AppUserID p, np_Type p)) ps)" for a b c ps
  proof -
    have "map (\<lambda>p. (np_TenantID p, np_AppUserID p, np_Type p)) (update_rows (same_preference a b typ)
        (\<lambda>_. \<lparr>np_TenantID = a, np_AppUserID = b, np_Type = typ, np_Channels = c\<rparr>) ps)
      = map (\<lambda>p. (np_TenantID p, np_AppUserID p, np_Type p)) ps"
      by (auto simp: update_rows_def same_preference_def)
    then show ?thesis using that by simp
  qed
  then show ?thesis unfolding SetPreference_def UpsertPreference_def
    by (intro keeps_uow keeps_with_ids keeps_stmt frame_in_step)
      (auto simp: keeps_def in_step_def Let_def find_row_None same_preference_def split: option.splits)
qed

lemma in_step_outcome: "keeps in_step (MarkDeliveryOutcome E i st reason)"
  unfolding MarkDeliveryOutcome_def
  by (intro keeps_rules keeps_uow frame_in_step in_step_update silent_in_step notif_reads_silent)


lemma texts_present [simp]:
  "fst (renderImportFinished bf) \<noteq> ''''" "fst newAndamentoText \<noteq> ''''" "fst (renderDeadlineDueSoon n) \<noteq> ''''"
  "fst deadlineMissedText \<noteq> ''''" "fst deadlineResolvedOnConclusionText \<noteq> ''''" "fst (renderTrialEndingSoon n) \<noteq> ''''"
  "fst (renderPaymentFailed n) \<noteq> ''''" "fst renderFilingSucceeded \<noteq> ''''" "fst (renderFilingFailed r) \<noteq> ''''"
  by (simp_all add: renderImportFinished_def importFinishedTitle_def newAndamentoText_def renderDeadlineDueSoon_def
      deadlineMissedText_def deadlineResolvedOnConclusionText_def renderTrialEndingSoon_def renderPaymentFailed_def
      renderFilingSucceeded_def renderFilingFailed_def)

lemma in_step_andamento: "canonical_gen E \<Longrightarrow> keeps in_step (OnDocketEntryObserved_inApp E ev)"
  unfolding OnDocketEntryObserved_inApp_def
proof (rule in_step_in_app, rule keeps_ok_bind)
  show "keeps_ok in_step (HasRunningBackfillForTenant E (ie_TenantID ev))"
    by (intro keeps_ok_keeps silent_in_step notif_reads_silent)
qed (auto intro: in_step_aviso keeps_ok_keeps keeps_ret)

lemma in_step_requested: "canonical_gen E \<Longrightarrow> keeps in_step (OnNotificationRequested E E' ev)"
  unfolding OnNotificationRequested_def
  by (intro keeps_bind in_step_once in_step_request keeps_case_option keeps_ret in_step_deliver)

lemma run_notif_keeps: "canonical_gen E \<Longrightarrow> in_step s \<Longrightarrow> in_step (run_notif E op s)"
proof (cases op)
  case (OpRequest E' ev)
  then show "canonical_gen E \<Longrightarrow> in_step s \<Longrightarrow> ?thesis" using keepsD [OF in_step_requested] by simp
next
  case (OpAndamento ev)
  then show "canonical_gen E \<Longrightarrow> in_step s \<Longrightarrow> ?thesis" using keepsD [OF in_step_andamento] by simp
qed (auto simp: OnBackfillFinished_def OnDeadlineDueSoon_def OnDeadlineMissed_def OnDeadlineResolvedOnConclusion_def
      OnTrialEndingSoon_def OnPaymentFailed_def OnFilingSucceeded_def OnFilingFailed_def dispatch_resend_def
      intro!: keepsD [OF in_step_in_app [OF in_step_aviso]] keepsD [OF in_step_reads(1)] keepsD [OF in_step_reads(2)]
        keepsD [OF in_step_preference] keepsD [OF in_step_outcome])

inductive notif_reachable :: "notif_db \<Rightarrow> bool" where
  no_aviso: "notifications s = [] \<Longrightarrow> deliveries s = [] \<Longrightarrow> receipts s = [] \<Longrightarrow> preferences s = [] \<Longrightarrow> notif_reachable s"
| notif_step: "notif_reachable s \<Longrightarrow> canonical_gen E \<Longrightarrow> notif_reachable (run_notif E op s)"

text \<open>
  C28: whatever events, requests and reports of the provider arrive, with whatever failures,
  every aviso has exactly one delivery, of its own tenant, by e-mail when it has no text for
  the app and in the app otherwise; a user has at most one receipt per aviso and at most one
  preference per type.
\<close>

theorem avisos_in_step:
  assumes "notif_reachable s"
  shows "map (\<lambda>d. (nd_NotificationID d, nd_TenantID d, nd_Channel d)) (deliveries s)
       = map (\<lambda>n. (nt_ID n, nt_TenantID n, channel_of n)) (notifications s)
     \<and> distinct (map nt_ID (notifications s))
     \<and> distinct (map (\<lambda>r. (rr_NotificationID r, rr_UserID r)) (receipts s))
     \<and> distinct (map (\<lambda>p. (np_TenantID p, np_AppUserID p, np_Type p)) (preferences s))"
proof -
  have "in_step s" using assms by induction (simp_all add: in_step_def run_notif_keeps [unfolded in_step_def])
  then show ?thesis by (simp add: in_step_def)
qed


section \<open>What becomes of a request\<close>

lemma Send_outcome:
  assumes "Send E to typ data s = (r, s')"
  shows "\<exists>mails. view s' = (view s)\<lparr>mailed := mailed s @ mails\<rparr>
     \<and> (case r of Inr i \<Rightarrow> \<exists>m. mails = [m] \<and> em_To m = to \<and> n_client E (length (mailed s)) m = Inr i
        | Inl e \<Rightarrow> mails = [] \<or> (\<exists>m. mails = [m] \<and> em_To m = to \<and> n_client E (length (mailed s)) m = Inl e))
     \<and> (typ \<noteq> ''member_joined'' \<longrightarrow> isl r \<and> mails = [])"
proof -
  have unknown: "\<exists>e. render E (typ @ ''.subject'') data = Inl e" if "typ \<noteq> ''member_joined''"
  proof -
    have "typ @ ''.subject'' \<noteq> ''member_joined'' @ ''.subject''" using that by (simp only: append_same_eq not_False_eq_True)
    then have 1: "typ @ ''.subject'' \<noteq> ''member_joined.subject''" by simp
    have "last (typ @ ''.subject'') \<noteq> last ''member_joined.body''" by simp
    then have "typ @ ''.subject'' \<noteq> ''member_joined.body''" by metis
    with 1 have "typ @ ''.subject'' \<notin> set template_names" by (simp add: template_names_def)
    then show ?thesis by (simp add: render_def ErrTemplateNotFound_def NewInvalid_def)
  qed
  show ?thesis
  proof (cases "render E (typ @ ''.subject'') data")
    case (Inl e)
    then have "r = Inl e" "s' = s" using assms by (simp_all add: Send_def bind_def)
    then show ?thesis by (intro exI [of _ "[]"]) simp
  next
    case subject: (Inr subject)
    then have member: "typ = ''member_joined''" using unknown by fastforce
    show ?thesis
    proof (cases "render E (typ @ ''.body'') data")
      case (Inl e)
      then have "r = Inl e" "s' = s" using assms subject by (simp_all add: Send_def bind_def)
      then show ?thesis using member by (intro exI [of _ "[]"]) simp
    next
      case (Inr content)
      then have "r = n_client E (length (mailed s)) \<lparr>em_To = to, em_Subject = subject, em_Body = content\<rparr>"
        "s' = s\<lparr>mailed := mailed s @ [\<lparr>em_To = to, em_Subject = subject, em_Body = content\<rparr>]\<rparr>"
        using assms subject by (simp_all add: Send_def bind_def Let_def)
      then show ?thesis using member
        by (intro exI [of _ "[\<lparr>em_To = to, em_Subject = subject, em_Body = content\<rparr>]"])
          (auto simp: view_table split: sum.splits)
    qed
  qed
qed

text \<open>The last delivery is the one an update by its id reaches.\<close>

lemma update_last:
  assumes "\<forall>r \<in> set ds. nd_ID r \<noteq> nd_ID d" and "nd_ID d = i" and "nd_TenantID d = t"
  shows "update_rows (\<lambda>r. nd_ID r = i \<and> nd_TenantID r = t) f (ds @ [d]) = ds @ [f d]"
    and "find_row (\<lambda>r. nd_ID r = i \<and> nd_TenantID r = t) (ds @ [d]) = Some d"
  using assms by (induction ds) (auto simp: update_rows_def find_row_def)


text \<open>
  A delivery whose send was tried: it is sent exactly when the client took the mail, and
  carries the client's message id then, or the text of the error.
\<close>

definition tried :: "notif_env \<Rightarrow> nat \<Rightarrow> string \<Rightarrow> notification_delivery \<Rightarrow> email list \<Rightarrow> bool" where
  "tried E k addr d mails \<longleftrightarrow>
     nd_Status d = DeliverySent \<and> (\<exists>m. mails = [m] \<and> em_To m = addr \<and> n_client E k m = Inr (nd_ProviderMessageID d))
     \<or> nd_Status d = DeliveryFailed \<and> (mails = [] \<or> (\<exists>m e. mails = [m] \<and> em_To m = addr
         \<and> n_client E k m = Inl e \<and> nd_Error d = Error_text e))"

text \<open>Phase two, on the delivery just opened.\<close>

lemma deliver_effect:
  assumes run: "deliver E' p s = (Inr (), s')" and p: "ps_deliveryID p = nd_ID d" "e_parse_uuid E' (nd_ID d) = Some (nd_ID d)"
    "e_parse_uuid E' (ps_tenantID p) = Some (nd_TenantID d)"
    and ds: "deliveries s = ds @ [d]" "\<forall>r \<in> set ds. nd_ID r \<noteq> nd_ID d"
  shows "\<exists>mails d'. view s' = (view s)\<lparr>mailed := mailed s @ mails, deliveries := ds @ [d']\<rparr>
     \<and> nd_NotificationID d' = nd_NotificationID d \<and> nd_Channel d' = nd_Channel d
     \<and> tried E' (length (mailed s)) (ps_email p) d' mails
     \<and> (ps_notifType p \<noteq> ''member_joined'' \<longrightarrow> mails = [] \<and> nd_Status d' = DeliveryFailed)"
proof -
  obtain r s1 where send: "Send E' (ps_email p) (ps_notifType p) (ps_payload p) s = (r, s1)" by fastforce
  obtain mails where mails: "view s1 = (view s)\<lparr>mailed := mailed s @ mails\<rparr>"
    and r: "case r of Inr i \<Rightarrow> \<exists>m. mails = [m] \<and> em_To m = ps_email p \<and> n_client E' (length (mailed s)) m = Inr i
        | Inl e \<Rightarrow> mails = [] \<or> (\<exists>m. mails = [m] \<and> em_To m = ps_email p \<and> n_client E' (length (mailed s)) m = Inl e)"
    and only: "ps_notifType p \<noteq> ''member_joined'' \<longrightarrow> isl r \<and> mails = []"
    using Send_outcome [OF send] by blast
  define out where "out = (case r of
      Inr msgID \<Rightarrow> \<lparr>ud_DeliveryID = ps_deliveryID p, ud_TenantID = ps_tenantID p, ud_Status = DeliverySent,
                   ud_ProviderMessageID = msgID, ud_Error = ''''\<rparr>
    | Inl e \<Rightarrow> \<lparr>ud_DeliveryID = ps_deliveryID p, ud_TenantID = ps_tenantID p, ud_Status = DeliveryFailed,
                ud_ProviderMessageID = '''', ud_Error = Error_text e\<rparr>)"
  have ids: "ud_DeliveryID out = nd_ID d" "ud_TenantID out = ps_tenantID p"
    using p(1) by (simp_all add: out_def split: sum.splits)
  obtain x s2 where "UpdateDeliveryStatus E' out s2 = (Inr x, s')" and s2: "view s2 = view s1"
    using run send unfolding deliver_def out_def
    by (auto elim!: bind_InrE attempt_InrE uow_run)
  moreover have "deliveries s2 = ds @ [d]"
    using arg_cong [OF s2, of deliveries] arg_cong [OF mails, of deliveries] ds(1) by simp
  ultimately have "view s' = (view s2)\<lparr>deliveries := ds @ [delivery_outcome out d]\<rparr>"
    using update_last [OF ds(2) refl refl] unfolding UpdateDeliveryStatus_def
    by (auto elim!: parse_then dest!: stmt_InrD simp: ids p view_table)
  then have v: "view s' = (view s)\<lparr>mailed := mailed s @ mails, deliveries := ds @ [delivery_outcome out d]\<rparr>"
    by (simp only: s2 mails)
  have "tried E' (length (mailed s)) (ps_email p) (delivery_outcome out d) mails
     \<and> (ps_notifType p \<noteq> ''member_joined'' \<longrightarrow> mails = [] \<and> nd_Status (delivery_outcome out d) = DeliveryFailed)"
    using r only by (cases r) (auto simp: tried_def out_def delivery_outcome_def)
  then show ?thesis using v
    by (intro exI [of _ mails] exI [of _ "delivery_outcome out d"]) (simp add: delivery_outcome_def)
qed


text \<open>The address a request resolves to.\<close>

lemma resolved_user:
  assumes "fst (resolveEmail E ev s) = Inr addr" and "addr \<noteq> ''''"
  shows "\<exists>u \<in> set (app_users s). au_Email u = addr \<and> e_parse_uuid E (nr_RecipientUserID ev) = Some (au_ID u)
     \<and> e_parse_uuid E (nr_TenantID ev) = Some (au_TenantID u)"
  using assms unfolding resolveEmail_def FindRecipientEmail_def select_one_def stmt_def Let_def with_ids_def bind_def parseUUID_def
  by (auto simp: attempt_apply dest!: find_row_Some split: if_splits option.splits sum.splits prod.splits)

lemma request_result:
  assumes E: "canonical_gen E" and same: "e_parse_uuid E' = e_parse_uuid E"
    and run: "OnNotificationRequested E E' ev s = (Inr (), s')"
    and new: "(consumerNotifications, nr_EventID ev) \<notin> set (processed s)"
  shows "\<exists>n d mails. view s' = (view s)\<lparr>processed := (consumerNotifications, nr_EventID ev) # processed s,
        notifications := notifications s @ [n], deliveries := deliveries s @ [d], mailed := mailed s @ mails\<rparr>
     \<and> nd_NotificationID d = nt_ID n \<and> nd_Channel d = ChannelEmail \<and> nt_Type n = nr_Type ev
     \<and> (mails = [] \<and> (nd_Status d = DeliveryFailed \<and> nd_Error d = noRecipientEmailReason \<or> nd_Status d = DeliverySkipped)
        \<or> (\<exists>u \<in> set (app_users s). e_parse_uuid E (nr_RecipientUserID ev) = Some (au_ID u)
             \<and> e_parse_uuid E (nr_TenantID ev) = Some (au_TenantID u)
             \<and> tried E' (length (mailed s)) (au_Email u) d mails))
     \<and> (nr_Type ev \<noteq> ''member_joined'' \<longrightarrow> mails = [] \<and> nd_Status d \<noteq> DeliverySent)"
proof -
  obtain pending s1 where first: "uow_Do E (nr_TenantID ev)
        (once_or E None consumerNotifications (nr_EventID ev) (request_body E ev)) s = (Inr pending, s1)"
    and rest: "(case pending of None \<Rightarrow> ret () | Some p \<Rightarrow> deliver E' p) s1 = (Inr (), s')"
    using run unfolding OnNotificationRequested_def by (rule bind_InrE)
  obtain s0 where body: "request_body E ev s0 = (Inr pending, s1)"
    and v0: "view s0 = (view s)\<lparr>processed := (consumerNotifications, nr_EventID ev) # processed s\<rparr>"
    using first new by (rule first_run)
  obtain addr n d where rec: "recorded s0 s1 n d" and n: "nt_Title n = ''''" "nt_Type n = nr_Type ev"
    and o: "opened ev addr pending d" and addr: "fst (resolveEmail E ev s0) = Inr addr"
    and ids: "e_parse_uuid E (nd_ID d) = Some (nd_ID d)" "e_parse_uuid E (nr_TenantID ev) = Some (nd_TenantID d)"
    using request_effect [OF E body] by blast
  have s0: "notifications s0 = notifications s" "deliveries s0 = deliveries s" "app_users s0 = app_users s"
    using arg_cong [OF v0, of notifications] arg_cong [OF v0, of deliveries] arg_cong [OF v0, of app_users] by simp_all
  have v1: "view s1 = (view s)\<lparr>processed := (consumerNotifications, nr_EventID ev) # processed s,
      notifications := notifications s @ [n], deliveries := deliveries s @ [d]\<rparr>"
    and d: "nd_NotificationID d = nt_ID n" "\<forall>r \<in> set (deliveries s). nd_ID r \<noteq> nd_ID d" "nd_Channel d = ChannelEmail"
    using rec o v0 s0 by (auto simp: recorded_def opened_def)
  show ?thesis
  proof (cases pending)
    case None
    then have "s' = s1" using rest by simp
    then show ?thesis using v1 d n o None
      by (intro exI [of _ n] exI [of _ d] exI [of _ "[]"]) (auto simp: opened_def)
  next
    case (Some p)
    then have p: "p = pending_of ev addr d" "addr \<noteq> ''''" using o by (simp_all add: opened_def)
    have s1: "deliveries s1 = deliveries s @ [d]" "mailed s1 = mailed s"
      using arg_cong [OF v1, of deliveries] arg_cong [OF v1, of mailed] by simp_all
    have run2: "deliver E' p s1 = (Inr (), s')" using rest Some by simp
    obtain mails d' where v': "view s' = (view s1)\<lparr>mailed := mailed s1 @ mails, deliveries := deliveries s @ [d']\<rparr>"
      and d': "nd_NotificationID d' = nd_NotificationID d" "nd_Channel d' = nd_Channel d"
      and t: "tried E' (length (mailed s1)) (ps_email p) d' mails"
      and only: "ps_notifType p \<noteq> ''member_joined'' \<longrightarrow> mails = [] \<and> nd_Status d' = DeliveryFailed"
      using deliver_effect [OF run2 _ _ _ s1(1) d(2)] ids same p(1) by (auto simp: pending_of_def)
    obtain u where "u \<in> set (app_users s)" "au_Email u = addr" "e_parse_uuid E (nr_RecipientUserID ev) = Some (au_ID u)"
      "e_parse_uuid E (nr_TenantID ev) = Some (au_TenantID u)"
      using resolved_user [OF addr p(2)] s0(3) by auto
    then show ?thesis using v' v1 d d' t only n s1 p
      by (intro exI [of _ n] exI [of _ d'] exI [of _ mails]) (auto simp: pending_of_def)
  qed
qed



text \<open>What the generic request event of another slice decodes to (the field tags agree).\<close>

definition requested_of :: "billing_payload event \<Rightarrow> notification_requested option" where
  "requested_of e = (case ev_payload e of
     NotificationRequested tenant admin typ invoice amount \<Rightarrow> Some
       \<lparr>nr_EventID = ev_key e, nr_TenantID = tenant, nr_RecipientUserID = admin, nr_Type = typ,
        nr_Payload = [(''invoice_id'', JStr invoice), (''amount_due'', JInt amount)]\<rparr>
   | _ \<Rightarrow> None)"

text \<open>
  C30: the e-mails billing asks for when a charge fails are never sent: no template is
  registered for their type, so handling one of these requests hands no mail to the provider
  and leaves its delivery failed (or skipped by a preference).
\<close>

theorem payment_failed_mail_never_sent:
  assumes "requested_of (newPaymentFailedAdminNotification tenant admin invoice amount eid) = Some ev"
    and "canonical_gen E" and "e_parse_uuid E' = e_parse_uuid E"
    and "OnNotificationRequested E E' ev s = (Inr (), s')"
    and "(consumerNotifications, nr_EventID ev) \<notin> set (processed s)"
  shows "mailed s' = mailed s
     \<and> (\<exists>d. deliveries s' = deliveries s @ [d] \<and> nd_Status d \<in> {DeliveryFailed, DeliverySkipped})"
proof -
  have "nr_Type ev \<noteq> ''member_joined''"
    using assms(1) by (auto simp: requested_of_def newPaymentFailedAdminNotification_def tenant_fact_def)
  then obtain n d where v: "view s' = (view s)\<lparr>processed := (consumerNotifications, nr_EventID ev) # processed s,
        notifications := notifications s @ [n], deliveries := deliveries s @ [d], mailed := mailed s\<rparr>"
    and d: "nd_Status d \<in> {DeliveryFailed, DeliverySkipped}"
    using request_result [OF assms(2-5)] by (fastforce simp: tried_def)
  show ?thesis
    using arg_cong [OF v, of mailed] arg_cong [OF v, of deliveries] d by auto
qed

section \<open>Opting out\<close>

definition opted_out :: "string \<Rightarrow> string \<Rightarrow> string \<Rightarrow> notif_db \<Rightarrow> bool" where
  "opted_out t u typ s \<longleftrightarrow> (\<exists>p \<in> set (preferences s). same_preference t u typ p)
     \<and> (\<forall>p \<in> set (preferences s). same_preference t u typ p \<longrightarrow> ChannelEmail \<notin> set (np_Channels p))"

lemma frame_opted [simp]: "frame (opted_out t u typ)"
  by (simp add: frame_def opted_out_def)

lemma opted_view: "opted_out t u typ (view s) = opted_out t u typ s"
  by (simp add: opted_out_def)

lemma silent_opted: "silent m \<Longrightarrow> keeps (opted_out t u typ) m"
  unfolding silent_def keeps_def by (metis opted_view)

lemma opted_writes:
  "keeps (opted_out t u typ) (InsertNotification E p)" "keeps (opted_out t u typ) (InsertDelivery E q)"
  "keeps (opted_out t u typ) (UpdateDeliveryStatus E v)" "keeps (opted_out t u typ) (SeenOrMark E c i)"
  "keeps (opted_out t u typ) (publish_push tenant n)" "keeps (opted_out t u typ) (Send E to kind data)"
  unfolding InsertNotification_def InsertDelivery_def UpdateDeliveryStatus_def SeenOrMark_def publish_push_def Send_def
  by (intro keeps_rules frame_opted; auto simp: keeps_def opted_out_def Let_def seen_or_mark_def split: option.splits if_splits)+

lemma opted_receipts:
  "keeps (opted_out t u typ) (MarkRead E a b i)" "keeps (opted_out t u typ) (MarkAllRead E a b)"
proof -
  have add: "preferences (add_receipt x y i s) = preferences s" for x y i s by (simp add: add_receipt_def)
  have all: "preferences (fold (\<lambda>n. add_receipt x y (nt_ID n)) ns s) = preferences s" for x y ns s
    by (induction ns arbitrary: s) (simp_all add: add)
  show "keeps (opted_out t u typ) (MarkRead E a b i)" "keeps (opted_out t u typ) (MarkAllRead E a b)"
    unfolding MarkRead_def MarkAllRead_def RepoMarkRead_def RepoMarkAllRead_def
    by (intro keeps_rules keeps_uow frame_opted silent_opted notif_reads_silent; simp add: opted_out_def add all)+
qed

lemma opted_once:
  "keeps (opted_out t u typ) body \<Longrightarrow> keeps (opted_out t u typ) (uow_Do (E :: notif_env) x (once_or E d c i body))"
  unfolding once_or_def by (intro keeps_uow keeps_bind keeps_if keeps_ret opted_writes frame_opted)

lemma opted_aviso: "keeps (opted_out t u typ) (aviso E ev kind txt payload)"
  unfolding aviso_def record_aviso_def by (intro keeps_rules opted_writes)

lemma opted_in_app: "keeps (opted_out t u typ) body \<Longrightarrow> keeps (opted_out t u typ) (in_app E c ev body)"
  unfolding in_app_def by (intro keeps_bind opted_once opted_writes)

lemma opted_request: "keeps (opted_out t u typ) (OnNotificationRequested E E' ev)"
  unfolding OnNotificationRequested_def request_body_def route_def open_delivery_def deliver_def
  by (intro keeps_rules opted_once keeps_uow opted_writes silent_opted routing_silent frame_opted)

lemma opted_outcome: "keeps (opted_out t u typ) (MarkDeliveryOutcome E i st reason)"
  unfolding MarkDeliveryOutcome_def
  by (intro keeps_rules keeps_uow frame_opted opted_writes silent_opted notif_reads_silent)

lemma opted_andamento: "keeps (opted_out t u typ) (OnDocketEntryObserved_inApp E ev)"
  unfolding OnDocketEntryObserved_inApp_def
  by (intro opted_in_app keeps_rules opted_aviso silent_opted notif_reads_silent)

fun sets_preference :: "notif_op \<Rightarrow> bool" where
  "sets_preference (OpPreference t u typ cs) \<longleftrightarrow> True"
| "sets_preference op \<longleftrightarrow> False"

lemma opted_run: "opted_out t u typ s \<Longrightarrow> \<not> sets_preference op \<Longrightarrow> opted_out t u typ (run_notif E op s)"
  by (cases op) (auto simp: OnBackfillFinished_def OnDeadlineDueSoon_def OnDeadlineMissed_def
      OnDeadlineResolvedOnConclusion_def OnTrialEndingSoon_def OnPaymentFailed_def OnFilingSucceeded_def
      OnFilingFailed_def dispatch_resend_def
      intro!: keepsD [OF opted_in_app [OF opted_aviso]] keepsD [OF opted_request] keepsD [OF opted_andamento]
        keepsD [OF opted_receipts(1)] keepsD [OF opted_receipts(2)] keepsD [OF opted_outcome])

lemma opted_runs:
  "opted_out t u typ s \<Longrightarrow> list_all (\<lambda>op. \<not> sets_preference op) ops \<Longrightarrow> opted_out t u typ (fold (run_notif E) ops s)"
  by (induction ops arbitrary: s) (simp_all add: opted_run)


lemma opted_by_request:
  assumes "SetPreference E tenantID userID typ (Some cs) s = (Inr pref, s')" and "ChannelEmail \<notin> set cs"
    and "e_parse_uuid E tenantID = Some t" and "e_parse_uuid E userID = Some u"
  shows "opted_out t u typ s'"
proof -
  obtain s0 where "UpsertPreference E tenantID userID typ (Some cs) s0 = (Inr pref, s')"
    using assms(1) unfolding SetPreference_def by (rule uow_run)
  then have "np_Channels pref = cs" "same_preference t u typ pref"
    "preferences s' = preferences s0 @ [pref] \<and> (\<forall>p \<in> set (preferences s0). \<not> same_preference t u typ p)
      \<or> preferences s' = update_rows (same_preference t u typ) (\<lambda>_. pref) (preferences s0)
        \<and> (\<exists>p \<in> set (preferences s0). same_preference t u typ p)"
    using assms(3,4) unfolding UpsertPreference_def
    by (auto elim!: with_ids_InrE dest!: stmt_InrD find_row_Some simp: Let_def same_preference_def find_row_None
        split: if_splits)
  then show ?thesis using assms(2) replaced_rows [where row = pref and P = "same_preference t u typ"]
    unfolding opted_out_def by (elim disjE conjE bexE) (auto, metis+)
qed

lemma channel_off:
  assumes "opted_out t u typ s" and "e_parse_uuid E tenantID = Some t" and "e_parse_uuid E userID = Some u"
    and "channelEnabled E tenantID userID typ ChannelEmail s = (Inr enabled, s')" and "userID \<noteq> ''''"
  shows "\<not> enabled"
proof -
  obtain p where p: "find_row (same_preference t u typ) (preferences s) = Some p"
    using assms(1) unfolding opted_out_def by (metis find_row_None not_None_eq)
  then have "ChannelEmail \<notin> set (np_Channels p)" using assms(1) find_row_Some [OF p] by (auto simp: opted_out_def)
  then show ?thesis using assms(2-5) p unfolding channelEnabled_def FindPreferenceChannels_def
    by (auto simp: with_ids_def parseUUID_def select_one_def stmt_def Let_def bind_def attempt_apply
        WrapInfra_def ErrPreferenceNotFound_def NewInfra_def NewNotFound_def split: if_splits)
qed

lemma request_mails: "keeps (\<lambda>s. mailed s = M) (request_body E ev)"
proof -
  have quiet: "keeps (\<lambda>s. mailed s = M) m" if "silent m" for m :: "'a ntx"
    using that unfolding silent_def keeps_def by (metis notif_view(6))
  show ?thesis
    unfolding request_body_def route_def open_delivery_def InsertNotification_def InsertDelivery_def
    by (intro keeps_rules quiet [OF routing_silent(1)] quiet [OF routing_silent(2)])
      (auto simp: frame_def keeps_def Let_def)
qed

lemma request_off:
  assumes "opted_out t u (nr_Type ev) s" and "e_parse_uuid E (nr_TenantID ev) = Some t"
    and "e_parse_uuid E (nr_RecipientUserID ev) = Some u" and "nr_RecipientUserID ev \<noteq> ''''"
    and run: "request_body E ev s = (Inr pending, s')"
  shows "pending = None"
proof -
  obtain addr s0 n s1 where r: "resolveEmail E ev s = (Inr addr, s0)"
    and n: "InsertNotification E (requested_params ev addr) s0 = (Inr n, s1)"
    and k: "route E ev addr n s1 = (Inr pending, s')"
    using run unfolding request_body_def by (auto elim!: bind_InrE)
  have "opted_out t u (nr_Type ev) s1"
    using keeps_run [OF silent_opted [OF routing_silent(1)] r assms(1)] keeps_run [OF opted_writes(1) n] by simp
  then have "\<not> enabled" if "channelEnabled E (nr_TenantID ev) (nr_RecipientUserID ev) (nr_Type ev) ChannelEmail s1
      = (Inr enabled, s2)" for enabled s2
    using channel_off [OF _ assms(2,3) that assms(4)] by simp
  then show ?thesis using k unfolding route_def by (fastforce elim!: bind_InrE split: if_splits)
qed

text \<open>
  C31: once a user has saved a preference for a type that leaves out e-mail, no request of
  that type to that user hands a mail to the provider, whatever happens in between short of
  another change of preferences.
\<close>

theorem opt_out_respected:
  assumes set: "SetPreference E tenantID userID typ (Some cs) s = (Inr pref, s0)" and cs: "ChannelEmail \<notin> set cs"
    and ids: "e_parse_uuid E tenantID = Some t" "e_parse_uuid E userID = Some u"
    and ops: "list_all (\<lambda>op. \<not> sets_preference op) ops"
    and ev: "nr_Type ev = typ" "e_parse_uuid E (nr_TenantID ev) = Some t" "e_parse_uuid E (nr_RecipientUserID ev) = Some u"
      "nr_RecipientUserID ev \<noteq> ''''"
  shows "mailed (snd (OnNotificationRequested E E' ev (fold (run_notif E) ops s0)))
       = mailed (fold (run_notif E) ops s0)"
proof -
  define s1 where "s1 = fold (run_notif E) ops s0"
  have off: "opted_out t u (nr_Type ev) s1"
    using opted_runs [OF opted_by_request [OF set cs ids] ops] ev(1) by (simp add: s1_def)
  obtain r s2 where uow: "uow_Do E (nr_TenantID ev)
      (once_or E None consumerNotifications (nr_EventID ev) (request_body E ev)) s1 = (r, s2)" by fastforce
  have "mailed s2 = mailed s1 \<and> (\<forall>x. r = Inr x \<longrightarrow> x = None)"
  proof (cases r)
    case (Inl e)
    then show ?thesis using uow_Do_error [of E "nr_TenantID ev" _ s1 e] uow by (metis fst_conv snd_conv sum.distinct(1))
  next
    case (Inr pending)
    show ?thesis
    proof (cases "marked (consumerNotifications, nr_EventID ev) s1")
      case True
      have "view s2 = view s1" "pending = None"
        using once_seen [OF True, of E "nr_TenantID ev" None "request_body E ev"] unfolding uow Inr by simp_all
      then show ?thesis using Inr by (metis notif_view(6) sum.inject(2))
    next
      case False
      then obtain s where body: "request_body E ev s = (Inr pending, s2)"
        and v: "view s = (view s1)\<lparr>processed := (consumerNotifications, nr_EventID ev) # processed s1\<rparr>"
        using first_run [OF uow [unfolded Inr]] unfolding marked_def by blast
      have "preferences s = preferences s1" "mailed s = mailed s1"
        using arg_cong [OF v, of preferences] arg_cong [OF v, of mailed] by simp_all
      moreover have "pending = None"
        using request_off [OF _ ev(2-4) body] off calculation(1) by (simp add: opted_out_def)
      moreover have "mailed s2 = mailed s" using keeps_run [OF request_mails body refl] by simp
      ultimately show ?thesis using Inr by simp
    qed
  qed
  then show ?thesis using uow unfolding s1_def OnNotificationRequested_def bind_def by (auto split: sum.splits)
qed


section \<open>The inbox\<close>

lemma receipts_add [simp]: "read_by (add_receipt t u i s) v n \<longleftrightarrow> read_by s v n \<or> (v = u \<and> nt_ID n = i)"
  by (auto simp: read_by_def add_receipt_def find_row_None)

lemma notifications_add [simp]: "notifications (add_receipt t u i s) = notifications s"
  by (simp add: add_receipt_def)

lemma read_fold:
  "read_by (fold (\<lambda>n. add_receipt t u (nt_ID n)) ns s) v n \<longleftrightarrow> read_by s v n \<or> (v = u \<and> nt_ID n \<in> nt_ID ` set ns)"
  by (induction ns arbitrary: s) auto

lemma notifications_fold [simp]: "notifications (fold (\<lambda>n. add_receipt t u (nt_ID n)) ns s) = notifications s"
  by (induction ns arbitrary: s) auto

lemma read_frame [simp]: "read_by (s\<lparr>stmts := k\<rparr>) v n = read_by s v n" "read_by (s\<lparr>reads := k\<rparr>) v n = read_by s v n"
  by (simp_all add: read_by_def)

lemma read_view: "view s1 = view s \<Longrightarrow> read_by s1 v n = read_by s v n"
  by (metis notif_view(3) read_by_def)

text \<open>
  marking all as read brings the badge of the user to 0, at once and however the count is
  asked for, and changes what no other user has read.
\<close>

theorem mark_all_clears_badge:
  assumes run: "MarkAllRead E tenantID userID s = (Inr (), s')" and same: "e_parse_uuid E' = e_parse_uuid E"
    and count: "UnreadCount E' tenantID userID s' = (Inr k, s'')" and u: "e_parse_uuid E userID = Some u"
  shows "k = 0 \<and> (\<forall>v n. v \<noteq> u \<longrightarrow> read_by s' v n = read_by s v n)"
proof -
  obtain s0 where body: "RepoMarkAllRead E tenantID userID s0 = (Inr (), s')" and v: "view s0 = view s"
    using run unfolding MarkAllRead_def by (rule uow_run)
  obtain t where t: "e_parse_uuid E tenantID = Some t"
    and s': "s' = (let s1 = s0\<lparr>stmts := Suc (stmts s0)\<rparr> in fold (\<lambda>n. add_receipt t u (nt_ID n))
        (filter (\<lambda>n. visible_to t u n \<and> \<not> read_by s1 u n) (notifications s1)) s1)"
    using body u unfolding RepoMarkAllRead_def by (auto elim!: with_ids_InrE dest!: stmt_InrD simp: Let_def)
  have "read_by s' u n" if "n \<in> set (notifications s')" "visible_to t u n" for n
    using that unfolding s' by (auto simp: Let_def read_fold)
  then have "filter (\<lambda>n. visible_to t u n \<and> nt_Title n \<noteq> '''' \<and> \<not> read_by s' u n) (notifications s') = []"
    by (auto simp: filter_empty_conv)
  then have "k = 0" using count t u same unfolding UnreadCount_def CountUnread_def
    by (auto elim!: with_ids_InrE dest!: stmt_InrD)
  moreover have "read_by s' v n = read_by s v n" if "v \<noteq> u" for v n
    using that read_view [OF v] unfolding s' by (simp add: Let_def read_fold)
  ultimately show ?thesis by blast
qed

text \<open>A page ends where the next one begins.\<close>

lemma below_nth:
  assumes "sorted_wrt (\<lambda>a b. key b < (key a :: 'k :: linorder)) xs" and "n < length xs"
  shows "filter (\<lambda>x. key x < key (xs ! n)) xs = drop (Suc n) xs"
  using assms
proof (induction xs arbitrary: n)
  case (Cons x xs)
  show ?case
  proof (cases n)
    case 0
    then show ?thesis using Cons.prems by (auto simp: filter_id_conv)
  next
    case (Suc m)
    then have m: "m < length xs" using Cons.prems by simp
    have "\<not> key x < key (xs ! m)" using Cons.prems(1) nth_mem [OF m] by (meson less_asym sorted_wrt.simps(2))
    then show ?thesis using Cons.IH [OF _ m] Cons.prems Suc by simp
  qed
qed simp

definition newest_first :: "(notification \<Rightarrow> bool) \<Rightarrow> notification list \<Rightarrow> notification list" where
  "newest_first P ns = rev (sort_key inbox_key (filter P ns))"

lemma newest_filter: "newest_first (\<lambda>n. P n \<and> Q n) ns = filter Q (newest_first P ns)"
  by (simp add: newest_first_def filter_sort rev_filter [symmetric] conj_commute)

lemma newest_sorted:
  assumes "distinct (map nt_ID ns)"
  shows "sorted_wrt (\<lambda>a b. inbox_key b < inbox_key a) (newest_first P ns)"
proof -
  let ?ys = "sort_key inbox_key (filter P ns)"
  have "distinct (map nt_ID (filter P ns))" using assms by (simp add: distinct_map_filter)
  then have "distinct (map nt_ID ?ys)" by (simp add: distinct_map)
  then have "distinct (map inbox_key ?ys)" by (auto simp: distinct_map inj_on_def inbox_key_def)
  then have "sorted_wrt (<) (map inbox_key ?ys)" by (simp add: strict_sorted_iff)
  then show ?thesis by (simp add: newest_first_def sorted_wrt_rev sorted_wrt_map)
qed


text \<open>Following the cursors from a first query, with a bound on the number of pages.\<close>

fun inbox_walk :: "nat \<Rightarrow> notif_env \<Rightarrow> list_query \<Rightarrow> notif_db \<Rightarrow> notification_view list option" where
  "inbox_walk 0 E q s = None"
| "inbox_walk (Suc k) E q s = (case fst (List_inbox E q s) of
     Inl e \<Rightarrow> None
   | Inr page \<Rightarrow> (case next_cursor page of
       None \<Rightarrow> Some (fst page)
     | Some (c, i) \<Rightarrow> map_option ((@) (fst page)) (inbox_walk k E (q\<lparr>lq_LastCreated := c, lq_LastID := i\<rparr>) s)))"

lemma in_page_split:
  "in_page s q t u i n \<longleftrightarrow> in_page s q t u i n \<and> inbox_key n < (lq_LastCreated q, i)"
  by (auto simp: in_page_def)

lemma in_page_below:
  assumes "in_page s q t u i m"
  shows "in_page s (q\<lparr>lq_LastCreated := nt_CreatedAt m, lq_LastID := nt_ID m\<rparr>) t u (nt_ID m) n
    \<longleftrightarrow> in_page s q t u i n \<and> inbox_key n < inbox_key m"
proof -
  have "inbox_key m < (lq_LastCreated q, i)" using assms by (simp add: in_page_def)
  then have "inbox_key n < inbox_key m \<Longrightarrow> inbox_key n < (lq_LastCreated q, i)" using less_trans by blast
  then show ?thesis by (auto simp: in_page_def inbox_key_def)
qed

lemma page_is:
  assumes "calm E" and "e_parse_uuid E (lq_TenantID q) = Some t" and "e_parse_uuid E (lq_UserID q) = Some u"
    and "e_parse_uuid E (lq_LastID q) = Some i" and "0 \<le> lq_Limit q"
  shows "fst (List_inbox E q s) = (let rows = map (view_of s u) (newest_first (in_page s q t u i) (notifications s)) in
     Inr (take (nat (lq_Limit q)) rows, nat (lq_Limit q) < length rows))"
proof -
  have 1: "view_of (s\<lparr>stmts := k\<rparr>) u = view_of s u" for k by (rule ext) (simp add: view_of_def)
  have 2: "in_page (s\<lparr>stmts := k\<rparr>) (q\<lparr>lq_Limit := l\<rparr>) t u i = in_page s q t u i" for k l
    by (rule ext) (simp add: in_page_def)
  show ?thesis
    using assms unfolding List_inbox_def ListNotifications_def
    by (auto simp: bind_def with_ids_def parseUUID_def tx_simps 1 2 newest_first_def Let_def take_map
        nat_add_distrib min_def)
qed

lemma walk_pages:
  assumes E: "calm E" and ids: "distinct (map nt_ID (notifications s))"
    "\<forall>n \<in> set (notifications s). e_parse_uuid E (nt_ID n) = Some (nt_ID n)"
    and q: "e_parse_uuid E (lq_TenantID q) = Some t" "e_parse_uuid E (lq_UserID q) = Some u"
      "e_parse_uuid E (lq_LastID q) = Some i" "1 \<le> lq_Limit q"
    and k: "length (newest_first (in_page s q t u i) (notifications s)) < k"
  shows "inbox_walk k E q s = Some (map (view_of s u) (newest_first (in_page s q t u i) (notifications s)))"
  using q k
proof (induction k arbitrary: q i)
  case (Suc k)
  let ?L = "newest_first (in_page s q t u i) (notifications s)"
  obtain j where j: "nat (lq_Limit q) = Suc j" using Suc.prems(4) by (metis Suc_nat_eq_nat_zadd1 gr0_conv_Suc int_one_le_iff_zero_less zero_less_nat_eq)
  have page: "fst (List_inbox E q s) = Inr (take (Suc j) (map (view_of s u) ?L), Suc j < length ?L)"
    using page_is [OF E Suc.prems(1-3)] Suc.prems(4) by (simp add: Let_def j)
  show ?case
  proof (cases "Suc j < length ?L")
    case False
    then show ?thesis using page by (simp add: next_cursor_def)
  next
    case True
    let ?m = "?L ! j"
    have "?m \<in> set ?L" using True by (intro nth_mem) simp
    then have m: "?m \<in> set (notifications s)" "in_page s q t u i ?m" by (auto simp: newest_first_def)
    have ne: "take (Suc j) (map (view_of s u) ?L) \<noteq> []" using True by (cases ?L) auto
    have last: "last (take (Suc j) (map (view_of s u) ?L)) = view_of s u ?m"
      using True unfolding last_conv_nth [OF ne] by simp
    let ?q = "q\<lparr>lq_LastCreated := nt_CreatedAt ?m, lq_LastID := nt_ID ?m\<rparr>"
    have below: "in_page s ?q t u (nt_ID ?m) = (\<lambda>n. in_page s q t u i n \<and> inbox_key n < inbox_key ?m)"
      by (rule ext) (rule in_page_below [OF m(2)])
    have rest: "newest_first (in_page s ?q t u (nt_ID ?m)) (notifications s) = drop (Suc j) ?L"
      using below_nth [OF newest_sorted [OF ids(1)], of j "in_page s q t u i"] True
      unfolding below newest_filter by simp
    have "inbox_walk k E ?q s = Some (map (view_of s u) (drop (Suc j) ?L))"
      using Suc.IH [of ?q "nt_ID ?m"] Suc.prems ids(2) m(1) True by (simp add: rest)
    then show ?thesis using page last ne True
      by (simp add: next_cursor_def view_of_def take_map drop_map flip: map_append)
  qed
qed simp

text \<open>
  C32: following the cursors of the inbox page by page, with any page size, lists every aviso
  the user may see and that passes the filters, each exactly once, newest first.
\<close>

theorem inbox_pages_cover:
  assumes "calm E" and "distinct (map nt_ID (notifications s))"
    and "\<forall>n \<in> set (notifications s). e_parse_uuid E (nt_ID n) = Some (nt_ID n)"
    and "e_parse_uuid E (lq_TenantID q) = Some t" and "e_parse_uuid E (lq_UserID q) = Some u"
    and "e_parse_uuid E (lq_LastID q) = Some i" and "1 \<le> lq_Limit q"
  shows "\<exists>rows. inbox_walk (Suc (length (notifications s))) E q s = Some (map (view_of s u) rows)
     \<and> set rows = {n \<in> set (notifications s). in_page s q t u i n} \<and> distinct rows
     \<and> sorted_wrt (\<lambda>a b. inbox_key b < inbox_key a) rows"
proof (intro exI conjI)
  show "inbox_walk (Suc (length (notifications s))) E q s
      = Some (map (view_of s u) (newest_first (in_page s q t u i) (notifications s)))"
    by (rule walk_pages [OF assms]) (simp add: newest_first_def le_imp_less_Suc)
qed (use assms(2) in \<open>auto simp: newest_first_def distinct_map intro: newest_sorted [unfolded newest_first_def]\<close>)


section \<open>A concrete tenant\<close>

text \<open>Two users, Ana and Bia; a provider that takes every mail.\<close>

definition mail_env :: notif_env where
  "mail_env =
     \<lparr>e_tx_time = midnight 20514, e_clock = (\<lambda>n. midnight 20514 + int n), e_parse_uuid = Some,
      e_gen = (\<lambda>n. replicate (Suc n) CHR ''u''), e_fault = (\<lambda>_. False), e_begin_fails = False,
      e_commit_fails = False, n_render = (\<lambda>name data. Inr name), n_client = (\<lambda>k m. Inr ''msg'')\<rparr>"

definition mail_db :: notif_db where
  "mail_db =
     \<lparr>outbox = [], outbox_seq = 0, processed = [], id_seq = 0, stmts = 0, reads = 0, notifications = [],
      deliveries = [], receipts = [], preferences = [],
      app_users = [\<lparr>au_ID = ''ana'', au_TenantID = ''ten'', au_Email = ''ana@esc''\<rparr>,
        \<lparr>au_ID = ''bia'', au_TenantID = ''ten'', au_Email = ''bia@esc''\<rparr>],
      backfill_jobs = [], mailed = [], pushed = []\<rparr>"

definition joined_request :: notification_requested where
  "joined_request = \<lparr>nr_EventID = ''ev1'', nr_TenantID = ''ten'', nr_RecipientUserID = ''ana'', nr_Type = ''member_joined'',
     nr_Payload = [(''org_name'', JStr ''Escritorio'')]\<rparr>"

definition overdue :: payment_failed where
  "overdue = \<lparr>ie_EventID = ''ev2'', ie_TenantID = ''ten'', pf_InvoiceID = ''in_1'', pf_AmountDue = 12345\<rparr>"

definition due_today :: deadline_due_soon where
  "due_today = \<lparr>ie_EventID = ''ev3'', ie_TenantID = ''ten'', ds_DeadlineID = ''p1'', ds_DaysLeft = 0\<rparr>"

definition busy_db :: notif_db where
  "busy_db = fold (run_notif mail_env) [OpRequest mail_env joined_request, OpPaymentNotice overdue, OpDueSoon due_today] mail_db"

lemma mail_ids [simp]: "canonical_gen mail_env" "e_parse_uuid mail_env = Some" "calm mail_env"
  by (simp_all add: canonical_gen_def mail_env_def calm_def)

lemma notif_history: "canonical_gen E \<Longrightarrow> notif_reachable s \<Longrightarrow> notif_reachable (fold (run_notif E) ops s)"
  by (induction ops arbitrary: s) (simp_all add: notif_step)

lemma busy_facts:
  "map nt_Type (notifications busy_db) = [''member_joined'', ''payment_failed'', ''deadline_due_soon'']"
  "map em_To (mailed busy_db) = [''ana@esc'']"
  "map nt_Body (notifications busy_db) ! 1 = snd (renderPaymentFailed 12345)"
  unfolding busy_db_def by code_simp+

lemma avisos_in_step_witness:
  "map nd_Channel (deliveries busy_db) = [''EMAIL'', ''IN_APP'', ''IN_APP''] \<and> distinct (map nt_ID (notifications busy_db))"
proof -
  have "notif_reachable busy_db"
    unfolding busy_db_def by (intro notif_history mail_ids no_aviso) (simp_all add: mail_db_def)
  then have step: "map (\<lambda>d. (nd_NotificationID d, nd_TenantID d, nd_Channel d)) (deliveries busy_db)
       = map (\<lambda>n. (nt_ID n, nt_TenantID n, channel_of n)) (notifications busy_db)"
    and "distinct (map nt_ID (notifications busy_db))" using avisos_in_step by blast+
  moreover have "map nd_Channel (deliveries busy_db) = map channel_of (notifications busy_db)"
    using arg_cong [OF step, of "map (snd \<circ> snd)"] by (simp add: comp_def)
  moreover have "map channel_of (notifications busy_db) = [''EMAIL'', ''IN_APP'', ''IN_APP'']"
    unfolding busy_db_def by code_simp
  ultimately show ?thesis by simp
qed


definition failed_charge :: notification_requested where
  "failed_charge = \<lparr>nr_EventID = ''ev9'', nr_TenantID = ''ten'', nr_RecipientUserID = ''ana'', nr_Type = ''payment_failed'',
     nr_Payload = [(''invoice_id'', JStr ''in_1''), (''amount_due'', JInt 12345)]\<rparr>"

lemma payment_failed_mail_never_sent_witness:
  "mailed (snd (OnNotificationRequested mail_env mail_env failed_charge mail_db)) = []
   \<and> map nd_Status (deliveries (snd (OnNotificationRequested mail_env mail_env failed_charge mail_db))) = [DeliveryFailed]"
proof -
  have run: "OnNotificationRequested mail_env mail_env failed_charge mail_db
      = (Inr (), snd (OnNotificationRequested mail_env mail_env failed_charge mail_db))" by code_simp
  have ev: "requested_of (newPaymentFailedAdminNotification ''ten'' ''ana'' ''in_1'' 12345 ''ev9'') = Some failed_charge"
    by code_simp
  have fresh: "(consumerNotifications, nr_EventID failed_charge) \<notin> set (processed mail_db)" by (simp add: mail_db_def)
  have "map nd_Status (deliveries (snd (OnNotificationRequested mail_env mail_env failed_charge mail_db))) = [DeliveryFailed]"
    by code_simp
  then show ?thesis
    using payment_failed_mail_never_sent [OF ev mail_ids(1) refl run fresh] by (simp add: mail_db_def)
qed


lemma opt_out_respected_witness:
  "\<exists>s0. snd (SetPreference mail_env ''ten'' ''ana'' ''member_joined'' (Some [''IN_APP'']) mail_db) = s0
     \<and> mailed (snd (OnNotificationRequested mail_env mail_env joined_request
          (fold (run_notif mail_env) [OpPaymentNotice overdue, OpDueSoon due_today] s0))) = []
     \<and> map em_To (mailed (snd (OnNotificationRequested mail_env mail_env joined_request mail_db))) = [''ana@esc'']"
proof -
  define s0 where "s0 = snd (SetPreference mail_env ''ten'' ''ana'' ''member_joined'' (Some [''IN_APP'']) mail_db)"
  have "fst (SetPreference mail_env ''ten'' ''ana'' ''member_joined'' (Some [''IN_APP'']) mail_db)
      = Inr \<lparr>np_TenantID = ''ten'', np_AppUserID = ''ana'', np_Type = ''member_joined'', np_Channels = [''IN_APP'']\<rparr>"
    by code_simp
  then have set: "SetPreference mail_env ''ten'' ''ana'' ''member_joined'' (Some [''IN_APP'']) mail_db
      = (Inr \<lparr>np_TenantID = ''ten'', np_AppUserID = ''ana'', np_Type = ''member_joined'', np_Channels = [''IN_APP'']\<rparr>, s0)"
    by (simp add: s0_def prod_eq_iff)
  have "mailed (fold (run_notif mail_env) [OpPaymentNotice overdue, OpDueSoon due_today] s0) = []"
    unfolding s0_def by code_simp
  moreover have "map em_To (mailed (snd (OnNotificationRequested mail_env mail_env joined_request mail_db))) = [''ana@esc'']"
    by code_simp
  ultimately show ?thesis
    using opt_out_respected [OF set, of "''ten''" "''ana''" "[OpPaymentNotice overdue, OpDueSoon due_today]" joined_request mail_env]
    by (simp add: s0_def joined_request_def ChannelEmail_def)
qed

lemma mark_all_clears_badge_witness:
  "fst (UnreadCount mail_env ''ten'' ''ana'' busy_db) = Inr 2
   \<and> fst (UnreadCount mail_env ''ten'' ''ana'' (snd (MarkAllRead mail_env ''ten'' ''ana'' busy_db))) = Inr 0"
proof -
  have before: "fst (UnreadCount mail_env ''ten'' ''ana'' busy_db) = Inr 2" unfolding busy_db_def by code_simp
  have "fst (MarkAllRead mail_env ''ten'' ''ana'' busy_db) = Inr ()" unfolding busy_db_def by code_simp
  then obtain s' where run: "MarkAllRead mail_env ''ten'' ''ana'' busy_db = (Inr (), s')" by (metis prod.collapse)
  obtain k s'' where count: "UnreadCount mail_env ''ten'' ''ana'' s' = (Inr k, s'')"
    by (simp add: UnreadCount_def CountUnread_def with_ids_def parseUUID_def stmt_calm tx_simps)
  show ?thesis using mark_all_clears_badge [OF run refl count] before run count by simp
qed

definition first_page :: list_query where
  "first_page = \<lparr>lq_TenantID = ''ten'', lq_UserID = ''ana'', lq_LastCreated = midnight 99999, lq_LastID = ''ffff'',
     lq_UnreadOnly = False, lq_Type = '''', lq_Limit = 1\<rparr>"

lemma inbox_pages_cover_witness:
  "\<exists>rows. inbox_walk 4 mail_env first_page busy_db = Some (map (view_of busy_db ''ana'') rows) \<and> length rows = 2"
proof -
  have ids: "distinct (map nt_ID (notifications busy_db))" unfolding busy_db_def by code_simp
  have n: "length (notifications busy_db) = 3" unfolding busy_db_def by code_simp
  obtain rows where w: "inbox_walk 4 mail_env first_page busy_db = Some (map (view_of busy_db ''ana'') rows)"
    using inbox_pages_cover [OF mail_ids(3) ids, of first_page "''ten''" "''ana''" "''ffff''"] n
    by (auto simp: first_page_def)
  have "map_option length (inbox_walk 4 mail_env first_page busy_db) = Some 2" unfolding busy_db_def by code_simp
  then show ?thesis using w by auto
qed

end
