(* ===== verification/Identity.thy ===== *)
theory Identity
  imports Transaction "HOL-Library.Char_ord" "HOL-Library.List_Lexorder" "HOL-Library.Product_Lexorder"
begin

text \<open>
  \<open>internal/identity\<close>: the projection of the organizations, users and memberships of Clerk
  (tenant, app_user, membership), which is what every request is authorized on, and the
  authentication middleware of \<open>lib/httpx/middleware/auth.go\<close> that asks it. A nullable text
  read as the empty string is a string. Clerk itself, its tokens and its API, is a port.
\<close>

section \<open>Entities (entity.go, errors.go)\<close>

type_synonym role = string

definition RoleAdmin :: role where "RoleAdmin = ''ADMIN''"
definition RoleLawyer :: role where "RoleLawyer = ''LAWYER''"

definition Role_Valid :: "role \<Rightarrow> bool" where
  "Role_Valid r \<longleftrightarrow> r = RoleAdmin \<or> r = RoleLawyer"

record address =
  ad_CEP :: string
  ad_Logradouro :: string
  ad_Numero :: string
  ad_Complemento :: string
  ad_Bairro :: string
  ad_Cidade :: string
  ad_UF :: string

record tenant =
  tn_ID :: string
  tn_ClerkOrgID :: string
  tn_Name :: string
  tn_CreatedAt :: instant
  tn_CNPJ :: string
  tn_LegalName :: string
  tn_TradeName :: string
  tn_Address :: "address option"
  tn_Phone :: string
  tn_Email :: string
  tn_OnboardingCompletedAt :: "instant option"

record org_profile =
  op_CNPJ :: string
  op_LegalName :: string
  op_TradeName :: string
  op_Address :: address
  op_Phone :: string
  op_Email :: string

record me =
  me_UserID :: string
  me_TenantID :: "string option"
  me_Role :: role
  me_OnboardingCompletedAt :: "instant option"

record org_member =
  om_ID :: string
  om_Name :: string
  om_Email :: string
  om_Role :: role

record app_user =
  us_ID :: string
  us_ClerkUserID :: string
  us_TenantID :: string
  us_Email :: string
  us_Name :: string
  us_Phone :: string
  us_Role :: role
  us_CreatedAt :: instant

datatype membership_status = MembershipActive | MembershipRemoved

record membership =
  ms_ID :: string
  ms_TenantID :: string
  ms_AppUserID :: string
  ms_ClerkMembershipID :: string
  ms_Role :: role
  ms_Status :: membership_status
  ms_JoinedAt :: instant
  ms_RemovedAt :: "instant option"

record principal =
  pr_UserID :: string
  pr_TenantID :: string
  pr_Role :: role

definition ErrTenantNotFound :: err where "ErrTenantNotFound = NewNotFound ''tenant not found''"
definition ErrUserNotFound :: err where "ErrUserNotFound = NewNotFound ''user not found''"
definition ErrInvalidRole :: err where "ErrInvalidRole = NewInvalid ''invalid role''"

definition ErrMembershipConflict :: err where
  "ErrMembershipConflict = NewConflict ''user already belongs to another organization''"

definition ErrCannotRemoveSelf :: err where
  "ErrCannotRemoveSelf = NewInvalid ''cannot remove yourself''"

section \<open>Events (events.go)\<close>

datatype identity_payload =
    TenantProvisioned string string
  | OrgProfileUpdated string string string
  | MemberJoined string string role
  | MemberRemoved string string
  | JoinNotificationRequested string string string string string

definition notifyTypeMemberJoined :: string where
  "notifyTypeMemberJoined = ''member_joined''"

definition identity_fact :: "string \<Rightarrow> string \<Rightarrow> string \<Rightarrow> identity_payload \<Rightarrow> identity_payload event" where
  "identity_fact typ eid tenantID p =
     \<lparr>ev_type = typ, ev_aggregate_type = ''tenant'', ev_aggregate_id = tenantID,
      ev_key = eid, ev_schedule = None, ev_payload = p\<rparr>"

definition newTenantProvisioned :: "tenant \<Rightarrow> identity_payload event" where
  "newTenantProvisioned t = identity_fact ''identity.tenant_provisioned''
     (''tenant-provisioned:'' @ tn_ID t) (tn_ID t) (TenantProvisioned (tn_ID t) (tn_ClerkOrgID t))"

definition newOrgProfileUpdated :: "tenant \<Rightarrow> string \<Rightarrow> identity_payload event" where
  "newOrgProfileUpdated t eid = identity_fact ''identity.org_profile_updated'' eid (tn_ID t)
     (OrgProfileUpdated (tn_ID t) (tn_CNPJ t) (tn_TradeName t))"

definition newMemberJoined :: "string \<Rightarrow> string \<Rightarrow> role \<Rightarrow> string \<Rightarrow> identity_payload event" where
  "newMemberJoined tenantID appUserID r eid =
     identity_fact ''identity.member_joined'' eid tenantID (MemberJoined tenantID appUserID r)"

definition orgDisplayName :: "tenant \<Rightarrow> string" where
  "orgDisplayName t = (if tn_TradeName t \<noteq> '''' then tn_TradeName t else tn_Name t)"

definition newMemberJoinedNotification :: "tenant \<Rightarrow> string \<Rightarrow> string \<Rightarrow> string \<Rightarrow> identity_payload event" where
  "newMemberJoinedNotification t appUserID memberName eid =
     identity_fact ''notification.requested'' eid (tn_ID t)
       (JoinNotificationRequested (tn_ID t) appUserID notifyTypeMemberJoined memberName (orgDisplayName t))"

definition newMemberRemoved :: "string \<Rightarrow> string \<Rightarrow> string \<Rightarrow> identity_payload event" where
  "newMemberRemoved tenantID appUserID eid =
     identity_fact ''identity.member_removed'' eid tenantID (MemberRemoved tenantID appUserID)"

section \<open>State and environment\<close>

record identity_db = "identity_payload tx_db" +
  tenants :: "tenant list"
  users :: "app_user list"
  memberships :: "membership list"

text \<open>
  The ports: the verifier of a bearer token (user and organization), the removal of a member at
  Clerk, the check of an e-mail address (ozzo's \<open>is.EmailFormat\<close>), and the sort key of the
  collation the database orders names by.
\<close>

record identity_env = tx_env +
  i_verify :: "string \<Rightarrow> err + string \<times> string"
  i_remove_member :: "string \<Rightarrow> string \<Rightarrow> err + unit"
  i_email_format :: "string \<Rightarrow> bool"
  i_collate :: "string \<Rightarrow> string"

type_synonym 'a itx = "(identity_db, 'a) tx"

section \<open>Repository (repository.go, queries/identity.sql)\<close>

definition tenant_row :: "string \<Rightarrow> string \<Rightarrow> string \<Rightarrow> instant \<Rightarrow> tenant" where
  "tenant_row i org name now =
     \<lparr>tn_ID = i, tn_ClerkOrgID = org, tn_Name = name, tn_CreatedAt = now, tn_CNPJ = '''', tn_LegalName = '''',
      tn_TradeName = '''', tn_Address = None, tn_Phone = '''', tn_Email = '''', tn_OnboardingCompletedAt = None\<rparr>"

text \<open>\<open>ON CONFLICT (clerk_org_id) DO UPDATE SET name\<close>.\<close>

definition UpsertTenant :: "identity_env \<Rightarrow> string \<Rightarrow> string \<Rightarrow> tenant itx" where
  "UpsertTenant E org name =
     bind (next_id E) (\<lambda>i. stmt E (\<lambda>s.
       case find_row (\<lambda>t. tn_ClerkOrgID t = org) (tenants s) of
         None \<Rightarrow>
           let row = tenant_row i org name (e_tx_time E) in
           if find_row (\<lambda>t. tn_ID t = i) (tenants s) \<noteq> None then (Inl WrapInfra, s)
           else (Inr row, s\<lparr>tenants := tenants s @ [row]\<rparr>)
       | Some t \<Rightarrow> (Inr (t\<lparr>tn_Name := name\<rparr>),
           s\<lparr>tenants := update_rows (\<lambda>t. tn_ClerkOrgID t = org) (\<lambda>t. t\<lparr>tn_Name := name\<rparr>) (tenants s)\<rparr>)))"

definition FindTenantByClerkOrg :: "identity_env \<Rightarrow> string \<Rightarrow> tenant itx" where
  "FindTenantByClerkOrg E org = select_one E tenants (\<lambda>t. tn_ClerkOrgID t = org) ErrTenantNotFound"

definition FindTenantByID :: "identity_env \<Rightarrow> string \<Rightarrow> tenant itx" where
  "FindTenantByID E tenantID = bind (parseUUID E tenantID) (\<lambda>tid.
     select_one E tenants (\<lambda>t. tn_ID t = tid) ErrTenantNotFound)"

text \<open>
  \<open>ON CONFLICT (clerk_user_id) DO UPDATE\<close>: the e-mail and the name are replaced, a phone only
  by a phone, and the tenant and the role of a stored user stay.
\<close>

definition resync_user :: "string \<Rightarrow> string \<Rightarrow> string \<Rightarrow> app_user \<Rightarrow> app_user" where
  "resync_user email name phone u = u\<lparr>us_Email := email, us_Name := name,
     us_Phone := (if phone = '''' then us_Phone u else phone)\<rparr>"

definition UpsertUser :: "identity_env \<Rightarrow> string \<Rightarrow> string \<Rightarrow> string \<Rightarrow> string \<Rightarrow> string \<Rightarrow> role \<Rightarrow> app_user itx" where
  "UpsertUser E clerkUserID tenantID email name phone r =
     bind (parseUUID E tenantID) (\<lambda>tid.
     bind (next_id E) (\<lambda>i. stmt E (\<lambda>s.
       case find_row (\<lambda>u. us_ClerkUserID u = clerkUserID) (users s) of
         None \<Rightarrow>
           let row = \<lparr>us_ID = i, us_ClerkUserID = clerkUserID, us_TenantID = tid, us_Email = email, us_Name = name,
                      us_Phone = phone, us_Role = r, us_CreatedAt = e_tx_time E\<rparr> in
           if find_row (\<lambda>u. us_ID u = i) (users s) \<noteq> None then (Inl WrapInfra, s)
           else (Inr row, s\<lparr>users := users s @ [row]\<rparr>)
       | Some u \<Rightarrow> (Inr (resync_user email name phone u),
           s\<lparr>users := update_rows (\<lambda>u. us_ClerkUserID u = clerkUserID) (resync_user email name phone) (users s)\<rparr>))))"

definition FindUserByClerkUser :: "identity_env \<Rightarrow> string \<Rightarrow> app_user itx" where
  "FindUserByClerkUser E clerkUserID =
     select_one E users (\<lambda>u. us_ClerkUserID u = clerkUserID) ErrUserNotFound"

text \<open>The membership of a user in their own tenant, while it is active.\<close>

definition active_in :: "app_user \<Rightarrow> membership \<Rightarrow> bool" where
  "active_in u m \<longleftrightarrow> ms_AppUserID m = us_ID u \<and> ms_TenantID m = us_TenantID u \<and> ms_Status m = MembershipActive"

definition is_active_user :: "identity_db \<Rightarrow> app_user \<Rightarrow> bool" where
  "is_active_user s u \<longleftrightarrow> find_row (active_in u) (memberships s) \<noteq> None"

definition FindActiveUserByClerkUser :: "identity_env \<Rightarrow> string \<Rightarrow> app_user itx" where
  "FindActiveUserByClerkUser E clerkUserID = stmt E (\<lambda>s.
     case find_row (\<lambda>u. us_ClerkUserID u = clerkUserID \<and> is_active_user s u) (users s) of
       None \<Rightarrow> (Inl ErrUserNotFound, s) | Some u \<Rightarrow> (Inr u, s))"


text \<open>
  The \<open>joined\<close> flag: whether the link was not active before. \<open>clerk_membership_id\<close> is unique,
  with NULL (empty) repeated at will.
\<close>

definition same_link :: "string \<Rightarrow> string \<Rightarrow> membership \<Rightarrow> bool" where
  "same_link tid uid m \<longleftrightarrow> ms_TenantID m = tid \<and> ms_AppUserID m = uid"

definition reactivate :: "string \<Rightarrow> role \<Rightarrow> membership \<Rightarrow> membership" where
  "reactivate clerkMembershipID r m = m\<lparr>ms_Role := r, ms_ClerkMembershipID := clerkMembershipID,
     ms_Status := MembershipActive, ms_RemovedAt := None\<rparr>"

definition UpsertMembership :: "identity_env \<Rightarrow> string \<Rightarrow> string \<Rightarrow> string \<Rightarrow> role \<Rightarrow> (membership \<times> bool) itx" where
  "UpsertMembership E tenantID appUserID clerkMembershipID r =
     with_ids E tenantID appUserID (\<lambda>tid uid.
     bind (next_id E) (\<lambda>i. stmt E (\<lambda>s.
       if clerkMembershipID \<noteq> ''''
          \<and> find_row (\<lambda>m. ms_ClerkMembershipID m = clerkMembershipID \<and> \<not> same_link tid uid m) (memberships s) \<noteq> None
       then (Inl WrapInfra, s)
       else case find_row (same_link tid uid) (memberships s) of
         None \<Rightarrow>
           let row = \<lparr>ms_ID = i, ms_TenantID = tid, ms_AppUserID = uid, ms_ClerkMembershipID = clerkMembershipID,
                      ms_Role = r, ms_Status = MembershipActive, ms_JoinedAt = e_tx_time E, ms_RemovedAt = None\<rparr> in
           if find_row (\<lambda>m. ms_ID m = i) (memberships s) \<noteq> None then (Inl WrapInfra, s)
           else (Inr (row, True), s\<lparr>memberships := memberships s @ [row]\<rparr>)
       | Some m \<Rightarrow> (Inr (reactivate clerkMembershipID r m, ms_Status m \<noteq> MembershipActive),
           s\<lparr>memberships := update_rows (same_link tid uid) (reactivate clerkMembershipID r) (memberships s)\<rparr>))))"

text \<open>\<open>None\<close> is the \<open>removed = false\<close> of the repository.\<close>

definition removable :: "string \<Rightarrow> membership \<Rightarrow> bool" where
  "removable clerkMembershipID m \<longleftrightarrow> clerkMembershipID \<noteq> '''' \<and> ms_ClerkMembershipID m = clerkMembershipID
     \<and> ms_Status m = MembershipActive"

definition SoftRemoveMembership :: "identity_env \<Rightarrow> string \<Rightarrow> membership option itx" where
  "SoftRemoveMembership E clerkMembershipID = stmt E (\<lambda>s.
     case find_row (removable clerkMembershipID) (memberships s) of
       None \<Rightarrow> (Inr None, s)
     | Some m \<Rightarrow>
         let gone = (\<lambda>m. m\<lparr>ms_Status := MembershipRemoved, ms_RemovedAt := Some (e_tx_time E)\<rparr>) in
         (Inr (Some (gone m)), s\<lparr>memberships := update_rows (removable clerkMembershipID) gone (memberships s)\<rparr>))"

text \<open>Both copies of the role, in one statement.\<close>

definition has_clerk_id :: "string \<Rightarrow> membership \<Rightarrow> bool" where
  "has_clerk_id clerkMembershipID m \<longleftrightarrow> clerkMembershipID \<noteq> '''' \<and> ms_ClerkMembershipID m = clerkMembershipID"

definition UpdateMembershipRole :: "identity_env \<Rightarrow> string \<Rightarrow> role \<Rightarrow> unit itx" where
  "UpdateMembershipRole E clerkMembershipID r = stmt E (\<lambda>s.
     case find_row (has_clerk_id clerkMembershipID) (memberships s) of
       None \<Rightarrow> (Inr (), s)
     | Some m \<Rightarrow> (Inr (), s\<lparr>
         memberships := update_rows (has_clerk_id clerkMembershipID) (\<lambda>m. m\<lparr>ms_Role := r\<rparr>) (memberships s),
         users := update_rows (\<lambda>u. us_ID u = ms_AppUserID m) (\<lambda>u. u\<lparr>us_Role := r\<rparr>) (users s)\<rparr>))"

text \<open>A malformed id of a member is an unknown one.\<close>

definition FindActiveMemberClerkUser :: "identity_env \<Rightarrow> string \<Rightarrow> string \<Rightarrow> string itx" where
  "FindActiveMemberClerkUser E tenantID appUserID =
     bind (parseUUID E tenantID) (\<lambda>tid. case e_parse_uuid E appUserID of
       None \<Rightarrow> fail ErrUserNotFound
     | Some uid \<Rightarrow> stmt E (\<lambda>s.
         case find_row (\<lambda>u. us_ID u = uid \<and> us_TenantID u = tid \<and> is_active_user s u) (users s) of
           None \<Rightarrow> (Inl ErrUserNotFound, s) | Some u \<Rightarrow> (Inr (us_ClerkUserID u), s)))"

definition GetMeByClerkUser :: "identity_env \<Rightarrow> string \<Rightarrow> me itx" where
  "GetMeByClerkUser E clerkUserID = stmt E (\<lambda>s.
     case find_row (\<lambda>u. us_ClerkUserID u = clerkUserID) (users s) of None \<Rightarrow> (Inl ErrUserNotFound, s)
     | Some u \<Rightarrow> (case find_row (\<lambda>t. tn_ID t = us_TenantID u) (tenants s) of None \<Rightarrow> (Inl ErrUserNotFound, s)
       | Some t \<Rightarrow> (Inr \<lparr>me_UserID = '''', me_TenantID = Some (us_TenantID u), me_Role = us_Role u,
           me_OnboardingCompletedAt = tn_OnboardingCompletedAt t\<rparr>, s)))"

text \<open>The team: the role is the membership's copy. A NULL name sorts last.\<close>

definition member_of :: "membership \<Rightarrow> app_user \<Rightarrow> org_member" where
  "member_of m u = \<lparr>om_ID = us_ID u, om_Name = us_Name u, om_Email = us_Email u, om_Role = ms_Role m\<rparr>"

definition team :: "identity_db \<Rightarrow> string \<Rightarrow> org_member list" where
  "team s tid = concat (map (\<lambda>m. map (member_of m) (filter (\<lambda>u. active_in u m) (users s)))
     (filter (\<lambda>m. ms_TenantID m = tid) (memberships s)))"

definition ListOrgMembers :: "identity_env \<Rightarrow> string \<Rightarrow> org_member list itx" where
  "ListOrgMembers E tenantID = bind (parseUUID E tenantID) (\<lambda>tid. stmt E (read_st (\<lambda>s.
     sort_key (\<lambda>r. (om_Name r = '''', i_collate E (om_Name r), om_ID r)) (team s tid))))"

text \<open>The time onboarding was completed is stamped once.\<close>

definition profiled :: "identity_env \<Rightarrow> org_profile \<Rightarrow> tenant \<Rightarrow> tenant" where
  "profiled E p t = t\<lparr>tn_CNPJ := op_CNPJ p, tn_LegalName := op_LegalName p, tn_TradeName := op_TradeName p,
     tn_Address := Some (op_Address p), tn_Phone := op_Phone p, tn_Email := op_Email p,
     tn_OnboardingCompletedAt := Some (case tn_OnboardingCompletedAt t of None \<Rightarrow> e_tx_time E | Some x \<Rightarrow> x)\<rparr>"

definition RepoUpdateOrgProfile :: "identity_env \<Rightarrow> string \<Rightarrow> org_profile \<Rightarrow> tenant itx" where
  "RepoUpdateOrgProfile E tenantID p = bind (parseUUID E tenantID) (\<lambda>tid. stmt E (\<lambda>s.
     case find_row (\<lambda>t. tn_ID t = tid) (tenants s) of
       None \<Rightarrow> (Inl ErrTenantNotFound, s)
     | Some t \<Rightarrow> (Inr (profiled E p t),
         s\<lparr>tenants := update_rows (\<lambda>t. tn_ID t = tid) (profiled E p) (tenants s)\<rparr>)))"

section \<open>Use cases (domain.go, admin_lister.go)\<close>

definition ProvisionTenant :: "identity_env \<Rightarrow> string \<Rightarrow> string \<Rightarrow> tenant itx" where
  "ProvisionTenant E org name = uow_Do E ''''
     (bind (UpsertTenant E org name) (\<lambda>t.
      bind (publish E (newTenantProvisioned t)) (\<lambda>_. ret t)))"

text \<open>The warning it logs apart, a deletion at Clerk does nothing.\<close>

definition OnOrganizationDeleted :: "identity_env \<Rightarrow> string \<Rightarrow> unit itx" where
  "OnOrganizationDeleted E org =
     bind (attempt (FindTenantByClerkOrg E org)) (\<lambda>r. case r of
       Inl e \<Rightarrow> if e = ErrTenantNotFound then ret () else fail e
     | Inr t \<Rightarrow> ret ())"

definition resolveOrProvisionTenant :: "identity_env \<Rightarrow> string \<Rightarrow> string \<Rightarrow> tenant itx" where
  "resolveOrProvisionTenant E org name =
     bind (attempt (FindTenantByClerkOrg E org)) (\<lambda>r. case r of
       Inr t \<Rightarrow> ret t
     | Inl e \<Rightarrow> if e \<noteq> ErrTenantNotFound then fail e else ProvisionTenant E org name)"

definition SyncUser :: "identity_env \<Rightarrow> string \<Rightarrow> string \<Rightarrow> string \<Rightarrow> string \<Rightarrow> app_user itx" where
  "SyncUser E clerkUserID email name phone =
     bind (FindUserByClerkUser E clerkUserID) (\<lambda>existing.
     uow_Do E (us_TenantID existing)
       (UpsertUser E clerkUserID (us_TenantID existing) email name phone (us_Role existing)))"

record join =
  jn_clerkUserID :: string
  jn_clerkOrgID :: string
  jn_orgName :: string
  jn_clerkMembershipID :: string
  jn_email :: string
  jn_name :: string
  jn_role :: role

text \<open>The first half of \<open>OnMembershipCreated\<close>: the tenant, and the guard on it, on the pool.\<close>

definition join_guard :: "identity_env \<Rightarrow> join \<Rightarrow> tenant itx" where
  "join_guard E j =
     (if \<not> Role_Valid (jn_role j) then fail ErrInvalidRole
      else bind (resolveOrProvisionTenant E (jn_clerkOrgID j) (jn_orgName j)) (\<lambda>t.
        bind (attempt (FindUserByClerkUser E (jn_clerkUserID j))) (\<lambda>r. case r of
          Inl e \<Rightarrow> if e \<noteq> ErrUserNotFound then fail e else ret t
        | Inr existing \<Rightarrow> if us_TenantID existing \<noteq> tn_ID t then fail ErrMembershipConflict else ret t)))"

text \<open>The second half, in the transaction of the tenant.\<close>

definition announce_join :: "identity_env \<Rightarrow> tenant \<Rightarrow> join \<Rightarrow> membership \<Rightarrow> unit itx" where
  "announce_join E t j m =
     bind (publish_new E (newMemberJoined (tn_ID t) (ms_AppUserID m) (ms_Role m))) (\<lambda>_.
     publish_new E (newMemberJoinedNotification t (ms_AppUserID m) (jn_name j)))"

definition join_tenant :: "identity_env \<Rightarrow> join \<Rightarrow> tenant \<Rightarrow> app_user itx" where
  "join_tenant E j t = uow_Do E (tn_ID t)
     (bind (UpsertUser E (jn_clerkUserID j) (tn_ID t) (jn_email j) (jn_name j) '''' (jn_role j)) (\<lambda>u.
      bind (UpsertMembership E (tn_ID t) (us_ID u) (jn_clerkMembershipID j) (jn_role j)) (\<lambda>(m, joined).
      if \<not> joined then ret u
      else bind (announce_join E t j m) (\<lambda>_. ret u))))"

definition OnMembershipCreated :: "identity_env \<Rightarrow> join \<Rightarrow> app_user itx" where
  "OnMembershipCreated E j = bind (join_guard E j) (join_tenant E j)"

definition OnMembershipRemoved :: "identity_env \<Rightarrow> string \<Rightarrow> string \<Rightarrow> unit itx" where
  "OnMembershipRemoved E org clerkMembershipID =
     bind (FindTenantByClerkOrg E org) (\<lambda>t. uow_Do E (tn_ID t)
       (bind (SoftRemoveMembership E clerkMembershipID) (\<lambda>gone. case gone of
          None \<Rightarrow> ret ()
        | Some m \<Rightarrow> publish_new E (newMemberRemoved (ms_TenantID m) (ms_AppUserID m)))))"

definition OnMembershipUpdated :: "identity_env \<Rightarrow> string \<Rightarrow> string \<Rightarrow> role \<Rightarrow> unit itx" where
  "OnMembershipUpdated E org clerkMembershipID r =
     (if \<not> Role_Valid r then fail ErrInvalidRole
      else bind (FindTenantByClerkOrg E org) (\<lambda>t. uow_Do E (tn_ID t) (UpdateMembershipRole E clerkMembershipID r)))"

definition ResolvePrincipal :: "identity_env \<Rightarrow> string \<Rightarrow> string \<Rightarrow> principal itx" where
  "ResolvePrincipal E clerkUserID org =
     bind (FindTenantByClerkOrg E org) (\<lambda>t.
     bind (FindActiveUserByClerkUser E clerkUserID) (\<lambda>u.
     if us_TenantID u \<noteq> tn_ID t then fail ErrUserNotFound
     else ret \<lparr>pr_UserID = us_ID u, pr_TenantID = us_TenantID u, pr_Role = us_Role u\<rparr>))"

definition GetMe :: "identity_env \<Rightarrow> string \<Rightarrow> me itx" where
  "GetMe E clerkUserID =
     bind (attempt (GetMeByClerkUser E clerkUserID)) (\<lambda>r. case r of
       Inl e \<Rightarrow> if e = ErrUserNotFound
         then ret \<lparr>me_UserID = clerkUserID, me_TenantID = None, me_Role = '''', me_OnboardingCompletedAt = None\<rparr>
         else fail e
     | Inr m \<Rightarrow> ret (m\<lparr>me_UserID := clerkUserID\<rparr>))"

definition GetOrgProfile :: "identity_env \<Rightarrow> string \<Rightarrow> tenant itx" where
  "GetOrgProfile E tenantID = FindTenantByID E tenantID"

definition UpdateOrgProfile :: "identity_env \<Rightarrow> string \<Rightarrow> org_profile \<Rightarrow> tenant itx" where
  "UpdateOrgProfile E tenantID p = uow_Do E tenantID
     (bind (RepoUpdateOrgProfile E tenantID p) (\<lambda>t.
      bind (publish_new E (newOrgProfileUpdated t)) (\<lambda>_. ret t)))"

definition RemoveMember :: "identity_env \<Rightarrow> string \<Rightarrow> string \<Rightarrow> string \<Rightarrow> unit itx" where
  "RemoveMember E tenantID actorUserID targetAppUserID =
     (if targetAppUserID = actorUserID then fail ErrCannotRemoveSelf
      else bind (FindTenantByID E tenantID) (\<lambda>t.
        bind (FindActiveMemberClerkUser E tenantID targetAppUserID) (\<lambda>clerkUserID.
        lift_sum (i_remove_member E (tn_ClerkOrgID t) clerkUserID))))"

definition ListTenantAdminIDs :: "identity_env \<Rightarrow> string \<Rightarrow> string list itx" where
  "ListTenantAdminIDs E tenantID =
     bind (ListOrgMembers E tenantID) (\<lambda>ms. ret (map om_ID (filter (\<lambda>m. om_Role m = RoleAdmin) ms)))"


section \<open>The webhook of Clerk (webhook.go)\<close>

record org_data =
  od_ID :: string
  od_Name :: string

record membership_data =
  md_ID :: string
  md_Role :: string
  md_OrganizationID :: string
  md_OrganizationName :: string
  md_UserID :: string
  md_Identifier :: string
  md_FirstName :: string
  md_LastName :: string

text \<open>E-mail addresses and phone numbers as pairs of id and value.\<close>

record user_data =
  ud_ID :: string
  ud_FirstName :: string
  ud_LastName :: string
  ud_PrimaryEmailAddressID :: string
  ud_EmailAddresses :: "(string \<times> string) list"
  ud_PrimaryPhoneNumberID :: string
  ud_PhoneNumbers :: "(string \<times> string) list"
  ud_UnsafePhone :: string

definition mapClerkRole :: "string \<Rightarrow> role" where
  "mapClerkRole r = (if r = ''org:admin'' \<or> r = ''admin'' then RoleAdmin else RoleLawyer)"

fun primary_of :: "string \<Rightarrow> (string \<times> string) list \<Rightarrow> string option" where
  "primary_of i [] = None"
| "primary_of i ((j, x) # xs) = (if j = i then Some x else primary_of i xs)"

definition primaryEmail :: "user_data \<Rightarrow> string" where
  "primaryEmail d = (case primary_of (ud_PrimaryEmailAddressID d) (ud_EmailAddresses d) of
     Some x \<Rightarrow> x | None \<Rightarrow> (case ud_EmailAddresses d of [] \<Rightarrow> '''' | (_, x) # _ \<Rightarrow> x))"

definition primaryPhone :: "user_data \<Rightarrow> string" where
  "primaryPhone d = (case primary_of (ud_PrimaryPhoneNumberID d) (ud_PhoneNumbers d) of
     Some x \<Rightarrow> x | None \<Rightarrow> (case ud_PhoneNumbers d of [] \<Rightarrow> ud_UnsafePhone d | (_, x) # _ \<Rightarrow> x))"

definition fullName :: "string \<Rightarrow> string \<Rightarrow> string" where
  "fullName first_name last_name = TrimSpace (first_name @ '' '' @ last_name)"

text \<open>
  A verified event: its type with the data of that type, \<open>None\<close> when the data does not decode.
  An accepted invitation and every other type carry nothing the slice reads.
\<close>

datatype clerk_event =
    OrganizationCreated "org_data option"
  | OrganizationUpdated "org_data option"
  | OrganizationDeleted "org_data option"
  | InvitationAccepted
  | MembershipCreated "membership_data option"
  | MembershipDeleted "membership_data option"
  | MembershipUpdated "membership_data option"
  | UserUpdated "user_data option"
  | OtherClerkEvent

definition decoded :: "string \<Rightarrow> 'd option \<Rightarrow> ('d \<Rightarrow> 'a itx) \<Rightarrow> unit itx" where
  "decoded what d f = (case d of
     None \<Rightarrow> fail (NewInvalid (''malformed '' @ what @ '' payload'')) | Some x \<Rightarrow> bind (f x) (\<lambda>_. ret ()))"

definition join_of :: "membership_data \<Rightarrow> join" where
  "join_of d = \<lparr>jn_clerkUserID = md_UserID d, jn_clerkOrgID = md_OrganizationID d,
     jn_orgName = md_OrganizationName d, jn_clerkMembershipID = md_ID d, jn_email = md_Identifier d,
     jn_name = fullName (md_FirstName d) (md_LastName d), jn_role = mapClerkRole (md_Role d)\<rparr>"

fun dispatch_clerk :: "identity_env \<Rightarrow> clerk_event \<Rightarrow> unit itx" where
  "dispatch_clerk E (OrganizationCreated d) =
     decoded ''organization'' d (\<lambda>d. ProvisionTenant E (od_ID d) (od_Name d))"
| "dispatch_clerk E (OrganizationUpdated d) =
     decoded ''organization'' d (\<lambda>d. ProvisionTenant E (od_ID d) (od_Name d))"
| "dispatch_clerk E (OrganizationDeleted d) =
     decoded ''organization'' d (\<lambda>d. OnOrganizationDeleted E (od_ID d))"
| "dispatch_clerk E InvitationAccepted = ret ()"
| "dispatch_clerk E (MembershipCreated d) =
     decoded ''membership'' d (\<lambda>d. OnMembershipCreated E (join_of d))"
| "dispatch_clerk E (MembershipDeleted d) =
     decoded ''membership'' d (\<lambda>d. OnMembershipRemoved E (md_OrganizationID d) (md_ID d))"
| "dispatch_clerk E (MembershipUpdated d) =
     decoded ''membership'' d (\<lambda>d. OnMembershipUpdated E (md_OrganizationID d) (md_ID d) (mapClerkRole (md_Role d)))"
| "dispatch_clerk E (UserUpdated d) =
     decoded ''user'' d (\<lambda>d. SyncUser E (ud_ID d) (primaryEmail d) (fullName (ud_FirstName d) (ud_LastName d)) (primaryPhone d))"
| "dispatch_clerk E OtherClerkEvent = ret ()"

section \<open>Requests (handler.go, validation.go, lib/httpx/middleware/auth.go)\<close>

definition bearerToken :: "string \<Rightarrow> string" where
  "bearerToken header =
     (if length header < 7 \<or> ToLower (take 7 header) \<noteq> ''bearer '' then ''''
      else TrimSpace (drop 7 header))"

fun authError :: "err \<Rightarrow> err" where
  "authError (AppErr k msg) = (if k = KindNotFound then AppErr KindUnauthorized ''unknown principal'' else AppErr k msg)"
| "authError (PlainErr msg) = PlainErr msg"

text \<open>The middleware: from the header to the principal of the request.\<close>

definition Auth :: "identity_env \<Rightarrow> string \<Rightarrow> principal itx" where
  "Auth E header = (let bearer = bearerToken header in
     if bearer = '''' then fail (AppErr KindUnauthorized ''missing bearer token'')
     else case i_verify E bearer of
       Inl _ \<Rightarrow> fail (AppErr KindUnauthorized ''invalid token'')
     | Inr (userID, orgID) \<Rightarrow>
         bind (attempt (ResolvePrincipal E userID orgID)) (\<lambda>r. case r of
           Inl e \<Rightarrow> fail (authError e) | Inr p \<Rightarrow> ret p))"

text \<open>For the routes open to a user who has no tenant yet: the user of the token, unresolved.\<close>

definition AuthUser :: "identity_env \<Rightarrow> string \<Rightarrow> string itx" where
  "AuthUser E header = (let bearer = bearerToken header in
     if bearer = [] then fail (AppErr KindUnauthorized ''missing bearer token'')
     else case i_verify E bearer of
       Inl _ \<Rightarrow> fail (AppErr KindUnauthorized ''invalid token'')
     | Inr (userID, _) \<Rightarrow> ret userID)"

definition RequireRole :: "role \<Rightarrow> principal \<Rightarrow> unit itx" where
  "RequireRole r p = (if pr_Role p \<noteq> r then fail (AppErr KindForbidden ''insufficient role'') else ret ())"

record update_org_profile_request =
  rq_CNPJ :: string
  rq_LegalName :: string
  rq_TradeName :: string
  rq_Address :: address
  rq_Phone :: string
  rq_Email :: string

definition no_address :: address where
  "no_address = \<lparr>ad_CEP = '''', ad_Logradouro = '''', ad_Numero = '''', ad_Complemento = '''', ad_Bairro = '''',
     ad_Cidade = '''', ad_UF = ''''\<rparr>"

definition valid_address :: "address \<Rightarrow> bool" where
  "valid_address a \<longleftrightarrow> ad_Cidade a \<noteq> '''' \<and> ad_UF a \<noteq> ''''"

definition phoneDigits :: "string \<Rightarrow> bool" where
  "phoneDigits s \<longleftrightarrow> list_all is_digit s \<and> (length s = 10 \<or> length s = 11)"

definition valid_org_profile :: "identity_env \<Rightarrow> update_org_profile_request \<Rightarrow> bool" where
  "valid_org_profile E r \<longleftrightarrow> rq_CNPJ r \<noteq> '''' \<and> rq_LegalName r \<noteq> '''' \<and> rq_TradeName r \<noteq> ''''
     \<and> (rq_Address r = no_address \<or> valid_address (rq_Address r))
     \<and> (rq_Phone r = '''' \<or> phoneDigits (rq_Phone r)) \<and> (rq_Email r = '''' \<or> i_email_format E (rq_Email r))"

definition normalizeCNPJ :: "string \<Rightarrow> string" where
  "normalizeCNPJ s = filter is_digit s"

definition toOrgProfile :: "update_org_profile_request \<Rightarrow> org_profile" where
  "toOrgProfile r = \<lparr>op_CNPJ = normalizeCNPJ (rq_CNPJ r), op_LegalName = rq_LegalName r,
     op_TradeName = rq_TradeName r, op_Address = rq_Address r, op_Phone = rq_Phone r, op_Email = rq_Email r\<rparr>"

text \<open>The routes of a user and of any member.\<close>

definition get_me :: "identity_env \<Rightarrow> string \<Rightarrow> me itx" where
  "get_me E header = bind (AuthUser E header) (GetMe E)"

definition get_org_profile :: "identity_env \<Rightarrow> string \<Rightarrow> tenant itx" where
  "get_org_profile E header = bind (Auth E header) (\<lambda>p. GetOrgProfile E (pr_TenantID p))"

definition get_members :: "identity_env \<Rightarrow> string \<Rightarrow> org_member list itx" where
  "get_members E header = bind (Auth E header) (\<lambda>p. ListOrgMembers E (pr_TenantID p))"

text \<open>The two routes of an admin; \<open>None\<close> is a body that does not parse.\<close>

definition put_org_profile :: "identity_env \<Rightarrow> string \<Rightarrow> update_org_profile_request option \<Rightarrow> tenant itx" where
  "put_org_profile E header body =
     bind (Auth E header) (\<lambda>p.
     bind (RequireRole RoleAdmin p) (\<lambda>_. case body of
       None \<Rightarrow> fail (NewInvalid ''malformed request body'')
     | Some r \<Rightarrow> if \<not> valid_org_profile E r then fail (NewInvalid ''validation failed'')
         else UpdateOrgProfile E (pr_TenantID p) (toOrgProfile r)))"

definition delete_member :: "identity_env \<Rightarrow> string \<Rightarrow> string \<Rightarrow> unit itx" where
  "delete_member E header targetID =
     bind (Auth E header) (\<lambda>p.
     bind (RequireRole RoleAdmin p) (\<lambda>_.
     RemoveMember E (pr_TenantID p) (pr_UserID p) targetID))"

end
