(* ===== verification/IdentityProperties.thy ===== *)
theory IdentityProperties
  imports Identity
begin

text \<open>
  What the identity slice promises: the projection stays sound under every interleaving of
  webhooks, a join is announced once and with its full effect, a removed member is locked out,
  and where the two copies of a role part.
\<close>

section \<open>Histories\<close>

text \<open>
  A join runs in two halves, the guard on the pool and the write in a transaction, and other
  webhooks may be handled in between. A state carries the joins whose guard has passed.
\<close>

type_synonym identity_state = "identity_db \<times> (join \<times> tenant) list"

definition is_join :: "clerk_event \<Rightarrow> bool" where
  "is_join ev \<longleftrightarrow> (case ev of MembershipCreated _ \<Rightarrow> True | _ \<Rightarrow> False)"

datatype identity_op =
    OpWebhook clerk_event
  | OpGuard join
  | OpJoin nat
  | OpProfile string org_profile
  | OpRemove string string string

text \<open>\<open>OpJoin n\<close> finishes the n-th pending join, wherever it was left.\<close>

fun run_identity :: "identity_env \<Rightarrow> identity_op \<Rightarrow> identity_state \<Rightarrow> identity_state" where
  "run_identity E (OpWebhook ev) (s, js) = (if is_join ev then (s, js) else (snd (dispatch_clerk E ev s), js))"
| "run_identity E (OpGuard j) (s, js) =
     (case join_guard E j s of (Inl _, s') \<Rightarrow> (s', js) | (Inr t, s') \<Rightarrow> (s', js @ [(j, t)]))"
| "run_identity E (OpJoin n) (s, js) =
     (if n < length js then (snd (join_tenant E (fst (js ! n)) (snd (js ! n)) s), take n js @ drop (Suc n) js)
      else (s, js))"
| "run_identity E (OpProfile t p) (s, js) = (snd (UpdateOrgProfile E t p s), js)"
| "run_identity E (OpRemove t a u) (s, js) = (snd (RemoveMember E t a u s), js)"

text \<open>A join handled at one stretch is its two halves one after the other.\<close>

lemma join_is_two_steps:
  "fst (run_identity E (OpJoin (length js)) (run_identity E (OpGuard j) (s, js)))
    = (case join_guard E j s of (Inl _, s') \<Rightarrow> s' | (Inr _, _) \<Rightarrow> snd (OnMembershipCreated E j s))"
  by (auto simp: OnMembershipCreated_def bind_def split: prod.splits sum.splits)

definition sound_identity :: "identity_db \<Rightarrow> bool" where
  "sound_identity s \<longleftrightarrow> distinct (map tn_ID (tenants s)) \<and> distinct (map tn_ClerkOrgID (tenants s))
     \<and> distinct (map us_ID (users s)) \<and> distinct (map us_ClerkUserID (users s))
     \<and> distinct (map ms_ID (memberships s)) \<and> distinct (map (\<lambda>m. (ms_TenantID m, ms_AppUserID m)) (memberships s))
     \<and> distinct (filter (\<lambda>c. c \<noteq> '''') (map ms_ClerkMembershipID (memberships s)))
     \<and> list_all Role_Valid (map us_Role (users s)) \<and> list_all Role_Valid (map ms_Role (memberships s))"

lemma sound_identity_view: "sound_identity (view s) = sound_identity s"
  by (simp add: sound_identity_def view_def)

lemma tabular_sound [simp]: "tabular sound_identity"
  by (simp add: tabular_def frame_def sound_identity_def insert_outbox_def)

lemma frame_sound [simp]: "frame sound_identity"
  by (simp add: tabular_frame)

lemma silent_sound: "silent m \<Longrightarrow> keeps sound_identity m"
  unfolding silent_def keeps_def by (metis sound_identity_view)

lemma sound_upsert_tenant: "keeps sound_identity (UpsertTenant E org name)"
  unfolding UpsertTenant_def
  by (intro keeps_bind keeps_next_id keeps_stmt frame_sound keepsI)
    (auto simp: sound_identity_def Let_def tenant_row_def find_row_None map_update_rows split: option.split)

lemma sound_upsert_user: "Role_Valid r \<Longrightarrow> keeps sound_identity (UpsertUser E c t e n p r)"
  unfolding UpsertUser_def
  by (intro keeps_bind keeps_next_id keeps_parse keeps_stmt frame_sound keepsI)
    (auto simp: sound_identity_def Let_def find_row_None map_update_rows resync_user_def split: option.split)


lemma sound_upsert_membership:
  assumes "Role_Valid r"
  shows "keeps sound_identity (UpsertMembership E t u c r)"
  unfolding UpsertMembership_def
proof (intro keeps_with_ids keeps_bind keeps_next_id keeps_stmt frame_sound keepsI)
  fix tid uid i s
  assume s: "sound_identity s"
  let ?M = "memberships s" and ?new = "update_rows (same_link tid uid) (reactivate c r) (memberships s)"
  have d: "distinct (map (\<lambda>m. (ms_TenantID m, ms_AppUserID m)) ?M)"
    "distinct (filter (\<lambda>c. c \<noteq> '''') (map ms_ClerkMembershipID ?M))" using s by (simp_all add: sound_identity_def)
  have kept: "map ms_ID ?new = map ms_ID ?M" "map (\<lambda>m. (ms_TenantID m, ms_AppUserID m)) ?new = map (\<lambda>m. (ms_TenantID m, ms_AppUserID m)) ?M"
    by (simp_all add: map_update_rows reactivate_def)
  have roles: "list_all Role_Valid (map ms_Role ?new)"
    using s assms by (auto simp: sound_identity_def list_all_iff set_update_rows reactivate_def)
  have clerk: "distinct (filter (\<lambda>c. c \<noteq> '''') (map ms_ClerkMembershipID ?new))"
    if m: "m \<in> set ?M" "same_link tid uid m"
      and free: "c \<noteq> '''' \<longrightarrow> (\<forall>q \<in> set ?M. ms_ClerkMembershipID q = c \<longrightarrow> same_link tid uid q)" for m
  proof -
    have P: "same_link tid uid = (\<lambda>q. (ms_TenantID q, ms_AppUserID q) = (ms_TenantID m, ms_AppUserID m))"
      using m(2) by (auto simp: same_link_def)
    have "q = m" if "q \<in> set ?M" "same_link tid uid q" for q
      using distinct_map_inj [OF d(1) that(1) m(1)] that(2) m(2) by (simp add: same_link_def)
    then have "?new = update_rows (same_link tid uid) (\<lambda>_. reactivate c r m) ?M" by (rule update_rows_only)
    also have "distinct (filter (\<lambda>c. c \<noteq> '''') (map ms_ClerkMembershipID \<dots>))"
      unfolding P by (rule filtered_update [OF d(1) m(1) d(2) _ refl]) (use free m(2) in \<open>auto simp: reactivate_def same_link_def\<close>)
    finally show ?thesis .
  qed
  show "sound_identity (snd (if c \<noteq> ''''
          \<and> find_row (\<lambda>m. ms_ClerkMembershipID m = c \<and> \<not> same_link tid uid m) ?M \<noteq> None
       then (Inl WrapInfra, s)
       else case find_row (same_link tid uid) ?M of
         None \<Rightarrow>
           let row = \<lparr>ms_ID = i, ms_TenantID = tid, ms_AppUserID = uid, ms_ClerkMembershipID = c,
                      ms_Role = r, ms_Status = MembershipActive, ms_JoinedAt = e_tx_time E, ms_RemovedAt = None\<rparr> in
           if find_row (\<lambda>m. ms_ID m = i) ?M \<noteq> None then (Inl WrapInfra, s)
           else (Inr (row, True), s\<lparr>memberships := ?M @ [row]\<rparr>)
       | Some m \<Rightarrow> (Inr (reactivate c r m, ms_Status m \<noteq> MembershipActive), s\<lparr>memberships := ?new\<rparr>)))"
  proof (cases "find_row (same_link tid uid) ?M")
    case None
    then have "\<forall>q \<in> set ?M. \<not> same_link tid uid q" by (simp add: find_row_None)
    then show ?thesis using s assms
      by (auto simp: None sound_identity_def Let_def find_row_None same_link_def)
  next
    case (Some m)
    then have "m \<in> set ?M" "same_link tid uid m" using find_row_Some [OF Some] by simp_all
    then show ?thesis using s kept roles clerk [of m]
      by (auto simp: Some sound_identity_def find_row_None)
  qed
qed

lemma sound_remove: "keeps sound_identity (SoftRemoveMembership E c)"
  unfolding SoftRemoveMembership_def
  by (intro keeps_stmt frame_sound keepsI)
    (auto simp: sound_identity_def Let_def map_update_rows split: option.split)

lemma sound_role: "Role_Valid r \<Longrightarrow> keeps sound_identity (UpdateMembershipRole E c r)"
  unfolding UpdateMembershipRole_def
  by (intro keeps_stmt frame_sound keepsI)
    (auto simp: sound_identity_def map_update_rows list_all_iff set_update_rows split: option.split)

lemma sound_profile: "keeps sound_identity (RepoUpdateOrgProfile E t p)"
  unfolding RepoUpdateOrgProfile_def
  by (intro keeps_bind keeps_parse keeps_stmt frame_sound keepsI)
    (auto simp: sound_identity_def map_update_rows profiled_def split: option.split)

lemma identity_reads_silent [silent_rules]:
  "silent (FindTenantByClerkOrg E org)" "silent (FindTenantByID E t)" "silent (FindUserByClerkUser E c)"
  "silent (FindActiveUserByClerkUser E c)" "silent (FindActiveMemberClerkUser E t u)" "silent (ListOrgMembers E t)"
  unfolding FindTenantByClerkOrg_def FindTenantByID_def FindUserByClerkUser_def FindActiveUserByClerkUser_def
    FindActiveMemberClerkUser_def ListOrgMembers_def
  by (intro silent_rules)+

lemma mapped_role_valid [simp]: "Role_Valid (mapClerkRole r)"
  by (simp add: mapClerkRole_def Role_Valid_def)


lemma found_user:
  assumes "FindUserByClerkUser E c s = (Inr u, s')"
  shows "u \<in> set (users s)" and "us_ClerkUserID u = c" and "view s' = view s"
  using assms silent_run [OF identity_reads_silent(3) assms]
  unfolding FindUserByClerkUser_def select_one_def stmt_def Let_def
  by (auto dest!: find_row_Some split: option.splits if_splits)

lemma found_tenant_org:
  assumes "FindTenantByClerkOrg E org s = (Inr t, s')"
  shows "t \<in> set (tenants s)" and "tn_ClerkOrgID t = org" and "view s' = view s" and "announced s' = announced s"
  using assms silent_run [OF identity_reads_silent(1) assms]
  unfolding FindTenantByClerkOrg_def select_one_def stmt_def Let_def
  by (auto dest!: find_row_Some split: option.splits if_splits)

lemma sound_sync: "keeps sound_identity (SyncUser E c e n p)"
proof (rule keepsI)
  fix s assume s: "sound_identity s"
  obtain r s1 where f: "FindUserByClerkUser E c s = (r, s1)" by fastforce
  have s1: "sound_identity s1" using keeps_run [OF silent_sound [OF identity_reads_silent(3)] f s] .
  show "sound_identity (snd (SyncUser E c e n p s))"
  proof (cases r)
    case (Inl err)
    then show ?thesis using f s1 by (simp add: SyncUser_def bind_Inl)
  next
    case (Inr u)
    have "Role_Valid (us_Role u)"
      using found_user [OF f [unfolded Inr]] s by (auto simp: sound_identity_def list_all_iff)
    then have "keeps sound_identity (uow_Do E (us_TenantID u) (UpsertUser E c (us_TenantID u) e n p (us_Role u)))"
      by (intro keeps_uow frame_sound sound_upsert_user)
    then show ?thesis using f Inr s1 by (simp add: SyncUser_def bind_Inr keepsD)
  qed
qed

lemma sound_provision: "keeps sound_identity (ProvisionTenant E org name)"
  unfolding ProvisionTenant_def
  by (intro keeps_uow keeps_bind sound_upsert_tenant keeps_publish keeps_ret frame_sound tabular_sound)

lemma sound_guard: "keeps sound_identity (join_guard E j)"
  unfolding join_guard_def resolveOrProvisionTenant_def
  by (intro keeps_rules sound_provision silent_sound identity_reads_silent)

lemma sound_join: "Role_Valid (jn_role j) \<Longrightarrow> keeps sound_identity (join_tenant E j t)"
  unfolding join_tenant_def announce_join_def
  by (intro keeps_rules keeps_uow sound_upsert_user sound_upsert_membership frame_sound tabular_sound)

lemma sound_steps:
  "keeps sound_identity (OnOrganizationDeleted E org)" "keeps sound_identity (OnMembershipRemoved E org c)"
  "keeps sound_identity (OnMembershipUpdated E org c r)" "keeps sound_identity (UpdateOrgProfile E t p)"
  "keeps sound_identity (RemoveMember E t a u)"
  unfolding OnOrganizationDeleted_def OnMembershipRemoved_def OnMembershipUpdated_def UpdateOrgProfile_def RemoveMember_def
  by (intro keeps_rules keeps_uow sound_remove sound_role sound_profile silent_sound identity_reads_silent
      frame_sound tabular_sound; simp)+

lemma sound_webhook: "\<not> is_join ev \<Longrightarrow> keeps sound_identity (dispatch_clerk E ev)"
  by (cases ev) (auto simp: is_join_def decoded_def intro!: keeps_rules sound_provision sound_steps sound_sync)

lemma guard_role: "join_guard E j s = (Inr t, s') \<Longrightarrow> Role_Valid (jn_role j)"
  by (auto simp: join_guard_def split: if_splits)

definition sound_state :: "identity_state \<Rightarrow> bool" where
  "sound_state st \<longleftrightarrow> sound_identity (fst st) \<and> (\<forall>(j, t) \<in> set (snd st). Role_Valid (jn_role j))"

lemma run_identity_sound: "sound_state st \<Longrightarrow> sound_state (run_identity E op st)"
proof (cases st; cases op)
  fix s js j
  assume S: "sound_state st" and st: "st = (s, js)" and op: "op = OpGuard j"
  obtain r s' where g: "join_guard E j s = (r, s')" by fastforce
  have "sound_identity s'" using keeps_run [OF sound_guard g] S st by (simp add: sound_state_def)
  then show ?thesis using S st op g guard_role [of E j s _ s'] by (auto simp: sound_state_def split: sum.split)
next
  fix s js n
  assume S: "sound_state st" and st: "st = (s, js)" and op: "op = OpJoin n"
  show ?thesis
  proof (cases "n < length js")
    case True
    obtain j t where jt: "js ! n = (j, t)" by fastforce
    with True have "(j, t) \<in> set js" by (metis nth_mem)
    then have "Role_Valid (jn_role j)" using S st by (auto simp: sound_state_def)
    then show ?thesis using S st op True jt keepsD [OF sound_join]
      by (auto simp: sound_state_def dest: in_set_takeD in_set_dropD)
  qed (use S st op in simp)
qed (auto simp: sound_state_def intro: keepsD [OF sound_webhook] keepsD [OF sound_steps(4)] keepsD [OF sound_steps(5)])

inductive identity_reachable :: "identity_state \<Rightarrow> bool" where
  no_tenant: "tenants s = [] \<Longrightarrow> users s = [] \<Longrightarrow> memberships s = [] \<Longrightarrow> identity_reachable (s, [])"
| identity_operation: "identity_reachable st \<Longrightarrow> identity_reachable (run_identity E op st)"

text \<open>
  C33: whatever webhooks and requests arrive, in any order, with any failures and with the two
  halves of joins interleaved, organizations, users and memberships keep their keys, a user has
  at most one membership per tenant, and every stored role is one of the two of the product.
\<close>

theorem identity_tables_sound:
  assumes "identity_reachable st"
  shows "sound_identity (fst st)"
proof -
  have "sound_state st" using assms
    by induction (simp_all add: sound_state_def sound_identity_def run_identity_sound [unfolded sound_state_def sound_identity_def])
  then show ?thesis by (simp add: sound_state_def)
qed


section \<open>What a join leaves behind\<close>

lemma identity_view [simp]:
  "tenants (view s) = tenants s" "users (view s) = users s" "memberships (view s) = memberships s"
  by (simp_all add: view_def)

lemma view_identity_table:
  "view (s\<lparr>tenants := ts\<rparr>) = (view s)\<lparr>tenants := ts\<rparr>" "view (s\<lparr>users := us\<rparr>) = (view s)\<lparr>users := us\<rparr>"
  "view (s\<lparr>memberships := ms\<rparr>) = (view s)\<lparr>memberships := ms\<rparr>"
  "announced (s\<lparr>tenants := ts\<rparr>) = announced s" "announced (s\<lparr>users := us\<rparr>) = announced s"
  "announced (s\<lparr>memberships := ms\<rparr>) = announced s"
  by (simp_all add: view_def announced_def)

lemma identity_errors [simp]: "ErrTenantNotFound \<noteq> WrapInfra" "ErrUserNotFound \<noteq> WrapInfra"
  "WrapInfra \<noteq> ErrTenantNotFound" "WrapInfra \<noteq> ErrUserNotFound"
  by (simp_all add: ErrTenantNotFound_def ErrUserNotFound_def WrapInfra_def NewNotFound_def NewInfra_def)

definition known_org :: "string \<Rightarrow> identity_db \<Rightarrow> bool" where
  "known_org org s \<longleftrightarrow> (\<exists>t \<in> set (tenants s). tn_ClerkOrgID t = org)"

lemma unknown_org_provisioned:
  assumes "ProvisionTenant E org name s = (Inr t, s')" and "\<not> known_org org s"
  shows "view s' = (view s)\<lparr>tenants := tenants s @ [t]\<rparr>" and "announced s' = announced s @ [fact_of (newTenantProvisioned t)]"
    and "tn_ClerkOrgID t = org" and "\<exists>k. tn_ID t = e_gen E k" and "tn_ID t \<notin> tn_ID ` set (tenants s)"
proof -
  obtain s0 where body: "bind (UpsertTenant E org name) (\<lambda>t. bind (publish E (newTenantProvisioned t)) (\<lambda>_. ret t)) s0 = (Inr t, s')"
    and v: "announced s0 = announced s" "view s0 = view s"
    using assms(1) unfolding ProvisionTenant_def by (rule uow_run)
  obtain s1 where u: "UpsertTenant E org name s0 = (Inr t, s1)" and p: "publish E (newTenantProvisioned t) s1 = (Inr (), s')"
    using body by (auto elim!: bind_InrE)
  have T: "tenants s0 = tenants s" using arg_cong [OF v(2), of tenants] by simp
  then have none: "find_row (\<lambda>t. tn_ClerkOrgID t = org) (tenants s0) = None"
    using assms(2) by (auto simp: known_org_def find_row_None)
  have "view s1 = (view s0)\<lparr>tenants := tenants s0 @ [t]\<rparr> \<and> announced s1 = announced s0 \<and> tn_ClerkOrgID t = org
     \<and> (\<exists>k. tn_ID t = e_gen E k) \<and> tn_ID t \<notin> tn_ID ` set (tenants s0)"
    using u unfolding UpsertTenant_def
    by (auto elim!: gen_then dest!: stmt_InrD simp: none Let_def view_identity_table tenant_row_def split: if_splits)
      (auto simp: find_row_None)
  then show "view s' = (view s)\<lparr>tenants := tenants s @ [t]\<rparr>" "announced s' = announced s @ [fact_of (newTenantProvisioned t)]"
    "tn_ClerkOrgID t = org" "\<exists>k. tn_ID t = e_gen E k" "tn_ID t \<notin> tn_ID ` set (tenants s)"
    using publish_effect [OF p] v T by simp_all
qed

text \<open>The tenant a join runs in, perhaps just provisioned.\<close>

definition resolved_tenant :: "identity_env \<Rightarrow> string \<Rightarrow> identity_db \<Rightarrow> tenant \<Rightarrow> identity_db \<Rightarrow> bool" where
  "resolved_tenant E org s t s' \<longleftrightarrow> tn_ClerkOrgID t = org
     \<and> (if known_org org s then t \<in> set (tenants s) \<and> view s' = view s \<and> announced s' = announced s
        else view s' = (view s)\<lparr>tenants := tenants s @ [t]\<rparr> \<and> (\<exists>k. tn_ID t = e_gen E k)
          \<and> announced s' = announced s @ [fact_of (newTenantProvisioned t)])"

lemma missing_org:
  assumes "FindTenantByClerkOrg E org s = (Inl ErrTenantNotFound, s')"
  shows "\<not> known_org org s"
  using assms unfolding FindTenantByClerkOrg_def select_one_def stmt_def Let_def known_org_def
  by (auto simp: find_row_None split: option.splits if_splits)

lemma resolve_effect:
  assumes "resolveOrProvisionTenant E org name s = (Inr t, s')"
  shows "resolved_tenant E org s t s'"
proof -
  obtain r s0 where q: "FindTenantByClerkOrg E org s = (r, s0)" by fastforce
  have v: "view s0 = view s" "announced s0 = announced s" using silent_run [OF identity_reads_silent(1) q] by simp_all
  have T: "tenants s0 = tenants s" using arg_cong [OF v(1), of tenants] by simp
  show ?thesis
  proof (cases r)
    case (Inr x)
    have x: "x \<in> set (tenants s)" "tn_ClerkOrgID x = org" using found_tenant_org [OF q [unfolded Inr]] by simp_all
    have "t = x" "s' = s0"
      using assms q Inr unfolding resolveOrProvisionTenant_def by (simp_all add: bind_def attempt_apply)
    then show ?thesis using x v by (auto simp: resolved_tenant_def known_org_def)
  next
    case (Inl e)
    then have p: "ProvisionTenant E org name s0 = (Inr t, s')" and e: "e = ErrTenantNotFound"
      using assms q unfolding resolveOrProvisionTenant_def by (auto simp: bind_def attempt_apply split: if_splits)
    have "\<not> known_org org s" using missing_org q Inl e by blast
    moreover from this have "\<not> known_org org s0" by (simp add: known_org_def T)
    ultimately show ?thesis using unknown_org_provisioned [OF p] v T by (auto simp: resolved_tenant_def)
  qed
qed

text \<open>What a passed guard means: besides its tenant, that the user is in no other.\<close>

lemma guard_effect:
  assumes s: "sound_identity s" and run: "join_guard E j s = (Inr t, s')"
  shows "resolved_tenant E (jn_clerkOrgID j) s t s'"
    and "u \<in> set (users s) \<Longrightarrow> us_ClerkUserID u = jn_clerkUserID j \<Longrightarrow> us_TenantID u = tn_ID t"
proof -
  obtain s1 r where t: "resolveOrProvisionTenant E (jn_clerkOrgID j) (jn_orgName j) s = (Inr t, s1)"
    and f: "FindUserByClerkUser E (jn_clerkUserID j) s1 = (r, s')"
    and g: "case r of Inl e \<Rightarrow> e = ErrUserNotFound | Inr x \<Rightarrow> us_TenantID x = tn_ID t"
    using run unfolding join_guard_def by (auto elim!: bind_InrE attempt_InrE split: if_splits sum.splits)
  have v': "view s' = view s1" "announced s' = announced s1" using silent_run [OF identity_reads_silent(3) f] by simp_all
  show 1: "resolved_tenant E (jn_clerkOrgID j) s t s'" using resolve_effect [OF t] v' by (simp add: resolved_tenant_def)
  have U: "users s1 = users s"
    using resolve_effect [OF t] by (auto simp: resolved_tenant_def dest: arg_cong [where f = users] split: if_splits)
  assume u: "u \<in> set (users s)" "us_ClerkUserID u = jn_clerkUserID j"
  have "distinct (map us_ClerkUserID (users s))" using s by (simp add: sound_identity_def)
  then have "find_row (\<lambda>u. us_ClerkUserID u = jn_clerkUserID j) (users s1) = Some u"
    unfolding U using u by (intro find_row_unique [where k = us_ClerkUserID]) simp_all
  then show "us_TenantID u = tn_ID t"
    using f g unfolding FindUserByClerkUser_def select_one_def stmt_def Let_def
    by (auto split: if_splits)
qed


lemma UpsertUser_effect:
  assumes "UpsertUser E c t e n p r s = (Inr u, s')"
  shows "announced s' = announced s \<and> us_ClerkUserID u = c \<and> (case find_row (\<lambda>u. us_ClerkUserID u = c) (users s) of
      None \<Rightarrow> view s' = (view s)\<lparr>users := users s @ [u]\<rparr> \<and> us_Role u = r \<and> e_parse_uuid E t = Some (us_TenantID u)
        \<and> (\<exists>k. us_ID u = e_gen E k) \<and> us_ID u \<notin> us_ID ` set (users s)
    | Some x \<Rightarrow> u = resync_user e n p x
        \<and> view s' = (view s)\<lparr>users := update_rows (\<lambda>u. us_ClerkUserID u = c) (resync_user e n p) (users s)\<rparr>)"
proof (cases "find_row (\<lambda>u. us_ClerkUserID u = c) (users s)")
  case None
  then show ?thesis using assms unfolding UpsertUser_def
    by (auto elim!: parse_then gen_then dest!: stmt_InrD simp: Let_def view_identity_table split: if_splits)
      (auto simp: find_row_None)
next
  case (Some x)
  then have "us_ClerkUserID x = c" using find_row_Some [OF Some] by simp
  then show ?thesis using assms Some unfolding UpsertUser_def
    by (auto elim!: parse_then gen_then dest!: stmt_InrD simp: view_identity_table resync_user_def)
qed

lemma UpsertMembership_effect:
  assumes "UpsertMembership E t u c r s = (Inr (m, joined), s')"
    and ids: "e_parse_uuid E t = Some tid" "e_parse_uuid E u = Some uid"
  shows "announced s' = announced s \<and> same_link tid uid m \<and> ms_Status m = MembershipActive \<and> ms_Role m = r
     \<and> (case find_row (same_link tid uid) (memberships s) of
          None \<Rightarrow> joined \<and> view s' = (view s)\<lparr>memberships := memberships s @ [m]\<rparr>
        | Some x \<Rightarrow> (joined \<longleftrightarrow> ms_Status x \<noteq> MembershipActive) \<and> m = reactivate c r x
            \<and> view s' = (view s)\<lparr>memberships := update_rows (same_link tid uid) (reactivate c r) (memberships s)\<rparr>)"
proof (cases "find_row (same_link tid uid) (memberships s)")
  case None
  then show ?thesis using assms(1) ids unfolding UpsertMembership_def
    by (auto elim!: with_ids_InrE gen_then dest!: stmt_InrD simp: Let_def view_identity_table same_link_def split: if_splits)
next
  case (Some x)
  then have "same_link tid uid x" using find_row_Some [OF Some] by simp
  then show ?thesis using assms(1) ids Some unfolding UpsertMembership_def
    by (auto elim!: with_ids_InrE gen_then dest!: stmt_InrD
        simp: view_identity_table same_link_def reactivate_def split: if_splits)
qed


text \<open>A table in which one row, found by a key, is written: replaced when it is there, else added.\<close>

definition put_row :: "('r \<Rightarrow> bool) \<Rightarrow> 'r \<Rightarrow> 'r list \<Rightarrow> 'r list" where
  "put_row P row t = (if find_row P t = None then t @ [row] else update_rows P (\<lambda>_. row) t)"

lemma put_user:
  assumes "sound_identity s" and "UpsertUser E c t e n p r s = (Inr u, s')"
  shows "view s' = (view s)\<lparr>users := put_row (\<lambda>x. us_ClerkUserID x = c) u (users s)\<rparr>"
proof (cases "find_row (\<lambda>u. us_ClerkUserID u = c) (users s)")
  case None
  then show ?thesis using UpsertUser_effect [OF assms(2)] by (simp add: put_row_def)
next
  case (Some x)
  then have x: "x \<in> set (users s)" "us_ClerkUserID x = c" using find_row_Some [OF Some] by simp_all
  have "distinct (map us_ClerkUserID (users s))" using assms(1) by (simp add: sound_identity_def)
  then have "q = x" if "q \<in> set (users s)" "us_ClerkUserID q = c" for q
    using distinct_map_inj that x by metis
  then have "update_rows (\<lambda>u. us_ClerkUserID u = c) (resync_user e n p) (users s)
      = update_rows (\<lambda>u. us_ClerkUserID u = c) (\<lambda>_. resync_user e n p x) (users s)"
    by (rule update_rows_only)
  then show ?thesis using UpsertUser_effect [OF assms(2)] Some by (simp add: put_row_def)
qed

lemma the_link:
  assumes "sound_identity s" and "find_row (same_link tid uid) (memberships s) = Some x"
    and "q \<in> set (memberships s)" and "same_link tid uid q"
  shows "q = x"
proof -
  have "x \<in> set (memberships s)" "same_link tid uid x" using find_row_Some [OF assms(2)] by simp_all
  moreover have "distinct (map (\<lambda>m. (ms_TenantID m, ms_AppUserID m)) (memberships s))"
    using assms(1) by (simp add: sound_identity_def)
  ultimately show ?thesis using distinct_map_inj assms(3,4) unfolding same_link_def by fastforce
qed

lemma put_membership:
  assumes "sound_identity s" and "UpsertMembership E t u c r s = (Inr (m, joined), s')"
    and "e_parse_uuid E t = Some tid" "e_parse_uuid E u = Some uid"
  shows "view s' = (view s)\<lparr>memberships := put_row (same_link tid uid) m (memberships s)\<rparr>"
proof (cases "find_row (same_link tid uid) (memberships s)")
  case None
  then show ?thesis using UpsertMembership_effect [OF assms(2-4)] by (simp add: put_row_def)
next
  case (Some x)
  have "update_rows (same_link tid uid) (reactivate c r) (memberships s)
      = update_rows (same_link tid uid) (\<lambda>_. reactivate c r x) (memberships s)"
    by (rule update_rows_only) (rule the_link [OF assms(1) Some])
  then show ?thesis using UpsertMembership_effect [OF assms(2-4)] Some by (simp add: put_row_def)
qed

text \<open>The ids a database holds are canonical, and so are the generated ones.\<close>

definition well_formed_ids :: "identity_env \<Rightarrow> identity_db \<Rightarrow> bool" where
  "well_formed_ids E s \<longleftrightarrow> canonical_gen E \<and> (\<forall>t \<in> set (tenants s). e_parse_uuid E (tn_ID t) = Some (tn_ID t))
     \<and> (\<forall>u \<in> set (users s). e_parse_uuid E (us_ID u) = Some (us_ID u))"

definition linked :: "string \<Rightarrow> string \<Rightarrow> identity_db \<Rightarrow> bool" where
  "linked tid uid s \<longleftrightarrow> (\<exists>m \<in> set (memberships s). same_link tid uid m \<and> ms_Status m = MembershipActive)"

lemma active_link:
  assumes "sound_identity s" and "find_row (same_link tid uid) (memberships s) = Some x"
  shows "linked tid uid s \<longleftrightarrow> ms_Status x = MembershipActive"
proof -
  have "x \<in> set (memberships s)" "same_link tid uid x" using find_row_Some [OF assms(2)] by simp_all
  then show ?thesis using the_link [OF assms] unfolding linked_def by blast
qed

text \<open>The two facts of a real join.\<close>

definition join_facts :: "tenant \<Rightarrow> string \<Rightarrow> join \<Rightarrow> (string \<times> identity_payload \<times> instant option) list" where
  "join_facts t uid j = [(''identity.member_joined'', MemberJoined (tn_ID t) uid (jn_role j), None),
     (''notification.requested'',
      JoinNotificationRequested (tn_ID t) uid notifyTypeMemberJoined (jn_name j) (orgDisplayName t), None)]"

lemma announce_join_effect:
  assumes "announce_join E t j m s = (Inr u, s')" and "ms_Role m = jn_role j"
  shows "view s' = view s \<and> announced s' = announced s @ join_facts t (ms_AppUserID m) j"
proof -
  obtain s1 where 1: "publish_new E (newMemberJoined (tn_ID t) (ms_AppUserID m) (ms_Role m)) s = (Inr (), s1)"
    and 2: "publish_new E (newMemberJoinedNotification t (ms_AppUserID m) (jn_name j)) s1 = (Inr u, s')"
    using assms(1) unfolding announce_join_def by (rule bind_InrE) simp
  show ?thesis using publish_new_effect [OF 1] publish_new_effect [OF 2] assms(2)
    by (elim exE conjE) (simp add: join_facts_def fact_of_def scheduledAt_def newMemberJoined_def
        newMemberJoinedNotification_def identity_fact_def)
qed

lemma join_tenant_effect:
  assumes s: "sound_identity s" "canonical_gen E" "\<forall>x \<in> set (users s). e_parse_uuid E (us_ID x) = Some (us_ID x)"
    and r: "Role_Valid (jn_role j)" and t: "e_parse_uuid E (tn_ID t) = Some (tn_ID t)"
    and run: "join_tenant E j t s = (Inr u, s')"
  shows "\<exists>m. same_link (tn_ID t) (us_ID u) m \<and> ms_Status m = MembershipActive \<and> ms_Role m = jn_role j
     \<and> us_ClerkUserID u = jn_clerkUserID j \<and> e_parse_uuid E (us_ID u) = Some (us_ID u)
     \<and> (if \<exists>x \<in> set (users s). us_ClerkUserID x = jn_clerkUserID j
        then \<exists>x \<in> set (users s). us_ClerkUserID x = jn_clerkUserID j \<and> u = resync_user (jn_email j) (jn_name j) '''' x
        else us_TenantID u = tn_ID t \<and> us_Role u = jn_role j)
     \<and> view s' = (view s)\<lparr>users := put_row (\<lambda>x. us_ClerkUserID x = jn_clerkUserID j) u (users s),
         memberships := put_row (same_link (tn_ID t) (us_ID u)) m (memberships s)\<rparr>
     \<and> announced s' = announced s @ (if linked (tn_ID t) (us_ID u) s then [] else join_facts t (us_ID u) j)"
proof -
  obtain s0 where body: "bind (UpsertUser E (jn_clerkUserID j) (tn_ID t) (jn_email j) (jn_name j) '''' (jn_role j)) (\<lambda>u.
      bind (UpsertMembership E (tn_ID t) (us_ID u) (jn_clerkMembershipID j) (jn_role j)) (\<lambda>(m, joined).
      if \<not> joined then ret u
      else bind (announce_join E t j m) (\<lambda>_. ret u))) s0 = (Inr u, s')"
    and v0: "announced s0 = announced s" "view s0 = view s"
    using run unfolding join_tenant_def by (rule uow_run)
  obtain s1 m joined s2
    where u: "UpsertUser E (jn_clerkUserID j) (tn_ID t) (jn_email j) (jn_name j) '''' (jn_role j) s0 = (Inr u, s1)"
    and m: "UpsertMembership E (tn_ID t) (us_ID u) (jn_clerkMembershipID j) (jn_role j) s1 = (Inr (m, joined), s2)"
    and k: "if \<not> joined then s' = s2 else \<exists>r. announce_join E t j m s2 = (Inr r, s')"
    using body by (auto elim!: bind_InrE split: if_splits)
  have tables: "users s0 = users s" "memberships s0 = memberships s"
    using arg_cong [OF v0(2), of users] arg_cong [OF v0(2), of memberships] by simp_all
  have s0: "sound_identity s0" using s(1) v0(2) sound_identity_view by metis
  have s1: "sound_identity s1" using keeps_run [OF sound_upsert_user [OF r] u s0] .
  have ids: "e_parse_uuid E (us_ID u) = Some (us_ID u)" 
  proof (cases "find_row (\<lambda>x. us_ClerkUserID x = jn_clerkUserID j) (users s0)")
    case None
    then show ?thesis using UpsertUser_effect [OF u] s(2) by (auto simp: canonical_gen_def)
  next
    case (Some x)
    then show ?thesis using UpsertUser_effect [OF u] find_row_Some [OF Some] s(3) tables by (simp add: resync_user_def)
  qed
  let ?who = "\<lambda>x. us_ClerkUserID x = jn_clerkUserID j" and ?link = "same_link (tn_ID t) (us_ID u)"
  have v1: "view s1 = (view s)\<lparr>users := put_row ?who u (users s)\<rparr>"
    using put_user [OF s0 u] v0 tables by simp
  have M: "memberships s1 = memberships s" using arg_cong [OF v1, of memberships] by simp
  have v2: "view s2 = (view s)\<lparr>users := put_row ?who u (users s), memberships := put_row ?link m (memberships s)\<rparr>"
    using put_membership [OF s1 m t ids] v1 M by simp
  have m': "announced s2 = announced s1" "?link m" "ms_Status m = MembershipActive" "ms_Role m = jn_role j"
    using UpsertMembership_effect [OF m t ids] by blast+
  have joined: "joined \<longleftrightarrow> \<not> linked (tn_ID t) (us_ID u) s1"
  proof (cases "find_row ?link (memberships s1)")
    case None
    then have "joined" using UpsertMembership_effect [OF m t ids] by simp
    then show ?thesis using None by (auto simp: linked_def find_row_None)
  next
    case (Some x)
    then show ?thesis using UpsertMembership_effect [OF m t ids] active_link [OF s1 Some] by simp
  qed
  have "view s' = view s2 \<and> announced s' = announced s2 @ (if linked (tn_ID t) (us_ID u) s then [] else join_facts t (us_ID u) j)"
    using k joined announce_join_effect [OF _ m'(4)] m'(2) M by (auto simp: linked_def same_link_def split: if_splits)
  moreover have "announced s1 = announced s" "us_ClerkUserID u = jn_clerkUserID j"
    using UpsertUser_effect [OF u] v0(1) by simp_all
  moreover have "if \<exists>x \<in> set (users s). ?who x then \<exists>x \<in> set (users s). ?who x \<and> u = resync_user (jn_email j) (jn_name j) '''' x
        else us_TenantID u = tn_ID t \<and> us_Role u = jn_role j"
  proof (cases "find_row ?who (users s0)")
    case None
    then have "us_TenantID u = tn_ID t" "us_Role u = jn_role j" using UpsertUser_effect [OF u] t by simp_all
    then show ?thesis using None tables by (simp add: find_row_None)
  next
    case (Some x)
    then show ?thesis using UpsertUser_effect [OF u] find_row_Some [OF Some] tables by auto
  qed
  ultimately show ?thesis using v2 m' ids by (intro exI [of _ m]) simp
qed


lemma the_role:
  assumes s: "sound_identity s" and u: "if \<exists>x \<in> set (users s). us_ClerkUserID x = c
        then \<exists>x \<in> set (users s). us_ClerkUserID x = c \<and> u = resync_user e n p x
        else us_TenantID u = t \<and> us_Role u = r"
  shows "us_Role u = (case find_row (\<lambda>x. us_ClerkUserID x = c) (users s) of None \<Rightarrow> r | Some x \<Rightarrow> us_Role x)"
proof (cases "\<exists>x \<in> set (users s). us_ClerkUserID x = c")
  case True
  with u obtain x where x: "x \<in> set (users s)" "us_ClerkUserID x = c" "u = resync_user e n p x" by auto
  have "distinct (map us_ClerkUserID (users s))" using s by (simp add: sound_identity_def)
  then have "find_row (\<lambda>x. us_ClerkUserID x = c) (users s) = Some x"
    using x by (intro find_row_unique [where k = us_ClerkUserID]) simp_all
  then show ?thesis using x(3) by (simp add: resync_user_def)
next
  case False
  then have "find_row (\<lambda>x. us_ClerkUserID x = c) (users s) = None" by (simp add: find_row_None)
  then show ?thesis using u False by simp
qed

lemma join_result:
  assumes s: "sound_identity s" and ids: "well_formed_ids E s" and run: "OnMembershipCreated E j s = (Inr u, s')"
  shows "\<exists>t m. tn_ClerkOrgID t = jn_clerkOrgID j \<and> us_ClerkUserID u = jn_clerkUserID j \<and> us_TenantID u = tn_ID t
     \<and> us_Role u = (case find_row (\<lambda>x. us_ClerkUserID x = jn_clerkUserID j) (users s) of None \<Rightarrow> jn_role j | Some x \<Rightarrow> us_Role x)
     \<and> same_link (tn_ID t) (us_ID u) m \<and> ms_Status m = MembershipActive \<and> ms_Role m = jn_role j
     \<and> view s' = (view s)\<lparr>
         tenants := (if known_org (jn_clerkOrgID j) s then tenants s else tenants s @ [t]),
         users := put_row (\<lambda>x. us_ClerkUserID x = jn_clerkUserID j) u (users s),
         memberships := put_row (same_link (tn_ID t) (us_ID u)) m (memberships s)\<rparr>
     \<and> announced s' = announced s
         @ (if known_org (jn_clerkOrgID j) s then [] else [fact_of (newTenantProvisioned t)])
         @ (if linked (tn_ID t) (us_ID u) s then [] else join_facts t (us_ID u) j)"
proof -
  obtain t s1 where g: "join_guard E j s = (Inr t, s1)" and k: "join_tenant E j t s1 = (Inr u, s')"
    using run unfolding OnMembershipCreated_def by (rule bind_InrE)
  note res = guard_effect(1) [OF s g, unfolded resolved_tenant_def]
  have s1: "sound_identity s1" using keeps_run [OF sound_guard g s] .
  have T: "users s1 = users s" "memberships s1 = memberships s"
    using res by (auto dest: arg_cong [where f = users] arg_cong [where f = memberships] split: if_splits)
  have canon: "canonical_gen E" "\<forall>x \<in> set (users s1). e_parse_uuid E (us_ID x) = Some (us_ID x)"
    using ids T by (simp_all add: well_formed_ids_def)
  have tid: "e_parse_uuid E (tn_ID t) = Some (tn_ID t)"
    using res ids by (auto simp: well_formed_ids_def canonical_gen_def split: if_splits)
  obtain m where m: "same_link (tn_ID t) (us_ID u) m" "ms_Status m = MembershipActive" "ms_Role m = jn_role j"
    and c: "us_ClerkUserID u = jn_clerkUserID j"
    and u: "if \<exists>x \<in> set (users s1). us_ClerkUserID x = jn_clerkUserID j
        then \<exists>x \<in> set (users s1). us_ClerkUserID x = jn_clerkUserID j \<and> u = resync_user (jn_email j) (jn_name j) '''' x
        else us_TenantID u = tn_ID t \<and> us_Role u = jn_role j"
    and v: "view s' = (view s1)\<lparr>users := put_row (\<lambda>x. us_ClerkUserID x = jn_clerkUserID j) u (users s1),
         memberships := put_row (same_link (tn_ID t) (us_ID u)) m (memberships s1)\<rparr>"
    and a: "announced s' = announced s1 @ (if linked (tn_ID t) (us_ID u) s1 then [] else join_facts t (us_ID u) j)"
    using join_tenant_effect [OF s1 canon guard_role [OF g] tid k] by blast
  have "us_TenantID u = tn_ID t"
    using u guard_effect(2) [OF s g] T by (auto simp: resync_user_def split: if_splits)
  moreover have "us_Role u = (case find_row (\<lambda>x. us_ClerkUserID x = jn_clerkUserID j) (users s) of
      None \<Rightarrow> jn_role j | Some x \<Rightarrow> us_Role x)"
    using the_role [OF s1 u] T by simp
  moreover have "linked (tn_ID t) (us_ID u) s1 = linked (tn_ID t) (us_ID u) s" by (simp add: linked_def T)
  ultimately show ?thesis using res m c v a T
    by (intro exI [of _ t] exI [of _ m]) (simp split: if_splits)
qed


text \<open>
  C34: a membership webhook that is handled without an error leaves exactly this behind: the
  tenant of its organization, provisioned and announced if it was not known; the user, created
  in that tenant with the role of the webhook or, keeping the stored role, with the e-mail and
  the name brought up to date; the one membership linking
  the two, active and with the role of the webhook; and, when the link was not active before,
  the announcement of the join and the request for the welcome e-mail. Nothing else is written.
\<close>

theorem join_outcome:
  assumes s: "sound_identity s" and ids: "well_formed_ids E s" and run: "OnMembershipCreated E j s = (Inr u, s')"
  shows "\<exists>t m. tn_ClerkOrgID t = jn_clerkOrgID j \<and> us_ClerkUserID u = jn_clerkUserID j \<and> us_TenantID u = tn_ID t
     \<and> us_Role u = (case find_row (\<lambda>x. us_ClerkUserID x = jn_clerkUserID j) (users s) of None \<Rightarrow> jn_role j | Some x \<Rightarrow> us_Role x)
     \<and> same_link (tn_ID t) (us_ID u) m \<and> ms_Status m = MembershipActive \<and> ms_Role m = jn_role j
     \<and> view s' = (view s)\<lparr>
         tenants := (if known_org (jn_clerkOrgID j) s then tenants s else tenants s @ [t]),
         users := put_row (\<lambda>x. us_ClerkUserID x = jn_clerkUserID j) u (users s),
         memberships := put_row (same_link (tn_ID t) (us_ID u)) m (memberships s)\<rparr>
     \<and> announced s' = announced s
         @ (if known_org (jn_clerkOrgID j) s then [] else [fact_of (newTenantProvisioned t)])
         @ (if linked (tn_ID t) (us_ID u) s then [] else join_facts t (us_ID u) j)"
  using assms by (rule join_result)

section \<open>Who gets in\<close>

lemma active_user_linked:
  "is_active_user s u \<longleftrightarrow> linked (us_TenantID u) (us_ID u) s"
  unfolding is_active_user_def linked_def active_in_def same_link_def find_row_None by blast

lemma resolved_principal:
  assumes "ResolvePrincipal E c org s = (Inr p, s')"
  shows "\<exists>t \<in> set (tenants s). \<exists>u \<in> set (users s). tn_ClerkOrgID t = org \<and> us_ClerkUserID u = c
     \<and> us_TenantID u = tn_ID t \<and> linked (tn_ID t) (us_ID u) s
     \<and> p = \<lparr>pr_UserID = us_ID u, pr_TenantID = tn_ID t, pr_Role = us_Role u\<rparr>"
proof -
  obtain t s1 u s2 where t: "FindTenantByClerkOrg E org s = (Inr t, s1)"
    and u: "FindActiveUserByClerkUser E c s1 = (Inr u, s2)"
    and p: "us_TenantID u = tn_ID t" "p = \<lparr>pr_UserID = us_ID u, pr_TenantID = us_TenantID u, pr_Role = us_Role u\<rparr>"
    using assms unfolding ResolvePrincipal_def by (auto elim!: bind_InrE split: if_splits)
  have v: "users s1 = users s" "memberships s1 = memberships s"
    using arg_cong [OF found_tenant_org(3) [OF t], of users] arg_cong [OF found_tenant_org(3) [OF t], of memberships] by simp_all
  have "u \<in> set (users s) \<and> us_ClerkUserID u = c \<and> is_active_user s u"
    using u v unfolding FindActiveUserByClerkUser_def
    by (auto dest!: stmt_InrD find_row_Some simp: is_active_user_def split: option.splits)
  then show ?thesis using found_tenant_org(1,2) [OF t] p by (auto simp: active_user_linked)
qed

text \<open>The users and memberships of a database, as the lock-out of one user sees them.\<close>

definition known_users :: "identity_db \<Rightarrow> (string \<times> string \<times> string) list" where
  "known_users s = map (\<lambda>u. (us_ID u, us_ClerkUserID u, us_TenantID u)) (users s)"

definition locked_out :: "(string \<Rightarrow> string option) \<Rightarrow> string \<Rightarrow> string \<Rightarrow> string \<Rightarrow> identity_db \<Rightarrow> bool" where
  "locked_out parse c tid uid s \<longleftrightarrow> list_all (\<lambda>(i, _). parse i = Some i) (known_users s)
     \<and> (uid, c, tid) \<in> set (known_users s) \<and> \<not> linked tid uid s"

lemma tabular_locked [simp]: "tabular (locked_out parse c tid uid)"
  by (simp add: tabular_def frame_def locked_out_def known_users_def linked_def insert_outbox_def)

lemma frame_locked [simp]: "frame (locked_out parse c tid uid)"
  by (simp add: tabular_frame)

lemma locked_view: "locked_out parse c tid uid (view s) = locked_out parse c tid uid s"
  by (simp add: locked_out_def known_users_def linked_def)

lemma silent_locked: "silent m \<Longrightarrow> keeps (locked_out parse c tid uid) m"
  unfolding silent_def keeps_def by (metis locked_view)

lemma locked_tenants:
  "keeps (locked_out parse c tid uid) (UpsertTenant E org name)"
  "keeps (locked_out parse c tid uid) (RepoUpdateOrgProfile E t p)"
  unfolding UpsertTenant_def RepoUpdateOrgProfile_def
  by (intro keeps_bind keeps_next_id keeps_parse keeps_stmt frame_locked keepsI;
      simp add: locked_out_def known_users_def linked_def Let_def split: option.split)+

lemma locked_same:
  "known_users s' = known_users s \<Longrightarrow> (linked tid uid s' \<Longrightarrow> linked tid uid s) \<Longrightarrow>
    locked_out parse c tid uid s \<Longrightarrow> locked_out parse c tid uid s'"
  by (auto simp: locked_out_def)

lemma locked_user:
  assumes "canonical_gen E" and "e_parse_uuid E = parse"
  shows "keeps (locked_out parse c tid uid) (UpsertUser E d t e n p r)"
  unfolding UpsertUser_def
proof (rule keeps_bind [OF keeps_parse], rule keeps_gen [OF frame_locked], intro keeps_stmt frame_locked keepsI)
  fix x k s
  assume L: "locked_out parse c tid uid s"
  have new: "locked_out parse c tid uid (s\<lparr>users := users s @ [u]\<rparr>)" if "us_ID u = e_gen E k" for u
    using L that assms by (auto simp: locked_out_def known_users_def linked_def canonical_gen_def)
  have old: "locked_out parse c tid uid (s\<lparr>users := update_rows Q (resync_user e n p) (users s)\<rparr>)" for Q
    by (rule locked_same [OF _ _ L]) (simp_all add: known_users_def map_update_rows resync_user_def linked_def)
  show "locked_out parse c tid uid (snd (case find_row (\<lambda>u. us_ClerkUserID u = d) (users s) of
         None \<Rightarrow>
           let row = \<lparr>us_ID = e_gen E k, us_ClerkUserID = d, us_TenantID = x, us_Email = e, us_Name = n,
                      us_Phone = p, us_Role = r, us_CreatedAt = e_tx_time E\<rparr> in
           if find_row (\<lambda>u. us_ID u = e_gen E k) (users s) \<noteq> None then (Inl WrapInfra, s)
           else (Inr row, s\<lparr>users := users s @ [row]\<rparr>)
       | Some u \<Rightarrow> (Inr (resync_user e n p u),
           s\<lparr>users := update_rows (\<lambda>u. us_ClerkUserID u = d) (resync_user e n p) (users s)\<rparr>)))"
    using L new old by (simp add: Let_def split: option.split)
qed

lemma linked_update:
  assumes "\<And>m. P m \<Longrightarrow> same_link tid uid (f m) \<Longrightarrow> ms_Status (f m) = MembershipActive
      \<Longrightarrow> same_link tid uid m \<and> ms_Status m = MembershipActive"
    and "memberships s' = update_rows P f (memberships s)" and "linked tid uid s'"
  shows "linked tid uid s"
proof -
  obtain q where "q \<in> set (memberships s)" "same_link tid uid (if P q then f q else q)"
    "ms_Status (if P q then f q else q) = MembershipActive"
    using assms(3) by (auto simp: linked_def assms(2) set_update_rows)
  then show ?thesis using assms(1) [of q] by (auto simp: linked_def split: if_splits)
qed

lemma locked_update:
  assumes "locked_out parse c tid uid s"
    and "\<And>m. P m \<Longrightarrow> same_link tid uid (f m) \<Longrightarrow> ms_Status (f m) = MembershipActive
      \<Longrightarrow> same_link tid uid m \<and> ms_Status m = MembershipActive"
    and "memberships s' = update_rows P f (memberships s)" and "known_users s' = known_users s"
  shows "locked_out parse c tid uid s'"
  using locked_same [OF assms(4) _ assms(1)] linked_update [OF assms(2,3)] by blast

lemma locked_removal: "keeps (locked_out parse c tid uid) (SoftRemoveMembership E d)"
  unfolding SoftRemoveMembership_def Let_def
  by (intro keeps_stmt frame_locked keepsI)
    (auto split: option.split simp: known_users_def
      elim!: locked_update [where P = "removable d" and
        f = "\<lambda>m. m\<lparr>ms_Status := MembershipRemoved, ms_RemovedAt := Some (e_tx_time E)\<rparr>"])

lemma locked_role: "keeps (locked_out parse c tid uid) (UpdateMembershipRole E d r)"
  unfolding UpdateMembershipRole_def
  by (intro keeps_stmt frame_locked keepsI)
    (auto split: option.split elim!: locked_update [where P = "has_clerk_id d" and f = "\<lambda>m. m\<lparr>ms_Role := r\<rparr>"]
      simp: known_users_def map_update_rows same_link_def)

text \<open>Joining somebody else does not touch the link.\<close>

lemma locked_other_link:
  assumes "e_parse_uuid E v = Some w" and "w \<noteq> uid"
  shows "keeps (locked_out parse c tid uid) (UpsertMembership E t v d r)"
proof -
  have new: "locked_out parse c tid uid (s\<lparr>memberships := memberships s @ [m]\<rparr>)"
    if "locked_out parse c tid uid s" "ms_AppUserID m = w" for s m
    using that assms(2) by (auto simp: locked_out_def linked_def known_users_def same_link_def)
  have old: "locked_out parse c tid uid (s\<lparr>memberships := update_rows (same_link x w) (reactivate d r) (memberships s)\<rparr>)"
    if "locked_out parse c tid uid s" for s x d
    by (rule locked_update [OF that _ _, where P = "same_link x w"])
      (use assms(2) in \<open>auto simp: same_link_def reactivate_def known_users_def\<close>)
  have v: "bind (parseUUID E v) k = k w" for k :: "string \<Rightarrow> 'b itx"
    using assms(1) by (simp add: parseUUID_Some fun_eq_iff bind_Inr)
  show ?thesis unfolding UpsertMembership_def with_ids_def v
    by (intro keeps_bind keeps_parse keeps_next_id keeps_stmt frame_locked keepsI)
      (auto simp: Let_def new old split: option.split)
qed


lemma locked_join:
  assumes "canonical_gen E" and "e_parse_uuid E = parse" and other: "jn_clerkUserID j \<noteq> c"
    and L: "locked_out parse c tid uid s" and s: "sound_identity s" and r: "Role_Valid (jn_role j)"
  shows "locked_out parse c tid uid (snd (join_tenant E j t s))"
proof -
  let ?user = "UpsertUser E (jn_clerkUserID j) (tn_ID t) (jn_email j) (jn_name j) '''' (jn_role j)"
  let ?L = "locked_out parse c tid uid"
  let ?rest = "\<lambda>u. bind (UpsertMembership E (tn_ID t) (us_ID u) (jn_clerkMembershipID j) (jn_role j)) (\<lambda>(m, joined).
      if \<not> joined then ret u else bind (announce_join E t j m) (\<lambda>_. ret u))"
  have rest: "?L (snd (?rest u s1))"
    if run: "?user s0 = (Inr u, s1)" and s0: "sound_identity s0" "?L s0" for u s0 s1
  proof -
    have s1: "sound_identity s1" "?L s1"
      using keeps_run [OF sound_upsert_user [OF r] run s0(1)] keeps_run [OF locked_user [OF assms(1,2)] run s0(2)] by auto
    have "users s1 = put_row (\<lambda>x. us_ClerkUserID x = jn_clerkUserID j) u (users s0)"
      using arg_cong [OF put_user [OF s0(1) run], of users] by simp
    then have u: "u \<in> set (users s1)" "us_ClerkUserID u = jn_clerkUserID j"
      using UpsertUser_effect [OF run] by (auto simp: put_row_def set_update_rows find_row_None)
    have "us_ID u \<noteq> uid"
    proof
      assume "us_ID u = uid"
      obtain x where "x \<in> set (users s1)" "us_ID x = uid" "us_ClerkUserID x = c"
        using s1(2) by (auto simp: locked_out_def known_users_def)
      moreover have "distinct (map us_ID (users s1))" using s1(1) by (simp add: sound_identity_def)
      ultimately show False using distinct_map_inj [of us_ID "users s1" x u] u other \<open>us_ID u = uid\<close> by auto
    qed
    moreover have "e_parse_uuid E (us_ID u) = Some (us_ID u)"
      using s1(2) u(1) assms(2) by (auto simp: locked_out_def known_users_def list_all_iff)
    ultimately have "keeps ?L (?rest u)" unfolding announce_join_def
      by (intro keeps_bind keeps_case_prod keeps_if keeps_ret keeps_publish_new tabular_locked locked_other_link [of _ _ "us_ID u"])
    then show ?thesis using s1(2) by (rule keepsD)
  qed
  show ?thesis
  proof (cases "join_tenant E j t s")
    case (Pair res s')
    show ?thesis
    proof (cases res)
      case (Inl e)
      with Pair have "uow_Do E (tn_ID t) (bind ?user ?rest) s = (Inl e, s')" by (simp only: join_tenant_def)
      then have "s' = s" using uow_Do_error [of E "tn_ID t" "bind ?user ?rest" s e] by simp
      then show ?thesis using Pair L by simp
    next
      case (Inr u)
      with Pair have "uow_Do E (tn_ID t) (bind ?user ?rest) s = (Inr u, s')" by (simp only: join_tenant_def)
      then obtain s0 where body: "bind ?user ?rest s0 = (Inr u, s')" and v: "view s0 = view s" by (rule uow_run)
      obtain u' s1 where 1: "?user s0 = (Inr u', s1)" "?rest u' s1 = (Inr u, s')" using body by (rule bind_InrE)
      have "sound_identity s0" using s v by (metis sound_identity_view)
      moreover have "?L s0" using L v by (metis locked_view)
      ultimately show ?thesis using rest [OF 1(1)] 1(2) Pair by simp
    qed
  qed
qed


lemma locked_steps:
  assumes "canonical_gen E" and "e_parse_uuid E = parse"
  shows "keeps (locked_out parse c tid uid) (join_guard E j)" "keeps (locked_out parse c tid uid) (UpdateOrgProfile E t p)"
    "keeps (locked_out parse c tid uid) (RemoveMember E t a u)"
    "\<not> is_join ev \<Longrightarrow> keeps (locked_out parse c tid uid) (dispatch_clerk E ev)"
proof -
  show "keeps (locked_out parse c tid uid) (join_guard E j)"
    unfolding join_guard_def resolveOrProvisionTenant_def ProvisionTenant_def
    by (intro keeps_rules keeps_uow locked_tenants silent_locked identity_reads_silent frame_locked tabular_locked)
  show "keeps (locked_out parse c tid uid) (UpdateOrgProfile E t p)"
    unfolding UpdateOrgProfile_def by (intro keeps_rules keeps_uow locked_tenants frame_locked tabular_locked)
  show "keeps (locked_out parse c tid uid) (RemoveMember E t a u)"
    unfolding RemoveMember_def by (intro keeps_rules silent_locked identity_reads_silent)
  have "keeps (locked_out parse c tid uid) (ProvisionTenant E org name)"
    "keeps (locked_out parse c tid uid) (OnOrganizationDeleted E org)"
    "keeps (locked_out parse c tid uid) (OnMembershipRemoved E org d)"
    "keeps (locked_out parse c tid uid) (OnMembershipUpdated E org d r)"
    "keeps (locked_out parse c tid uid) (SyncUser E v e n p)" for org name d r v e n p
    unfolding ProvisionTenant_def OnOrganizationDeleted_def OnMembershipRemoved_def OnMembershipUpdated_def SyncUser_def
    by (intro keeps_rules keeps_uow locked_tenants locked_removal locked_role locked_user [OF assms]
        silent_locked identity_reads_silent frame_locked tabular_locked)+
  then show "keeps (locked_out parse c tid uid) (dispatch_clerk E ev)" if "\<not> is_join ev"
    using that by (cases ev) (auto simp: is_join_def decoded_def intro!: keeps_case_option keeps_bind)
qed

fun starts_join :: "string \<Rightarrow> identity_op \<Rightarrow> bool" where
  "starts_join c (OpGuard j) = (jn_clerkUserID j = c)"
| "starts_join c _ = False"

definition stays_out :: "(string \<Rightarrow> string option) \<Rightarrow> string \<Rightarrow> string \<Rightarrow> string \<Rightarrow> identity_state \<Rightarrow> bool" where
  "stays_out parse c tid uid st \<longleftrightarrow> sound_state st \<and> locked_out parse c tid uid (fst st)
     \<and> (\<forall>(j, t) \<in> set (snd st). jn_clerkUserID j \<noteq> c)"

lemma run_stays_out:
  assumes E: "canonical_gen E" "e_parse_uuid E = parse" and op: "\<not> starts_join c op" and st: "stays_out parse c tid uid st"
  shows "stays_out parse c tid uid (run_identity E op st)"
proof -
  obtain s js where st': "st = (s, js)" by fastforce
  have S: "sound_state (run_identity E op st)" using st run_identity_sound by (simp add: stays_out_def)
  have L: "locked_out parse c tid uid s" and s: "sound_identity s" and roles: "\<forall>(j, t) \<in> set js. Role_Valid (jn_role j)"
    and js: "\<forall>(j, t) \<in> set js. jn_clerkUserID j \<noteq> c" using st st' by (auto simp: stays_out_def sound_state_def)
  have "locked_out parse c tid uid (fst (run_identity E op st)) \<and> (\<forall>(j, t) \<in> set (snd (run_identity E op st)). jn_clerkUserID j \<noteq> c)"
  proof (cases op)
    case (OpWebhook ev)
    then show ?thesis using st' L js keepsD [OF locked_steps(4) [OF E]] by simp
  next
    case (OpGuard j)
    then show ?thesis using st' L js op keepsD [OF locked_steps(1) [OF E] L, of j]
      by (auto split: prod.split sum.split)
  next
    case (OpJoin n)
    show ?thesis
    proof (cases "n < length js")
      case True
      then have "js ! n \<in> set js" by simp
      then have "jn_clerkUserID (fst (js ! n)) \<noteq> c" "Role_Valid (jn_role (fst (js ! n)))" using js roles by auto
      then show ?thesis using OpJoin True st' js locked_join [OF E _ L s]
        by (auto dest: in_set_takeD in_set_dropD)
    qed (use OpJoin st' L js in simp)
  next
    case (OpProfile t p)
    then show ?thesis using st' L js keepsD [OF locked_steps(2) [OF E]] by simp
  next
    case (OpRemove t a u)
    then show ?thesis using st' L js keepsD [OF locked_steps(3) [OF E]] by simp
  qed
  then show ?thesis using S by (simp add: stays_out_def)
qed

lemma runs_stay_out:
  "stays_out parse c tid uid st \<Longrightarrow>
    list_all (\<lambda>(E, op). canonical_gen E \<and> e_parse_uuid E = parse \<and> \<not> starts_join c op) ops \<Longrightarrow>
    stays_out parse c tid uid (fold (\<lambda>(E, op). run_identity E op) ops st)"
proof (induction ops arbitrary: st)
  case (Cons x ops)
  obtain E op where x: "x = (E, op)" by fastforce
  have "stays_out parse c tid uid (run_identity E op st)" using Cons.prems x by (simp add: run_stays_out)
  then show ?case using Cons x by simp
qed simp

lemma removal_locks:
  assumes s: "sound_identity s" and ids: "\<forall>u \<in> set (users s). parse (us_ID u) = Some (us_ID u)"
    and run: "OnMembershipRemoved E org d s = (Inr (), s')"
    and m: "m \<in> set (memberships s)" "removable d m" and u: "u \<in> set (users s)" "same_link (us_TenantID u) (us_ID u) m"
  shows "locked_out parse (us_ClerkUserID u) (us_TenantID u) (us_ID u) s'"
proof -
  obtain t s1 where t: "FindTenantByClerkOrg E org s = (Inr t, s1)"
    and k: "uow_Do E (tn_ID t) (bind (SoftRemoveMembership E d) (\<lambda>gone. case gone of None \<Rightarrow> ret ()
        | Some m \<Rightarrow> publish_new E (newMemberRemoved (ms_TenantID m) (ms_AppUserID m)))) s1 = (Inr (), s')"
    using run unfolding OnMembershipRemoved_def by (rule bind_InrE)
  obtain s2 where b: "bind (SoftRemoveMembership E d) (\<lambda>gone. case gone of None \<Rightarrow> ret ()
        | Some m \<Rightarrow> publish_new E (newMemberRemoved (ms_TenantID m) (ms_AppUserID m))) s2 = (Inr (), s')"
    and v: "view s2 = view s1" using k by (rule uow_run)
  obtain gone s3 where r: "SoftRemoveMembership E d s2 = (Inr gone, s3)"
    and p: "(case gone of None \<Rightarrow> ret () | Some m \<Rightarrow> publish_new E (newMemberRemoved (ms_TenantID m) (ms_AppUserID m))) s3 = (Inr (), s')"
    using b by (rule bind_InrE)
  have v2: "view s2 = view s" using v found_tenant_org(3) [OF t] by simp
  have T: "memberships s2 = memberships s" "users s2 = users s"
    using arg_cong [OF v2, of memberships] arg_cong [OF v2, of users] by simp_all
  have v': "view s' = view s3" using p publish_new_effect by (auto split: option.splits)
  have "find_row (removable d) (memberships s) \<noteq> None" using m by (auto simp: find_row_None)
  then have "users s3 = users s"
    "memberships s3 = update_rows (removable d) (\<lambda>m. m\<lparr>ms_Status := MembershipRemoved, ms_RemovedAt := Some (e_tx_time E)\<rparr>) (memberships s)"
    using r T unfolding SoftRemoveMembership_def by (auto dest!: stmt_InrD simp: Let_def split: option.splits)
  then have new: "users s' = users s"
    "memberships s' = update_rows (removable d) (\<lambda>m. m\<lparr>ms_Status := MembershipRemoved, ms_RemovedAt := Some (e_tx_time E)\<rparr>) (memberships s)"
    using arg_cong [OF v', of users] arg_cong [OF v', of memberships] by simp_all
  have "distinct (map (\<lambda>m. (ms_TenantID m, ms_AppUserID m)) (memberships s))" using s by (simp add: sound_identity_def)
  from distinct_map_inj [OF this] have only: "q = m" if "q \<in> set (memberships s)" "same_link (us_TenantID u) (us_ID u) q" for q
    using that m(1) u(2) by (simp add: same_link_def)
  have "\<not> linked (us_TenantID u) (us_ID u) s'"
  proof
    assume "linked (us_TenantID u) (us_ID u) s'"
    then obtain x where x: "x \<in> set (memberships s')" "same_link (us_TenantID u) (us_ID u) x" "ms_Status x = MembershipActive"
      by (auto simp: linked_def)
    then obtain q where "q \<in> set (memberships s)" "x = (if removable d q
        then q\<lparr>ms_Status := MembershipRemoved, ms_RemovedAt := Some (e_tx_time E)\<rparr> else q)"
      unfolding new(2) set_update_rows by blast
    then show False using x(2,3) only [of q] m(2) by (auto simp: same_link_def split: if_splits)
  qed
  then show ?thesis using ids u(1) new(1) by (auto simp: locked_out_def known_users_def list_all_iff)
qed

lemma locked_out_refused:
  assumes s: "sound_identity s" and L: "locked_out parse c tid uid s"
    and token: "i_verify E (bearerToken header) = Inr (c, org)"
  shows "\<exists>e. fst (Auth E header s) = Inl e"
proof (rule ccontr)
  assume "\<not> ?thesis"
  then obtain p s' where run: "Auth E header s = (Inr p, s')" by (cases "Auth E header s"; cases "fst (Auth E header s)") auto
  then obtain s1 where "ResolvePrincipal E c org s = (Inr p, s1)"
    using token unfolding Auth_def Let_def
    by (auto elim!: bind_InrE attempt_InrE split: if_splits sum.splits)
  from resolved_principal [OF this] obtain t u where u: "u \<in> set (users s)" "us_ClerkUserID u = c" "us_TenantID u = tn_ID t"
    and "t \<in> set (tenants s)" and l: "linked (tn_ID t) (us_ID u) s" by blast
  obtain x where x: "x \<in> set (users s)" "us_ClerkUserID x = c" "us_ID x = uid" "us_TenantID x = tid"
    using L by (auto simp: locked_out_def known_users_def)
  have "distinct (map us_ClerkUserID (users s))" using s by (simp add: sound_identity_def)
  then have "u = x" using distinct_map_inj [of us_ClerkUserID "users s" u x] u x by simp
  then show False using L l x u(3) by (simp add: locked_out_def)
qed

text \<open>
  C35: once the webhook of a removal has been handled, every request with a token of the removed
  user is refused, whatever webhooks and requests follow and however they are interleaved, as
  long as no new membership of that user arrives and none was half-way through.
\<close>

theorem removed_member_locked_out:
  assumes st: "sound_state (s, js)" and ids: "\<forall>u \<in> set (users s). parse (us_ID u) = Some (us_ID u)"
    and run: "OnMembershipRemoved E org d s = (Inr (), s0)"
    and m: "m \<in> set (memberships s)" "removable d m"
    and u: "u \<in> set (users s)" "ms_TenantID m = us_TenantID u" "ms_AppUserID m = us_ID u"
    and pending: "\<forall>(j, t) \<in> set js. jn_clerkUserID j \<noteq> us_ClerkUserID u"
    and ops: "list_all (\<lambda>(E, op). canonical_gen E \<and> e_parse_uuid E = parse \<and> \<not> starts_join (us_ClerkUserID u) op) ops"
    and token: "i_verify E' (bearerToken header) = Inr (us_ClerkUserID u, org')"
  shows "\<exists>e. fst (Auth E' header (fst (fold (\<lambda>(E, op). run_identity E op) ops (s0, js)))) = Inl e"
proof -
  let ?out = "stays_out parse (us_ClerkUserID u) (us_TenantID u) (us_ID u)"
  have s: "sound_identity s" using st by (simp add: sound_state_def)
  have "sound_state (s0, js)" using st keeps_run [OF sound_steps(2) run] by (simp add: sound_state_def)
  then have "?out (s0, js)"
    using removal_locks [OF s ids run m u(1)] u(2,3) pending by (simp add: stays_out_def same_link_def)
  then have "?out (fold (\<lambda>(E, op). run_identity E op) ops (s0, js))"
    using runs_stay_out ops by blast
  then show ?thesis using locked_out_refused token by (auto simp: stays_out_def sound_state_def)
qed


section \<open>Two copies of a role\<close>

text \<open>
  C37: a membership webhook for a user who is already known sets the role of the membership but
  not the one of the user. So when an admin who was removed is invited back as a lawyer (or a
  lawyer as an admin), requests of that user are authorized with the old role, while the list
  of the team shows the new one.
\<close>

theorem rejoin_keeps_old_role:
  assumes s: "sound_identity s" and ids: "well_formed_ids E s" and run: "OnMembershipCreated E j s = (Inr u, s')"
    and old: "x \<in> set (users s)" "us_ClerkUserID x = jn_clerkUserID j"
    and token: "i_verify E' (bearerToken header) = Inr (jn_clerkUserID j, org)" and auth: "Auth E' header s' = (Inr p, s'')"
  shows "pr_Role p = us_Role x \<and> (\<exists>r \<in> set (team s' (pr_TenantID p)). om_ID r = pr_UserID p \<and> om_Role r = jn_role j)"
proof -
  obtain t m where c: "us_ClerkUserID u = jn_clerkUserID j" "us_TenantID u = tn_ID t"
    and role: "us_Role u = (case find_row (\<lambda>x. us_ClerkUserID x = jn_clerkUserID j) (users s) of None \<Rightarrow> jn_role j | Some x \<Rightarrow> us_Role x)"
    and m: "same_link (tn_ID t) (us_ID u) m" "ms_Status m = MembershipActive" "ms_Role m = jn_role j"
    and v: "view s' = (view s)\<lparr>
         tenants := (if known_org (jn_clerkOrgID j) s then tenants s else tenants s @ [t]),
         users := put_row (\<lambda>x. us_ClerkUserID x = jn_clerkUserID j) u (users s),
         memberships := put_row (same_link (tn_ID t) (us_ID u)) m (memberships s)\<rparr>"
    using join_result [OF s ids run] by blast
  have d: "distinct (map us_ClerkUserID (users s))" using s by (simp add: sound_identity_def)
  have f: "find_row (\<lambda>x. us_ClerkUserID x = jn_clerkUserID j) (users s) = Some x"
    using d old by (intro find_row_unique [where k = us_ClerkUserID]) simp_all
  have U: "users s' = update_rows (\<lambda>x. us_ClerkUserID x = jn_clerkUserID j) (\<lambda>_. u) (users s)"
    using arg_cong [OF v, of users] f by (simp add: put_row_def)
  have in_row: "row \<in> set (put_row P row T)" if "P row" for P and row :: 'b and T
    using that by (auto simp: put_row_def set_update_rows find_row_None)
  have M: "m \<in> set (memberships s')" using arg_cong [OF v, of memberships] in_row [of "same_link (tn_ID t) (us_ID u)", OF m(1)] by simp
  have u: "u \<in> set (users s')" using U old by (auto simp: set_update_rows)
  obtain s1 where "ResolvePrincipal E' (jn_clerkUserID j) org s' = (Inr p, s1)"
    using auth token unfolding Auth_def Let_def by (auto elim!: bind_InrE attempt_InrE split: if_splits sum.splits)
  from resolved_principal [OF this] obtain t' y where y: "y \<in> set (users s')" "us_ClerkUserID y = jn_clerkUserID j"
    and p: "p = \<lparr>pr_UserID = us_ID y, pr_TenantID = tn_ID t', pr_Role = us_Role y\<rparr>" "us_TenantID y = tn_ID t'" "t' \<in> set (tenants s')"
    by blast
  have "y = u" using y U by (auto simp: set_update_rows split: if_splits)
  moreover have "member_of m u \<in> set (team s' (tn_ID t))"
    using u M m c(2) by (auto simp: team_def active_in_def same_link_def)
  ultimately show ?thesis using p c(2) role f m(3) by (auto simp: member_of_def intro!: bexI [of _ "member_of m u"])
qed


section \<open>A concrete office\<close>

text \<open>An admin, Ana, and a lawyer, Bia; a token of either names its user and organization.\<close>

definition clerk_env :: identity_env where
  "clerk_env =
     \<lparr>e_tx_time = midnight 20514, e_clock = (\<lambda>n. midnight 20514 + int n), e_parse_uuid = Some,
      e_gen = (\<lambda>n. replicate (Suc n) CHR ''u''), e_fault = (\<lambda>_. False), e_begin_fails = False,
      e_commit_fails = False, i_verify = (\<lambda>tok. if tok = ''t-ana'' then Inr (''ana'', ''org_1'')
        else if tok = ''t-bia'' then Inr (''bia'', ''org_1'') else Inl (PlainErr ''bad token'')),
      i_remove_member = (\<lambda>_ _. Inr ()), i_email_format = (\<lambda>_. True), i_collate = (\<lambda>n. n)\<rparr>"

definition empty_office :: identity_db where
  "empty_office = \<lparr>outbox = [], outbox_seq = 0, processed = [], id_seq = 0, stmts = 0, reads = 0,
     tenants = [], users = [], memberships = []\<rparr>"

definition member_data :: "string \<Rightarrow> string \<Rightarrow> string \<Rightarrow> string \<Rightarrow> membership_data" where
  "member_data i role org user = \<lparr>md_ID = i, md_Role = role, md_OrganizationID = org, md_OrganizationName = ''Escritorio'',
     md_UserID = user, md_Identifier = user @ ''@esc'', md_FirstName = user, md_LastName = ''''\<rparr>"

definition ana_joins :: join where "ana_joins = join_of (member_data ''m_1'' ''org:admin'' ''org_1'' ''ana'')"
definition bia_joins :: join where "bia_joins = join_of (member_data ''m_2'' ''org:member'' ''org_1'' ''bia'')"
definition bia_back :: join where "bia_back = join_of (member_data ''m_3'' ''org:admin'' ''org_1'' ''bia'')"

definition office :: identity_state where
  "office = fold (run_identity clerk_env) [OpWebhook (OrganizationCreated (Some \<lparr>od_ID = ''org_1'', od_Name = ''Escritorio''\<rparr>)),
     OpGuard ana_joins, OpGuard bia_joins, OpJoin 1, OpJoin 0] (empty_office, [])"

definition without_bia :: identity_db where
  "without_bia = snd (OnMembershipRemoved clerk_env ''org_1'' ''m_2'' (fst office))"

lemma clerk_ids [simp]: "canonical_gen clerk_env" "e_parse_uuid clerk_env = Some"
  by (simp_all add: canonical_gen_def clerk_env_def)

lemma identity_history: "identity_reachable st \<Longrightarrow> identity_reachable (fold (run_identity E) ops st)"
  by (induction ops arbitrary: st) (simp_all add: identity_operation)

lemma law_office_reachable: "identity_reachable office"
  unfolding office_def by (intro identity_history no_tenant) (simp_all add: empty_office_def)

lemma sound_state_run: "sound_state st \<Longrightarrow> sound_state (fold (run_identity E) ops st)"
  by (induction ops arbitrary: st) (simp_all add: run_identity_sound)

lemma office_sound: "sound_state office"
  unfolding office_def by (intro sound_state_run) (simp add: sound_state_def sound_identity_def empty_office_def)

lemma without_bia_sound: "sound_identity without_bia"
  using office_sound keepsD [OF sound_steps(2)] by (simp add: sound_state_def without_bia_def)

lemma identity_tables_sound_witness:
  "map us_ClerkUserID (users (fst office)) = [''bia'', ''ana''] \<and> list_all Role_Valid (map us_Role (users (fst office)))"
proof -
  have "map us_ClerkUserID (users (fst office)) = [''bia'', ''ana'']" unfolding office_def by code_simp
  then show ?thesis using identity_tables_sound [OF law_office_reachable] by (simp add: sound_identity_def)
qed

lemma join_outcome_witness:
  "map (\<lambda>(typ, _). typ) (announced (snd (OnMembershipCreated clerk_env ana_joins empty_office)))
     = [''identity.tenant_provisioned'', ''identity.member_joined'', ''notification.requested'']"
proof -
  let ?s = "snd (OnMembershipCreated clerk_env ana_joins empty_office)"
  have "\<exists>u. fst (OnMembershipCreated clerk_env ana_joins empty_office) = Inr u"
  proof -
    have "case fst (OnMembershipCreated clerk_env ana_joins empty_office) of Inl _ \<Rightarrow> False | Inr _ \<Rightarrow> True" by code_simp
    then show ?thesis by (auto split: sum.splits)
  qed
  then obtain u where run: "OnMembershipCreated clerk_env ana_joins empty_office = (Inr u, ?s)" by (auto simp: prod_eq_iff)
  have s: "sound_identity empty_office" "well_formed_ids clerk_env empty_office"
    by (simp_all add: sound_identity_def well_formed_ids_def empty_office_def)
  have none: "\<not> known_org org empty_office" "\<not> linked x y empty_office" "announced empty_office = []" for org x y
    by (simp_all add: known_org_def linked_def empty_office_def announced_def)
  show ?thesis using join_outcome [OF s run] none
    by (auto simp: join_facts_def fact_of_def newTenantProvisioned_def identity_fact_def)
qed

text \<open>Bia is admitted, is removed, and is refused after her user data and the office's profile change.\<close>

lemma removed_member_locked_out_witness:
  "(case fst (Auth clerk_env ''Bearer t-bia'' (fst office)) of Inr p \<Rightarrow> pr_Role p = RoleLawyer | Inl _ \<Rightarrow> False)
   \<and> (\<exists>e. fst (Auth clerk_env ''Bearer t-bia'' (fst (fold (\<lambda>(E, op). run_identity E op)
        [(clerk_env, OpWebhook (UserUpdated None)), (clerk_env, OpGuard ana_joins), (clerk_env, OpJoin 0)] (without_bia, [])))) = Inl e)"
proof (intro conjI)
  show "case fst (Auth clerk_env ''Bearer t-bia'' (fst office)) of Inr p \<Rightarrow> pr_Role p = RoleLawyer | Inl _ \<Rightarrow> False"
    unfolding office_def by code_simp
  define m u where "m = hd (memberships (fst office))" and "u = hd (users (fst office))"
  have facts: "memberships (fst office) \<noteq> []" "users (fst office) \<noteq> []" "removable ''m_2'' m"
    "ms_TenantID m = us_TenantID u" "ms_AppUserID m = us_ID u" "us_ClerkUserID u = ''bia''" "snd office = []"
    unfolding m_def u_def office_def by code_simp+
  have in_tables: "m \<in> set (memberships (fst office))" "u \<in> set (users (fst office))"
    using facts(1,2) by (simp_all add: m_def u_def)
  have st: "sound_state (fst office, [])" using office_sound facts(7) by (simp add: sound_state_def)
  have "fst (OnMembershipRemoved clerk_env ''org_1'' ''m_2'' (fst office)) = Inr ()" unfolding office_def by code_simp
  then have run: "OnMembershipRemoved clerk_env ''org_1'' ''m_2'' (fst office) = (Inr (), without_bia)"
    by (simp add: without_bia_def prod_eq_iff)
  have token: "i_verify clerk_env (bearerToken ''Bearer t-bia'') = Inr (us_ClerkUserID u, ''org_1'')"
    unfolding facts(6) by code_simp
  have "jn_clerkUserID ana_joins \<noteq> ''bia''" by code_simp
  then show "\<exists>e. fst (Auth clerk_env ''Bearer t-bia'' (fst (fold (\<lambda>(E, op). run_identity E op)
        [(clerk_env, OpWebhook (UserUpdated None)), (clerk_env, OpGuard ana_joins), (clerk_env, OpJoin 0)] (without_bia, [])))) = Inl e"
    by (intro removed_member_locked_out [OF st _ run in_tables(1) facts(3) in_tables(2) facts(4,5) _ _ token, where parse = Some])
      (simp_all add: facts(6))
qed

text \<open>Bia comes back as an admin; her requests still run as a lawyer's.\<close>

lemma rejoin_keeps_old_role_witness:
  "\<exists>p. fst (Auth clerk_env ''Bearer t-bia'' (snd (OnMembershipCreated clerk_env bia_back without_bia))) = Inr p
     \<and> pr_Role p = RoleLawyer
     \<and> (\<exists>r \<in> set (team (snd (OnMembershipCreated clerk_env bia_back without_bia)) (pr_TenantID p)).
          om_ID r = pr_UserID p \<and> om_Role r = RoleAdmin)"
proof -
  define u where "u = hd (users without_bia)"
  have facts: "users without_bia \<noteq> []" "us_ClerkUserID u = jn_clerkUserID bia_back" "us_Role u = RoleLawyer" "jn_role bia_back = RoleAdmin"
    unfolding u_def without_bia_def office_def by code_simp+
  have u: "u \<in> set (users without_bia)" using facts(1) by (simp add: u_def)
  have "well_formed_ids clerk_env without_bia" by (simp add: well_formed_ids_def)
  note join = rejoin_keeps_old_role [OF without_bia_sound this _ u facts(2)]
  have "case fst (OnMembershipCreated clerk_env bia_back without_bia) of Inl _ \<Rightarrow> False | Inr _ \<Rightarrow> True"
    "case fst (Auth clerk_env ''Bearer t-bia'' (snd (OnMembershipCreated clerk_env bia_back without_bia))) of Inl _ \<Rightarrow> False | Inr _ \<Rightarrow> True"
    unfolding without_bia_def office_def by code_simp+
  then obtain x p s'' where run: "OnMembershipCreated clerk_env bia_back without_bia = (Inr x, snd (OnMembershipCreated clerk_env bia_back without_bia))"
    and auth: "Auth clerk_env ''Bearer t-bia'' (snd (OnMembershipCreated clerk_env bia_back without_bia)) = (Inr p, s'')"
    by (auto simp: prod_eq_iff split: sum.splits)
  have "i_verify clerk_env (bearerToken ''Bearer t-bia'') = Inr (jn_clerkUserID bia_back, ''org_1'')" by code_simp
  from join [OF run this auth] show ?thesis using auth facts(3,4) by auto
qed

section \<open>One user, one office\<close>

text \<open>Every membership is in the tenant of its user, and every id is canonical.\<close>

definition homed :: "(string \<Rightarrow> string option) \<Rightarrow> identity_db \<Rightarrow> bool" where
  "homed parse s \<longleftrightarrow> list_all (\<lambda>t. parse (tn_ID t) = Some (tn_ID t)) (tenants s)
     \<and> list_all (\<lambda>(i, _). parse i = Some i) (known_users s)
     \<and> list_all (\<lambda>m. \<exists>c. (ms_AppUserID m, c, ms_TenantID m) \<in> set (known_users s)) (memberships s)"

lemma tabular_homed [simp]: "tabular (homed parse)"
  by (simp add: tabular_def frame_def homed_def known_users_def insert_outbox_def)

lemma frame_homed [simp]: "frame (homed parse)"
  by (simp add: tabular_frame)

lemma homed_view: "homed parse (view s) = homed parse s"
  by (simp add: homed_def known_users_def)

lemma silent_homed: "silent m \<Longrightarrow> keeps (homed parse) m"
  unfolding silent_def keeps_def by (metis homed_view)

lemma known_users_same:
  "known_users (s\<lparr>tenants := ts\<rparr>) = known_users s" "known_users (s\<lparr>memberships := ms\<rparr>) = known_users s"
  by (simp_all add: known_users_def)

lemma list_all_update: "(\<And>x. P x \<Longrightarrow> P (f x)) \<Longrightarrow> list_all P t \<Longrightarrow> list_all P (update_rows Q f t)"
  by (auto simp: list_all_iff set_update_rows)

lemma homed_tenant: "canonical_gen E \<Longrightarrow> e_parse_uuid E = parse \<Longrightarrow> keeps (homed parse) (UpsertTenant E org name)"
  unfolding UpsertTenant_def
  by (intro keeps_gen frame_homed keeps_stmt keepsI)
    (auto simp: homed_def known_users_same Let_def tenant_row_def canonical_gen_def split: option.split intro!: list_all_update)

lemma homed_profile: "keeps (homed parse) (RepoUpdateOrgProfile E t p)"
  unfolding RepoUpdateOrgProfile_def
  by (intro keeps_bind keeps_parse keeps_stmt frame_homed keepsI)
    (auto simp: homed_def known_users_same profiled_def split: option.split intro!: list_all_update)

lemma homed_user: "canonical_gen E \<Longrightarrow> e_parse_uuid E = parse \<Longrightarrow> keeps (homed parse) (UpsertUser E d t e n p r)"
  unfolding UpsertUser_def
proof (rule keeps_bind [OF keeps_parse], rule keeps_gen [OF frame_homed], intro keeps_stmt frame_homed keepsI)
  fix x k s
  assume E: "canonical_gen E" "e_parse_uuid E = parse" and H: "homed parse s"
  have new: "homed parse (s\<lparr>users := users s @ [u]\<rparr>)" if "us_ID u = e_gen E k" for u
  proof -
    have "known_users (s\<lparr>users := users s @ [u]\<rparr>) = known_users s @ [(e_gen E k, us_ClerkUserID u, us_TenantID u)]"
      using that by (simp add: known_users_def)
    moreover have "parse (e_gen E k) = Some (e_gen E k)" using E by (auto simp: canonical_gen_def)
    ultimately show ?thesis using H by (auto simp: homed_def list_all_iff)
  qed
  have old: "homed parse (s\<lparr>users := update_rows Q (resync_user e n p) (users s)\<rparr>)" for Q
    using H by (simp add: homed_def known_users_def map_update_rows resync_user_def)
  show "homed parse (snd (case find_row (\<lambda>u. us_ClerkUserID u = d) (users s) of
         None \<Rightarrow>
           let row = \<lparr>us_ID = e_gen E k, us_ClerkUserID = d, us_TenantID = x, us_Email = e, us_Name = n,
                      us_Phone = p, us_Role = r, us_CreatedAt = e_tx_time E\<rparr> in
           if find_row (\<lambda>u. us_ID u = e_gen E k) (users s) \<noteq> None then (Inl WrapInfra, s)
           else (Inr row, s\<lparr>users := users s @ [row]\<rparr>)
       | Some u \<Rightarrow> (Inr (resync_user e n p u),
           s\<lparr>users := update_rows (\<lambda>u. us_ClerkUserID u = d) (resync_user e n p) (users s)\<rparr>)))"
    using H new old by (simp add: Let_def split: option.split)
qed

lemma homed_removal: "keeps (homed parse) (SoftRemoveMembership E d)"
  unfolding SoftRemoveMembership_def Let_def
  by (intro keeps_stmt frame_homed keepsI)
    (auto simp: homed_def known_users_same split: option.split intro!: list_all_update)

lemma homed_role: "keeps (homed parse) (UpdateMembershipRole E d r)"
proof -
  have "known_users (s\<lparr>memberships := ms, users := update_rows Q (\<lambda>u. u\<lparr>us_Role := r\<rparr>) (users s)\<rparr>) = known_users s" for s ms Q
    by (simp add: known_users_def map_update_rows)
  then show ?thesis unfolding UpdateMembershipRole_def
    by (intro keeps_stmt frame_homed keepsI) (auto simp: homed_def split: option.split intro!: list_all_update)
qed

lemma homed_steps:
  assumes "canonical_gen E" and "e_parse_uuid E = parse"
  shows "keeps (homed parse) (join_guard E j)" "keeps (homed parse) (UpdateOrgProfile E t p)"
    "keeps (homed parse) (RemoveMember E t a u)" "\<not> is_join ev \<Longrightarrow> keeps (homed parse) (dispatch_clerk E ev)"
proof -
  note rules = keeps_rules keeps_uow homed_tenant [OF assms] homed_profile homed_removal homed_role homed_user [OF assms]
    silent_homed identity_reads_silent frame_homed tabular_homed
  show "keeps (homed parse) (join_guard E j)"
    unfolding join_guard_def resolveOrProvisionTenant_def ProvisionTenant_def by (intro rules)
  show "keeps (homed parse) (UpdateOrgProfile E t p)" "keeps (homed parse) (RemoveMember E t a u)"
    unfolding UpdateOrgProfile_def RemoveMember_def by (intro rules)+
  have "keeps (homed parse) (ProvisionTenant E org name)" "keeps (homed parse) (OnOrganizationDeleted E org)"
    "keeps (homed parse) (OnMembershipRemoved E org d)" "keeps (homed parse) (OnMembershipUpdated E org d r)"
    "keeps (homed parse) (SyncUser E v e n p)" for org name d r v e n p
    unfolding ProvisionTenant_def OnOrganizationDeleted_def OnMembershipRemoved_def OnMembershipUpdated_def SyncUser_def
    by (intro rules)+
  then show "keeps (homed parse) (dispatch_clerk E ev)" if "\<not> is_join ev"
    using that by (cases ev) (auto simp: is_join_def decoded_def intro!: keeps_case_option keeps_bind)
qed

text \<open>The user table after a join: the joining user is in it, and nobody is lost.\<close>

lemma joined_users:
  assumes s: "sound_identity s" and c: "us_ClerkUserID u = c"
    and u: "if \<exists>x \<in> set (users s). us_ClerkUserID x = c
        then \<exists>x \<in> set (users s). us_ClerkUserID x = c \<and> u = resync_user e n p x else P"
    and new: "users s' = put_row (\<lambda>x. us_ClerkUserID x = c) u (users s)"
  shows "set (known_users s') = insert (us_ID u, c, us_TenantID u) (set (known_users s))"
proof (cases "find_row (\<lambda>x. us_ClerkUserID x = c) (users s)")
  case None
  then show ?thesis using new c by (auto simp: put_row_def known_users_def)
next
  case (Some y)
  then have "\<exists>x \<in> set (users s). us_ClerkUserID x = c" using find_row_Some [OF Some] by blast
  with u obtain x where x: "x \<in> set (users s)" "us_ClerkUserID x = c" "u = resync_user e n p x" by auto
  have "distinct (map us_ClerkUserID (users s))" using s by (simp add: sound_identity_def)
  then have "q = x" if "q \<in> set (users s)" "us_ClerkUserID q = c" for q
    using distinct_map_inj [of us_ClerkUserID "users s" q x] that x by simp
  then have "update_rows (\<lambda>q. us_ClerkUserID q = c) (resync_user e n p) (users s)
      = update_rows (\<lambda>q. us_ClerkUserID q = c) (\<lambda>_. resync_user e n p x) (users s)" by (rule update_rows_only)
  moreover have "users s' = update_rows (\<lambda>q. us_ClerkUserID q = c) (\<lambda>_. u) (users s)" using new Some by (simp add: put_row_def)
  ultimately have "users s' = update_rows (\<lambda>q. us_ClerkUserID q = c) (resync_user e n p) (users s)" using x(3) by metis
  then have "known_users s' = known_users s" by (simp add: known_users_def map_update_rows resync_user_def)
  moreover have "(us_ID u, c, us_TenantID u) \<in> set (known_users s)"
    using x by (auto simp: known_users_def resync_user_def)
  ultimately show ?thesis by (simp add: insert_absorb)
qed

lemma join_failed: "join_tenant E j t s = (Inl e, s') \<Longrightarrow> s' = s"
  unfolding join_tenant_def
proof (goal_cases)
  case 1
  from uow_Do_error [OF arg_cong [OF 1, of fst, simplified]] show ?case using 1 by simp
qed

lemma homed_join:
  assumes E: "canonical_gen E" "e_parse_uuid E = parse" and s: "sound_identity s" and H: "homed parse s"
  shows "homed parse (snd (OnMembershipCreated E j s))"
proof -
  obtain r s1 where g: "join_guard E j s = (r, s1)" by fastforce
  have H1: "homed parse s1" using keeps_run [OF homed_steps(1) [OF E] g H] .
  have s1: "sound_identity s1" using keeps_run [OF sound_guard g s] .
  show ?thesis
  proof (cases r)
    case (Inl err)
    then show ?thesis using g H1 by (simp add: OnMembershipCreated_def bind_Inl)
  next
    case (Inr t)
    obtain q s' where k: "join_tenant E j t s1 = (q, s')" by fastforce
    have res: "snd (OnMembershipCreated E j s) = s'" using g k Inr by (simp add: OnMembershipCreated_def bind_Inr)
    show ?thesis
    proof (cases q)
      case (Inl err)
      then have "s' = s1" using join_failed [OF k [unfolded Inl]] by simp
      then show ?thesis using res H1 by simp
    next
      case (Inr u)
      have run: "join_guard E j s = (Inr t, s1)" using g \<open>r = Inr t\<close> by simp
      have U: "users s1 = users s" using guard_effect(1) [OF s run]
        by (auto simp: resolved_tenant_def dest: arg_cong [where f = users] split: if_splits)
      have "t \<in> set (tenants s1)" using guard_effect(1) [OF s run]
        by (auto simp: resolved_tenant_def dest: arg_cong [where f = tenants] split: if_splits)
      then have tid: "e_parse_uuid E (tn_ID t) = Some (tn_ID t)" using H1 E(2) by (simp add: homed_def list_all_iff)
      have ids: "\<forall>x \<in> set (users s1). e_parse_uuid E (us_ID x) = Some (us_ID x)"
        using H1 E(2) by (auto simp: homed_def known_users_def list_all_iff)
      obtain m where m: "same_link (tn_ID t) (us_ID u) m" and c: "us_ClerkUserID u = jn_clerkUserID j"
        and canon: "e_parse_uuid E (us_ID u) = Some (us_ID u)"
        and u: "if \<exists>x \<in> set (users s1). us_ClerkUserID x = jn_clerkUserID j
          then \<exists>x \<in> set (users s1). us_ClerkUserID x = jn_clerkUserID j \<and> u = resync_user (jn_email j) (jn_name j) '''' x
          else us_TenantID u = tn_ID t \<and> us_Role u = jn_role j"
        and v: "view s' = (view s1)\<lparr>users := put_row (\<lambda>x. us_ClerkUserID x = jn_clerkUserID j) u (users s1),
           memberships := put_row (same_link (tn_ID t) (us_ID u)) m (memberships s1)\<rparr>"
        using join_tenant_effect [OF s1 E(1) ids guard_role [OF run] tid] k Inr by blast
      have T: "tenants s' = tenants s1" "users s' = put_row (\<lambda>x. us_ClerkUserID x = jn_clerkUserID j) u (users s1)"
        "memberships s' = put_row (same_link (tn_ID t) (us_ID u)) m (memberships s1)"
        using arg_cong [OF v, of tenants] arg_cong [OF v, of users] arg_cong [OF v, of memberships] by simp_all
      have K: "set (known_users s') = insert (us_ID u, jn_clerkUserID j, us_TenantID u) (set (known_users s1))"
        by (rule joined_users [OF s1 c u T(2)])
      have home: "us_TenantID u = tn_ID t"
        using u guard_effect(2) [OF s run] U by (auto simp: resync_user_def split: if_splits)
      have "\<exists>c. (ms_AppUserID x, c, ms_TenantID x) \<in> set (known_users s')" if "x \<in> set (memberships s')" for x
      proof -
        have "x \<in> set (memberships s1) \<or> x = m" using that by (auto simp: T(3) put_row_def set_update_rows split: if_splits)
        then show ?thesis using H1 m home unfolding K by (auto simp: homed_def list_all_iff same_link_def)
      qed
      moreover have "list_all (\<lambda>t. parse (tn_ID t) = Some (tn_ID t)) (tenants s')"
        "list_all (\<lambda>(i, _). parse i = Some i) (known_users s')"
        using H1 canon E(2) unfolding homed_def T(1) list_all_iff K by auto
      ultimately show ?thesis unfolding res homed_def by (simp add: list_all_iff)
    qed
  qed
qed

text \<open>Histories in which each webhook and each request is handled before the next begins.\<close>

inductive serial_reachable :: "(string \<Rightarrow> string option) \<Rightarrow> identity_db \<Rightarrow> bool" for parse where
  serial_start: "tenants s = [] \<Longrightarrow> users s = [] \<Longrightarrow> memberships s = [] \<Longrightarrow> serial_reachable parse s"
| serial_webhook: "serial_reachable parse s \<Longrightarrow> canonical_gen E \<Longrightarrow> e_parse_uuid E = parse
    \<Longrightarrow> serial_reachable parse (snd (dispatch_clerk E ev s))"
| serial_profile: "serial_reachable parse s \<Longrightarrow> canonical_gen E \<Longrightarrow> e_parse_uuid E = parse
    \<Longrightarrow> serial_reachable parse (snd (UpdateOrgProfile E t p s))"
| serial_remove: "serial_reachable parse s \<Longrightarrow> canonical_gen E \<Longrightarrow> e_parse_uuid E = parse
    \<Longrightarrow> serial_reachable parse (snd (RemoveMember E t a u s))"

lemma sound_whole_join: "keeps sound_identity (OnMembershipCreated E j)"
proof (rule keepsI)
  fix s assume s: "sound_identity s"
  obtain r s1 where g: "join_guard E j s = (r, s1)" by fastforce
  have "sound_identity s1" using keeps_run [OF sound_guard g s] .
  then show "sound_identity (snd (OnMembershipCreated E j s))"
    using g guard_role [of E j s _ s1] keepsD [OF sound_join] by (cases r) (auto simp: OnMembershipCreated_def bind_def)
qed

lemma webhook_keeps:
  assumes "canonical_gen E" and "e_parse_uuid E = parse" and "sound_identity s \<and> homed parse s"
  shows "sound_identity (snd (dispatch_clerk E ev s)) \<and> homed parse (snd (dispatch_clerk E ev s))"
proof (cases "is_join ev")
  case False
  then show ?thesis using assms keepsD [OF sound_webhook] keepsD [OF homed_steps(4)] by blast
next
  case True
  then obtain d where ev: "ev = MembershipCreated d" by (cases ev) (auto simp: is_join_def)
  have end_state: "snd (bind f (\<lambda>_. ret ()) s) = snd (f s)" for f :: "app_user itx"
    by (simp add: bind_def ret_def split: prod.split sum.split)
  show ?thesis
  proof (cases d)
    case None
    then show ?thesis using ev assms by (simp add: decoded_def fail_def)
  next
    case (Some x)
    then show ?thesis using ev assms keepsD [OF sound_whole_join] homed_join
      by (simp add: decoded_def end_state)
  qed
qed

lemma serial_homed: "serial_reachable parse s \<Longrightarrow> sound_identity s \<and> homed parse s"
proof (induction rule: serial_reachable.induct)
  case (serial_start s)
  then show ?case by (simp add: sound_identity_def homed_def known_users_def)
next
  case (serial_webhook s E ev)
  then show ?case using webhook_keeps by blast
next
  case (serial_profile s E t p)
  then show ?case using keepsD [OF sound_steps(4)] keepsD [OF homed_steps(2)] by blast
next
  case (serial_remove s E t a u)
  then show ?case using keepsD [OF sound_steps(5)] keepsD [OF homed_steps(3)] by blast
qed

text \<open>
  C36: when webhooks and requests are handled one after the other, every active member of an
  organization is let in: the middleware resolves a token of the user and the organization to
  the user, the tenant and the role stored for the user.
\<close>

theorem active_member_let_in:
  assumes s: "serial_reachable parse s" and calm: "calm E"
    and m: "m \<in> set (memberships s)" "ms_Status m = MembershipActive"
    and t: "t \<in> set (tenants s)" "tn_ID t = ms_TenantID m" and u: "u \<in> set (users s)" "us_ID u = ms_AppUserID m"
    and token: "bearerToken header \<noteq> ''''" "i_verify E (bearerToken header) = Inr (us_ClerkUserID u, tn_ClerkOrgID t)"
  shows "fst (Auth E header s) = Inr \<lparr>pr_UserID = us_ID u, pr_TenantID = tn_ID t, pr_Role = us_Role u\<rparr>"
proof -
  have S: "sound_identity s" and H: "homed parse s" using serial_homed [OF s] by simp_all
  obtain x where x: "x \<in> set (users s)" "us_ID x = ms_AppUserID m" "us_TenantID x = ms_TenantID m"
    using H m(1) by (fastforce simp: homed_def list_all_iff known_users_def)
  have d: "distinct (map us_ID (users s))" "distinct (map us_ClerkUserID (users s))" "distinct (map tn_ClerkOrgID (tenants s))"
    using S by (simp_all add: sound_identity_def)
  have home: "us_TenantID u = ms_TenantID m" using distinct_map_inj [OF d(1) u(1) x(1)] x u(2) by simp
  have active: "is_active_user s u"
    using m u(2) home by (auto simp: is_active_user_def find_row_None active_in_def)
  have 1: "find_row (\<lambda>q. tn_ClerkOrgID q = tn_ClerkOrgID t) (tenants s) = Some t"
    by (rule find_row_unique [OF d(3) t(1)]) simp_all
  have 2: "find_row (\<lambda>q. us_ClerkUserID q = us_ClerkUserID u \<and> is_active_user s q) (users s) = Some u"
    using active by (intro find_row_unique [OF d(2) u(1)]) simp_all
  have same: "is_active_user (s\<lparr>stmts := k\<rparr>) = is_active_user s" for k by (simp add: is_active_user_def fun_eq_iff)
  have "fst (ResolvePrincipal E (us_ClerkUserID u) (tn_ClerkOrgID t) s)
      = Inr \<lparr>pr_UserID = us_ID u, pr_TenantID = tn_ID t, pr_Role = us_Role u\<rparr>"
    using 1 2 home t(2) by (simp add: ResolvePrincipal_def FindTenantByClerkOrg_def FindActiveUserByClerkUser_def
        select_one_def bind_def stmt_calm [OF calm] same ret_def)
  then show ?thesis using token by (simp add: Auth_def Let_def bind_def attempt_apply ret_def split: prod.splits)
qed

definition serial_office :: identity_db where
  "serial_office = snd (dispatch_clerk clerk_env (MembershipCreated (Some (member_data ''m_2'' ''org:member'' ''org_1'' ''bia'')))
     (snd (dispatch_clerk clerk_env (MembershipCreated (Some (member_data ''m_1'' ''org:admin'' ''org_1'' ''ana''))) empty_office)))"

lemma serial_office_reachable: "serial_reachable Some serial_office"
  unfolding serial_office_def by (intro serial_webhook serial_start clerk_ids) (simp_all add: empty_office_def)

lemma active_member_let_in_witness:
  "map_sum (\<lambda>_. ()) pr_Role (fst (Auth clerk_env ''Bearer t-bia'' serial_office)) = Inr RoleLawyer"
proof -
  define m t u where "m = memberships serial_office ! 1" and "t = hd (tenants serial_office)" and "u = users serial_office ! 1"
  have facts: "length (memberships serial_office) = 2" "ms_Status m = MembershipActive" "tenants serial_office \<noteq> []"
    "tn_ID t = ms_TenantID m" "length (users serial_office) = 2" "us_ID u = ms_AppUserID m" "us_Role u = RoleLawyer"
    "i_verify clerk_env (bearerToken ''Bearer t-bia'') = Inr (us_ClerkUserID u, tn_ClerkOrgID t)" "bearerToken ''Bearer t-bia'' \<noteq> []"
    unfolding m_def t_def u_def serial_office_def by code_simp+
  have "m \<in> set (memberships serial_office)" "t \<in> set (tenants serial_office)" "u \<in> set (users serial_office)"
    using facts(1,3,5) by (simp_all add: m_def t_def u_def)
  moreover have "calm clerk_env" by (simp add: calm_def clerk_env_def)
  ultimately show ?thesis using active_member_let_in [OF serial_office_reachable] facts by simp
qed

text \<open>
  Two first joins of one user in two organizations, both past the guard before either is
  written: the second is stored and announced although the user is in the other tenant, and the
  user is refused there. One after the other, the second is refused.
\<close>

definition two_orgs :: "identity_op list" where
  "two_orgs = [OpGuard ana_joins, OpGuard (join_of (member_data ''m_9'' ''org:member'' ''org_2'' ''ana'')), OpJoin 0, OpJoin 0]"

lemma interleaved_joins_strand:
  "map (\<lambda>m. ms_TenantID m = us_TenantID (hd (users (fst (fold (run_identity clerk_env) two_orgs (empty_office, []))))))
     (memberships (fst (fold (run_identity clerk_env) two_orgs (empty_office, [])))) = [True, False]
   \<and> length (users (fst (fold (run_identity clerk_env) two_orgs (empty_office, [])))) = 1
   \<and> fst (ResolvePrincipal clerk_env ''ana'' ''org_2'' (fst (fold (run_identity clerk_env) two_orgs (empty_office, [])))) = Inl ErrUserNotFound
   \<and> fst (OnMembershipCreated clerk_env (join_of (member_data ''m_9'' ''org:member'' ''org_2'' ''ana''))
        (snd (OnMembershipCreated clerk_env ana_joins empty_office))) = Inl ErrMembershipConflict"
  by (intro conjI; code_simp)

end
