(* ===== verification/TeorText.thy ===== *)
theory TeorText
  imports Prelude
begin

text \<open>
  \<open>internal/acquisition/htmltext.go\<close> and \<open>prazo_declarado.go\<close>: the plain text of the teor of
  an intimation, and the prazo it declares. The tokenizer of \<open>golang.org/x/net/html\<close> is a
  parameter; the loop over its tokens and the three patterns are the slice's.
\<close>

section \<open>Plain text (htmltext.go)\<close>

datatype html_token = StartTag string | SelfClosingTag string | EndTag string | TextData string

definition isBlockTag :: "string \<Rightarrow> bool" where
  "isBlockTag tag \<longleftrightarrow> tag \<in> set [''p'', ''div'', ''br'', ''tr'', ''li'', ''article'', ''section'', ''table'',
     ''thead'', ''tbody'', ''h1'', ''h2'', ''h3'', ''h4'', ''h5'', ''h6'', ''th'', ''td'']"

definition newline :: char where "newline = CHR 0x0A"

text \<open>The text the loop writes, from the nesting depth inside a skipped subtree.\<close>

fun strip_tags :: "nat \<Rightarrow> html_token list \<Rightarrow> string" where
  "strip_tags skip [] = ''''"
| "strip_tags skip (StartTag tag # ts) =
     (if 0 < skip then strip_tags (Suc skip) ts
      else if tag = ''script'' \<or> tag = ''style'' then strip_tags (Suc skip) ts
      else (if isBlockTag tag then [newline] else []) @ strip_tags skip ts)"
| "strip_tags skip (SelfClosingTag tag # ts) =
     (if 0 < skip then strip_tags skip ts
      else if tag = ''script'' \<or> tag = ''style'' then strip_tags (Suc skip) ts
      else (if isBlockTag tag then [newline] else []) @ strip_tags skip ts)"
| "strip_tags skip (EndTag tag # ts) =
     (if 0 < skip then strip_tags (skip - 1) ts
      else (if isBlockTag tag then [newline] else []) @ strip_tags skip ts)"
| "strip_tags skip (TextData s # ts) = (if 0 < skip then [] else s) @ strip_tags skip ts"

fun split_lines :: "string \<Rightarrow> string list" where
  "split_lines [] = [[]]"
| "split_lines (c # s) = (if c = newline then [] # split_lines s
     else (case split_lines s of [] \<Rightarrow> [[c]] | l # ls \<Rightarrow> (c # l) # ls))"

fun join_lines :: "string list \<Rightarrow> string" where
  "join_lines [] = ''''"
| "join_lines [l] = l"
| "join_lines (l # ls) = l @ newline # join_lines ls"

text \<open>What replacing three newlines by two, as long as there are three, leaves.\<close>

fun squeeze_newlines :: "string \<Rightarrow> string" where
  "squeeze_newlines (a # b # c # s) =
     (if a = newline \<and> b = newline \<and> c = newline then squeeze_newlines (b # c # s)
      else a # squeeze_newlines (b # c # s))"
| "squeeze_newlines s = s"

definition collapseWhitespace :: "string \<Rightarrow> string" where
  "collapseWhitespace s =
     TrimSpace (squeeze_newlines (join_lines (map (\<lambda>l. join_space (Fields l)) (split_lines s))))"

definition htmlPlaintext :: "(string \<Rightarrow> html_token list) \<Rightarrow> string \<Rightarrow> string" where
  "htmlPlaintext tokens s =
     (if CHR ''<'' \<notin> set s \<and> CHR ''&'' \<notin> set s then TrimSpace s
      else collapseWhitespace (strip_tags 0 (tokens s)))"

text \<open>At most one blank line is left between two lines.\<close>

lemma squeeze_hd: "\<exists>t. squeeze_newlines (x # s) = x # t"
proof (induction "x # s" arbitrary: x s rule: squeeze_newlines.induct)
  case (1 a b c s)
  then show ?case by (cases "a = newline \<and> b = newline \<and> c = newline") auto
qed auto

lemma squeeze_no_three: "\<not> Contains (squeeze_newlines s) [newline, newline, newline]"
proof (induction s rule: squeeze_newlines.induct)
  case (1 a b c s)
  show ?case
  proof (cases "a = newline \<and> b = newline \<and> c = newline")
    case False
    obtain t where t: "squeeze_newlines (b # c # s) = b # t" using squeeze_hd by blast
    have "t \<noteq> [] \<and> hd t = c" if "b = newline" "c \<noteq> newline"
    proof (cases s)
      case (Cons d s')
      obtain u where "squeeze_newlines (c # d # s') = c # u" using squeeze_hd by blast
      moreover have "t = squeeze_newlines (c # d # s')" using t that Cons by simp
      ultimately show ?thesis by simp
    qed (use t in auto)
    then have "\<not> HasPrefix (a # b # t) [newline, newline, newline]"
      using False by (auto simp: HasPrefix_def take_Suc split: if_splits)
    then show ?thesis using 1(2) False t by auto
  qed (use 1 in simp)
qed (simp_all add: HasPrefix_def)

section \<open>The declared prazo (prazo_declarado.go)\<close>

text \<open>
  The patterns as recognizers of a prefix: a literal in either case, \<open>\s\<close> (which has no
  vertical tab), a run of digits, a parenthesis. Where a loop stops is where no shorter match
  of it could let the rest succeed, so none gives back what it took.
\<close>

definition rx_space :: "char \<Rightarrow> bool" where
  "rx_space c \<longleftrightarrow> c = CHR '' '' \<or> c = CHR 0x09 \<or> c = newline \<or> c = CHR 0x0C \<or> c = CHR 0x0D"

fun lit_ci :: "string \<Rightarrow> string \<Rightarrow> string option" where
  "lit_ci [] s = Some s"
| "lit_ci (p # ps) [] = None"
| "lit_ci (p # ps) (c # s) = (if lower_ascii c = p then lit_ci ps s else None)"

definition spaces0 :: "string \<Rightarrow> string" where
  "spaces0 s = dropWhile rx_space s"

definition spaces1 :: "string \<Rightarrow> string option" where
  "spaces1 s = (if s \<noteq> [] \<and> rx_space (hd s) then Some (spaces0 s) else None)"

definition digits1 :: "string \<Rightarrow> (string \<times> string) option" where
  "digits1 s = (let ds = takeWhile is_digit s in if ds = [] then None else Some (ds, dropWhile is_digit s))"

text \<open>\<open>(?:\([^)]*\))?\<close>.\<close>

definition paren0 :: "string \<Rightarrow> string" where
  "paren0 s = (if s \<noteq> [] \<and> hd s = CHR ''('' \<and> CHR '')'' \<in> set s
     then tl (dropWhile (\<lambda>c. c \<noteq> CHR '')'') s) else s)"

definition prazo_prefix :: "string \<Rightarrow> (string \<times> string) option" where
  "prazo_prefix s = Option.bind (lit_ci ''prazo'' s) (\<lambda>s. Option.bind (spaces1 s) (\<lambda>s.
     Option.bind (lit_ci ''de'' s) (\<lambda>s. Option.bind (spaces1 s) digits1)))"

text \<open>\<open>prazo\s+de\s+(\d+)\s*(?:\([^)]*\))?\s*dias?\<close>, with and without \<open>no\s+\<close> before it.\<close>

definition pattern_prazo :: "string \<Rightarrow> string option" where
  "pattern_prazo s = Option.bind (prazo_prefix s) (\<lambda>(n, s).
     map_option (\<lambda>_. n) (lit_ci ''dia'' (spaces0 (paren0 (spaces0 s)))))"

definition pattern_no_prazo :: "string \<Rightarrow> string option" where
  "pattern_no_prazo s = Option.bind (lit_ci ''no'' s) (\<lambda>s. Option.bind (spaces1 s) pattern_prazo)"

text \<open>\<open>prazo\s+de\s+(\d+)\s*dias?\s+(?:uteis|corridos)\<close>, the first letter accented; its bytes in either case.\<close>

definition uteis :: "string \<Rightarrow> string option" where
  "uteis s = (if take 2 s \<in> {[CHR 0xC3, CHR 0xBA], [CHR 0xC3, CHR 0x9A]} then lit_ci ''teis'' (drop 2 s) else None)"

definition opt_s :: "string \<Rightarrow> string" where
  "opt_s s = (case lit_ci ''s'' s of None \<Rightarrow> s | Some r \<Rightarrow> r)"

definition pattern_suffix :: "string \<Rightarrow> string option" where
  "pattern_suffix s = Option.bind (prazo_prefix s) (\<lambda>(n, s).
     Option.bind (lit_ci ''dia'' (spaces0 s)) (\<lambda>s. Option.bind (spaces1 (opt_s s)) (\<lambda>s.
       if uteis s \<noteq> None \<or> lit_ci ''corridos'' s \<noteq> None then Some n else None)))"

text \<open>\<open>FindStringSubmatch\<close>: the leftmost match.\<close>

fun find_match :: "(string \<Rightarrow> string option) \<Rightarrow> string \<Rightarrow> string option" where
  "find_match p [] = p []"
| "find_match p (c # s) = (case p (c # s) of Some m \<Rightarrow> Some m | None \<Rightarrow> find_match p s)"

definition prazoDeclaradoPatterns :: "(string \<Rightarrow> string option) list" where
  "prazoDeclaradoPatterns = [pattern_no_prazo, pattern_prazo, pattern_suffix]"

fun first_pattern :: "(string \<Rightarrow> string option) list \<Rightarrow> string \<Rightarrow> string option" where
  "first_pattern [] s = None"
| "first_pattern (p # ps) s = (case find_match p s of Some m \<Rightarrow> Some m | None \<Rightarrow> first_pattern ps s)"

definition extractPrazoDeclarado :: "(string \<Rightarrow> html_token list) \<Rightarrow> string \<Rightarrow> string" where
  "extractPrazoDeclarado tokens teor =
     (case first_pattern prazoDeclaradoPatterns (htmlPlaintext tokens teor) of
        Some n \<Rightarrow> n @ '' dias'' | None \<Rightarrow> '''')"

text \<open>A declared prazo is a number of days, and it stands in the text.\<close>

lemma prazo_prefix_digits: "prazo_prefix s = Some (n, r) \<Longrightarrow> n \<noteq> [] \<and> list_all is_digit n"
  by (auto simp: prazo_prefix_def digits1_def Let_def list_all_iff bind_eq_Some_conv split: if_splits dest: set_takeWhileD)

lemma find_match_Some: "find_match p s = Some m \<Longrightarrow> \<exists>t. p t = Some m"
  by (induction s) (auto split: option.splits)

lemma pattern_digits:
  assumes "p \<in> set prazoDeclaradoPatterns" and "p s = Some n"
  shows "n \<noteq> [] \<and> list_all is_digit n"
  using assms by (auto simp: prazoDeclaradoPatterns_def pattern_no_prazo_def pattern_prazo_def pattern_suffix_def
    bind_eq_Some_conv dest: prazo_prefix_digits split: if_splits)

lemma first_pattern_Some: "first_pattern ps s = Some n \<Longrightarrow> \<exists>p \<in> set ps. \<exists>t. p t = Some n"
  by (induction ps) (auto split: option.splits dest: find_match_Some)

lemma extract_form:
  "extractPrazoDeclarado tokens teor = ''''
   \<or> (\<exists>n. n \<noteq> [] \<and> list_all is_digit n \<and> extractPrazoDeclarado tokens teor = n @ '' dias'')"
  by (auto simp: extractPrazoDeclarado_def split: option.splits dest!: first_pattern_Some dest: pattern_digits)

text \<open>The third pattern adds nothing: where it matches, the second one does.\<close>

lemma digit_not_paren: "rx_space c \<Longrightarrow> \<not> is_digit c"
  by (auto simp: rx_space_def is_digit_def newline_def)

lemma lit_dia_no_paren: "lit_ci ''dia'' s \<noteq> None \<Longrightarrow> paren0 s = s \<and> spaces0 s = s"
  by (cases s) (auto simp: paren0_def spaces0_def rx_space_def newline_def lower_ascii_def split: if_splits)

lemma suffix_prazo: "pattern_suffix s = Some n \<Longrightarrow> pattern_prazo s = Some n"
  unfolding pattern_suffix_def pattern_prazo_def
  using lit_dia_no_paren by (fastforce simp: bind_eq_Some_conv split: if_splits)

lemma find_match_mono: "(\<And>t n. p t = Some n \<Longrightarrow> q t \<noteq> None) \<Longrightarrow> find_match p s \<noteq> None \<Longrightarrow> find_match q s \<noteq> None"
  by (induction s) (fastforce split: option.splits)+

lemma third_pattern_dead: "find_match pattern_prazo s = None \<Longrightarrow> find_match pattern_suffix s = None"
  using find_match_mono [of pattern_suffix pattern_prazo s] suffix_prazo by fastforce

end
