(* ===== verification/Acquisition.thy ===== *)
theory Acquisition
  imports Transaction Tribunal DateText TeorText
begin

text \<open>
  \<open>internal/acquisition\<close>, the data model: what the slice knows of a process (\<open>court_case\<close>,
  \<open>court_record\<close>, intimations, docket entries, parties), of its sources (integration, watched
  OABs, sync runs, backfill jobs, the national publications) and the events it emits, over the
  methods of its repository. A nullable text read as the empty string is a string, and so is a
  nullable reference. Row-level security, which repeats the tenant filter of the queries, is left out.
\<close>

section \<open>Constants (entity.go, sync.go, backfill.go)\<close>

definition SourceDJEN :: string where "SourceDJEN = ''DJEN''"
definition SourceDATAJUD :: string where "SourceDATAJUD = ''DATAJUD''"

definition IntegrationActive :: string where "IntegrationActive = ''ACTIVE''"

definition DegreeUnknown :: string where "DegreeUnknown = ''UNKNOWN''"

definition LifecycleActive :: string where "LifecycleActive = ''ACTIVE''"
definition LifecycleArchived :: string where "LifecycleArchived = ''ARCHIVED''"
definition LifecycleSuperseded :: string where "LifecycleSuperseded = ''SUPERSEDED''"

definition IntimationTypeIntimacao :: string where "IntimationTypeIntimacao = ''INTIMACAO''"
definition IntimationTypeCitacao :: string where "IntimationTypeCitacao = ''CITACAO''"
definition IntimationTypeComunicacao :: string where "IntimationTypeComunicacao = ''COMUNICACAO''"

definition IntimationStatusActive :: string where "IntimationStatusActive = ''ACTIVE''"
definition IntimationStatusCancelled :: string where "IntimationStatusCancelled = ''CANCELLED''"

definition IntimationUserStatusPending :: string where "IntimationUserStatusPending = ''PENDING''"
definition IntimationUserStatusResolved :: string where "IntimationUserStatusResolved = ''RESOLVED''"
definition IntimationUserStatusIgnored :: string where "IntimationUserStatusIgnored = ''IGNORED''"

definition PartyRolePlaintiff :: string where "PartyRolePlaintiff = ''PLAINTIFF''"
definition PartyRoleDefendant :: string where "PartyRoleDefendant = ''DEFENDANT''"
definition PartyRoleThirdParty :: string where "PartyRoleThirdParty = ''THIRD_PARTY''"

definition SyncStatusRunning :: string where "SyncStatusRunning = ''RUNNING''"
definition SyncStatusOK :: string where "SyncStatusOK = ''OK''"
definition SyncStatusFailed :: string where "SyncStatusFailed = ''FAILED''"

definition BackfillStatusRunning :: string where "BackfillStatusRunning = ''RUNNING''"
definition BackfillStatusCompleted :: string where "BackfillStatusCompleted = ''COMPLETED''"
definition BackfillStatusPartial :: string where "BackfillStatusPartial = ''PARTIAL''"

definition TriggerReasonOABAdded :: string where "TriggerReasonOABAdded = ''OAB_ADDED''"
definition TriggerReasonOABReenabled :: string where "TriggerReasonOABReenabled = ''OAB_REENABLED''"

definition max_int :: int where "max_int = 2 ^ 63 - 1"

definition defaultSyncInterval :: int where "defaultSyncInterval = 24 * 3600 * 1000000000"

section \<open>Entities (entity.go, connector.go)\<close>

record scope =
  sc_OAB :: "string list"
  sc_TaxID :: "string list"

record integration =
  ig_ID :: string
  ig_TenantID :: string
  ig_Source :: string
  ig_Scope :: scope
  ig_CredentialRef :: string
  ig_Status :: string
  ig_CreatedAt :: instant
  ig_UpdatedAt :: instant

record watched_oab =
  wo_OAB :: string
  wo_OABKey :: string
  wo_IntegrationID :: string
  wo_Enabled :: bool
  wo_DisabledAt :: "instant option"
  wo_CatchUpSince :: "instant option"

record oab_entry =
  oe_Number :: string
  oe_UF :: string

text \<open>A record the cycle resolved: what later upserts and events need of it.\<close>

record known_record =
  kr_ID :: string
  kr_TenantID :: string
  kr_CaseID :: string
  kr_CNJNumber :: string
  kr_Degree :: string
  kr_Court :: string

record known_entry =
  ke_ID :: string
  ke_CourtRecordID :: string
  ke_Hash :: string

text \<open>
  What a parser makes of a payload. A completeness is a \<open>float32\<close> of which the slice only
  copies and compares values; it is counted in units of \<open>2 ^ -25\<close>, which hold every value used
  exactly: the constants 0.3 and 0.9 are the floats next to them.
\<close>

definition djenCompleteness :: int where "djenCompleteness = 10066330"
definition datajudCompleteness :: int where "datajudCompleteness = 30198988"

record parsed_record =
  pr_CNJNumber :: string
  pr_Degree :: string
  pr_Court :: string
  pr_Class :: string
  pr_Subject :: string
  pr_Completeness :: int
  pr_JudgingBody :: string
  pr_FiledAt :: "day option"
  pr_Secrecy :: string
  pr_Lifecycle :: string
  pr_Phase :: string

record parsed_entry =
  pe_CNJNumber :: string
  pe_Degree :: string
  pe_Hash :: string
  pe_OccurredAt :: instant
  pe_ObservedAt :: instant
  pe_Source :: string
  pe_Fidelity :: int
  pe_Text :: string
  pe_TPUCode :: int
  pe_Complements :: string

record recipient =
  rc_Name :: string
  rc_OABNumber :: string
  rc_OABUF :: string
  rc_Matched :: bool

record parsed_intimation =
  pi_CNJNumber :: string
  pi_Degree :: string
  pi_Hash :: string
  pi_MadeAvailableAt :: day
  pi_PublishedAt :: day
  pi_DeadlineStartAt :: day
  pi_Content :: string
  pi_Source :: string
  pi_Type :: string
  pi_Status :: string
  pi_SourceURL :: string
  pi_CancelledAt :: "day option"
  pi_CancelReason :: string
  pi_Recipients :: "recipient list"

record counsel =
  co_Name :: string
  co_OAB :: string
  co_UF :: string

record parsed_party =
  pp_CNJNumber :: string
  pp_Degree :: string
  pp_Role :: string
  pp_Name :: string
  pp_Counsels :: "counsel list"

record parsed_result =
  ps_CourtRecords :: "parsed_record list"
  ps_DocketEntries :: "parsed_entry list"
  ps_Intimations :: "parsed_intimation list"
  ps_Parties :: "parsed_party list"

section \<open>Errors (errors.go)\<close>

definition ErrIntegrationNotFound :: err where "ErrIntegrationNotFound = NewNotFound ''integration not found''"
definition ErrConnectorNotFound :: err where "ErrConnectorNotFound = NewNotFound ''no connector registered for source''"
definition ErrParserNotFound :: err where "ErrParserNotFound = NewNotFound ''no parser registered for payload''"
definition ErrBackfillJobNotFound :: err where "ErrBackfillJobNotFound = NewNotFound ''backfill job not found''"
definition ErrProcessoNotFound :: err where "ErrProcessoNotFound = NewNotFound (''processo n'' @ [CHR 0xC3, CHR 0xA3] @ ''o encontrado'')"
definition ErrIntimationNotFound :: err where
  "ErrIntimationNotFound = NewNotFound (''intima'' @ [CHR 0xC3, CHR 0xA7, CHR 0xC3, CHR 0xA3] @ ''o n'' @ [CHR 0xC3, CHR 0xA3] @ ''o encontrada'')"
definition ErrResponsibleNotMember :: err where
  "ErrResponsibleNotMember = NewInvalid (''usu'' @ [CHR 0xC3, CHR 0xA1] @ ''rio n'' @ [CHR 0xC3, CHR 0xA3] @ ''o '' @ [CHR 0xC3, CHR 0xA9] @ '' membro do escrit'' @ [CHR 0xC3, CHR 0xB3] @ ''rio'')"
definition ErrSyncRunNotFound :: err where "ErrSyncRunNotFound = NewNotFound ''sync run not found''"
definition ErrRecordNotFound :: err where "ErrRecordNotFound = NewNotFound ''court record not found''"
definition ErrProcessLimitReached :: err where
  "ErrProcessLimitReached = AppErr KindForbidden ''active process limit reached''"
definition ErrActivationBlocked :: err where
  "ErrActivationBlocked = AppErr KindForbidden
     ''tenant already at active process limit; upgrade the plan before activating a new source''"
definition ErrWatchedOABNotFound :: err where
  "ErrWatchedOABNotFound = NewNotFound (''oab monitorada n'' @ [CHR 0xC3, CHR 0xA3] @ ''o encontrada'')"

text \<open>An error that archives its task: \<open>asynq.SkipRetry\<close> in the chain of \<open>fmt.Errorf\<close>.\<close>

definition SkipRetry :: "string \<Rightarrow> err" where
  "SkipRetry msg = PlainErr (msg @ '': skip retry for the task'')"

text \<open>A nil pointer is dereferenced: the panic is recovered by the task server, the transaction rolled back.\<close>

definition nil_panic :: err where
  "nil_panic = PlainErr ''runtime error: invalid memory address or nil pointer dereference''"

text \<open>The distinct elements of a list, each where it is first seen.\<close>

definition first_seen :: "'a list \<Rightarrow> 'a list" where
  "first_seen xs = rev (remdups (rev xs))"

lemma set_first_seen [simp]: "set (first_seen xs) = set xs"
  by (simp add: first_seen_def)

lemma distinct_first_seen [simp]: "distinct (first_seen xs)"
  by (simp add: first_seen_def)

section \<open>Keys of an OAB (sync.go, mapper.go, djen_parser.go, validation.go)\<close>

definition oabKey :: "string \<Rightarrow> string \<Rightarrow> string" where
  "oabKey number uf = number @ ''|'' @ ToUpper (TrimSpace uf)"

definition canonicalOAB :: "string \<Rightarrow> string" where
  "canonicalOAB key = (let (number, rest) = (takeWhile (\<lambda>c. c \<noteq> CHR ''|'') key, dropWhile (\<lambda>c. c \<noteq> CHR ''|'') key) in
     if rest = [] then key else tl rest @ number)"

definition canonicalOABs :: "string list \<Rightarrow> string list" where
  "canonicalOABs keys = map canonicalOAB keys"

definition oabEntriesFromScope :: "scope \<Rightarrow> oab_entry list" where
  "oabEntriesFromScope sc = map (\<lambda>oab. \<lparr>oe_Number = drop 2 oab, oe_UF = take 2 oab\<rparr>)
     (filter (\<lambda>oab. \<not> length oab < 3) (sc_OAB sc))"

definition watchedOABKeys :: "scope \<Rightarrow> string list" where
  "watchedOABKeys sc = map (\<lambda>e. oabKey (oe_Number e) (oe_UF e)) (oabEntriesFromScope sc)"

text \<open>\<open>^[A-Z]{2}\d{1,6}$\<close>.\<close>

definition is_upper :: "char \<Rightarrow> bool" where
  "is_upper c \<longleftrightarrow> 65 \<le> (of_char c :: nat) \<and> (of_char c :: nat) \<le> 90"

definition oabRegex :: "string \<Rightarrow> bool" where
  "oabRegex s \<longleftrightarrow> length (take 2 s) = 2 \<and> list_all is_upper (take 2 s)
     \<and> 1 \<le> length (drop 2 s) \<and> length (drop 2 s) \<le> 6 \<and> list_all is_digit (drop 2 s)"

definition parseOAB :: "string \<Rightarrow> err + oab_entry" where
  "parseOAB raw = (if \<not> oabRegex raw then Inl (NewInvalid ''oab must be UF (2 letters) + 1-6 digits, e.g. SP123456'')
     else Inr \<lparr>oe_Number = drop 2 raw, oe_UF = take 2 raw\<rparr>)"

definition Scope_Validate :: "scope \<Rightarrow> bool" where
  "Scope_Validate sc \<longleftrightarrow> sc_OAB sc \<noteq> [] \<and> list_all (\<lambda>oab. oab = '''' \<or> oabRegex oab) (sc_OAB sc)"

section \<open>Events (events.go)\<close>

record activation =
  iv_IntegrationID :: string
  iv_TenantID :: string
  iv_Source :: string
  iv_Scope :: scope

record sync_requested =
  sq_BackfillJobID :: string
  sq_TenantID :: string
  sq_IntegrationID :: string
  sq_Source :: string
  sq_SliceIndex :: int
  sq_WindowFrom :: string
  sq_WindowTo :: string
  sq_Scope :: scope
  sq_CatchUpOABKey :: string
  sq_CatchUpSince :: "instant option"

text \<open>
  The RFC 3339 text of \<open>catch_up_since\<close> is the instant it was written from (\<open>RFC3339Nano\<close> is
  exact), the empty text is \<open>None\<close>. \<open>sync_completed\<close> and \<open>sync_failed\<close> report a closed run.
\<close>

record run_closed =
  rn_TenantID :: string
  rn_SyncRunID :: string
  rn_IntegrationID :: string
  rn_BackfillJobID :: string
  rn_SliceIndex :: int
  rn_CatchUpOABKey :: string
  rn_CatchUpSince :: "instant option"

record record_observed =
  ro_TenantID :: string
  ro_SyncRunID :: string
  ro_CourtRecordID :: string
  ro_CaseID :: string
  ro_CNJNumber :: string
  ro_Degree :: string
  ro_Court :: string
  ro_BackfillJobID :: string

record intimation_landed =
  il_TenantID :: string
  il_IntimationID :: string
  il_CourtRecordID :: string
  il_CaseID :: string
  il_Type :: string
  il_Court :: string
  il_UF :: string
  il_DeadlineStartAt :: string
  il_PrazoDeclarado :: string

record batch_step =
  bs_TenantID :: string
  bs_Court :: string
  bs_BackfillJobID :: string
  bs_Pass :: nat

record oab_reenabled =
  or_TenantID :: string
  or_IntegrationID :: string
  or_Source :: string
  or_OABKey :: string
  or_CatchUpSince :: instant

datatype acq_payload =
    IntegrationActivated activation
  | SyncRequested sync_requested
  | SyncCompleted run_closed int int
  | SyncFailed run_closed string
  | BackfillFinished string string string int int int string
  | DiarioRequested string string
  | CourtRecordObserved record_observed
  | DocketEntryObserved string string string string string
  | CourtRecordArchived string string
  | CourtRecordSuperseded string string
  | IntimationObserved intimation_landed
  | IntimationCancelled string string string
  | EnrichmentBatchRequested batch_step
  | WatchedOABReenabled oab_reenabled

definition acq_event :: "string \<Rightarrow> string \<Rightarrow> string \<Rightarrow> acq_payload \<Rightarrow> string \<Rightarrow> acq_payload event" where
  "acq_event typ agg aid p eid =
     \<lparr>ev_type = ''acquisition.'' @ typ, ev_aggregate_type = agg, ev_aggregate_id = aid,
      ev_key = eid, ev_schedule = None, ev_payload = p\<rparr>"

definition newIntegrationActivated :: "integration \<Rightarrow> string \<Rightarrow> acq_payload event" where
  "newIntegrationActivated i = acq_event ''integration_activated'' ''integration'' (ig_ID i)
     (IntegrationActivated \<lparr>iv_IntegrationID = ig_ID i, iv_TenantID = ig_TenantID i, iv_Source = ig_Source i,
        iv_Scope = ig_Scope i\<rparr>)"

definition newSyncRequested :: "sync_requested \<Rightarrow> string \<Rightarrow> acq_payload event" where
  "newSyncRequested q = acq_event ''sync_requested'' ''backfill_job'' (sq_BackfillJobID q) (SyncRequested q)"

definition closed_run :: "sync_requested \<Rightarrow> string \<Rightarrow> run_closed" where
  "closed_run q run = \<lparr>rn_TenantID = sq_TenantID q, rn_SyncRunID = run, rn_IntegrationID = sq_IntegrationID q,
     rn_BackfillJobID = sq_BackfillJobID q, rn_SliceIndex = sq_SliceIndex q,
     rn_CatchUpOABKey = sq_CatchUpOABKey q, rn_CatchUpSince = sq_CatchUpSince q\<rparr>"

definition newSyncCompleted :: "sync_requested \<Rightarrow> string \<Rightarrow> int \<Rightarrow> int \<Rightarrow> string \<Rightarrow> acq_payload event" where
  "newSyncCompleted q run n d = acq_event ''sync_completed'' ''sync_run'' run (SyncCompleted (closed_run q run) n d)"

definition newSyncFailed :: "sync_requested \<Rightarrow> string \<Rightarrow> string \<Rightarrow> string \<Rightarrow> acq_payload event" where
  "newSyncFailed q run reason = acq_event ''sync_failed'' ''sync_run'' run (SyncFailed (closed_run q run) reason)"

definition newCourtRecordObserved :: "sync_requested \<Rightarrow> string \<Rightarrow> known_record \<Rightarrow> string \<Rightarrow> acq_payload event" where
  "newCourtRecordObserved q run r = acq_event ''court_record_observed'' ''court_record'' (kr_ID r)
     (CourtRecordObserved \<lparr>ro_TenantID = sq_TenantID q, ro_SyncRunID = run, ro_CourtRecordID = kr_ID r,
        ro_CaseID = kr_CaseID r, ro_CNJNumber = kr_CNJNumber r, ro_Degree = kr_Degree r, ro_Court = kr_Court r,
        ro_BackfillJobID = sq_BackfillJobID q\<rparr>)"

text \<open>Of a sync run, or with an empty run of the enrichment.\<close>

definition newDocketEntryObserved :: "string \<Rightarrow> string \<Rightarrow> known_entry \<Rightarrow> string \<Rightarrow> acq_payload event" where
  "newDocketEntryObserved tenantID run d = acq_event ''docket_entry_observed'' ''docket_entry'' (ke_ID d)
     (DocketEntryObserved tenantID run (ke_CourtRecordID d) (ke_ID d) (ke_Hash d))"

definition newDocketEntryObservedFromEnrich :: "record_observed \<Rightarrow> known_entry \<Rightarrow> string \<Rightarrow> acq_payload event" where
  "newDocketEntryObservedFromEnrich ev d = newDocketEntryObserved (ro_TenantID ev) '''' d"

record intimation_change =
  ic_ID :: string
  ic_CourtRecordID :: string
  ic_CaseID :: string
  ic_Type :: string
  ic_Court :: string
  ic_DeadlineStartAt :: string
  ic_CancelReason :: string
  ic_PrazoDeclarado :: string

definition newIntimationObserved :: "string \<Rightarrow> intimation_change \<Rightarrow> string \<Rightarrow> acq_payload event" where
  "newIntimationObserved tenantID n = acq_event ''intimation.observed'' ''intimation'' (ic_ID n)
     (IntimationObserved \<lparr>il_TenantID = tenantID, il_IntimationID = ic_ID n, il_CourtRecordID = ic_CourtRecordID n,
        il_CaseID = ic_CaseID n, il_Type = ic_Type n, il_Court = ic_Court n, il_UF = UF (ic_Court n),
        il_DeadlineStartAt = ic_DeadlineStartAt n, il_PrazoDeclarado = ic_PrazoDeclarado n\<rparr>)"

definition newIntimationCancelled :: "string \<Rightarrow> intimation_change \<Rightarrow> string \<Rightarrow> acq_payload event" where
  "newIntimationCancelled tenantID c = acq_event ''intimation.cancelled'' ''intimation'' (ic_ID c)
     (IntimationCancelled tenantID (ic_ID c) (ic_CancelReason c))"

definition newCourtRecordArchived :: "string \<Rightarrow> string \<Rightarrow> string \<Rightarrow> acq_payload event" where
  "newCourtRecordArchived tenantID rec = acq_event ''court_record_archived'' ''court_record'' rec
     (CourtRecordArchived tenantID rec)"

definition newCourtRecordSuperseded :: "string \<Rightarrow> string \<Rightarrow> string \<Rightarrow> acq_payload event" where
  "newCourtRecordSuperseded tenantID rec = acq_event ''court_record_superseded'' ''court_record'' rec
     (CourtRecordSuperseded tenantID rec)"

definition newBackfillFinished :: "string \<Rightarrow> string \<Rightarrow> string \<Rightarrow> int \<Rightarrow> int \<Rightarrow> int \<Rightarrow> string \<Rightarrow> string \<Rightarrow> acq_payload event" where
  "newBackfillFinished tenantID job integrationID n ok failed status =
     acq_event ''backfill_finished'' ''backfill_job'' job (BackfillFinished tenantID job integrationID n ok failed status)"

text \<open>
  The aggregates that are no row get the uuid v5 of their key: \<open>v5\<close> is \<open>uuid.NewSHA1\<close>, of the
  text of a namespace and a name.
\<close>

definition watchedOABAggregate :: "(string \<Rightarrow> string \<Rightarrow> string) \<Rightarrow> string \<Rightarrow> string \<Rightarrow> string \<Rightarrow> string" where
  "watchedOABAggregate v5 tenantID integrationID key =
     v5 ''f1c7a9d3-4b2e-4a8f-9c6d-2e5b8a3f7c19'' (tenantID @ ''|'' @ integrationID @ ''|'' @ key)"

definition newWatchedOABReenabled :: "(string \<Rightarrow> string \<Rightarrow> string) \<Rightarrow> oab_reenabled \<Rightarrow> string \<Rightarrow> acq_payload event" where
  "newWatchedOABReenabled v5 r = acq_event ''watched_oab_reenabled'' ''watched_oab''
     (watchedOABAggregate v5 (or_TenantID r) (or_IntegrationID r) (or_OABKey r)) (WatchedOABReenabled r)"

definition newDiarioRequested :: "(string \<Rightarrow> string \<Rightarrow> string) \<Rightarrow> string \<Rightarrow> string \<Rightarrow> string \<Rightarrow> acq_payload event" where
  "newDiarioRequested v5 court d = acq_event ''diario_requested'' ''diario''
     (v5 ''6f1d3b2a-8c7e-4a5f-9b0d-2e4c6a8f1b3d'' (court @ ''|'' @ d)) (DiarioRequested court d)"

definition enrichmentBatchDelay :: int where "enrichmentBatchDelay = 2 * 1000000000"

definition enrichmentBatchEventID :: "string \<Rightarrow> string \<Rightarrow> nat \<Rightarrow> string" where
  "enrichmentBatchEventID job court pass = ''enrich-batch:'' @ job @ '':'' @ court @ '':'' @ itoa (int pass)"

definition enrichmentBatchAggregate :: "(string \<Rightarrow> string \<Rightarrow> string) \<Rightarrow> string \<Rightarrow> string \<Rightarrow> string \<Rightarrow> string" where
  "enrichmentBatchAggregate v5 tenantID court job =
     v5 ''b3a4c2e1-9f7d-4c6b-8a1e-5d3f2b7c9a04'' (tenantID @ ''|'' @ court @ ''|'' @ job)"

definition batch_event :: "(string \<Rightarrow> string \<Rightarrow> string) \<Rightarrow> batch_step \<Rightarrow> (instant \<times> bool) option \<Rightarrow> acq_payload event" where
  "batch_event v5 b at =
     (acq_event ''enrichment_batch_requested'' ''backfill_job''
        (enrichmentBatchAggregate v5 (bs_TenantID b) (bs_Court b) (bs_BackfillJobID b)) (EnrichmentBatchRequested b)
        (enrichmentBatchEventID (bs_BackfillJobID b) (bs_Court b) (bs_Pass b)))\<lparr>ev_schedule := at\<rparr>"

text \<open>The first step, of a zero \<open>processAt\<close>, and the next one.\<close>

definition newEnrichmentBatchRequested :: "(string \<Rightarrow> string \<Rightarrow> string) \<Rightarrow> string \<Rightarrow> string \<Rightarrow> string \<Rightarrow> acq_payload event" where
  "newEnrichmentBatchRequested v5 tenantID court job =
     batch_event v5 \<lparr>bs_TenantID = tenantID, bs_Court = court, bs_BackfillJobID = job, bs_Pass = 0\<rparr> (Some (zero_time, False))"

definition nextEnrichmentBatchStep :: "(string \<Rightarrow> string \<Rightarrow> string) \<Rightarrow> batch_step \<Rightarrow> instant \<Rightarrow> acq_payload event" where
  "nextEnrichmentBatchStep v5 b at = (let t = at + enrichmentBatchDelay in
     batch_event v5 (b\<lparr>bs_Pass := Suc (bs_Pass b)\<rparr>) (Some (t, t \<noteq> zero_time)))"

section \<open>Requests of a source and its answers (connector.go, djen.go)\<close>

record fetch_request =
  fr_Capability :: string
  fr_IntegrationID :: string
  fr_WindowFrom :: string
  fr_WindowTo :: string
  fr_OABs :: "oab_entry list"
  fr_CNJNumber :: string
  fr_Court :: string
  fr_CNJNumbers :: "string list"

definition CapabilityFetchByNumber :: string where "CapabilityFetchByNumber = ''FETCH_BY_NUMBER''"
definition CapabilityFetchBatch :: string where "CapabilityFetchBatch = ''FETCH_BATCH''"
definition CapabilityDiscoverByOAB :: string where "CapabilityDiscoverByOAB = ''DISCOVER_BY_OAB''"

text \<open>A communication as the DJEN reports it; a nil text is the empty one.\<close>

record communication =
  cm_Hash :: string
  cm_NumeroProcesso :: string
  cm_TipoComunicacao :: string
  cm_NomeOrgao :: string
  cm_SiglaTribunal :: string
  cm_NomeClasse :: string
  cm_Texto :: string
  cm_Link :: string
  cm_DataDisponibilizacao :: string
  cm_DataCancelamento :: string
  cm_MotivoCancelamento :: string
  cm_Ativo :: bool
  cm_Advogados :: "counsel list"
  cm_Destinatarios :: "(string \<times> string) list"

text \<open>
  A raw item is what decoding it yields: its hash alone, as the connector peeks it, and the
  communication, each \<open>None\<close> where it does not decode. A payload of another source is left as
  its text.
\<close>

record raw_item =
  ri_Hash :: "string option"
  ri_Item :: "communication option"

record djen_payload =
  dj_OABs :: "oab_entry list"
  dj_Items :: "raw_item list"

datatype raw_body = DjenBody djen_payload | OtherBody string

record raw_payload =
  rp_ConnectorID :: string
  rp_ConnectorVersion :: string
  rp_Source :: string
  rp_Body :: raw_body

record connector =
  cn_ID :: string
  cn_Version :: string
  cn_Fetch :: "fetch_request \<Rightarrow> err + raw_payload"

section \<open>Tables\<close>

record court_case =
  cc_ID :: string
  cc_TenantID :: string
  cc_Label :: string
  cc_AssignedUserID :: string

record court_row =
  cw_ID :: string
  cw_TenantID :: string
  cw_CaseID :: string
  cw_CNJNumber :: string
  cw_Degree :: string
  cw_Court :: string
  cw_Class :: string
  cw_Subject :: string
  cw_JudgingBody :: string
  cw_Completeness :: int
  cw_NextSyncAt :: "instant option"
  cw_SyncRunID :: string
  cw_Lifecycle :: string
  cw_FiledAt :: "day option"
  cw_Secrecy :: string
  cw_Phase :: string
  cw_PhaseOverride :: string
  cw_ClaimValue :: "int option"
  cw_EnrichmentAttemptedAt :: "instant option"

record intim_row =
  iw_ID :: string
  iw_TenantID :: string
  iw_CaseID :: string
  iw_CourtRecordID :: string
  iw_Hash :: string
  iw_MadeAvailableAt :: day
  iw_PublishedAt :: day
  iw_DeadlineStartAt :: day
  iw_Content :: string
  iw_Source :: string
  iw_Type :: string
  iw_Status :: string
  iw_SourceURL :: string
  iw_CancelledAt :: "day option"
  iw_CancelReason :: string
  iw_Recipients :: "recipient list"
  iw_SyncRunID :: string
  iw_UserStatus :: string
  iw_AssigneeUserID :: string

record docket_row =
  dk_ID :: string
  dk_CourtRecordID :: string
  dk_Hash :: string
  dk_OccurredAt :: instant
  dk_ObservedAt :: instant
  dk_Source :: string
  dk_Fidelity :: int
  dk_Text :: string
  dk_TPUCode :: int
  dk_Complements :: string

record party_row =
  pw_ID :: string
  pw_TenantID :: string
  pw_CaseID :: string
  pw_Role :: string
  pw_Name :: string

record counsel_row =
  cl_TenantID :: string
  cl_PartyID :: string
  cl_Name :: string
  cl_OAB :: string
  cl_UF :: string

record sync_run =
  sr_ID :: string
  sr_TenantID :: string
  sr_IntegrationID :: string
  sr_ConnectorID :: string
  sr_ConnectorVersion :: string
  sr_Status :: string
  sr_ItemsNew :: int
  sr_ItemsDeduped :: int
  sr_CourtRecordsNew :: int
  sr_CourtRecordsUpdated :: int
  sr_IntimationsNew :: int
  sr_StartedAt :: instant
  sr_FinishedAt :: "instant option"
  sr_Error :: string
  sr_EventID :: string
  sr_WindowFrom :: "day option"
  sr_WindowTo :: "day option"
  sr_BackfillJobID :: string
  sr_TriggerReason :: string
  sr_TriggerOAB :: string

record backfill_job =
  bj_ID :: string
  bj_TenantID :: string
  bj_IntegrationID :: string
  bj_WindowFrom :: day
  bj_WindowTo :: day
  bj_TotalSlices :: int
  bj_SlicesOK :: int
  bj_SlicesError :: int
  bj_Status :: string
  bj_TriggerReason :: string
  bj_TriggerOABs :: "string list"

record watched_row =
  ww_TenantID :: string
  ww_IntegrationID :: string
  ww_OABKey :: string
  ww_Enabled :: bool
  ww_DisabledAt :: "instant option"
  ww_CatchUpSince :: "instant option"
  ww_LastAction :: string
  ww_LastActionAt :: "instant option"

record publication =
  pb_Hash :: string
  pb_Court :: string
  pb_CNJNumber :: string
  pb_MadeAvailableAt :: day
  pb_RecipientOABs :: "string list"
  pb_Payload :: raw_item

text \<open>
  \<open>capture_run\<close>: the row of a day's capture (keyed by its window), or of the enrichment of an
  import (keyed by its job).
\<close>

record capture_run =
  ca_TenantID :: string
  ca_Kind :: string
  ca_Window :: "day option"
  ca_BackfillJobID :: string
  ca_StartedAt :: instant
  ca_FinishedAt :: instant
  ca_Status :: string
  ca_CourtRecordsNew :: int
  ca_CourtRecordsUpdated :: int
  ca_IntimationsNew :: int
  ca_Errors :: int

text \<open>The prazos are the other slice's; what a merge moves is the record each hangs on.\<close>

record anchored_prazo =
  an_ID :: string
  an_TenantID :: string
  an_CourtRecordID :: string

record acq_db = "acq_payload tx_db" +
  integrations :: "integration list"
  watched :: "watched_row list"
  jobs :: "backfill_job list"
  runs :: "sync_run list"
  cases :: "court_case list"
  records :: "court_row list"
  intims :: "intim_row list"
  dockets :: "docket_row list"
  parties :: "party_row list"
  counsels :: "counsel_row list"
  publications :: "publication list"
  captures :: "capture_run list"
  anchored :: "anchored_prazo list"
  members :: "(string \<times> string) list"

text \<open>
  The ports: the registry of connectors, the parser of payloads, the ceiling on active processes
  the billing slice resolves, whether the task server retries once more after a failure, the
  tokenizer of HTML, and the uuid v5.
\<close>

record acq_env = tx_env +
  a_connector :: "string \<Rightarrow> connector option"
  a_parse :: "raw_payload \<Rightarrow> err + parsed_result"
  a_limit :: "string \<Rightarrow> err + int"
  a_retries_left :: bool
  a_html :: "string \<Rightarrow> html_token list"
  a_uuid5 :: "string \<Rightarrow> string \<Rightarrow> string"

type_synonym 'a atx = "(acq_db, 'a) tx"

end
