(* ===== verification/AcquisitionStore.thy ===== *)
theory AcquisitionStore
  imports Acquisition
begin

text \<open>
  The repository of \<open>internal/acquisition\<close> (\<open>repository.go\<close>, \<open>repository_batch.go\<close> and
  \<open>queries/*.sql\<close>): the methods the sync, the enrichment, the backfill and the national match
  drive, each over the tables it writes. The advisory lock of a tenant serializes the writers
  of the transactions that take it; a run here is one writer.
\<close>

section \<open>Helpers (repository.go)\<close>

definition nullUUID :: "acq_env \<Rightarrow> string \<Rightarrow> string" where
  "nullUUID E s = (if s = '''' then '''' else case e_parse_uuid E s of None \<Rightarrow> '''' | Some u \<Rightarrow> u)"

definition AcquireTenantWriteLock :: "acq_env \<Rightarrow> string \<Rightarrow> unit atx" where
  "AcquireTenantWriteLock E tenantID = stmt E (ret ())"

section \<open>Court records (repository_batch.go, queries/sync.sql)\<close>

record record_params =
  cp_TenantID :: string
  cp_CNJNumber :: string
  cp_Degree :: string
  cp_Court :: string
  cp_Class :: string
  cp_Subject :: string
  cp_Completeness :: int
  cp_NextSyncAt :: instant
  cp_JudgingBody :: string
  cp_SyncRunID :: string

text \<open>The separator of the key is in no number and no degree: the key is the pair.\<close>

definition recordKey :: "string \<Rightarrow> string \<Rightarrow> string \<times> string" where
  "recordKey cnj degree = (cnj, degree)"

definition param_key :: "record_params \<Rightarrow> string \<times> string" where
  "param_key p = recordKey (cp_CNJNumber p) (cp_Degree p)"

definition row_key :: "court_row \<Rightarrow> string \<times> string" where
  "row_key r = (cw_CNJNumber r, cw_Degree r)"

definition newCourtRecordEntity :: "string \<Rightarrow> string \<Rightarrow> record_params \<Rightarrow> known_record" where
  "newCourtRecordEntity i caseID p = \<lparr>kr_ID = i, kr_TenantID = cp_TenantID p, kr_CaseID = caseID,
     kr_CNJNumber = cp_CNJNumber p, kr_Degree = cp_Degree p, kr_Court = cp_Court p\<rparr>"

definition has_key :: "string \<Rightarrow> string \<times> string \<Rightarrow> court_row \<Rightarrow> bool" where
  "has_key tid k r \<longleftrightarrow> cw_TenantID r = tid \<and> row_key r = k"

definition GetCourtRecordsByKeys :: "acq_env \<Rightarrow> string \<Rightarrow> (string \<times> string) list \<Rightarrow> court_row list atx" where
  "GetCourtRecordsByKeys E tid ks =
     stmt E (read_st (\<lambda>s. filter (\<lambda>r. cw_TenantID r = tid \<and> row_key r \<in> set ks) (records s)))"

definition active_rows :: "string \<Rightarrow> acq_db \<Rightarrow> court_row list" where
  "active_rows tid s = filter (\<lambda>r. cw_TenantID r = tid \<and> cw_Lifecycle r = LifecycleActive) (records s)"

definition CountActiveCourtRecordsByTenant :: "acq_env \<Rightarrow> string \<Rightarrow> int atx" where
  "CountActiveCourtRecordsByTenant E tid = stmt E (read_st (\<lambda>s. int (length (active_rows tid s))))"

definition new_case :: "string \<Rightarrow> string \<Rightarrow> court_case" where
  "new_case tid i = \<lparr>cc_ID = i, cc_TenantID = tid, cc_Label = '''', cc_AssignedUserID = ''''\<rparr>"

definition BatchInsertCourtCases :: "acq_env \<Rightarrow> string \<Rightarrow> nat \<Rightarrow> string list atx" where
  "BatchInsertCourtCases E tid n = bind (next_ids E n) (\<lambda>ids. stmt E (\<lambda>s.
     if \<not> distinct ids \<or> (\<exists>c \<in> set (cases s). cc_ID c \<in> set ids) then (Inl WrapInfra, s)
     else (Inr ids, s\<lparr>cases := cases s @ map (new_case tid) ids\<rparr>)))"

definition new_record_row :: "string \<Rightarrow> string \<Rightarrow> string \<Rightarrow> record_params \<Rightarrow> court_row" where
  "new_record_row tid i caseID p = \<lparr>cw_ID = i, cw_TenantID = tid, cw_CaseID = caseID, cw_CNJNumber = cp_CNJNumber p,
     cw_Degree = cp_Degree p, cw_Court = cp_Court p, cw_Class = cp_Class p, cw_Subject = cp_Subject p,
     cw_JudgingBody = cp_JudgingBody p, cw_Completeness = cp_Completeness p, cw_NextSyncAt = Some (cp_NextSyncAt p),
     cw_SyncRunID = cp_SyncRunID p, cw_Lifecycle = LifecycleActive, cw_FiledAt = None, cw_Secrecy = ''PUBLIC'',
     cw_Phase = '''', cw_PhaseOverride = '''', cw_ClaimValue = None, cw_EnrichmentAttemptedAt = None\<rparr>"

text \<open>\<open>ON CONFLICT (tenant_id, cnj_number, degree) DO NOTHING\<close>, with the rows it did insert.\<close>

definition insert_records :: "court_row list \<Rightarrow> court_row list \<Rightarrow> court_row list" where
  "insert_records rows t =
     filter (\<lambda>r. \<not> (\<exists>q \<in> set t. cw_TenantID q = cw_TenantID r \<and> row_key q = row_key r)) rows"

definition BatchInsertCourtRecords :: "acq_env \<Rightarrow> string \<Rightarrow> (string \<times> record_params) list \<Rightarrow> court_row list atx" where
  "BatchInsertCourtRecords E tid ps = bind (next_ids E (length ps)) (\<lambda>ids. stmt E (\<lambda>s.
     let rows = insert_records (map2 (\<lambda>i (caseID, p). new_record_row tid i caseID p) ids ps) (records s) in
     if \<not> distinct ids \<or> (\<exists>r \<in> set (records s). cw_ID r \<in> set ids) then (Inl WrapInfra, s)
     else (Inr rows, s\<lparr>records := records s @ rows\<rparr>)))"

text \<open>
  \<open>GREATEST\<close> on the completeness; a text the source omits keeps the stored one.
\<close>

definition kept :: "string \<Rightarrow> string \<Rightarrow> string" where
  "kept new old = (if new = '''' then old else new)"

definition synced_row :: "record_params \<Rightarrow> court_row \<Rightarrow> court_row" where
  "synced_row p r = r\<lparr>cw_Completeness := max (cp_Completeness p) (cw_Completeness r),
     cw_NextSyncAt := Some (cp_NextSyncAt p), cw_JudgingBody := kept (cp_JudgingBody p) (cw_JudgingBody r),
     cw_Class := kept (cp_Class p) (cw_Class r), cw_Subject := kept (cp_Subject p) (cw_Subject r)\<rparr>"

definition mark_synced :: "(string \<times> record_params) list \<Rightarrow> court_row \<Rightarrow> court_row" where
  "mark_synced us r = (case map_of us (cw_ID r) of None \<Rightarrow> r | Some p \<Rightarrow> synced_row p r)"

definition BatchMarkCourtRecordsSynced :: "acq_env \<Rightarrow> (string \<times> record_params) list \<Rightarrow> unit atx" where
  "BatchMarkCourtRecordsSynced E us = stmt E (modify_st (\<lambda>s. s\<lparr>records := map (mark_synced us) (records s)\<rparr>))"

text \<open>
  The outcome for one input: refused by the ceiling, or what its key resolves to, which is a nil
  pointer when the key resolves to nothing.
\<close>

datatype record_outcome = Blocked | Resolved "known_record option"

text \<open>The parameters of a key: the last of its inputs.\<close>

definition latest :: "record_params list \<Rightarrow> string \<times> string \<Rightarrow> record_params" where
  "latest ps k = (case find_row (\<lambda>p. param_key p = k) (rev ps) of Some p \<Rightarrow> p | None \<Rightarrow> hd ps)"

definition batchCreateCourtRecords :: "acq_env \<Rightarrow> string \<Rightarrow> record_params list \<Rightarrow> (string \<times> string) list
    \<Rightarrow> court_row list atx" where
  "batchCreateCourtRecords E tid ps ks =
     bind (BatchInsertCourtCases E tid (length ks)) (\<lambda>caseIDs.
     BatchInsertCourtRecords E tid (map2 (\<lambda>caseID k. (caseID, latest ps k)) caseIDs ks))"

definition outcome_of :: "record_params list \<Rightarrow> court_row list \<Rightarrow> (string \<times> string) list \<Rightarrow> record_params \<Rightarrow> record_outcome" where
  "outcome_of ps rows blocked p =
     (if param_key p \<in> set blocked then Blocked
      else Resolved (map_option (\<lambda>r. newCourtRecordEntity (cw_ID r) (cw_CaseID r) (latest ps (param_key p)))
             (find_row (\<lambda>r. row_key r = param_key p) rows)))"

definition create_new :: "acq_env \<Rightarrow> string \<Rightarrow> int \<Rightarrow> record_params list \<Rightarrow> (string \<times> string) list
    \<Rightarrow> (court_row list \<times> (string \<times> string) list) atx" where
  "create_new E tid limit ps newKeys =
     (if newKeys = [] then ret ([], [])
      else bind (CountActiveCourtRecordsByTenant E tid) (\<lambda>active.
        let remaining = nat (limit - active); toCreate = take remaining newKeys; blocked = drop remaining newKeys in
        if toCreate = [] then ret ([], blocked)
        else bind (batchCreateCourtRecords E tid ps toCreate) (\<lambda>created. ret (created, blocked))))"

definition mark_known :: "acq_env \<Rightarrow> record_params list \<Rightarrow> court_row list \<Rightarrow> (string \<times> string) list \<Rightarrow> unit atx" where
  "mark_known E ps existing ks =
     (if ks = [] then ret ()
      else BatchMarkCourtRecordsSynced E
        (map (\<lambda>r. (cw_ID r, latest ps (row_key r))) (filter (\<lambda>r. row_key r \<in> set ks) existing)))"

definition BatchUpsertCourtRecords :: "acq_env \<Rightarrow> string \<Rightarrow> int \<Rightarrow> record_params list \<Rightarrow> (record_outcome list \<times> nat) atx" where
  "BatchUpsertCourtRecords E tenantID limit ps =
     (if ps = [] then ret ([], 0)
      else bind (parseUUID E tenantID) (\<lambda>tid.
        bind (GetCourtRecordsByKeys E tid (first_seen (map param_key ps))) (\<lambda>existing.
        let known = (\<lambda>k. k \<in> row_key ` set existing); keys = first_seen (map param_key ps) in
        bind (create_new E tid limit ps (filter (\<lambda>k. \<not> known k) keys)) (\<lambda>(created, blocked).
        bind (mark_known E ps existing (filter known keys)) (\<lambda>_.
        ret (map (outcome_of ps (existing @ created) blocked) ps, length created))))))"

section \<open>Intimations (repository_batch.go)\<close>

record intim_params =
  ip_TenantID :: string
  ip_CaseID :: string
  ip_CourtRecordID :: string
  ip_Hash :: string
  ip_MadeAvailableAt :: day
  ip_PublishedAt :: day
  ip_DeadlineStartAt :: day
  ip_Content :: string
  ip_Source :: string
  ip_Type :: string
  ip_Status :: string
  ip_SourceURL :: string
  ip_CancelledAt :: "day option"
  ip_CancelReason :: string
  ip_Recipients :: "recipient list"
  ip_SyncRunID :: string

definition new_intim_row :: "string \<Rightarrow> string \<Rightarrow> intim_params \<Rightarrow> intim_row" where
  "new_intim_row tid i p = \<lparr>iw_ID = i, iw_TenantID = tid, iw_CaseID = ip_CaseID p, iw_CourtRecordID = ip_CourtRecordID p,
     iw_Hash = ip_Hash p, iw_MadeAvailableAt = ip_MadeAvailableAt p, iw_PublishedAt = ip_PublishedAt p,
     iw_DeadlineStartAt = ip_DeadlineStartAt p, iw_Content = ip_Content p, iw_Source = ip_Source p, iw_Type = ip_Type p,
     iw_Status = ip_Status p, iw_SourceURL = ip_SourceURL p, iw_CancelledAt = ip_CancelledAt p,
     iw_CancelReason = ip_CancelReason p, iw_Recipients = ip_Recipients p, iw_SyncRunID = ip_SyncRunID p,
     iw_UserStatus = IntimationUserStatusPending, iw_AssigneeUserID = ''''\<rparr>"

definition reobserved :: "intim_params \<Rightarrow> intim_row \<Rightarrow> intim_row" where
  "reobserved p r = r\<lparr>iw_Status := ip_Status p, iw_CancelledAt := ip_CancelledAt p, iw_CancelReason := ip_CancelReason p,
     iw_Type := ip_Type p, iw_SourceURL := ip_SourceURL p\<rparr>"

text \<open>The conflict key of a row and of a proposed row.\<close>

definition intim_key :: "string \<Rightarrow> intim_params \<Rightarrow> string \<times> string \<times> string" where
  "intim_key tid p = (tid, ip_CaseID p, ip_Hash p)"

definition row_intim_key :: "intim_row \<Rightarrow> string \<times> string \<times> string" where
  "row_intim_key r = (iw_TenantID r, iw_CaseID r, iw_Hash r)"

record upserted =
  up_Row :: intim_row
  up_Inserted :: bool
  up_OldStatus :: string

definition upsert_intim :: "string \<Rightarrow> intim_params \<times> string \<Rightarrow> upserted atx" where
  "upsert_intim tid = (\<lambda>(p, i) s.
     case find_row (\<lambda>r. row_intim_key r = intim_key tid p) (intims s) of
       None \<Rightarrow> (Inr \<lparr>up_Row = new_intim_row tid i p, up_Inserted = True, up_OldStatus = ''''\<rparr>,
                s\<lparr>intims := intims s @ [new_intim_row tid i p]\<rparr>)
     | Some r \<Rightarrow> (Inr \<lparr>up_Row = reobserved p r, up_Inserted = False, up_OldStatus = iw_Status r\<rparr>,
                s\<lparr>intims := update_rows (\<lambda>r. row_intim_key r = intim_key tid p) (reobserved p) (intims s)\<rparr>))"

text \<open>
  \<open>BatchUpsertIntimations\<close>: Postgres refuses to let one command affect a row twice, and a key
  the table holds. The rows come back joined with their court record.
\<close>

definition BatchUpsertIntimations :: "acq_env \<Rightarrow> string \<Rightarrow> intim_params list \<Rightarrow> (upserted \<times> court_row) list atx" where
  "BatchUpsertIntimations E tid ps = bind (next_ids E (length ps)) (\<lambda>ids. stmt E (\<lambda>s.
     if \<not> distinct (map (intim_key tid) ps) \<or> \<not> distinct ids \<or> (\<exists>r \<in> set (intims s). iw_ID r \<in> set ids)
     then (Inl WrapInfra, s)
     else bind (map_tx (upsert_intim tid) (zip ps ids)) (\<lambda>us.
       read_st (\<lambda>s. concat (map (\<lambda>u. map (Pair u)
         (filter (\<lambda>r. cw_ID r = iw_CourtRecordID (up_Row u)) (records s))) us))) s))"

definition change_of :: "acq_env \<Rightarrow> upserted \<times> court_row \<Rightarrow> intimation_change" where
  "change_of E = (\<lambda>(u, r). let w = up_Row u in
     \<lparr>ic_ID = iw_ID w, ic_CourtRecordID = iw_CourtRecordID w, ic_CaseID = cw_CaseID r, ic_Type = iw_Type w,
      ic_Court = cw_Court r, ic_DeadlineStartAt = fmtDateOnly (iw_DeadlineStartAt w),
      ic_CancelReason = iw_CancelReason w, ic_PrazoDeclarado = extractPrazoDeclarado (a_html E) (iw_Content w)\<rparr>)"

definition is_news :: "upserted \<Rightarrow> bool" where
  "is_news u \<longleftrightarrow> up_Inserted u \<and> iw_Status (up_Row u) \<noteq> IntimationStatusCancelled"

definition is_retraction :: "upserted \<Rightarrow> bool" where
  "is_retraction u \<longleftrightarrow> \<not> up_Inserted u \<and> up_OldStatus u \<noteq> IntimationStatusCancelled
     \<and> iw_Status (up_Row u) = IntimationStatusCancelled"

definition UpsertIntimations :: "acq_env \<Rightarrow> intim_params list \<Rightarrow> (intimation_change list \<times> intimation_change list) atx" where
  "UpsertIntimations E ps =
     (if ps = [] then ret ([], [])
      else bind (parseUUID E (ip_TenantID (hd ps))) (\<lambda>tid.
        bind (BatchUpsertIntimations E tid ps) (\<lambda>us.
        ret (map (change_of E) (filter (is_news \<circ> fst) us), map (change_of E) (filter (is_retraction \<circ> fst) us)))))"

section \<open>Docket entries (repository_batch.go)\<close>

record docket_params =
  dp_CourtRecordID :: string
  dp_Hash :: string
  dp_OccurredAt :: instant
  dp_ObservedAt :: instant
  dp_Source :: string
  dp_Fidelity :: int
  dp_Text :: string
  dp_TPUCode :: int
  dp_Complements :: string

definition new_docket_row :: "string \<Rightarrow> docket_params \<Rightarrow> docket_row" where
  "new_docket_row i p = \<lparr>dk_ID = i, dk_CourtRecordID = dp_CourtRecordID p, dk_Hash = dp_Hash p,
     dk_OccurredAt = dp_OccurredAt p, dk_ObservedAt = dp_ObservedAt p, dk_Source = dp_Source p,
     dk_Fidelity = dp_Fidelity p, dk_Text = dp_Text p, dk_TPUCode = dp_TPUCode p, dk_Complements = dp_Complements p\<rparr>"

text \<open>\<open>ON CONFLICT (court_record_id, hash) DO NOTHING\<close>; the entry when it was inserted.\<close>

definition insert_docket :: "docket_params \<times> string \<Rightarrow> known_entry option atx" where
  "insert_docket = (\<lambda>(p, i) s.
     if \<exists>r \<in> set (dockets s). dk_CourtRecordID r = dp_CourtRecordID p \<and> dk_Hash r = dp_Hash p then (Inr None, s)
     else (Inr (Some \<lparr>ke_ID = i, ke_CourtRecordID = dp_CourtRecordID p, ke_Hash = dp_Hash p\<rparr>),
           s\<lparr>dockets := dockets s @ [new_docket_row i p]\<rparr>))"

definition UpsertDocketEntries :: "acq_env \<Rightarrow> docket_params list \<Rightarrow> known_entry list atx" where
  "UpsertDocketEntries E ps =
     (if ps = [] then ret []
      else bind (next_ids E (length ps)) (\<lambda>ids. stmt E (\<lambda>s.
        if \<not> distinct ids \<or> (\<exists>r \<in> set (dockets s). dk_ID r \<in> set ids) then (Inl WrapInfra, s)
        else bind (map_tx insert_docket (zip ps ids)) (\<lambda>es. ret (List.map_filter id es)) s)))"

section \<open>Parties (repository_batch.go, queries/parties.sql)\<close>

record party_params =
  yp_TenantID :: string
  yp_CaseID :: string
  yp_Role :: string
  yp_Name :: string
  yp_Counsels :: "counsel list"

definition party_key :: "party_params \<Rightarrow> string \<times> string \<times> string" where
  "party_key p = (yp_CaseID p, yp_Role p, yp_Name p)"

definition party_row_key :: "party_row \<Rightarrow> string \<times> string \<times> string" where
  "party_row_key r = (pw_CaseID r, pw_Role r, pw_Name r)"

definition upsert_party :: "string \<Rightarrow> (string \<times> string \<times> string) \<times> string \<Rightarrow> party_row atx" where
  "upsert_party tid = (\<lambda>((caseID, role, name), i) s.
     case find_row (\<lambda>r. pw_TenantID r = tid \<and> party_row_key r = (caseID, role, name)) (parties s) of
       Some r \<Rightarrow> (Inr r, s)
     | None \<Rightarrow> let r = \<lparr>pw_ID = i, pw_TenantID = tid, pw_CaseID = caseID, pw_Role = role, pw_Name = name\<rparr> in
         (Inr r, s\<lparr>parties := parties s @ [r]\<rparr>))"

definition BatchUpsertParties :: "acq_env \<Rightarrow> string \<Rightarrow> (string \<times> string \<times> string) list \<Rightarrow> party_row list atx" where
  "BatchUpsertParties E tid ks = bind (next_ids E (length ks)) (\<lambda>ids. stmt E (\<lambda>s.
     if \<not> distinct ids \<or> (\<exists>r \<in> set (parties s). pw_ID r \<in> set ids) then (Inl WrapInfra, s)
     else map_tx (upsert_party tid) (zip ks ids) s))"

text \<open>The counsels of every input under the id of its party, each key of an OAB once per party.\<close>

definition counsel_rows :: "string \<Rightarrow> party_row list \<Rightarrow> party_params list \<Rightarrow> counsel_row list" where
  "counsel_rows tid rows ps = concat (map (\<lambda>p. case find_row (\<lambda>r. party_row_key r = party_key p) rows of
       None \<Rightarrow> []
     | Some r \<Rightarrow> map (\<lambda>c. \<lparr>cl_TenantID = tid, cl_PartyID = pw_ID r, cl_Name = co_Name c, cl_OAB = co_OAB c,
                          cl_UF = co_UF c\<rparr>) (yp_Counsels p)) ps)"

fun dedup_counsels :: "(string \<times> string) list \<Rightarrow> counsel_row list \<Rightarrow> counsel_row list" where
  "dedup_counsels seen [] = []"
| "dedup_counsels seen (c # cs) = (let k = (cl_PartyID c, oabKey (cl_OAB c) (cl_UF c)) in
     if k \<in> set seen then dedup_counsels seen cs else c # dedup_counsels (k # seen) cs)"

definition counsel_key :: "counsel_row \<Rightarrow> string \<times> string \<times> string \<times> string" where
  "counsel_key c = (cl_TenantID c, cl_PartyID c, cl_OAB c, cl_UF c)"

definition insert_counsel :: "counsel_row list \<Rightarrow> counsel_row \<Rightarrow> counsel_row list" where
  "insert_counsel t c = (if counsel_key c \<in> counsel_key ` set t then t else t @ [c])"

definition BatchUpsertPartyCounsels :: "acq_env \<Rightarrow> counsel_row list \<Rightarrow> unit atx" where
  "BatchUpsertPartyCounsels E cs =
     stmt E (modify_st (\<lambda>s. s\<lparr>counsels := foldl insert_counsel (counsels s) cs\<rparr>))"

definition UpsertParties :: "acq_env \<Rightarrow> party_params list \<Rightarrow> unit atx" where
  "UpsertParties E ps =
     (if ps = [] then ret ()
      else bind (parseUUID E (yp_TenantID (hd ps))) (\<lambda>tid.
        bind (BatchUpsertParties E tid (first_seen (map party_key ps))) (\<lambda>rows.
        let cs = dedup_counsels [] (counsel_rows tid rows ps) in
        if cs = [] then ret () else BatchUpsertPartyCounsels E cs)))"

section \<open>Sync runs (repository.go, queries/sync.sql)\<close>

definition wireDateOrNull :: "string \<Rightarrow> day option" where
  "wireDateOrNull s = (if s = '''' then None else parseDateOnly s)"

definition find_by_event :: "string \<Rightarrow> acq_db \<Rightarrow> sync_run option" where
  "find_by_event eventID s = find_row (\<lambda>r. sr_EventID r = eventID) (runs s)"

text \<open>A non-NULL \<open>event_id\<close> is unique.\<close>

definition insert_run :: "sync_run \<Rightarrow> string atx" where
  "insert_run r = (\<lambda>s.
     if sr_EventID r \<noteq> '''' \<and> find_by_event (sr_EventID r) s \<noteq> None
        \<or> find_row (\<lambda>q. sr_ID q = sr_ID r) (runs s) \<noteq> None
     then (Inl WrapInfra, s) else (Inr (sr_ID r), s\<lparr>runs := runs s @ [r]\<rparr>))"

definition InsertSyncRun :: "acq_env \<Rightarrow> sync_requested \<Rightarrow> string \<Rightarrow> connector \<Rightarrow> instant \<Rightarrow> string \<Rightarrow> string \<Rightarrow> string atx" where
  "InsertSyncRun E q eventID cn at reason oab =
     with_ids E (sq_TenantID q) (sq_IntegrationID q) (\<lambda>tid iid. bind (next_id E) (\<lambda>i. stmt E (insert_run
       \<lparr>sr_ID = i, sr_TenantID = tid, sr_IntegrationID = iid, sr_ConnectorID = cn_ID cn, sr_ConnectorVersion = cn_Version cn,
        sr_Status = SyncStatusRunning, sr_ItemsNew = 0, sr_ItemsDeduped = 0, sr_CourtRecordsNew = 0,
        sr_CourtRecordsUpdated = 0, sr_IntimationsNew = 0, sr_StartedAt = at, sr_FinishedAt = None, sr_Error = '''',
        sr_EventID = eventID, sr_WindowFrom = wireDateOrNull (sq_WindowFrom q), sr_WindowTo = wireDateOrNull (sq_WindowTo q),
        sr_BackfillJobID = nullUUID E (sq_BackfillJobID q), sr_TriggerReason = reason, sr_TriggerOAB = oab\<rparr>)))"

text \<open>An empty event id is asked for as such, and no row has it (it is stored as NULL).\<close>

definition FindSyncRunByEventID :: "acq_env \<Rightarrow> string \<Rightarrow> sync_run atx" where
  "FindSyncRunByEventID E eventID =
     select_one E runs (\<lambda>r. sr_EventID r \<noteq> '''' \<and> sr_EventID r = eventID) ErrSyncRunNotFound"

record run_outcome =
  ou_ID :: string
  ou_Status :: string
  ou_ItemsNew :: int
  ou_ItemsDeduped :: int
  ou_CourtRecordsNew :: int
  ou_CourtRecordsUpdated :: int
  ou_IntimationsNew :: int
  ou_FinishedAt :: instant
  ou_Error :: string

definition closed_row :: "run_outcome \<Rightarrow> sync_run \<Rightarrow> sync_run" where
  "closed_row oc r = r\<lparr>sr_Status := ou_Status oc, sr_ItemsNew := to_int32 (ou_ItemsNew oc),
     sr_ItemsDeduped := to_int32 (ou_ItemsDeduped oc), sr_CourtRecordsNew := to_int32 (ou_CourtRecordsNew oc),
     sr_CourtRecordsUpdated := to_int32 (ou_CourtRecordsUpdated oc), sr_IntimationsNew := to_int32 (ou_IntimationsNew oc),
     sr_FinishedAt := Some (ou_FinishedAt oc), sr_Error := ou_Error oc\<rparr>"

definition open_run :: "string \<Rightarrow> sync_run \<Rightarrow> bool" where
  "open_run i r \<longleftrightarrow> sr_ID r = i \<and> sr_Status r = SyncStatusRunning"

text \<open>\<open>WHERE id = $1 AND status = 'RUNNING'\<close>: whether this call closed the run.\<close>

definition UpdateSyncRun :: "acq_env \<Rightarrow> run_outcome \<Rightarrow> bool atx" where
  "UpdateSyncRun E oc = bind (parseUUID E (ou_ID oc)) (\<lambda>i. stmt E (\<lambda>s.
     case find_row (open_run i) (runs s) of
       None \<Rightarrow> (Inr False, s)
     | Some r \<Rightarrow> (Inr True, s\<lparr>runs := update_rows (open_run i) (closed_row oc) (runs s)\<rparr>)))"

section \<open>Backfill jobs (repository.go, queries/backfill.sql)\<close>

definition insert_job :: "backfill_job \<Rightarrow> string atx" where
  "insert_job j = (\<lambda>s. if find_row (\<lambda>q. bj_ID q = bj_ID j) (jobs s) \<noteq> None then (Inl WrapInfra, s)
     else (Inr (bj_ID j), s\<lparr>jobs := jobs s @ [j]\<rparr>))"

definition InsertBackfillJob :: "acq_env \<Rightarrow> string \<Rightarrow> string \<Rightarrow> day \<Rightarrow> day \<Rightarrow> int \<Rightarrow> string \<Rightarrow> string \<Rightarrow> string list \<Rightarrow> string atx" where
  "InsertBackfillJob E tenantID integrationID from until n status reason oabs =
     with_ids E tenantID integrationID (\<lambda>tid iid. bind (next_id E) (\<lambda>i. stmt E (insert_job
       \<lparr>bj_ID = i, bj_TenantID = tid, bj_IntegrationID = iid, bj_WindowFrom = from, bj_WindowTo = until,
        bj_TotalSlices = to_int32 n, bj_SlicesOK = 0, bj_SlicesError = 0, bj_Status = status,
        bj_TriggerReason = reason, bj_TriggerOABs = oabs\<rparr>)))"

definition job_of :: "string \<Rightarrow> string \<Rightarrow> backfill_job \<Rightarrow> bool" where
  "job_of tid jid j \<longleftrightarrow> bj_ID j = jid \<and> bj_TenantID j = tid"

definition bump_ok :: "backfill_job \<Rightarrow> backfill_job" where
  "bump_ok j = j\<lparr>bj_SlicesOK := bj_SlicesOK j + 1\<rparr>"

definition bump_error :: "backfill_job \<Rightarrow> backfill_job" where
  "bump_error j = j\<lparr>bj_SlicesError := bj_SlicesError j + 1\<rparr>"

text \<open>\<open>UPDATE ... RETURNING\<close>: the tallies after the bump.\<close>

definition increment :: "acq_env \<Rightarrow> (backfill_job \<Rightarrow> backfill_job) \<Rightarrow> string \<Rightarrow> string \<Rightarrow> backfill_job atx" where
  "increment E bump tenantID jobID = with_ids E tenantID jobID (\<lambda>tid jid. stmt E (\<lambda>s.
     case find_row (job_of tid jid) (jobs s) of
       None \<Rightarrow> (Inl ErrBackfillJobNotFound, s)
     | Some j \<Rightarrow> (Inr (bump j), s\<lparr>jobs := update_rows (job_of tid jid) bump (jobs s)\<rparr>)))"

definition IncrementBackfillSlicesOK :: "acq_env \<Rightarrow> string \<Rightarrow> string \<Rightarrow> backfill_job atx" where
  "IncrementBackfillSlicesOK E = increment E bump_ok"

definition IncrementBackfillSlicesError :: "acq_env \<Rightarrow> string \<Rightarrow> string \<Rightarrow> backfill_job atx" where
  "IncrementBackfillSlicesError E = increment E bump_error"

definition running_job :: "string \<Rightarrow> string \<Rightarrow> backfill_job \<Rightarrow> bool" where
  "running_job tid jid j \<longleftrightarrow> job_of tid jid j \<and> bj_Status j = BackfillStatusRunning"

definition FinalizeBackfillJob :: "acq_env \<Rightarrow> string \<Rightarrow> string \<Rightarrow> string \<Rightarrow> unit atx" where
  "FinalizeBackfillJob E tenantID jobID status = with_ids E tenantID jobID (\<lambda>tid jid. stmt E (modify_st (\<lambda>s.
     s\<lparr>jobs := update_rows (running_job tid jid) (\<lambda>j. j\<lparr>bj_Status := status\<rparr>) (jobs s)\<rparr>)))"

section \<open>Integrations and watched OABs (repository.go, queries/integration.sql, queries/watched_oab.sql)\<close>

definition source_of :: "string \<Rightarrow> string \<Rightarrow> integration \<Rightarrow> bool" where
  "source_of tid src i \<longleftrightarrow> ig_TenantID i = tid \<and> ig_Source i = src"

definition GetBySource :: "acq_env \<Rightarrow> string \<Rightarrow> string \<Rightarrow> integration atx" where
  "GetBySource E tenantID src = bind (parseUUID E tenantID) (\<lambda>tid.
     select_one E integrations (source_of tid src) ErrIntegrationNotFound)"

definition Upsert :: "acq_env \<Rightarrow> string \<Rightarrow> string \<Rightarrow> scope \<Rightarrow> integration atx" where
  "Upsert E tenantID src sc = bind (parseUUID E tenantID) (\<lambda>tid. bind (next_id E) (\<lambda>i. stmt E (\<lambda>s.
     case find_row (source_of tid src) (integrations s) of
       None \<Rightarrow>
         let row = \<lparr>ig_ID = i, ig_TenantID = tid, ig_Source = src, ig_Scope = sc, ig_CredentialRef = '''',
                    ig_Status = IntegrationActive, ig_CreatedAt = e_tx_time E, ig_UpdatedAt = e_tx_time E\<rparr> in
         if find_row (\<lambda>g. ig_ID g = i) (integrations s) \<noteq> None then (Inl WrapInfra, s)
         else (Inr row, s\<lparr>integrations := integrations s @ [row]\<rparr>)
     | Some g \<Rightarrow>
         let again = (\<lambda>g. g\<lparr>ig_Scope := sc, ig_Status := IntegrationActive, ig_UpdatedAt := e_tx_time E\<rparr>) in
         (Inr (again g), s\<lparr>integrations := update_rows (source_of tid src) again (integrations s)\<rparr>))))"

definition watch :: "string \<Rightarrow> string \<Rightarrow> watched_row \<Rightarrow> bool" where
  "watch iid key w \<longleftrightarrow> ww_IntegrationID w = iid \<and> ww_OABKey w = key"

definition watchedOABToEntity :: "watched_row \<Rightarrow> watched_oab" where
  "watchedOABToEntity w = \<lparr>wo_OAB = canonicalOAB (ww_OABKey w), wo_OABKey = ww_OABKey w,
     wo_IntegrationID = ww_IntegrationID w, wo_Enabled = ww_Enabled w, wo_DisabledAt = ww_DisabledAt w,
     wo_CatchUpSince = ww_CatchUpSince w\<rparr>"

text \<open>\<open>COALESCE(catch_up_since, disabled_at)\<close>, whether or not the watch was enabled.\<close>

definition enabled_again :: "instant \<Rightarrow> watched_row \<Rightarrow> watched_row" where
  "enabled_again now w = w\<lparr>ww_Enabled := True,
     ww_CatchUpSince := (case ww_CatchUpSince w of None \<Rightarrow> ww_DisabledAt w | Some t \<Rightarrow> Some t),
     ww_LastAction := (if ww_Enabled w then ww_LastAction w else ''REENABLED''),
     ww_LastActionAt := (if ww_Enabled w then ww_LastActionAt w else Some now)\<rparr>"

definition new_watch :: "string \<Rightarrow> string \<Rightarrow> string \<Rightarrow> instant \<Rightarrow> watched_row" where
  "new_watch tid iid key now = \<lparr>ww_TenantID = tid, ww_IntegrationID = iid, ww_OABKey = key, ww_Enabled = True,
     ww_DisabledAt = None, ww_CatchUpSince = None, ww_LastAction = ''ADDED'', ww_LastActionAt = Some now\<rparr>"

text \<open>The watch, whether it needs its history, whether it needs a catch-up.\<close>

definition AddOrEnableWatchedOAB :: "acq_env \<Rightarrow> string \<Rightarrow> string \<Rightarrow> string \<Rightarrow> (watched_oab \<times> bool \<times> bool) atx" where
  "AddOrEnableWatchedOAB E tenantID integrationID key = with_ids E tenantID integrationID (\<lambda>tid iid. stmt E (\<lambda>s.
     case find_row (watch iid key) (watched s) of
       None \<Rightarrow> let w = new_watch tid iid key (e_tx_time E) in
         (Inr (watchedOABToEntity w, True, False), s\<lparr>watched := watched s @ [w]\<rparr>)
     | Some w \<Rightarrow> (Inr (watchedOABToEntity (enabled_again (e_tx_time E) w), False, \<not> ww_Enabled w),
         s\<lparr>watched := update_rows (watch iid key) (enabled_again (e_tx_time E)) (watched s)\<rparr>)))"

definition GetWatchedOAB :: "acq_env \<Rightarrow> string \<Rightarrow> string \<Rightarrow> string \<Rightarrow> watched_oab atx" where
  "GetWatchedOAB E tenantID integrationID key = with_ids E tenantID integrationID (\<lambda>tid iid.
     bind (select_one E watched (watch iid key) ErrWatchedOABNotFound) (\<lambda>w. ret (watchedOABToEntity w)))"

definition disabled_now :: "instant \<Rightarrow> watched_row \<Rightarrow> watched_row" where
  "disabled_now now w = w\<lparr>ww_Enabled := False, ww_DisabledAt := Some now, ww_LastAction := ''DISABLED'',
     ww_LastActionAt := Some now\<rparr>"

definition disable_row :: "acq_env \<Rightarrow> string \<Rightarrow> string \<Rightarrow> watched_row option atx" where
  "disable_row E iid key = stmt E (\<lambda>s.
     case find_row (\<lambda>w. watch iid key w \<and> ww_Enabled w) (watched s) of
       None \<Rightarrow> (Inr None, s)
     | Some w \<Rightarrow> (Inr (Some (disabled_now (e_tx_time E) w)), s\<lparr>watched :=
         update_rows (\<lambda>w. watch iid key w \<and> ww_Enabled w) (disabled_now (e_tx_time E)) (watched s)\<rparr>))"

definition DisableWatchedOAB :: "acq_env \<Rightarrow> string \<Rightarrow> string \<Rightarrow> string \<Rightarrow> watched_oab atx" where
  "DisableWatchedOAB E tenantID integrationID key = with_ids E tenantID integrationID (\<lambda>tid iid.
     bind (disable_row E iid key) (\<lambda>w. case w of
       None \<Rightarrow> GetWatchedOAB E tenantID integrationID key
     | Some w \<Rightarrow> ret (watchedOABToEntity w)))"

definition ClearWatchedOABCatchUp :: "acq_env \<Rightarrow> string \<Rightarrow> string \<Rightarrow> string \<Rightarrow> instant \<Rightarrow> unit atx" where
  "ClearWatchedOABCatchUp E tenantID integrationID key since = with_ids E tenantID integrationID (\<lambda>tid iid.
     stmt E (modify_st (\<lambda>s. s\<lparr>watched := update_rows (\<lambda>w. watch iid key w \<and> ww_CatchUpSince w = Some since)
       (\<lambda>w. w\<lparr>ww_CatchUpSince := None\<rparr>) (watched s)\<rparr>)))"

end
