(* ===== verification/AcquisitionSync.thy ===== *)
theory AcquisitionSync
  imports AcquisitionStore
begin

text \<open>
  \<open>internal/acquisition/sync.go\<close> and \<open>orchestrator.go\<close>: one window of an integration's history,
  fetched, parsed and folded into the tables. A cycle is up to three steps: the unit of work that
  opens (or resumes) the run, the I/O, and the unit of work that closes it, OK or FAILED. The two
  executions of one event that a redelivery can start interleave by these steps.
\<close>

definition consumerSync :: string where "consumerSync = ''acquisition.sync''"

section \<open>Opening the run\<close>

definition catchUpTriggerReason :: "string \<Rightarrow> string" where
  "catchUpTriggerReason key = (if key = '''' then '''' else TriggerReasonOABReenabled)"

text \<open>\<open>None\<close>: seen, and nothing to do.\<close>

definition resolveSeenRun :: "acq_env \<Rightarrow> string \<Rightarrow> string option atx" where
  "resolveSeenRun E eventID = bind (attempt (FindSyncRunByEventID E eventID)) (\<lambda>r. case r of
     Inl e \<Rightarrow> if e = ErrSyncRunNotFound then ret None else fail e
   | Inr run \<Rightarrow> ret (if sr_Status run = SyncStatusRunning then Some (sr_ID run) else None))"

definition open_sync :: "acq_env \<Rightarrow> sync_requested \<Rightarrow> string \<Rightarrow> connector \<Rightarrow> string option atx" where
  "open_sync E q eventID cn = bind (SeenOrMark E consumerSync eventID) (\<lambda>already.
     if already then resolveSeenRun E eventID
     else bind (now_tx E) (\<lambda>at. bind (InsertSyncRun E q eventID cn at (catchUpTriggerReason (sq_CatchUpOABKey q))
            (canonicalOAB (sq_CatchUpOABKey q))) (\<lambda>i. ret (Some i))))"

definition startRun :: "acq_env \<Rightarrow> sync_requested \<Rightarrow> string \<Rightarrow> connector \<Rightarrow> string option atx" where
  "startRun E q eventID cn = uow_Do E (sq_TenantID q) (open_sync E q eventID cn)"

section \<open>Closing it FAILED\<close>

definition failed_outcome :: "string \<Rightarrow> instant \<Rightarrow> err \<Rightarrow> run_outcome" where
  "failed_outcome run at cause = \<lparr>ou_ID = run, ou_Status = SyncStatusFailed, ou_ItemsNew = 0, ou_ItemsDeduped = 0,
     ou_CourtRecordsNew = 0, ou_CourtRecordsUpdated = 0, ou_IntimationsNew = 0, ou_FinishedAt = at,
     ou_Error = Error_text cause\<rparr>"

definition failRun :: "acq_env \<Rightarrow> sync_requested \<Rightarrow> string \<Rightarrow> err \<Rightarrow> unit atx" where
  "failRun E q run cause = uow_Do E (sq_TenantID q)
     (bind (now_tx E) (\<lambda>at. bind (UpdateSyncRun E (failed_outcome run at cause)) (\<lambda>closed.
      if \<not> closed then ret () else publish_new E (newSyncFailed q run (Error_text cause)))))"

section \<open>Resolving the children of a window\<close>

text \<open>
  The map from a key to its record, which is a nil pointer where its outcome was one, and the
  keys the ceiling refused.
\<close>

type_synonym record_map = "((string \<times> string) \<times> known_record option) list"

definition resolved_map :: "(parsed_record \<times> record_outcome) list \<Rightarrow> record_map" where
  "resolved_map os = rev (List.map_filter (\<lambda>(pr, oc). case oc of Blocked \<Rightarrow> None
     | Resolved r \<Rightarrow> Some (recordKey (pr_CNJNumber pr) (pr_Degree pr), r)) os)"

definition blocked_keys :: "(parsed_record \<times> record_outcome) list \<Rightarrow> (string \<times> string) list" where
  "blocked_keys os = map (\<lambda>(pr, _). recordKey (pr_CNJNumber pr) (pr_Degree pr)) (filter (\<lambda>(_, oc). oc = Blocked) os)"

definition unknown_record :: "string \<Rightarrow> string \<Rightarrow> string \<Rightarrow> string \<Rightarrow> err" where
  "unknown_record what name cnj degree = PlainErr
     (what @ '' \"'' @ name @ ''\" references unknown court record '' @ cnj @ ''/'' @ degree)"

text \<open>The children of the blocked records are dropped; one of an unknown record is an error.\<close>

definition child_params :: "('c \<Rightarrow> string \<times> string) \<Rightarrow> ('c \<Rightarrow> err) \<Rightarrow> (known_record \<Rightarrow> 'c \<Rightarrow> 'q) \<Rightarrow> record_map
    \<Rightarrow> (string \<times> string) list \<Rightarrow> 'c list \<Rightarrow> ('s, 'q list) tx" where
  "child_params key miss mk recs blocked cs = map_tx (\<lambda>c. case map_of recs (key c) of
       None \<Rightarrow> fail (miss c)
     | Some None \<Rightarrow> fail nil_panic
     | Some (Some r) \<Rightarrow> ret (mk r c)) (filter (\<lambda>c. key c \<notin> set blocked) cs)"

definition entry_key :: "parsed_entry \<Rightarrow> string \<times> string" where
  "entry_key pd = recordKey (pe_CNJNumber pd) (pe_Degree pd)"

definition docket_param :: "known_record \<Rightarrow> parsed_entry \<Rightarrow> docket_params" where
  "docket_param r pd = \<lparr>dp_CourtRecordID = kr_ID r, dp_Hash = pe_Hash pd, dp_OccurredAt = pe_OccurredAt pd,
     dp_ObservedAt = pe_ObservedAt pd, dp_Source = pe_Source pd, dp_Fidelity = pe_Fidelity pd, dp_Text = pe_Text pd,
     dp_TPUCode = 0, dp_Complements = ''''\<rparr>"

definition docketParamsFor :: "record_map \<Rightarrow> (string \<times> string) list \<Rightarrow> parsed_entry list \<Rightarrow> ('s, docket_params list) tx" where
  "docketParamsFor = child_params entry_key
     (\<lambda>pd. unknown_record ''docket entry'' (pe_Hash pd) (pe_CNJNumber pd) (pe_Degree pd)) docket_param"

definition intimation_key :: "parsed_intimation \<Rightarrow> string \<times> string" where
  "intimation_key pn = recordKey (pi_CNJNumber pn) (pi_Degree pn)"

definition intimation_param :: "string \<Rightarrow> string \<Rightarrow> known_record \<Rightarrow> parsed_intimation \<Rightarrow> intim_params" where
  "intimation_param tenantID run r pn = \<lparr>ip_TenantID = tenantID, ip_CaseID = kr_CaseID r, ip_CourtRecordID = kr_ID r,
     ip_Hash = pi_Hash pn, ip_MadeAvailableAt = pi_MadeAvailableAt pn, ip_PublishedAt = pi_PublishedAt pn,
     ip_DeadlineStartAt = pi_DeadlineStartAt pn, ip_Content = pi_Content pn, ip_Source = pi_Source pn, ip_Type = pi_Type pn,
     ip_Status = (if pi_Status pn = '''' then IntimationStatusActive else pi_Status pn), ip_SourceURL = pi_SourceURL pn,
     ip_CancelledAt = pi_CancelledAt pn, ip_CancelReason = pi_CancelReason pn, ip_Recipients = pi_Recipients pn,
     ip_SyncRunID = run\<rparr>"

definition intimationParamsFor :: "string \<Rightarrow> string \<Rightarrow> record_map \<Rightarrow> (string \<times> string) list \<Rightarrow> parsed_intimation list
    \<Rightarrow> ('s, intim_params list) tx" where
  "intimationParamsFor tenantID run = child_params intimation_key
     (\<lambda>pn. unknown_record ''intimation'' (pi_Hash pn) (pi_CNJNumber pn) (pi_Degree pn)) (intimation_param tenantID run)"

definition parsed_party_key :: "parsed_party \<Rightarrow> string \<times> string" where
  "parsed_party_key pp = recordKey (pp_CNJNumber pp) (pp_Degree pp)"

definition party_param :: "string \<Rightarrow> known_record \<Rightarrow> parsed_party \<Rightarrow> party_params" where
  "party_param tenantID r pp = \<lparr>yp_TenantID = tenantID, yp_CaseID = kr_CaseID r, yp_Role = pp_Role pp, yp_Name = pp_Name pp,
     yp_Counsels = pp_Counsels pp\<rparr>"

definition partyParamsFor :: "string \<Rightarrow> record_map \<Rightarrow> (string \<times> string) list \<Rightarrow> parsed_party list \<Rightarrow> ('s, party_params list) tx" where
  "partyParamsFor tenantID = child_params parsed_party_key
     (\<lambda>pp. unknown_record ''party'' (pp_Name pp) (pp_CNJNumber pp) (pp_Degree pp)) (party_param tenantID)"

section \<open>Closing it OK\<close>

definition record_param :: "string \<Rightarrow> instant \<Rightarrow> string \<Rightarrow> parsed_record \<Rightarrow> record_params" where
  "record_param tenantID next run pr = \<lparr>cp_TenantID = tenantID, cp_CNJNumber = pr_CNJNumber pr, cp_Degree = pr_Degree pr,
     cp_Court = pr_Court pr, cp_Class = pr_Class pr, cp_Subject = pr_Subject pr, cp_Completeness = pr_Completeness pr,
     cp_NextSyncAt = next, cp_JudgingBody = pr_JudgingBody pr, cp_SyncRunID = run\<rparr>"

definition distinctCourts :: "known_record list \<Rightarrow> string list" where
  "distinctCourts rs = first_seen (filter (\<lambda>c. c \<noteq> '''') (map kr_Court rs))"

text \<open>The events of a closed run, \<open>sync_completed\<close> last.\<close>

definition observed_events :: "acq_env \<Rightarrow> sync_requested \<Rightarrow> string \<Rightarrow> known_record list \<Rightarrow> known_entry list
    \<Rightarrow> intimation_change list \<Rightarrow> intimation_change list \<Rightarrow> int \<Rightarrow> int \<Rightarrow> (string \<Rightarrow> acq_payload event) list" where
  "observed_events E q run recs newDocket news gone n d =
     map (newCourtRecordObserved q run) recs
     @ map (newDocketEntryObserved (sq_TenantID q) run) newDocket
     @ map (newIntimationObserved (sq_TenantID q)) news
     @ map (newIntimationCancelled (sq_TenantID q)) gone
     @ (if sq_BackfillJobID q \<noteq> ''''
        then map (\<lambda>c _. newEnrichmentBatchRequested (a_uuid5 E) (sq_TenantID q) c (sq_BackfillJobID q)) (distinctCourts recs)
        else [])
     @ [newSyncCompleted q run n d]"

definition all_known :: "record_outcome list \<Rightarrow> known_record list option" where
  "all_known os = those (List.map_filter (\<lambda>oc. case oc of Blocked \<Rightarrow> None | Resolved r \<Rightarrow> Some r) os)"

text \<open>A nil record among the observed ones panics where its event is built.\<close>

definition publishObserved :: "acq_env \<Rightarrow> sync_requested \<Rightarrow> string \<Rightarrow> record_outcome list \<Rightarrow> known_entry list
    \<Rightarrow> intimation_change list \<Rightarrow> intimation_change list \<Rightarrow> int \<Rightarrow> int \<Rightarrow> unit atx" where
  "publishObserved E q run os newDocket news gone n d = (case all_known os of
     None \<Rightarrow> fail nil_panic
   | Some recs \<Rightarrow> publish_all E (observed_events E q run recs newDocket news gone n d))"

definition ok_outcome :: "string \<Rightarrow> instant \<Rightarrow> int \<Rightarrow> int \<Rightarrow> int \<Rightarrow> int \<Rightarrow> int \<Rightarrow> run_outcome" where
  "ok_outcome run at n d recsNew recsUpdated news = \<lparr>ou_ID = run, ou_Status = SyncStatusOK, ou_ItemsNew = n,
     ou_ItemsDeduped = d, ou_CourtRecordsNew = recsNew, ou_CourtRecordsUpdated = recsUpdated, ou_IntimationsNew = news,
     ou_FinishedAt = at, ou_Error = ''''\<rparr>"

text \<open>\<open>len(blocked)\<close> is that of a set of keys.\<close>

definition sync_limit :: "acq_env \<Rightarrow> sync_requested \<Rightarrow> err + int" where
  "sync_limit E q = (if sq_BackfillJobID q \<noteq> '''' then Inr max_int
     else case a_limit E (sq_TenantID q) of
       Inl e \<Rightarrow> Inl (PlainErr (''resolve active process limit for tenant '' @ sq_TenantID q @ '': '' @ Error_text e))
     | Inr n \<Rightarrow> Inr n)"

definition fold_window :: "acq_env \<Rightarrow> sync_requested \<Rightarrow> string \<Rightarrow> int \<Rightarrow> parsed_result \<Rightarrow> unit atx" where
  "fold_window E q run limit parsed =
     bind (AcquireTenantWriteLock E (sq_TenantID q)) (\<lambda>_.
     bind (now_tx E) (\<lambda>t.
     bind (BatchUpsertCourtRecords E (sq_TenantID q) limit
             (map (record_param (sq_TenantID q) (t + defaultSyncInterval) run) (ps_CourtRecords parsed))) (\<lambda>(os, recsNew).
     let pos = zip (ps_CourtRecords parsed) os; recs = resolved_map pos; blocked = blocked_keys pos in
     bind (docketParamsFor recs blocked (ps_DocketEntries parsed)) (\<lambda>dps.
     bind (UpsertDocketEntries E dps) (\<lambda>newDocket.
     bind (intimationParamsFor (sq_TenantID q) run recs blocked (ps_Intimations parsed)) (\<lambda>ips.
     bind (UpsertIntimations E ips) (\<lambda>(news, gone).
     bind (partyParamsFor (sq_TenantID q) recs blocked (ps_Parties parsed)) (\<lambda>yps.
     bind (UpsertParties E yps) (\<lambda>_.
     let n = int (length newDocket); d = int (length dps) - n;
         updated = int (length os) - int recsNew - int (card (set blocked)) in
     bind (now_tx E) (\<lambda>at.
     bind (UpdateSyncRun E (ok_outcome run at n d (int recsNew) updated (int (length news)))) (\<lambda>closed.
     if \<not> closed then ret () else publishObserved E q run os newDocket news gone n d)))))))))))"

definition applyResult :: "acq_env \<Rightarrow> sync_requested \<Rightarrow> string \<Rightarrow> parsed_result \<Rightarrow> unit atx" where
  "applyResult E q run parsed = (case sync_limit E q of
     Inl e \<Rightarrow> fail e
   | Inr limit \<Rightarrow> uow_Do E (sq_TenantID q) (fold_window E q run limit parsed))"

section \<open>The cycle\<close>

definition ConnectorFor :: "acq_env \<Rightarrow> string \<Rightarrow> err + connector" where
  "ConnectorFor E src = (case a_connector E src of None \<Rightarrow> Inl ErrConnectorNotFound | Some c \<Rightarrow> Inr c)"

definition fetchRequestFromEvent :: "sync_requested \<Rightarrow> fetch_request" where
  "fetchRequestFromEvent q = \<lparr>fr_Capability = CapabilityDiscoverByOAB, fr_IntegrationID = sq_IntegrationID q,
     fr_WindowFrom = sq_WindowFrom q, fr_WindowTo = sq_WindowTo q, fr_OABs = oabEntriesFromScope (sq_Scope q),
     fr_CNJNumber = '''', fr_Court = '''', fr_CNJNumbers = []\<rparr>"

definition run_cycle :: "acq_env \<Rightarrow> sync_requested \<Rightarrow> connector \<Rightarrow> string \<Rightarrow> unit atx" where
  "run_cycle E q cn run = (case cn_Fetch cn (fetchRequestFromEvent q) of
     Inl e \<Rightarrow> if a_retries_left E
       then fail (PlainErr (''djen fetch \"'' @ sq_Source q @ ''\" (retrying): '' @ Error_text e))
       else failRun E q run e
   | Inr raw \<Rightarrow> (case a_parse E raw of
       Inl e \<Rightarrow> bind (failRun E q run e) (\<lambda>_. fail (SkipRetry (''parse sync payload: '' @ Error_text e)))
     | Inr parsed \<Rightarrow> applyResult E q run parsed))"

definition OnSyncRequested :: "acq_env \<Rightarrow> sync_requested \<Rightarrow> string \<Rightarrow> unit atx" where
  "OnSyncRequested E q eventID = (case ConnectorFor E (sq_Source q) of
     Inl e \<Rightarrow> fail (PlainErr (''resolve connector for source \"'' @ sq_Source q @ ''\": '' @ Error_text e))
   | Inr cn \<Rightarrow> bind (startRun E q eventID cn) (\<lambda>r. case r of
       None \<Rightarrow> ret ()
     | Some run \<Rightarrow> run_cycle E q cn run))"

end
