(* ===== verification/Djen.thy ===== *)
theory Djen
  imports Acquisition Calendar Breaker
begin

text \<open>
  \<open>internal/acquisition/djen.go\<close> and \<open>djen_parser.go\<close>: the discovery of communications on the
  CNJ's API, page by page, and what the parser makes of them. An HTTP exchange is a parameter:
  the answer to each page.
\<close>

section \<open>One request (djen.go)\<close>

definition djenConnectorID :: string where "djenConnectorID = ''djen''"
definition djenConnectorVersion :: string where "djenConnectorVersion = ''v1''"
definition djenMaxPages :: nat where "djenMaxPages = 200"
definition djenStatusSuccess :: string where "djenStatusSuccess = ''success''"
definition djenCooldownBase :: int where "djenCooldownBase = 2 * 1000000000"
definition djenCooldownMax :: int where "djenCooldownMax = 30 * 1000000000"

record djen_response =
  re_Status :: string
  re_Message :: string
  re_Items :: "raw_item list"

text \<open>
  A request that never left (the waits at the gate and the limiter, the URL), one that got no
  answer, or the status, the parsed \<open>Retry-After\<close> in nanoseconds and the body if it decodes.
\<close>

datatype http_answer = NotSent string | NoAnswer | Answered int int "djen_response option"

definition rate_limited :: "int \<Rightarrow> bool" where
  "rate_limited status \<longleftrightarrow> status = 429 \<or> status = 503"

definition requestPage :: "string \<Rightarrow> http_answer \<Rightarrow> err + raw_item list" where
  "requestPage label ans = (case ans of
     NotSent msg \<Rightarrow> Inl (NewInfra msg)
   | NoAnswer \<Rightarrow> Inl (NewInfra (''djen: GET comunicacao ('' @ label @ '')''))
   | Answered status retryAfter body \<Rightarrow>
       if rate_limited status then Inl (NewUnavailable (''djen: comunicacao rate limited ('' @ label @ '')''))
       else if status \<noteq> 200
       then Inl (NewInfra (''djen: comunicacao returned HTTP '' @ itoa status @ '' ('' @ label @ '')''))
       else (case body of
         None \<Rightarrow> Inl (NewInfra ''djen: decode response'')
       | Some env \<Rightarrow> if re_Status env \<noteq> djenStatusSuccess
           then Inl (NewInfra (''djen: consulta rejected ('' @ label @ ''): '' @ re_Message env))
           else Inr (re_Items env)))"

text \<open>What the exchange does to the gate all requests share.\<close>

definition requestPage_gate :: "instant \<Rightarrow> http_answer \<Rightarrow> gate \<Rightarrow> gate" where
  "requestPage_gate now ans g = (case ans of
     Answered status retryAfter body \<Rightarrow>
       if rate_limited status then snd (Trip g now retryAfter) else if status \<noteq> 200 then g else Reset g
   | _ \<Rightarrow> g)"

section \<open>The walk over the pages\<close>

text \<open>The items of a page not seen yet; one without a hash is never seen.\<close>

fun take_new :: "string list \<Rightarrow> raw_item list \<Rightarrow> err + string list \<times> raw_item list" where
  "take_new seen [] = Inr (seen, [])"
| "take_new seen (r # rs) = (case ri_Hash r of
     None \<Rightarrow> Inl (NewInfra ''djen: decode item hash'')
   | Some h \<Rightarrow>
       if h \<noteq> '''' \<and> h \<in> set seen then take_new seen rs
       else (case take_new (if h \<noteq> '''' then h # seen else seen) rs of
         Inl e \<Rightarrow> Inl e | Inr (seen', out) \<Rightarrow> Inr (seen', r # out)))"

text \<open>\<open>left\<close> pages remain of the cap.\<close>

fun fetch_pages :: "nat \<Rightarrow> (nat \<Rightarrow> err + raw_item list) \<Rightarrow> nat \<Rightarrow> nat \<Rightarrow> string list \<Rightarrow> err + string list \<times> raw_item list" where
  "fetch_pages pageSize get 0 page seen = Inr (seen, [])"
| "fetch_pages pageSize get (Suc left) page seen = (case get page of
     Inl e \<Rightarrow> Inl e
   | Inr items \<Rightarrow> (case take_new seen items of
       Inl e \<Rightarrow> Inl e
     | Inr (seen', out) \<Rightarrow>
         if length items < pageSize then Inr (seen', out)
         else (case fetch_pages pageSize get left (Suc page) seen' of
           Inl e \<Rightarrow> Inl e | Inr (seen'', later) \<Rightarrow> Inr (seen'', out @ later))))"

definition fetchOAB :: "nat \<Rightarrow> (nat \<Rightarrow> err + raw_item list) \<Rightarrow> string list \<Rightarrow> err + string list \<times> raw_item list" where
  "fetchOAB pageSize get seen = fetch_pages pageSize get djenMaxPages 1 seen"

fun fetch_all :: "nat \<Rightarrow> (oab_entry \<Rightarrow> nat \<Rightarrow> err + raw_item list) \<Rightarrow> oab_entry list \<Rightarrow> string list \<Rightarrow> err + raw_item list" where
  "fetch_all pageSize get [] seen = Inr []"
| "fetch_all pageSize get (oab # oabs) seen = (case fetchOAB pageSize (get oab) seen of
     Inl e \<Rightarrow> Inl e
   | Inr (seen', items) \<Rightarrow> (case fetch_all pageSize get oabs seen' of
       Inl e \<Rightarrow> Inl e | Inr later \<Rightarrow> Inr (items @ later)))"

definition page_label :: "oab_entry \<Rightarrow> nat \<Rightarrow> string" where
  "page_label oab page = ''oab '' @ oe_Number oab @ ''/'' @ oe_UF oab @ '' page '' @ itoa (int page)"

definition getPage :: "(oab_entry \<Rightarrow> nat \<Rightarrow> http_answer) \<Rightarrow> oab_entry \<Rightarrow> nat \<Rightarrow> err + raw_item list" where
  "getPage http oab page = requestPage (page_label oab page) (http oab page)"

definition djen_Fetch :: "nat \<Rightarrow> (fetch_request \<Rightarrow> oab_entry \<Rightarrow> nat \<Rightarrow> http_answer) \<Rightarrow> fetch_request \<Rightarrow> err + raw_payload" where
  "djen_Fetch pageSize http q =
     (if fr_Capability q \<noteq> CapabilityDiscoverByOAB
      then Inl (PlainErr (''djen: unsupported capability \"'' @ fr_Capability q @ ''\" (only DISCOVER_BY_OAB)''))
      else (case fetch_all pageSize (getPage (http q)) (fr_OABs q) [] of
        Inl e \<Rightarrow> Inl e
      | Inr items \<Rightarrow> Inr \<lparr>rp_ConnectorID = djenConnectorID, rp_ConnectorVersion = djenConnectorVersion,
          rp_Source = SourceDJEN, rp_Body = DjenBody \<lparr>dj_OABs = fr_OABs q, dj_Items = items\<rparr>\<rparr>))"

definition DJENConnector :: "nat \<Rightarrow> (fetch_request \<Rightarrow> oab_entry \<Rightarrow> nat \<Rightarrow> http_answer) \<Rightarrow> connector" where
  "DJENConnector pageSize http =
     \<lparr>cn_ID = djenConnectorID, cn_Version = djenConnectorVersion, cn_Fetch = djen_Fetch pageSize http\<rparr>"

fun walk_diario :: "nat \<Rightarrow> (nat \<Rightarrow> err + raw_item list) \<Rightarrow> nat \<Rightarrow> nat \<Rightarrow> err + raw_item list" where
  "walk_diario pageSize get 0 page = Inr []"
| "walk_diario pageSize get (Suc left) page = (case get page of
     Inl e \<Rightarrow> Inl e
   | Inr items \<Rightarrow>
       if length items < pageSize then Inr items
       else (case walk_diario pageSize get left (Suc page) of
         Inl e \<Rightarrow> Inl e | Inr later \<Rightarrow> Inr (items @ later)))"

definition FetchDiario :: "nat \<Rightarrow> (nat \<Rightarrow> http_answer) \<Rightarrow> string \<Rightarrow> err + raw_item list" where
  "FetchDiario pageSize http court = walk_diario pageSize
     (\<lambda>page. requestPage (''tribunal '' @ court @ '' page '' @ itoa (int page)) (http page)) djenMaxPages 1"

section \<open>The parser (djen_parser.go)\<close>

definition watchedOABSet :: "oab_entry list \<Rightarrow> string set" where
  "watchedOABSet oabs = set (map (\<lambda>e. oabKey (oe_Number e) (oe_UF e)) oabs)"

definition djenType :: "string \<Rightarrow> string" where
  "djenType tipo = (let t = ToUpper (TrimSpace tipo) in
     if Contains t ''INTIMA'' then IntimationTypeIntimacao
     else if HasPrefix t ''CITA'' then IntimationTypeCitacao
     else IntimationTypeComunicacao)"

definition partyRoleFromPolo :: "string \<Rightarrow> string" where
  "partyRoleFromPolo polo = (let p = ToUpper (TrimSpace polo) in
     if p = ''A'' then PartyRolePlaintiff else if p = ''P'' then PartyRoleDefendant else PartyRoleThirdParty)"

definition djenRecipients :: "counsel list \<Rightarrow> string set \<Rightarrow> recipient list" where
  "djenRecipients advs matched = map (\<lambda>a. \<lparr>rc_Name = co_Name a, rc_OABNumber = co_OAB a, rc_OABUF = co_UF a,
     rc_Matched = (oabKey (co_OAB a) (co_UF a) \<in> matched)\<rparr>) advs"

text \<open>The counsels with an OAB, each key once, where it first is.\<close>

fun parsed_counsels_from :: "string list \<Rightarrow> counsel list \<Rightarrow> counsel list" where
  "parsed_counsels_from seen [] = []"
| "parsed_counsels_from seen (a # advs) = (let k = oabKey (co_OAB a) (co_UF a) in
     if co_OAB a = '''' \<or> k \<in> set seen then parsed_counsels_from seen advs
     else a # parsed_counsels_from (k # seen) advs)"

definition parsedCounsels :: "counsel list \<Rightarrow> counsel list" where
  "parsedCounsels advs = parsed_counsels_from [] advs"

definition recipientOABKeys :: "counsel list \<Rightarrow> string list" where
  "recipientOABKeys advs = map (\<lambda>a. oabKey (co_OAB a) (co_UF a)) (parsedCounsels advs)"

text \<open>The named addressees, with the role of their polo, each once.\<close>

definition named_parties :: "communication \<Rightarrow> (string \<times> string) list" where
  "named_parties item = first_seen (map (\<lambda>(name, polo). (partyRoleFromPolo polo, name))
     (filter (\<lambda>(name, _). name \<noteq> '''') (cm_Destinatarios item)))"

definition party_with :: "communication \<Rightarrow> counsel list \<Rightarrow> string \<times> string \<Rightarrow> parsed_party" where
  "party_with item cs = (\<lambda>(role, name). \<lparr>pp_CNJNumber = cm_NumeroProcesso item, pp_Degree = DegreeUnknown,
     pp_Role = role, pp_Name = name, pp_Counsels = cs\<rparr>)"

definition parseParties :: "communication \<Rightarrow> parsed_party list" where
  "parseParties item = (let cs = parsedCounsels (cm_Advogados item); named = named_parties item;
       roles = first_seen (map fst named) in
     if roles = [] then (if cs = [] then [] else [party_with item cs (PartyRoleDefendant, '''')])
     else let counselRole = (if 1 < length roles then PartyRoleDefendant else hd roles) in
       concat (map (\<lambda>role. map (\<lambda>p. party_with item (if role = counselRole then cs else []) p)
         (filter (\<lambda>p. fst p = role) named)) roles))"

definition parseDJENDate :: "string \<Rightarrow> day option" where
  "parseDJENDate s = (if s = '''' then None else parseDateOnly s)"

text \<open>The zero \<open>time.Time\<close> as a date.\<close>

definition zero_day :: day where "zero_day = day_of zero_time"

definition next_or :: "holiday_query \<Rightarrow> string \<Rightarrow> day \<Rightarrow> day" where
  "next_or src sigla d = (case NextBusinessDay src d (UF sigla) sigla of Inl _ \<Rightarrow> d | Inr n \<Rightarrow> n)"

definition djen_cancelled :: "communication \<Rightarrow> bool" where
  "djen_cancelled item \<longleftrightarrow> cm_DataCancelamento item \<noteq> '''' \<or> \<not> cm_Ativo item"

definition parseIntimation :: "holiday_query \<Rightarrow> string set \<Rightarrow> communication \<Rightarrow> parsed_intimation option" where
  "parseIntimation src matched item = (case parseDateOnly (cm_DataDisponibilizacao item) of
     None \<Rightarrow> None
   | Some made \<Rightarrow>
       let published = next_or src (cm_SiglaTribunal item) made in
       Some \<lparr>pi_CNJNumber = cm_NumeroProcesso item, pi_Degree = DegreeUnknown, pi_Hash = cm_Hash item,
         pi_MadeAvailableAt = made, pi_PublishedAt = published,
         pi_DeadlineStartAt = next_or src (cm_SiglaTribunal item) published, pi_Content = cm_Texto item,
         pi_Source = SourceDJEN, pi_Type = djenType (cm_TipoComunicacao item),
         pi_Status = (if djen_cancelled item then IntimationStatusCancelled else IntimationStatusActive),
         pi_SourceURL = cm_Link item, pi_CancelledAt = parseDJENDate (cm_DataCancelamento item),
         pi_CancelReason = cm_MotivoCancelamento item, pi_Recipients = djenRecipients (cm_Advogados item) matched\<rparr>)"

definition djen_record :: "communication \<Rightarrow> parsed_record" where
  "djen_record item = \<lparr>pr_CNJNumber = cm_NumeroProcesso item, pr_Degree = DegreeUnknown, pr_Court = cm_SiglaTribunal item,
     pr_Class = cm_NomeClasse item, pr_Subject = '''', pr_Completeness = djenCompleteness,
     pr_JudgingBody = cm_NomeOrgao item, pr_FiledAt = None, pr_Secrecy = '''', pr_Lifecycle = '''', pr_Phase = ''''\<rparr>"

text \<open>The loop over the items: an item that does not decode fails the payload.\<close>

fun parse_items :: "holiday_query \<Rightarrow> string set \<Rightarrow> string list \<Rightarrow> raw_item list \<Rightarrow> err + parsed_result" where
  "parse_items src matched seen [] = Inr \<lparr>ps_CourtRecords = [], ps_DocketEntries = [], ps_Intimations = [], ps_Parties = []\<rparr>"
| "parse_items src matched seen (r # rs) = (case ri_Item r of
     None \<Rightarrow> Inl (PlainErr ''djen: decode item'')
   | Some item \<Rightarrow>
       if djenType (cm_TipoComunicacao item) = IntimationTypeComunicacao then parse_items src matched seen rs
       else (case parseIntimation src matched item of
         None \<Rightarrow> parse_items src matched seen rs
       | Some pn \<Rightarrow> (case parse_items src matched (cm_NumeroProcesso item # seen) rs of
           Inl e \<Rightarrow> Inl e
         | Inr res \<Rightarrow> Inr (res\<lparr>
             ps_CourtRecords := (if cm_NumeroProcesso item \<in> set seen then ps_CourtRecords res
                                 else djen_record item # ps_CourtRecords res),
             ps_Intimations := pn # ps_Intimations res,
             ps_Parties := parseParties item @ ps_Parties res\<rparr>))))"

definition DJENParser_Parse :: "holiday_query \<Rightarrow> raw_payload \<Rightarrow> err + parsed_result" where
  "DJENParser_Parse src raw = (case rp_Body raw of
     OtherBody _ \<Rightarrow> Inl (PlainErr ''djen: decode payload'')
   | DjenBody p \<Rightarrow> parse_items src (watchedOABSet (dj_OABs p)) [] (dj_Items p))"

text \<open>The first parser of the set that claims the payload (\<open>connector.go\<close>).\<close>

definition ParserSet_Parse :: "((raw_payload \<Rightarrow> bool) \<times> (raw_payload \<Rightarrow> err + parsed_result)) list \<Rightarrow> raw_payload \<Rightarrow> err + parsed_result" where
  "ParserSet_Parse ps raw = (case find_row (\<lambda>(can, _). can raw) ps of
     None \<Rightarrow> Inl ErrParserNotFound | Some (_, parse) \<Rightarrow> parse raw)"

definition DJENParser_CanParse :: "raw_payload \<Rightarrow> bool" where
  "DJENParser_CanParse raw \<longleftrightarrow> rp_Source raw = SourceDJEN"

fun publicationParamsFromItems :: "raw_item list \<Rightarrow> err + publication list" where
  "publicationParamsFromItems [] = Inr []"
| "publicationParamsFromItems (r # rs) = (case ri_Item r of
     None \<Rightarrow> Inl (NewInfra (''djen: decode di'' @ [CHR 0xC3, CHR 0xA1] @ ''rio item''))
   | Some item \<Rightarrow> (case publicationParamsFromItems rs of
       Inl e \<Rightarrow> Inl e
     | Inr ps \<Rightarrow> Inr (if cm_Hash item = '''' then ps
         else \<lparr>pb_Hash = cm_Hash item, pb_Court = cm_SiglaTribunal item, pb_CNJNumber = cm_NumeroProcesso item,
               pb_MadeAvailableAt = (case parseDJENDate (cm_DataDisponibilizacao item) of None \<Rightarrow> zero_day | Some d \<Rightarrow> d),
               pb_RecipientOABs = recipientOABKeys (cm_Advogados item), pb_Payload = r\<rparr> # ps)))"

end
