(* ===== verification/AcquisitionMatch.thy ===== *)
theory AcquisitionMatch
  imports AcquisitionSync Djen
begin

text \<open>
  \<open>internal/acquisition/ingestion.go\<close> and \<open>match.go\<close>: the national diary, asked for court by
  court and landed in one table of publications, and the match of that table against the OABs
  the tenants watch, which writes through the same upserts as a sync.
\<close>

section \<open>Ingestion (ingestion.go, queries/publication.sql)\<close>

definition RequestDay :: "acq_env \<Rightarrow> day \<Rightarrow> nat atx" where
  "RequestDay E d = uow_DoSystem E (bind (for_each buildTribunais
     (\<lambda>t. publish_new E (newDiarioRequested (a_uuid5 E) (Sigla t) (fmtDateOnly d)))) (\<lambda>_.
   ret (length buildTribunais)))"

text \<open>\<open>ON CONFLICT (hash) DO NOTHING\<close>: whether the row is new.\<close>

definition InsertPublication :: "acq_env \<Rightarrow> publication \<Rightarrow> bool atx" where
  "InsertPublication E p = stmt E (\<lambda>s.
     if find_row (\<lambda>q. pb_Hash q = pb_Hash p) (publications s) \<noteq> None then (Inr False, s)
     else (Inr True, s\<lparr>publications := publications s @ [p]\<rparr>))"

definition InsertPublications :: "acq_env \<Rightarrow> publication list \<Rightarrow> nat atx" where
  "InsertPublications E ps =
     bind (map_tx (InsertPublication E) ps) (\<lambda>news. ret (length (filter id news)))"

definition diario_error :: "string \<Rightarrow> string \<Rightarrow> string \<Rightarrow> string \<Rightarrow> string" where
  "diario_error verb court d text = ''ingestion: '' @ verb @ '' di'' @ [CHR 0xC3, CHR 0xA1] @ ''rio '' @ court @ '' '' @ d @ '': '' @ text"

definition OnDiarioRequested :: "acq_env \<Rightarrow> (string \<Rightarrow> string \<Rightarrow> err + raw_item list) \<Rightarrow> string \<Rightarrow> string \<Rightarrow> unit atx" where
  "OnDiarioRequested E fetch court d = (case fetch court d of
     Inl e \<Rightarrow> fail (PlainErr (diario_error ''fetch'' court d (Error_text e)))
   | Inr items \<Rightarrow>
       if items = [] then ret ()
       else (case publicationParamsFromItems items of
         Inl e \<Rightarrow> fail (SkipRetry (diario_error ''parse'' court d (Error_text e)))
       | Inr ps \<Rightarrow> bind (attempt (uow_DoSystem E (InsertPublications E ps))) (\<lambda>r. case r of
           Inl e \<Rightarrow> fail (PlainErr (diario_error ''land'' court d (Error_text e)))
         | Inr _ \<Rightarrow> ret ())))"

section \<open>The match (match.go, queries/match.sql)\<close>

record publication_match =
  pm_TenantID :: string
  pm_OABKey :: string
  pm_Payload :: raw_item

text \<open>The join, in the order of the tables (SQL leaves it open).\<close>

definition matches_of :: "(publication \<Rightarrow> bool) \<Rightarrow> (watched_row \<Rightarrow> bool) \<Rightarrow> acq_db \<Rightarrow> publication_match list" where
  "matches_of P W s = concat (map (\<lambda>p. map (\<lambda>w. \<lparr>pm_TenantID = ww_TenantID w, pm_OABKey = ww_OABKey w,
       pm_Payload = pb_Payload p\<rparr>)
     (filter (\<lambda>w. W w \<and> ww_Enabled w \<and> ww_OABKey w \<in> set (pb_RecipientOABs p)) (watched s)))
   (filter P (publications s)))"

definition MatchPublicationsByDay :: "acq_env \<Rightarrow> day \<Rightarrow> publication_match list atx" where
  "MatchPublicationsByDay E d =
     stmt E (read_st (matches_of (\<lambda>p. pb_MadeAvailableAt p = d) (\<lambda>_. True)))"

definition MatchPublicationsForTenantSince :: "acq_env \<Rightarrow> string \<Rightarrow> day \<Rightarrow> publication_match list atx" where
  "MatchPublicationsForTenantSince E tenantID since = bind (parseUUID E tenantID) (\<lambda>tid. stmt E (read_st (\<lambda>s.
     map (\<lambda>m. m\<lparr>pm_TenantID := tenantID\<rparr>)
       (matches_of (\<lambda>p. since \<le> pb_MadeAvailableAt p) (\<lambda>w. ww_TenantID w = tid) s))))"

text \<open>
  What a tenant matched: its keys and its distinct payloads. A publication has one payload, so
  payloads are equal exactly where their texts are.
\<close>

definition tenant_matches :: "publication_match list \<Rightarrow> string \<Rightarrow> string list \<times> raw_item list" where
  "tenant_matches ms tid = (let own = filter (\<lambda>m. pm_TenantID m = tid) ms in
     (first_seen (map pm_OABKey own), first_seen (map pm_Payload own)))"

definition oabEntriesFromKeys :: "string list \<Rightarrow> oab_entry list" where
  "oabEntriesFromKeys ks = map (\<lambda>k. \<lparr>oe_Number = takeWhile (\<lambda>c. c \<noteq> CHR ''|'') k,
       oe_UF = tl (dropWhile (\<lambda>c. c \<noteq> CHR ''|'') k)\<rparr>)
     (filter (\<lambda>k. CHR ''|'' \<in> set k \<and> takeWhile (\<lambda>c. c \<noteq> CHR ''|'') k \<noteq> []) ks)"

definition match_payload :: "string list \<Rightarrow> raw_item list \<Rightarrow> raw_payload" where
  "match_payload ks items = \<lparr>rp_ConnectorID = '''', rp_ConnectorVersion = '''', rp_Source = SourceDJEN,
     rp_Body = DjenBody \<lparr>dj_OABs = oabEntriesFromKeys ks, dj_Items = items\<rparr>\<rparr>"

definition daily_row :: "string \<Rightarrow> day \<Rightarrow> instant \<Rightarrow> instant \<Rightarrow> nat \<Rightarrow> nat \<Rightarrow> nat \<Rightarrow> capture_run" where
  "daily_row tid d started finished recsNew updated news = \<lparr>ca_TenantID = tid, ca_Kind = ''DAILY_CAPTURE'',
     ca_Window = Some d, ca_BackfillJobID = '''', ca_StartedAt = started, ca_FinishedAt = finished,
     ca_Status = SyncStatusOK, ca_CourtRecordsNew = to_int32 (int recsNew), ca_CourtRecordsUpdated = to_int32 (int updated),
     ca_IntimationsNew = to_int32 (int news), ca_Errors = 0\<rparr>"

definition daily_of :: "string \<Rightarrow> day \<Rightarrow> capture_run \<Rightarrow> bool" where
  "daily_of tid d c \<longleftrightarrow> ca_TenantID c = tid \<and> ca_Kind c = ''DAILY_CAPTURE'' \<and> ca_Window c = Some d"

definition daily_again :: "capture_run \<Rightarrow> capture_run \<Rightarrow> capture_run" where
  "daily_again new c = c\<lparr>ca_CourtRecordsNew := ca_CourtRecordsNew c + ca_CourtRecordsNew new,
     ca_IntimationsNew := ca_IntimationsNew c + ca_IntimationsNew new,
     ca_CourtRecordsUpdated := ca_CourtRecordsUpdated c + ca_CourtRecordsUpdated new,
     ca_FinishedAt := ca_FinishedAt new, ca_Status := SyncStatusOK\<rparr>"

definition WriteDailyCaptureRun :: "acq_env \<Rightarrow> string \<Rightarrow> day \<Rightarrow> instant \<Rightarrow> instant \<Rightarrow> nat \<Rightarrow> nat \<Rightarrow> nat \<Rightarrow> unit atx" where
  "WriteDailyCaptureRun E tenantID d started finished recsNew updated news = bind (parseUUID E tenantID) (\<lambda>tid.
     stmt E (modify_st (\<lambda>s. let new = daily_row tid d started finished recsNew updated news in
       s\<lparr>captures := (if find_row (daily_of tid d) (captures s) = None then captures s @ [new]
                       else update_rows (daily_of tid d) (daily_again new) (captures s))\<rparr>)))"

definition match_fold :: "acq_env \<Rightarrow> string \<Rightarrow> day \<Rightarrow> parsed_result \<Rightarrow> unit atx" where
  "match_fold E tenantID d parsed =
     bind (now_tx E) (\<lambda>started.
     bind (AcquireTenantWriteLock E tenantID) (\<lambda>_.
     bind (now_tx E) (\<lambda>t.
     bind (BatchUpsertCourtRecords E tenantID max_int
             (map (record_param tenantID (t + defaultSyncInterval) '''') (ps_CourtRecords parsed))) (\<lambda>(os, recsNew).
     let recs = resolved_map (map (\<lambda>(pr, oc). (pr, case oc of Blocked \<Rightarrow> Resolved None | Resolved r \<Rightarrow> Resolved r))
                  (zip (ps_CourtRecords parsed) os)) in
     bind (intimationParamsFor tenantID '''' recs [] (ps_Intimations parsed)) (\<lambda>ips.
     bind (UpsertIntimations E ips) (\<lambda>(news, gone).
     if recsNew = 0 \<and> news = [] then ret ()
     else bind (now_tx E) (\<lambda>finished.
       WriteDailyCaptureRun E tenantID d started finished recsNew
         (card (set (map ic_CourtRecordID news)) - recsNew) (length news))))))))"

definition writeForTenant :: "acq_env \<Rightarrow> string \<Rightarrow> day \<Rightarrow> string list \<times> raw_item list \<Rightarrow> unit atx" where
  "writeForTenant E tenantID d = (\<lambda>(ks, items). case a_parse E (match_payload ks items) of
     Inl e \<Rightarrow> fail e
   | Inr parsed \<Rightarrow> uow_Do E tenantID (match_fold E tenantID d parsed))"

text \<open>\<open>rng\<close> gives the order in which Go iterates over the tenants of the map.\<close>

definition MatchDay :: "acq_env \<Rightarrow> (string list \<Rightarrow> string list) \<Rightarrow> day \<Rightarrow> unit atx" where
  "MatchDay E rng d = bind (uow_DoSystem E (MatchPublicationsByDay E d)) (\<lambda>ms.
     for_each (rng (first_seen (map pm_TenantID ms))) (\<lambda>tid. writeForTenant E tid d (tenant_matches ms tid)))"

text \<open>\<open>today\<close> is the day of \<open>uc.now()\<close>.\<close>

definition MatchTenantSince :: "acq_env \<Rightarrow> day \<Rightarrow> string \<Rightarrow> day \<Rightarrow> unit atx" where
  "MatchTenantSince E today tenantID since =
     bind (uow_DoSystem E (MatchPublicationsForTenantSince E tenantID since)) (\<lambda>ms.
     if ms = [] then ret () else writeForTenant E tenantID today (tenant_matches ms tenantID))"

end
