(* ===== verification/AcquisitionBackfill.thy ===== *)
theory AcquisitionBackfill
  imports AcquisitionMatch
begin

text \<open>
  \<open>internal/acquisition/domain.go\<close> (the activation of a source and the watch of an OAB) and
  \<open>backfill.go\<close>: the windows of history a new OAB gets, the catch-up of one that was switched
  off, and the counter that closes a backfill when its last window closes.
\<close>

section \<open>Windows (backfill.go)\<close>

definition BackfillHorizonDays :: int where "BackfillHorizonDays = 30"
definition BackfillWindowDays :: int where "BackfillWindowDays = 7"

definition consumerBackfill :: string where "consumerBackfill = ''acquisition.backfill''"
definition consumerBackfillCounter :: string where "consumerBackfillCounter = ''acquisition.backfill_counter''"
definition consumerWatchedOABReenabled :: string where "consumerWatchedOABReenabled = ''acquisition.watched_oab_reenabled''"

definition calculateSlices :: "int \<Rightarrow> int \<Rightarrow> int" where
  "calculateSlices horizonDays windowDays =
     (if horizonDays \<le> 0 \<or> windowDays \<le> 0 then 0 else (horizonDays + windowDays - 1) div windowDays)"

record sync_window =
  sw_From :: day
  sw_To :: day

function build_windows :: "day \<Rightarrow> day \<Rightarrow> int \<Rightarrow> sync_window list" where
  "build_windows cur till w =
     (if 0 < w \<and> cur < till then
        (let n = (if till < cur + w then till else cur + w)
         in \<lparr>sw_From = cur, sw_To = n\<rparr> # build_windows n till w)
      else [])"
  by auto
termination by (relation "measure (\<lambda>(cur, till, w). nat (till - cur))") (auto split: if_splits)

declare build_windows.simps [simp del]

definition buildSyncWindows :: "day \<Rightarrow> day \<Rightarrow> int \<Rightarrow> sync_window list" where
  "buildSyncWindows from till windowDays = (if windowDays \<le> 0 then [] else build_windows from till windowDays)"

text \<open>
  What the composition root sets: the horizon, the window, and the days of history when the
  national diary replaces the fetch per OAB.
\<close>

record backfill_conf =
  bc_horizon :: int
  bc_window :: int
  bc_history :: "int option"

definition WithBackfillWindowDays :: "int \<Rightarrow> backfill_conf \<Rightarrow> backfill_conf" where
  "WithBackfillWindowDays days c = (if 0 < days then c\<lparr>bc_window := days\<rparr> else c)"

definition NewBackfillUseCase :: backfill_conf where
  "NewBackfillUseCase = \<lparr>bc_horizon = BackfillHorizonDays, bc_window = BackfillWindowDays, bc_history = None\<rparr>"

section \<open>Opening a backfill\<close>

definition slice_request :: "string \<Rightarrow> string \<Rightarrow> string \<Rightarrow> string \<Rightarrow> scope \<Rightarrow> int \<Rightarrow> sync_window \<Rightarrow> sync_requested" where
  "slice_request jobID tenantID integrationID source sc i w = \<lparr>sq_BackfillJobID = jobID, sq_TenantID = tenantID,
     sq_IntegrationID = integrationID, sq_Source = source, sq_SliceIndex = i, sq_WindowFrom = fmtDateOnly (sw_From w),
     sq_WindowTo = fmtDateOnly (sw_To w), sq_Scope = sc, sq_CatchUpOABKey = '''', sq_CatchUpSince = None\<rparr>"

definition slices_of :: "string \<Rightarrow> string \<Rightarrow> string \<Rightarrow> string \<Rightarrow> scope \<Rightarrow> sync_window list \<Rightarrow> sync_requested list" where
  "slices_of jobID tenantID integrationID source sc ws =
     rev (map (\<lambda>(i, w). slice_request jobID tenantID integrationID source sc (int i) w) (enumerate 0 ws))"

definition createBackfillForScope :: "acq_env \<Rightarrow> backfill_conf \<Rightarrow> string \<Rightarrow> string \<Rightarrow> string \<Rightarrow> scope \<Rightarrow> unit atx" where
  "createBackfillForScope E c tenantID integrationID source sc =
     bind (now_tx E) (\<lambda>now.
     let till = day_of now; from = till - bc_horizon c; n = calculateSlices (bc_horizon c) (bc_window c) in
     bind (InsertBackfillJob E tenantID integrationID from till n
             (if n = 0 then BackfillStatusCompleted else BackfillStatusRunning) TriggerReasonOABAdded (sc_OAB sc)) (\<lambda>jobID.
     for_each (slices_of jobID tenantID integrationID source sc (buildSyncWindows from till (bc_window c)))
       (\<lambda>q. publish_new E (newSyncRequested q))))"

text \<open>A catch-up has no job; its aggregate is that of the watched OAB.\<close>

definition catch_up_request :: "string \<Rightarrow> string \<Rightarrow> string \<Rightarrow> string \<Rightarrow> instant \<Rightarrow> instant \<Rightarrow> sync_requested" where
  "catch_up_request tenantID integrationID source key since now =
     (let from = day_of since; till = (if day_of now < from then from else day_of now) in
      \<lparr>sq_BackfillJobID = '''', sq_TenantID = tenantID, sq_IntegrationID = integrationID, sq_Source = source,
       sq_SliceIndex = 0, sq_WindowFrom = fmtDateOnly from, sq_WindowTo = fmtDateOnly till,
       sq_Scope = \<lparr>sc_OAB = [canonicalOAB key], sc_TaxID = []\<rparr>, sq_CatchUpOABKey = key, sq_CatchUpSince = Some since\<rparr>)"

definition newCatchUpSyncRequested :: "acq_env \<Rightarrow> sync_requested \<Rightarrow> string \<Rightarrow> acq_payload event" where
  "newCatchUpSyncRequested E q eid = (newSyncRequested q eid)\<lparr>ev_aggregate_id :=
     watchedOABAggregate (a_uuid5 E) (sq_TenantID q) (sq_IntegrationID q) (sq_CatchUpOABKey q)\<rparr>"

definition earlierTime :: "instant option \<Rightarrow> instant option \<Rightarrow> instant option" where
  "earlierTime a b = (case (a, b) of (None, _) \<Rightarrow> b | (_, None) \<Rightarrow> a
     | (Some x, Some y) \<Rightarrow> if y < x then Some y else Some x)"

text \<open>The watch of every key of the scope: the new ones, and the ones switched on again.\<close>

definition enable_all :: "acq_env \<Rightarrow> activation \<Rightarrow> (string list \<times> watched_oab list) atx" where
  "enable_all E ev = bind (map_tx (\<lambda>key. AddOrEnableWatchedOAB E (iv_TenantID ev) (iv_IntegrationID ev) key)
       (watchedOABKeys (iv_Scope ev))) (\<lambda>rs.
     ret (List.map_filter (\<lambda>(key, _, new, _). if new then Some key else None) (zip (watchedOABKeys (iv_Scope ev)) rs),
          List.map_filter (\<lambda>(row, new, again). if \<not> new \<and> again then Some row else None) rs))"

definition since_all :: "instant option \<Rightarrow> watched_oab list \<Rightarrow> instant option" where
  "since_all t rows = foldl (\<lambda>t row. earlierTime t (wo_CatchUpSince row)) t rows"

text \<open>The OABs that changed: \<open>Some\<close> is the instant the match after the commit starts from.\<close>

definition activate_body :: "acq_env \<Rightarrow> backfill_conf \<Rightarrow> activation \<Rightarrow> instant option atx" where
  "activate_body E c ev = bind (enable_all E ev) (\<lambda>(newKeys, catchUps).
     if newKeys = [] \<and> catchUps = [] then ret None
     else case bc_history c of
       Some days \<Rightarrow>
         if newKeys \<noteq> []
         then bind (now_tx E) (\<lambda>now. ret (since_all (Some (now - days * 86400 * 1000000000)) catchUps))
         else ret (since_all None catchUps)
     | None \<Rightarrow>
         bind (if newKeys \<noteq> [] then createBackfillForScope E c (iv_TenantID ev) (iv_IntegrationID ev) (iv_Source ev)
                 \<lparr>sc_OAB = canonicalOABs newKeys, sc_TaxID = []\<rparr> else ret ()) (\<lambda>_.
         bind (for_each catchUps (\<lambda>row. case wo_CatchUpSince row of None \<Rightarrow> ret ()
           | Some since \<Rightarrow> bind (now_tx E) (\<lambda>now. publish_new E (newCatchUpSyncRequested E
               (catch_up_request (iv_TenantID ev) (iv_IntegrationID ev) (iv_Source ev) (wo_OABKey row) since now))))) (\<lambda>_.
         ret None)))"

definition OnIntegrationActivated :: "acq_env \<Rightarrow> backfill_conf \<Rightarrow> day \<Rightarrow> activation \<Rightarrow> string \<Rightarrow> unit atx" where
  "OnIntegrationActivated E c today ev eventID =
     bind (uow_Do E (iv_TenantID ev) (once_or E None consumerBackfill eventID (activate_body E c ev))) (\<lambda>since.
     case since of None \<Rightarrow> ret () | Some t \<Rightarrow> MatchTenantSince E today (iv_TenantID ev) (day_of t))"

definition reenabled_body :: "acq_env \<Rightarrow> backfill_conf \<Rightarrow> oab_reenabled \<Rightarrow> bool atx" where
  "reenabled_body E c ev = (case bc_history c of
     Some _ \<Rightarrow> ret True
   | None \<Rightarrow> bind (now_tx E) (\<lambda>now. bind (publish_new E (newCatchUpSyncRequested E
       (catch_up_request (or_TenantID ev) (or_IntegrationID ev) (or_Source ev) (or_OABKey ev) (or_CatchUpSince ev) now)))
       (\<lambda>_. ret False)))"

definition OnWatchedOABReenabled :: "acq_env \<Rightarrow> backfill_conf \<Rightarrow> day \<Rightarrow> oab_reenabled \<Rightarrow> string \<Rightarrow> unit atx" where
  "OnWatchedOABReenabled E c today ev eventID =
     bind (uow_Do E (or_TenantID ev) (once_or E False consumerWatchedOABReenabled eventID (reenabled_body E c ev))) (\<lambda>needs.
     if needs then MatchTenantSince E today (or_TenantID ev) (day_of (or_CatchUpSince ev)) else ret ())"

section \<open>Closing a slice\<close>

text \<open>
  A closed run reports a \<open>catch_up_since\<close> that parses back to its instant; one that does not
  parse is \<open>None\<close>, which is skipped.
\<close>

definition clearCatchUp :: "acq_env \<Rightarrow> run_closed \<Rightarrow> unit atx" where
  "clearCatchUp E c = (case rn_CatchUpSince c of None \<Rightarrow> ret ()
   | Some since \<Rightarrow> ClearWatchedOABCatchUp E (rn_TenantID c) (rn_IntegrationID c) (rn_CatchUpOABKey c) since)"

definition incrementSlice :: "acq_env \<Rightarrow> run_closed \<Rightarrow> bool \<Rightarrow> backfill_job atx" where
  "incrementSlice E c ok = (if ok then IncrementBackfillSlicesOK E (rn_TenantID c) (rn_BackfillJobID c)
     else IncrementBackfillSlicesError E (rn_TenantID c) (rn_BackfillJobID c))"

definition final_status :: "backfill_job \<Rightarrow> string" where
  "final_status j = (if 0 < bj_SlicesError j then BackfillStatusPartial else BackfillStatusCompleted)"

definition finalizeIfComplete :: "acq_env \<Rightarrow> run_closed \<Rightarrow> backfill_job \<Rightarrow> unit atx" where
  "finalizeIfComplete E c j =
     (if bj_SlicesOK j + bj_SlicesError j \<noteq> bj_TotalSlices j \<or> bj_Status j \<noteq> BackfillStatusRunning then ret ()
      else bind (FinalizeBackfillJob E (rn_TenantID c) (rn_BackfillJobID c) (final_status j)) (\<lambda>_.
        publish_new E (newBackfillFinished (rn_TenantID c) (rn_BackfillJobID c) (rn_IntegrationID c)
          (bj_TotalSlices j) (bj_SlicesOK j) (bj_SlicesError j) (final_status j))))"

definition count_slice :: "acq_env \<Rightarrow> run_closed \<Rightarrow> bool \<Rightarrow> unit atx" where
  "count_slice E c ok =
     (if rn_BackfillJobID c = '''' then ret ()
      else bind (attempt (incrementSlice E c ok)) (\<lambda>r. case r of
        Inl e \<Rightarrow> if e = ErrBackfillJobNotFound then ret () else fail e
      | Inr j \<Rightarrow> finalizeIfComplete E c j))"

definition slice_closed :: "acq_env \<Rightarrow> run_closed \<Rightarrow> bool \<Rightarrow> unit atx" where
  "slice_closed E c ok = bind (count_slice E c ok) (\<lambda>_.
     if ok \<and> rn_CatchUpOABKey c \<noteq> '''' then clearCatchUp E c else ret ())"

definition onSliceClosed :: "acq_env \<Rightarrow> run_closed \<Rightarrow> bool \<Rightarrow> string \<Rightarrow> unit atx" where
  "onSliceClosed E c ok eventID =
     (if rn_BackfillJobID c = '''' \<and> rn_CatchUpOABKey c = '''' then ret ()
      else uow_Do E (rn_TenantID c) (once E consumerBackfillCounter eventID (slice_closed E c ok)))"

definition OnSyncCompleted :: "acq_env \<Rightarrow> run_closed \<Rightarrow> string \<Rightarrow> unit atx" where
  "OnSyncCompleted E c eventID = onSliceClosed E c True eventID"

definition OnSyncFailed :: "acq_env \<Rightarrow> run_closed \<Rightarrow> string \<Rightarrow> unit atx" where
  "OnSyncFailed E c eventID = onSliceClosed E c False eventID"

section \<open>Activation (domain.go)\<close>

definition scopeEqual :: "scope \<Rightarrow> scope \<Rightarrow> bool" where
  "scopeEqual a b \<longleftrightarrow> sc_OAB a = sc_OAB b \<and> sc_TaxID a = sc_TaxID b"

definition activationChanged :: "integration option \<Rightarrow> integration \<Rightarrow> bool" where
  "activationChanged before after = (case before of None \<Rightarrow> True
     | Some b \<Rightarrow> ig_Status b \<noteq> IntegrationActive \<or> \<not> scopeEqual (ig_Scope b) (ig_Scope after))"

definition currentIntegration :: "acq_env \<Rightarrow> string \<Rightarrow> string \<Rightarrow> integration option atx" where
  "currentIntegration E tenantID src = bind (attempt (GetBySource E tenantID src)) (\<lambda>r. case r of
     Inl e \<Rightarrow> if e = ErrIntegrationNotFound then ret None else fail e
   | Inr i \<Rightarrow> ret (Some i))"

text \<open>Two reads of the pool: the active court records of the tenant, and its intimations.\<close>

definition GetReconciliationTotals :: "acq_env \<Rightarrow> string \<Rightarrow> (int \<times> int) atx" where
  "GetReconciliationTotals E tenantID = bind (parseUUID E tenantID) (\<lambda>tid.
     bind (CountActiveCourtRecordsByTenant E tid) (\<lambda>n.
     bind (stmt E (read_st (\<lambda>s. int (length (filter (\<lambda>i. iw_TenantID i = tid) (intims s)))))) (\<lambda>m. ret (n, m))))"

definition checkEntitlement :: "acq_env \<Rightarrow> string \<Rightarrow> unit atx" where
  "checkEntitlement E tenantID = (case a_limit E tenantID of
     Inl e \<Rightarrow> fail e
   | Inr limit \<Rightarrow> bind (GetReconciliationTotals E tenantID) (\<lambda>(n, _).
       if limit \<le> n then fail ErrActivationBlocked else ret ()))"

definition upsert_announced :: "acq_env \<Rightarrow> string \<Rightarrow> integration option \<Rightarrow> scope \<Rightarrow> integration atx" where
  "upsert_announced E tenantID before sc = bind (Upsert E tenantID SourceDJEN sc) (\<lambda>after.
     bind (if activationChanged before after then publish_new E (newIntegrationActivated after) else ret ()) (\<lambda>_.
     ret after))"

definition ActivateIntegration :: "acq_env \<Rightarrow> string \<Rightarrow> scope \<Rightarrow> integration atx" where
  "ActivateIntegration E tenantID sc = bind (checkEntitlement E tenantID) (\<lambda>_.
     uow_Do E tenantID (bind (currentIntegration E tenantID SourceDJEN) (\<lambda>before.
       upsert_announced E tenantID before sc)))"

definition scope_with :: "integration option \<Rightarrow> string \<Rightarrow> scope" where
  "scope_with before oab = (let sc = (case before of None \<Rightarrow> \<lparr>sc_OAB = [], sc_TaxID = []\<rparr> | Some b \<Rightarrow> ig_Scope b) in
     if oab \<in> set (sc_OAB sc) then sc else sc\<lparr>sc_OAB := sc_OAB sc @ [oab]\<rparr>)"

definition AddWatchedOAB :: "acq_env \<Rightarrow> string \<Rightarrow> oab_entry \<Rightarrow> watched_oab atx" where
  "AddWatchedOAB E tenantID oab = bind (checkEntitlement E tenantID) (\<lambda>_.
     uow_Do E tenantID (bind (currentIntegration E tenantID SourceDJEN) (\<lambda>before.
       bind (upsert_announced E tenantID before (scope_with before (oe_UF oab @ oe_Number oab))) (\<lambda>after.
       ret \<lparr>wo_OAB = oe_UF oab @ oe_Number oab, wo_OABKey = oabKey (oe_Number oab) (oe_UF oab),
            wo_IntegrationID = ig_ID after, wo_Enabled = True, wo_DisabledAt = None, wo_CatchUpSince = None\<rparr>))))"

definition toggle_on :: "acq_env \<Rightarrow> string \<Rightarrow> integration \<Rightarrow> string \<Rightarrow> watched_oab atx" where
  "toggle_on E tenantID integ key =
     bind (AddOrEnableWatchedOAB E tenantID (ig_ID integ) key) (\<lambda>(row, needsHistory, needsCatchUp).
     if needsHistory then fail ErrWatchedOABNotFound
     else bind (case (needsCatchUp, wo_CatchUpSince row) of
         (True, Some since) \<Rightarrow> publish_new E (newWatchedOABReenabled (a_uuid5 E) \<lparr>or_TenantID = tenantID,
            or_IntegrationID = ig_ID integ, or_Source = ig_Source integ, or_OABKey = key, or_CatchUpSince = since\<rparr>)
       | _ \<Rightarrow> ret ()) (\<lambda>_. ret row))"

definition toggle_body :: "acq_env \<Rightarrow> string \<Rightarrow> string \<Rightarrow> bool \<Rightarrow> watched_oab atx" where
  "toggle_body E tenantID key enabled = bind (currentIntegration E tenantID SourceDJEN) (\<lambda>found. case found of
     None \<Rightarrow> fail ErrWatchedOABNotFound
   | Some integ \<Rightarrow> if enabled then toggle_on E tenantID integ key
       else DisableWatchedOAB E tenantID (ig_ID integ) key)"

definition ToggleWatchedOAB :: "acq_env \<Rightarrow> string \<Rightarrow> string \<Rightarrow> bool \<Rightarrow> watched_oab atx" where
  "ToggleWatchedOAB E tenantID oab enabled = (case parseOAB oab of
     Inl e \<Rightarrow> fail e
   | Inr entry \<Rightarrow> uow_Do E tenantID (toggle_body E tenantID (oabKey (oe_Number entry) (oe_UF entry)) enabled))"

end
