(* ===== verification/AcquisitionSample.thy ===== *)
theory AcquisitionSample
  imports Acquisition
begin

text \<open>
  A concrete office for the theorems of the acquisition slice: an environment in which nothing
  fails, at noon UTC of Monday 2 March 2026 (day 20514), and the empty database.
\<close>

definition clerk_day :: day where "clerk_day = 20514"

definition clerk_noon :: instant where "clerk_noon = midnight clerk_day + 43200 * 1000000000"

definition clerk_acq :: acq_env where
  "clerk_acq = \<lparr>e_tx_time = clerk_noon, e_clock = (\<lambda>_. clerk_noon), e_parse_uuid = Some,
     e_gen = (\<lambda>n. replicate (Suc n) CHR ''u''), e_fault = (\<lambda>_. False), e_begin_fails = False,
     e_commit_fails = False, a_connector = (\<lambda>_. None), a_parse = (\<lambda>_. Inl ErrParserNotFound), a_limit = (\<lambda>_. Inr 2),
     a_retries_left = False, a_html = (\<lambda>s. [TextData s]), a_uuid5 = (\<lambda>a b. a @ b)\<rparr>"

definition blank_acq :: acq_db where
  "blank_acq = \<lparr>outbox = [], outbox_seq = 0, processed = [], id_seq = 0, stmts = 0, reads = 0, integrations = [],
     watched = [], jobs = [], runs = [], cases = [], records = [], intims = [], dockets = [], parties = [], counsels = [],
     publications = [], captures = [], anchored = [], members = []\<rparr>"

lemma clerk_acq_calm [simp]: "calm clerk_acq"
  by (simp add: calm_def clerk_acq_def)

lemma clerk_acq_simps [simp]: "e_parse_uuid clerk_acq = Some" "e_clock clerk_acq n = clerk_noon"
  "e_gen clerk_acq n = replicate (Suc n) CHR ''u''" "e_fault clerk_acq n = False" "e_begin_fails clerk_acq = False"
  "e_commit_fails clerk_acq = False" "e_tx_time clerk_acq = clerk_noon" "a_limit clerk_acq t = Inr 2"
  "a_html clerk_acq = (\<lambda>s. [TextData s])"
  by (simp_all add: clerk_acq_def)

lemmas acq_evaluate = uow_Do_calm once_or_def SeenOrMark_def seen_or_mark_def stmt_calm with_ids_Some parseUUID_Some
  bind_def ret_def attempt_def publish_new_def publish_def next_id_def now_tx_apply

end
