(* ===== verification/BackfillProperties.thy ===== *)
theory BackfillProperties
  imports AcquisitionBackfill AcquisitionSample
begin

text \<open>
  The windows of a backfill tile its horizon, and the counter of closed windows finishes the job
  once: the effect of one closed window, and its composition over any deliveries.
\<close>

section \<open>Windows\<close>










section \<open>One closed window\<close>

definition bumped :: "bool \<Rightarrow> backfill_job \<Rightarrow> backfill_job" where
  "bumped ok = (if ok then bump_ok else bump_error)"

definition last_slice :: "backfill_job \<Rightarrow> bool" where
  "last_slice j \<longleftrightarrow> bj_SlicesOK j + bj_SlicesError j = bj_TotalSlices j \<and> bj_Status j = BackfillStatusRunning"

definition finished_fact :: "run_closed \<Rightarrow> backfill_job \<Rightarrow> string \<times> acq_payload \<times> instant option" where
  "finished_fact c j = (''acquisition.backfill_finished'', BackfillFinished (rn_TenantID c) (rn_BackfillJobID c)
     (rn_IntegrationID c) (bj_TotalSlices j) (bj_SlicesOK j) (bj_SlicesError j) (final_status j), None)"

text \<open>The table of jobs after a window of a job closed, and what is announced.\<close>

definition counted_jobs :: "string \<Rightarrow> string \<Rightarrow> bool \<Rightarrow> backfill_job list \<Rightarrow> backfill_job list" where
  "counted_jobs tid jid ok t = (case find_row (job_of tid jid) t of None \<Rightarrow> t
   | Some j \<Rightarrow> let u = update_rows (job_of tid jid) (bumped ok) t in
       if last_slice (bumped ok j)
       then update_rows (running_job tid jid) (\<lambda>r. r\<lparr>bj_Status := final_status (bumped ok j)\<rparr>) u else u)"

definition counted_facts :: "string \<Rightarrow> string \<Rightarrow> run_closed \<Rightarrow> bool \<Rightarrow> backfill_job list
    \<Rightarrow> (string \<times> acq_payload \<times> instant option) list" where
  "counted_facts tid jid c ok t = (case find_row (job_of tid jid) t of None \<Rightarrow> []
   | Some j \<Rightarrow> if last_slice (bumped ok j) then [finished_fact c (bumped ok j)] else [])"

lemma fact_of_finished [simp]:
  "fact_of (newBackfillFinished t job i n a b st eid)
     = (''acquisition.backfill_finished'', BackfillFinished t job i n a b st, None)"
  by (simp add: fact_of_def newBackfillFinished_def acq_event_def scheduledAt_def)

lemma jobs_of_view: "view s' = view s \<Longrightarrow> jobs s' = jobs s"
  by (drule arg_cong [where f = jobs]) (simp add: view_def)

lemma with_ids_parsed:
  assumes "with_ids E a b k s = (Inr x, s')"
  obtains u v where "e_parse_uuid E a = Some u" and "e_parse_uuid E b = Some v" and "k u v s = (Inr x, s')"
  using assms by (rule with_ids_InrE) (auto dest!: parse_InrD)

lemma incrementSlice_alt:
  "incrementSlice E c ok = increment E (bumped ok) (rn_TenantID c) (rn_BackfillJobID c)"
  by (simp add: incrementSlice_def bumped_def IncrementBackfillSlicesOK_def IncrementBackfillSlicesError_def)

lemma infra_is_no_job: "WrapInfra \<noteq> ErrBackfillJobNotFound"
  by (simp add: WrapInfra_def ErrBackfillJobNotFound_def NewInfra_def NewNotFound_def)

lemma increment_effect:
  assumes "attempt (incrementSlice E c ok) s = (Inr r, s')"
  obtains (fault) e where "r = Inl e" and "e \<noteq> ErrBackfillJobNotFound"
  | (missing) "r = Inl ErrBackfillJobNotFound" and "announced s' = announced s" and "view s' = view s"
    and "\<And>tid jid. e_parse_uuid E (rn_TenantID c) = Some tid \<Longrightarrow> e_parse_uuid E (rn_BackfillJobID c) = Some jid
      \<Longrightarrow> find_row (job_of tid jid) (jobs s) = None"
  | (counted) tid jid j where "e_parse_uuid E (rn_TenantID c) = Some tid" and "e_parse_uuid E (rn_BackfillJobID c) = Some jid"
    and "find_row (job_of tid jid) (jobs s) = Some j" and "r = Inr (bumped ok j)" and "announced s' = announced s"
    and "view s' = (view s)\<lparr>jobs := update_rows (job_of tid jid) (bumped ok) (jobs s)\<rparr>"
proof -
  have run: "increment E (bumped ok) (rn_TenantID c) (rn_BackfillJobID c) s = (r, s')"
    using assms by (simp add: incrementSlice_alt attempt_apply prod_eq_iff)
  show thesis
  proof (cases r)
    case (Inl e)
    show ?thesis
    proof (cases "e = ErrBackfillJobNotFound")
      case False
      then show ?thesis using Inl fault by blast
    next
      case True
      have "announced s' = announced s \<and> view s' = view s \<and> (\<forall>tid jid. e_parse_uuid E (rn_TenantID c) = Some tid
          \<longrightarrow> e_parse_uuid E (rn_BackfillJobID c) = Some jid \<longrightarrow> find_row (job_of tid jid) (jobs s) = None)"
        using run Inl True infra_is_no_job unfolding increment_def with_ids_def parseUUID_def
        by (auto simp: bind_def stmt_def Let_def split: option.splits prod.splits sum.splits if_splits)
      then show ?thesis using Inl True missing by blast
    qed
  next
    case (Inr x)
    with run obtain tid jid where p: "e_parse_uuid E (rn_TenantID c) = Some tid" "e_parse_uuid E (rn_BackfillJobID c) = Some jid"
      and k: "stmt E (\<lambda>s. case find_row (job_of tid jid) (jobs s) of None \<Rightarrow> (Inl ErrBackfillJobNotFound, s)
        | Some j \<Rightarrow> (Inr (bumped ok j), s\<lparr>jobs := update_rows (job_of tid jid) (bumped ok) (jobs s)\<rparr>)) s = (Inr x, s')"
      unfolding increment_def by (auto elim: with_ids_InrE)
    from stmt_InrD [OF k] obtain j where j: "find_row (job_of tid jid) (jobs s) = Some j" "x = bumped ok j"
      and s': "s' = s\<lparr>stmts := Suc (stmts s), jobs := update_rows (job_of tid jid) (bumped ok) (jobs s)\<rparr>"
      by (auto split: option.splits)
    have "announced s' = announced s" by (simp add: s' announced_def)
    moreover have "view s' = (view s)\<lparr>jobs := update_rows (job_of tid jid) (bumped ok) (jobs s)\<rparr>"
      by (simp add: s' view_def)
    ultimately show ?thesis using counted [OF p j(1)] Inr j(2) by simp
  qed
qed

lemma finalize_effect:
  assumes "finalizeIfComplete E c j s = (Inr u, s')"
    and "e_parse_uuid E (rn_TenantID c) = Some tid" and "e_parse_uuid E (rn_BackfillJobID c) = Some jid"
  shows "announced s' = announced s @ (if last_slice j then [finished_fact c j] else [])
    \<and> jobs s' = (if last_slice j then update_rows (running_job tid jid) (\<lambda>r. r\<lparr>bj_Status := final_status j\<rparr>) (jobs s) else jobs s)"
proof (cases "last_slice j")
  case False
  then show ?thesis using assms(1) by (auto simp: finalizeIfComplete_def last_slice_def)
next
  case True
  let ?f = "update_rows (running_job tid jid) (\<lambda>r. r\<lparr>bj_Status := final_status j\<rparr>)"
  from True assms(1) obtain s1 where 1: "FinalizeBackfillJob E (rn_TenantID c) (rn_BackfillJobID c) (final_status j) s = (Inr (), s1)"
    and 2: "publish_new E (newBackfillFinished (rn_TenantID c) (rn_BackfillJobID c) (rn_IntegrationID c)
      (bj_TotalSlices j) (bj_SlicesOK j) (bj_SlicesError j) (final_status j)) s1 = (Inr u, s')"
    by (auto simp: finalizeIfComplete_def last_slice_def elim!: bind_InrE)
  have "announced s1 = announced s \<and> jobs s1 = ?f (jobs s)"
    using 1 assms(2,3) unfolding FinalizeBackfillJob_def
    by (auto elim!: with_ids_InrE dest!: stmt_InrD simp: announced_def)
  then show ?thesis using publish_new_effect [OF 2] True by (auto simp: finished_fact_def dest!: jobs_of_view)
qed

lemma count_slice_effect:
  assumes "count_slice E c ok s = (Inr u, s')" and "rn_BackfillJobID c \<noteq> ''''"
    and "e_parse_uuid E (rn_TenantID c) = Some tid" and "e_parse_uuid E (rn_BackfillJobID c) = Some jid"
  shows "announced s' = announced s @ counted_facts tid jid c ok (jobs s) \<and> jobs s' = counted_jobs tid jid ok (jobs s)"
proof -
  from assms(1,2) obtain r s1 where 1: "attempt (incrementSlice E c ok) s = (Inr r, s1)"
    and 2: "(case r of Inl e \<Rightarrow> if e = ErrBackfillJobNotFound then ret () else fail e
      | Inr j \<Rightarrow> finalizeIfComplete E c j) s1 = (Inr u, s')"
    by (auto simp: count_slice_def elim: bind_InrE)
  from 1 show ?thesis
  proof (cases rule: increment_effect)
    case (fault e)
    then show ?thesis using 2 by simp
  next
    case missing
    have "jobs s1 = jobs s" using missing(3) by (rule jobs_of_view)
    then show ?thesis using missing 2 assms(3,4) by (simp add: counted_facts_def counted_jobs_def)
  next
    case (counted t b j)
    have "jobs s1 = update_rows (job_of tid jid) (bumped ok) (jobs s)"
      using arg_cong [OF counted(6), of jobs] counted(1,2) assms(3,4) by (simp add: view_def)
    then show ?thesis
      using finalize_effect [of E c "bumped ok j" s1 u s' tid jid] 2 counted assms(3,4)
      by (simp add: counted_facts_def counted_jobs_def Let_def)
  qed
qed

lemma clear_effect:
  assumes "clearCatchUp E c s = (Inr u, s')"
  shows "announced s' = announced s \<and> jobs s' = jobs s"
  using assms by (auto simp: clearCatchUp_def ClearWatchedOABCatchUp_def announced_def
      elim!: with_ids_InrE dest!: stmt_InrD split: option.splits)

lemma count_slice_parses:
  assumes "count_slice E c ok s = (Inr u, s')" and "rn_BackfillJobID c \<noteq> ''''"
  obtains tid jid where "e_parse_uuid E (rn_TenantID c) = Some tid" and "e_parse_uuid E (rn_BackfillJobID c) = Some jid"
proof -
  show thesis
    using assms infra_is_no_job that unfolding count_slice_def incrementSlice_alt increment_def with_ids_def parseUUID_def
    by (auto simp: bind_def attempt_def split: option.splits)
qed

lemma slice_closed_effect:
  assumes "slice_closed E c ok s = (Inr u, s')"
  shows "(if rn_BackfillJobID c = '''' then announced s' = announced s \<and> jobs s' = jobs s
    else \<exists>tid jid. e_parse_uuid E (rn_TenantID c) = Some tid \<and> e_parse_uuid E (rn_BackfillJobID c) = Some jid
      \<and> announced s' = announced s @ counted_facts tid jid c ok (jobs s) \<and> jobs s' = counted_jobs tid jid ok (jobs s))"
proof -
  from assms obtain u1 s1 where 1: "count_slice E c ok s = (Inr u1, s1)"
    and 2: "(if ok \<and> rn_CatchUpOABKey c \<noteq> '''' then clearCatchUp E c else ret ()) s1 = (Inr u, s')"
    unfolding slice_closed_def by (rule bind_InrE)
  have c: "announced s' = announced s1 \<and> jobs s' = jobs s1"
    using 2 by (auto dest: clear_effect split: if_splits)
  show ?thesis
  proof (cases "rn_BackfillJobID c = ''''")
    case True
    then show ?thesis using 1 c by (simp add: count_slice_def)
  next
    case False
    obtain tid jid where "e_parse_uuid E (rn_TenantID c) = Some tid" "e_parse_uuid E (rn_BackfillJobID c) = Some jid"
      using 1 False by (rule count_slice_parses)
    then show ?thesis using count_slice_effect [OF 1 False] c False by auto
  qed
qed

section \<open>Deliveries\<close>

record delivery =
  dl_env :: acq_env
  dl_run :: run_closed
  dl_ok :: bool
  dl_event :: string

definition deliver_report :: "delivery \<Rightarrow> acq_db \<Rightarrow> acq_db" where
  "deliver_report d db = snd (onSliceClosed (dl_env d) (dl_run d) (dl_ok d) (dl_event d) db)"

definition mark_of :: "delivery \<Rightarrow> string \<times> string" where
  "mark_of d = (consumerBackfillCounter, dl_event d)"

lemma first_slice_effect:
  assumes run: "onSliceClosed E c ok eid db = (Inr u, db')" and new: "(consumerBackfillCounter, eid) \<notin> set (processed db)"
    and job: "rn_BackfillJobID c \<noteq> ''''"
  obtains tid jid where "e_parse_uuid E (rn_TenantID c) = Some tid" and "e_parse_uuid E (rn_BackfillJobID c) = Some jid"
    and "announced db' = announced db @ counted_facts tid jid c ok (jobs db)" and "jobs db' = counted_jobs tid jid ok (jobs db)"
proof -
  have "uow_Do E (rn_TenantID c) (once E consumerBackfillCounter eid (slice_closed E c ok)) db = (Inr u, db')"
    using run job by (simp add: onSliceClosed_def)
  then obtain s where 1: "slice_closed E c ok s = (Inr u, db')" and a: "announced s = announced db"
    and v: "view s = (view db)\<lparr>processed := (consumerBackfillCounter, eid) # processed db\<rparr>"
    using new by (rule first_run)
  have "jobs s = jobs db" using arg_cong [OF v, of jobs] by (simp add: view_def)
  then show thesis using slice_closed_effect [OF 1] job a that by auto
qed

text \<open>Whatever a delivery does, it leaves jobs and facts alone or counts one window.\<close>

lemma report_cases:
  obtains (nothing) "announced (deliver_report d db) = announced db" and "jobs (deliver_report d db) = jobs db"
  | (counted) tid jid where "e_parse_uuid (dl_env d) (rn_TenantID (dl_run d)) = Some tid"
    and "e_parse_uuid (dl_env d) (rn_BackfillJobID (dl_run d)) = Some jid"
    and "announced (deliver_report d db) = announced db @ counted_facts tid jid (dl_run d) (dl_ok d) (jobs db)"
    and "jobs (deliver_report d db) = counted_jobs tid jid (dl_ok d) (jobs db)"
proof -
  let ?E = "dl_env d" and ?c = "dl_run d" and ?i = "dl_event d"
  let ?body = "slice_closed ?E ?c (dl_ok d)"
  obtain r db' where run: "onSliceClosed ?E ?c (dl_ok d) ?i db = (r, db')"
    by (cases "onSliceClosed ?E ?c (dl_ok d) ?i db")
  then have to: "deliver_report d db = db'" by (simp add: deliver_report_def)
  show thesis
  proof (cases "rn_BackfillJobID ?c = '''' \<and> rn_CatchUpOABKey ?c = ''''")
    case True
    then have same: "deliver_report d db = db" using run to by (simp add: onSliceClosed_def)
    show ?thesis by (rule nothing) (simp_all add: same)
  next
    case False
    then have u: "uow_Do ?E (rn_TenantID ?c) (once ?E consumerBackfillCounter ?i ?body) db = (r, db')"
      using run by (simp only: onSliceClosed_def False if_False)
    show ?thesis
    proof (cases "(consumerBackfillCounter, ?i) \<in> set (processed db)")
      case True
      then have "marked (consumerBackfillCounter, ?i) db" by (simp add: marked_def)
      from once_seen [OF this, of ?E "rn_TenantID ?c" "()" ?body, unfolded u snd_conv]
      have same: "announced db' = announced db" "jobs db' = jobs db" by (auto dest: jobs_of_view)
      show ?thesis by (rule nothing) (simp_all add: same to)
    next
      case new: False
      show ?thesis
      proof (cases r)
        case (Inl e)
        then have same: "db' = db" using uow_Do_error [of ?E "rn_TenantID ?c" _ db e] u by (metis fst_conv snd_conv)
        show ?thesis by (rule nothing) (simp_all add: same to)
      next
        case (Inr x)
        from u [unfolded Inr] new obtain s where 1: "?body s = (Inr x, db')" and a: "announced s = announced db"
          and v: "view s = (view db)\<lparr>processed := (consumerBackfillCounter, ?i) # processed db\<rparr>"
          by (rule first_run)
        have j: "jobs s = jobs db" using arg_cong [OF v, of jobs] by (simp add: view_def)
        show ?thesis
        proof (cases "rn_BackfillJobID ?c = ''''")
          case True
          show ?thesis by (rule nothing) (use slice_closed_effect [OF 1] True a j to in simp_all)
        next
          case False
          then obtain tid jid where "e_parse_uuid ?E (rn_TenantID ?c) = Some tid" "e_parse_uuid ?E (rn_BackfillJobID ?c) = Some jid"
            "announced db' = announced s @ counted_facts tid jid ?c (dl_ok d) (jobs s)" "jobs db' = counted_jobs tid jid (dl_ok d) (jobs s)"
            using slice_closed_effect [OF 1] by auto
          then show ?thesis using a j to counted by simp
        qed
      qed
    qed
  qed
qed

section \<open>A backfill finishes once\<close>

text \<open>The facts that finish a job, and the rows of a closed one.\<close>

definition finishes :: "(string \<Rightarrow> string option) \<Rightarrow> string \<Rightarrow> string \<times> acq_payload \<times> instant option \<Rightarrow> bool" where
  "finishes U jid f = (case f of (_, BackfillFinished t job i n a b st, _) \<Rightarrow> U job = Some jid | _ \<Rightarrow> False)"

definition finish_count :: "(string \<Rightarrow> string option) \<Rightarrow> string \<Rightarrow> acq_db \<Rightarrow> nat" where
  "finish_count U jid s = length (filter (finishes U jid) (announced s))"

definition job_closed :: "string \<Rightarrow> backfill_job list \<Rightarrow> bool" where
  "job_closed jid t \<longleftrightarrow> (\<exists>j \<in> set t. bj_ID j = jid \<and> bj_Status j \<noteq> BackfillStatusRunning)"

lemma bumped_simps [simp]: "bj_ID (bumped ok j) = bj_ID j" "bj_TenantID (bumped ok j) = bj_TenantID j"
  "bj_Status (bumped ok j) = bj_Status j" "bj_TotalSlices (bumped ok j) = bj_TotalSlices j"
  by (simp_all add: bumped_def bump_ok_def bump_error_def)

lemma final_status_closed: "final_status j \<noteq> BackfillStatusRunning"
  by (simp add: final_status_def BackfillStatusRunning_def BackfillStatusPartial_def BackfillStatusCompleted_def)

lemma counted_ids: "map bj_ID (counted_jobs tid jid ok t) = map bj_ID t"
  by (auto simp: counted_jobs_def Let_def map_update_rows split: option.splits)

lemma job_closed_bump [simp]: "job_closed jid (update_rows P (bumped ok) t) = job_closed jid t"
proof -
  have "job_closed jid u \<longleftrightarrow> (\<exists>p \<in> set (map (\<lambda>j. (bj_ID j, bj_Status j)) u). fst p = jid \<and> snd p \<noteq> BackfillStatusRunning)" for u
    by (auto simp: job_closed_def)
  then show ?thesis by (simp only: map_update_rows [where g = "\<lambda>j. (bj_ID j, bj_Status j)"] bumped_simps)
qed

lemma job_closed_counted:
  assumes "distinct (map bj_ID t)" and named: "U (rn_BackfillJobID c) = Some b"
  shows "length (filter (finishes U jid) (counted_facts tid b c ok t)) + (if job_closed jid t then 1 else 0)
      \<le> (if job_closed jid (counted_jobs tid b ok t) then (1 :: nat) else 0)"
proof (cases "find_row (job_of tid b) t")
  case None
  then show ?thesis by (simp add: counted_facts_def counted_jobs_def)
next
  case (Some j)
  let ?u = "update_rows (job_of tid b) (bumped ok) t"
  have j: "j \<in> set t" "bj_ID j = b" "bj_TenantID j = tid" using find_row_Some [OF Some] by (auto simp: job_of_def)
  show ?thesis
  proof (cases "last_slice (bumped ok j)")
    case False
    then show ?thesis using Some by (simp add: counted_facts_def counted_jobs_def)
  next
    case True
    let ?v = "update_rows (running_job tid b) (\<lambda>r. r\<lparr>bj_Status := final_status (bumped ok j)\<rparr>) ?u"
    have run: "bj_Status j = BackfillStatusRunning" using True by (simp add: last_slice_def)
    have only: "q = j" if "q \<in> set t" "bj_ID q = b" for q
      using assms(1) j that by (metis distinct_map_inj)
    have "bumped ok j \<in> set ?u" using j by (auto simp: set_update_rows job_of_def)
    moreover have "running_job tid b (bumped ok j)" using j run by (simp add: running_job_def job_of_def)
    ultimately have hit: "(bumped ok j)\<lparr>bj_Status := final_status (bumped ok j)\<rparr> \<in> set ?v"
      by (subst set_update_rows) (metis (mono_tags))
    have "\<not> job_closed b t" using only run by (auto simp: job_closed_def)
    moreover have "job_closed b ?v"
      unfolding job_closed_def using hit j final_status_closed by (intro bexI [OF _ hit]) simp
    moreover have "job_closed jid t \<Longrightarrow> job_closed jid ?v" if "jid \<noteq> b"
      using that by (fastforce simp: job_closed_def set_update_rows running_job_def job_of_def)
    moreover have "finishes U jid (finished_fact c (bumped ok j)) \<longleftrightarrow> jid = b"
      using named by (auto simp: finishes_def finished_fact_def)
    ultimately show ?thesis using Some True by (auto simp: counted_facts_def counted_jobs_def Let_def)
  qed
qed

definition within_one :: "(string \<Rightarrow> string option) \<Rightarrow> string \<Rightarrow> acq_db \<Rightarrow> bool" where
  "within_one U jid s \<longleftrightarrow> distinct (map bj_ID (jobs s))
     \<and> finish_count U jid s \<le> (if job_closed jid (jobs s) then 1 else 0)"

lemma report_within_one:
  assumes "within_one U jid s" and "e_parse_uuid (dl_env d) = U"
  shows "within_one U jid (deliver_report d s)"
proof (cases rule: report_cases [of d s])
  case nothing
  then show ?thesis using assms(1) by (simp add: within_one_def finish_count_def)
next
  case (counted tid b)
  then have b: "U (rn_BackfillJobID (dl_run d)) = Some b" using assms(2) by simp
  have dist: "distinct (map bj_ID (jobs s))" using assms(1) by (simp add: within_one_def)
  show ?thesis
    using assms(1) job_closed_counted [where U = U and c = "dl_run d" and b = b and t = "jobs s" and jid = jid and tid = tid and ok = "dl_ok d", OF dist b] counted(3,4)
    by (auto simp: within_one_def finish_count_def counted_ids split: if_splits)
qed

text \<open>
  however often the reports of closed windows are delivered, in whatever order and with
  whatever failures, a backfill announces that it finished at most once.
\<close>

theorem backfill_finishes_once:
  assumes "\<forall>d \<in> set ds. e_parse_uuid (dl_env d) = U"
    and "distinct (map bj_ID (jobs db))"
    and "finish_count U jid db \<le> (if job_closed jid (jobs db) then 1 else 0)"
  shows "finish_count U jid (fold deliver_report ds db) \<le> 1"
proof -
  have "within_one U jid db" using assms(2,3) by (simp add: within_one_def)
  then have "within_one U jid (fold deliver_report ds db)"
    using assms(1) by (induction ds arbitrary: db) (simp_all add: report_within_one)
  then show ?thesis by (simp add: within_one_def split: if_splits)
qed

section \<open>Opening a backfill\<close>



lemma fact_of_slice [simp]: "fact_of (newSyncRequested q eid) = (''acquisition.sync_requested'', SyncRequested q, None)"
  by (simp add: fact_of_def newSyncRequested_def acq_event_def scheduledAt_def)





section \<open>A backfill finishes\<close>

lemma slice_closed_returns:
  assumes "calm E" and "e_parse_uuid E (rn_TenantID c) = Some tid" and "e_parse_uuid E (rn_BackfillJobID c) = Some jid"
    and "rn_CatchUpOABKey c = ''''"
  shows "\<exists>s'. slice_closed E c ok s = (Inr (), s')"
proof (cases "find_row (job_of tid jid) (jobs s)")
  case None
  then show ?thesis using assms
    by (simp add: slice_closed_def count_slice_def incrementSlice_alt increment_def with_ids_Some bind_def attempt_def stmt_calm)
next
  case (Some j)
  then show ?thesis using assms
    by (simp add: slice_closed_def count_slice_def incrementSlice_alt increment_def with_ids_Some bind_def attempt_def stmt_calm
        finalizeIfComplete_def FinalizeBackfillJob_def publish_new_def publish_def next_id_def)
qed

lemma slice_closed_marks: "keeps (\<lambda>s. processed s = X) (slice_closed E c ok)"
proof -
  have t: "tabular (\<lambda>s. processed s = X)" by (simp add: tabular_def frame_def insert_outbox_def)
  have inc: "keeps (\<lambda>s. processed s = X) (incrementSlice E c ok)"
    unfolding incrementSlice_alt increment_def
    by (intro keeps_rules tabular_frame [OF t]) (auto simp: keeps_def split: option.splits)
  show ?thesis
    unfolding slice_closed_def count_slice_def finalizeIfComplete_def FinalizeBackfillJob_def clearCatchUp_def
      ClearWatchedOABCatchUp_def
    by (intro keeps_rules tabular_frame [OF t] t inc) simp_all
qed

lemma report_first:
  assumes "calm (dl_env d)" and "e_parse_uuid (dl_env d) (rn_TenantID (dl_run d)) = Some tid"
    and "e_parse_uuid (dl_env d) (rn_BackfillJobID (dl_run d)) = Some jid"
    and "rn_BackfillJobID (dl_run d) \<noteq> ''''" and "rn_CatchUpOABKey (dl_run d) = ''''" and "mark_of d \<notin> set (processed db)"
  shows "announced (deliver_report d db) = announced db @ counted_facts tid jid (dl_run d) (dl_ok d) (jobs db)"
    and "jobs (deliver_report d db) = counted_jobs tid jid (dl_ok d) (jobs db)"
    and "processed (deliver_report d db) = mark_of d # processed db"
proof -
  let ?E = "dl_env d" and ?c = "dl_run d" and ?i = "dl_event d"
  let ?body = "slice_closed ?E ?c (dl_ok d)"
  have slice: "onSliceClosed ?E ?c (dl_ok d) ?i = uow_Do ?E (rn_TenantID ?c) (once ?E consumerBackfillCounter ?i ?body)"
    using assms(4) by (simp add: onSliceClosed_def)
  let ?s = "db\<lparr>reads := 0, stmts := (if rn_TenantID ?c \<noteq> '''' then 1 else 0)\<rparr>"
  let ?m = "?s\<lparr>stmts := Suc (stmts ?s), processed := mark_of d # processed db\<rparr>"
  obtain db' where body: "?body ?m = (Inr (), db')" using slice_closed_returns [OF assms(1-3,5)] by blast
  have "once ?E consumerBackfillCounter ?i ?body ?s = (Inr (), db')"
    using body assms(6) unfolding once_or_def SeenOrMark_def
    by (simp add: bind_def stmt_calm [OF assms(1)] seen_or_mark_def mark_of_def)
  then have run: "onSliceClosed ?E ?c (dl_ok d) ?i db = (Inr (), db')"
    unfolding slice by (simp add: uow_Do_calm [OF assms(1)])
  then have to: "deliver_report d db = db'" by (simp add: deliver_report_def)
  have "announced db' = announced db @ counted_facts tid jid ?c (dl_ok d) (jobs db) \<and> jobs db' = counted_jobs tid jid (dl_ok d) (jobs db)"
    using slice_closed_effect [OF body] assms(2-4) by (simp add: announced_def)
  then show "announced (deliver_report d db) = announced db @ counted_facts tid jid (dl_run d) (dl_ok d) (jobs db)"
    and "jobs (deliver_report d db) = counted_jobs tid jid (dl_ok d) (jobs db)" by (simp_all add: to)
  show "processed (deliver_report d db) = mark_of d # processed db"
    using keeps_run [OF slice_closed_marks body, of "mark_of d # processed db"] by (simp add: to)
qed

text \<open>The row of a job along the deliveries, and the hypotheses on a delivery that counts for it.\<close>

definition advance :: "delivery list \<Rightarrow> backfill_job \<Rightarrow> backfill_job" where
  "advance ds j = fold (\<lambda>d. bumped (dl_ok d)) ds j"

definition counts_for :: "string \<Rightarrow> string \<Rightarrow> acq_db \<Rightarrow> delivery \<Rightarrow> bool" where
  "counts_for tid jid db d \<longleftrightarrow> calm (dl_env d) \<and> e_parse_uuid (dl_env d) (rn_TenantID (dl_run d)) = Some tid
     \<and> e_parse_uuid (dl_env d) (rn_BackfillJobID (dl_run d)) = Some jid \<and> rn_BackfillJobID (dl_run d) \<noteq> ''''
     \<and> rn_CatchUpOABKey (dl_run d) = '''' \<and> mark_of d \<notin> set (processed db)"

lemma find_updated:
  assumes "find_row (job_of tid jid) t = Some j" and "bj_ID (f j) = bj_ID j" and "bj_TenantID (f j) = bj_TenantID j"
    and "P j" and "\<And>q. P q \<Longrightarrow> job_of tid jid q"
  shows "find_row (job_of tid jid) (update_rows P f t) = Some (f j)"
  using assms(1)
proof (induction t)
  case Nil
  then show ?case by (simp add: find_row_def)
next
  case (Cons q t)
  show ?case
  proof (cases "job_of tid jid q")
    case True
    then have "q = j" using Cons.prems by (simp add: find_row_def)
    then show ?thesis using True assms(2-4) by (simp add: find_row_def update_rows_def job_of_def)
  next
    case False
    then have "\<not> P q" using assms(5) by blast
    then show ?thesis using Cons False by (simp add: find_row_def update_rows_def)
  qed
qed

lemma bumped_sum: "bj_SlicesOK (bumped ok j) + bj_SlicesError (bumped ok j) = bj_SlicesOK j + bj_SlicesError j + 1"
  by (simp add: bumped_def bump_ok_def bump_error_def)

lemma run_deliveries:
  assumes "\<forall>d \<in> set ds. counts_for tid jid db d" and "distinct (map dl_event ds)" and "distinct (map bj_ID (jobs db))"
    and "find_row (job_of tid jid) (jobs db) = Some j" and "bj_Status j = BackfillStatusRunning"
    and "bj_SlicesOK j + bj_SlicesError j + int (length ds) = bj_TotalSlices j" and "ds \<noteq> []"
  shows "announced (fold deliver_report ds db) = announced db @ [finished_fact (dl_run (last ds)) (advance ds j)]
    \<and> find_row (job_of tid jid) (jobs (fold deliver_report ds db)) = Some ((advance ds j)\<lparr>bj_Status := final_status (advance ds j)\<rparr>)"
  using assms
proof (induction ds arbitrary: db j)
  case Nil
  then show ?case by simp
next
  case (Cons d ds)
  have d: "counts_for tid jid db d" using Cons.prems(1) by simp
  note first = report_first [of d tid jid db]
  have to: "announced (deliver_report d db) = announced db @ counted_facts tid jid (dl_run d) (dl_ok d) (jobs db)"
    "jobs (deliver_report d db) = counted_jobs tid jid (dl_ok d) (jobs db)" "processed (deliver_report d db) = mark_of d # processed db"
    using first d unfolding counts_for_def by auto
  let ?u = "update_rows (job_of tid jid) (bumped (dl_ok d)) (jobs db)"
  have row: "find_row (job_of tid jid) ?u = Some (bumped (dl_ok d) j)"
    using find_row_Some [OF Cons.prems(4)] by (intro find_updated [OF Cons.prems(4)]) simp_all
  have dist: "distinct (map bj_ID ?u)" using Cons.prems(3) by (simp add: map_update_rows)
  have last: "last_slice (bumped (dl_ok d) j) \<longleftrightarrow> ds = []"
    using Cons.prems(5,6) bumped_sum [of "dl_ok d" j] by (cases ds) (simp_all add: last_slice_def)
  show ?case
  proof (cases "ds = []")
    case True
    let ?f = "\<lambda>r. r\<lparr>bj_Status := final_status (bumped (dl_ok d) j)\<rparr>"
    have "find_row (job_of tid jid) (update_rows (running_job tid jid) ?f ?u) = Some (?f (bumped (dl_ok d) j))"
      using find_row_Some [OF row] Cons.prems(5)
      by (intro find_updated [OF row]) (simp_all add: running_job_def)
    then show ?thesis
      using True last to Cons.prems(4) by (simp add: counted_facts_def counted_jobs_def advance_def Let_def)
  next
    case False
    have jobs: "jobs (deliver_report d db) = ?u" "announced (deliver_report d db) = announced db"
      using False last to Cons.prems(4) by (simp_all add: counted_facts_def counted_jobs_def Let_def)
    have "\<forall>e \<in> set ds. counts_for tid jid (deliver_report d db) e"
      using Cons.prems(1,2) to(3) by (auto simp: counts_for_def mark_of_def) (metis imageI)
    then have "announced (fold deliver_report ds (deliver_report d db))
        = announced (deliver_report d db) @ [finished_fact (dl_run (last ds)) (advance ds (bumped (dl_ok d) j))]
      \<and> find_row (job_of tid jid) (jobs (fold deliver_report ds (deliver_report d db)))
        = Some ((advance ds (bumped (dl_ok d) j))\<lparr>bj_Status := final_status (advance ds (bumped (dl_ok d) j))\<rparr>)"
      using False Cons.prems jobs row dist bumped_sum [of "dl_ok d" j] by (intro Cons.IH) simp_all
    then show ?thesis using False jobs by (simp add: advance_def)
  qed
qed

lemma advance_tally:
  "bj_SlicesOK (advance ds j) = bj_SlicesOK j + int (length (filter dl_ok ds))
   \<and> bj_SlicesError (advance ds j) = bj_SlicesError j + int (length (filter (\<lambda>d. \<not> dl_ok d) ds))
   \<and> bj_TotalSlices (advance ds j) = bj_TotalSlices j"
  by (induction ds arbitrary: j) (auto simp: advance_def bumped_def bump_ok_def bump_error_def)

text \<open>
  when each window of a running backfill has been reported closed once, in any order, the
  job is closed and announces exactly that: COMPLETED if every window was fetched, PARTIAL
  otherwise, with the number of each.
\<close>

theorem backfill_completes:
  assumes "\<forall>d \<in> set ds. counts_for tid jid db d" and "distinct (map dl_event ds)" and "distinct (map bj_ID (jobs db))"
    and "find_row (job_of tid jid) (jobs db) = Some j" and "bj_Status j = BackfillStatusRunning"
    and "bj_SlicesOK j = 0" and "bj_SlicesError j = 0" and "bj_TotalSlices j = int (length ds)" and "ds \<noteq> []"
  defines "n \<equiv> int (length (filter dl_ok ds))"
  defines "st \<equiv> (if n = int (length ds) then BackfillStatusCompleted else BackfillStatusPartial)"
  shows "\<exists>k. find_row (job_of tid jid) (jobs (fold deliver_report ds db)) = Some k
    \<and> bj_Status k = st \<and> bj_SlicesOK k = n \<and> bj_SlicesError k = int (length ds) - n
    \<and> announced (fold deliver_report ds db) = announced db @ [(''acquisition.backfill_finished'',
        BackfillFinished (rn_TenantID (dl_run (last ds))) (rn_BackfillJobID (dl_run (last ds)))
          (rn_IntegrationID (dl_run (last ds))) (int (length ds)) n (int (length ds) - n) st, None)]"
proof -
  have split: "int (length (filter (\<lambda>d. \<not> dl_ok d) ds)) = int (length ds) - n"
    using sum_length_filter_compl [of dl_ok ds] by (simp add: n_def flip: of_nat_add)
  have t: "bj_SlicesOK (advance ds j) = n" "bj_SlicesError (advance ds j) = int (length ds) - n"
    "bj_TotalSlices (advance ds j) = int (length ds)"
    using advance_tally [of ds j] assms(6-8) split by (simp_all add: n_def)
  have "n \<le> int (length ds)" by (simp add: n_def)
  then have st: "final_status (advance ds j) = st" using t by (auto simp: final_status_def st_def)
  show ?thesis
    using run_deliveries [OF assms(1-5) _ assms(9)] assms(6-8) t st
    by (intro exI [of _ "(advance ds j)\<lparr>bj_Status := final_status (advance ds j)\<rparr>"])
      (simp add: finished_fact_def)
qed

section \<open>A backfill of two windows\<close>

definition two_windows :: backfill_job where
  "two_windows = \<lparr>bj_ID = ''job'', bj_TenantID = ''ten'', bj_IntegrationID = ''int'', bj_WindowFrom = clerk_day - 10,
     bj_WindowTo = clerk_day, bj_TotalSlices = 2, bj_SlicesOK = 0, bj_SlicesError = 0, bj_Status = BackfillStatusRunning,
     bj_TriggerReason = TriggerReasonOABAdded, bj_TriggerOABs = [''SP123'']\<rparr>"

definition two_windows_db :: acq_db where "two_windows_db = blank_acq\<lparr>jobs := [two_windows]\<rparr>"

definition window_report :: "int \<Rightarrow> bool \<Rightarrow> string \<Rightarrow> delivery" where
  "window_report i ok eid = \<lparr>dl_env = clerk_acq, dl_run = \<lparr>rn_TenantID = ''ten'', rn_SyncRunID = ''run'',
     rn_IntegrationID = ''int'', rn_BackfillJobID = ''job'', rn_SliceIndex = i, rn_CatchUpOABKey = '''',
     rn_CatchUpSince = None\<rparr>, dl_ok = ok, dl_event = eid\<rparr>"

definition two_reports :: "delivery list" where
  "two_reports = [window_report 1 True ''e1'', window_report 0 False ''e2'']"

lemmas two_windows_defs = two_windows_def two_windows_db_def window_report_def two_reports_def

theorem backfill_completes_witness:
  "\<exists>k. find_row (job_of ''ten'' ''job'') (jobs (fold deliver_report two_reports two_windows_db)) = Some k
    \<and> bj_Status k = BackfillStatusPartial \<and> bj_SlicesOK k = 1 \<and> bj_SlicesError k = 1"
proof -
  have "\<forall>d \<in> set two_reports. counts_for ''ten'' ''job'' two_windows_db d"
    by (simp add: two_windows_defs counts_for_def blank_acq_def)
  then show ?thesis
    using backfill_completes [of two_reports "''ten''" "''job''" two_windows_db two_windows]
    by (auto simp: two_windows_defs blank_acq_def find_row_def job_of_def)
qed

theorem backfill_finishes_once_witness:
  "finish_count Some ''job'' (fold deliver_report (two_reports @ two_reports) two_windows_db) \<le> 1"
  by (rule backfill_finishes_once)
    (auto simp: two_windows_defs blank_acq_def finish_count_def announced_def)


end
