(* ===== verification/AcquisitionEnrich.thy ===== *)
theory AcquisitionEnrich
  imports AcquisitionSync
begin

text \<open>
  \<open>internal/acquisition/enrichment.go\<close>: DataJud reveals the degree of a record, which is graded
  in place, or merged into the record that already has the degree.
\<close>

section \<open>Repository\<close>

definition GetCourtRecordByKey :: "acq_env \<Rightarrow> string \<Rightarrow> string \<Rightarrow> string \<Rightarrow> court_row option atx" where
  "GetCourtRecordByKey E tenantID cnj degree = bind (parseUUID E tenantID) (\<lambda>tid.
     stmt E (read_st (\<lambda>s. find_row (has_key tid (cnj, degree)) (records s))))"

definition record_of :: "string \<Rightarrow> string \<Rightarrow> court_row \<Rightarrow> bool" where
  "record_of tid rid r \<longleftrightarrow> cw_ID r = rid \<and> cw_TenantID r = tid"

definition graded_row :: "parsed_record \<Rightarrow> instant \<Rightarrow> court_row \<Rightarrow> court_row" where
  "graded_row g next r = r\<lparr>cw_Degree := pr_Degree g, cw_Court := pr_Court g, cw_Class := pr_Class g,
     cw_Subject := pr_Subject g, cw_JudgingBody := pr_JudgingBody g, cw_FiledAt := pr_FiledAt g, cw_Secrecy := pr_Secrecy g,
     cw_Completeness := pr_Completeness g,
     cw_NextSyncAt := (case cw_NextSyncAt r of None \<Rightarrow> (if next = zero_time then None else Some next) | Some t \<Rightarrow> Some t),
     cw_Lifecycle := (if cw_Lifecycle r = LifecycleSuperseded then cw_Lifecycle r else kept (pr_Lifecycle g) (cw_Lifecycle r)),
     cw_Phase := kept (pr_Phase g) (cw_Phase r)\<rparr>"

text \<open>
  The record after the grade, with its lifecycle before it. Another record of the tenant with
  the new key violates the unique constraint.
\<close>

definition UpdateCourtRecordGrade :: "acq_env \<Rightarrow> string \<Rightarrow> string \<Rightarrow> parsed_record \<Rightarrow> instant \<Rightarrow> (court_row \<times> string) atx" where
  "UpdateCourtRecordGrade E tenantID recordID g next = with_ids E tenantID recordID (\<lambda>tid rid. stmt E (\<lambda>s.
     case find_row (record_of tid rid) (records s) of
       None \<Rightarrow> (Inl ErrRecordNotFound, s)
     | Some r \<Rightarrow>
         if \<exists>q \<in> set (records s). cw_ID q \<noteq> rid \<and> has_key tid (row_key (graded_row g next r)) q then (Inl WrapInfra, s)
         else (Inr (graded_row g next r, cw_Lifecycle r),
               s\<lparr>records := update_rows (record_of tid rid) (graded_row g next) (records s)\<rparr>)))"

definition with_records :: "acq_env \<Rightarrow> string \<Rightarrow> string \<Rightarrow> string \<Rightarrow> (string \<Rightarrow> string \<Rightarrow> string \<Rightarrow> 'a atx) \<Rightarrow> 'a atx" where
  "with_records E tenantID a b k = bind (parseUUID E tenantID) (\<lambda>tid. with_ids E a b (k tid))"

definition RepointIntimations :: "acq_env \<Rightarrow> string \<Rightarrow> string \<Rightarrow> string \<Rightarrow> unit atx" where
  "RepointIntimations E tenantID fromID toID = with_records E tenantID fromID toID (\<lambda>tid a b. stmt E (modify_st (\<lambda>s.
     s\<lparr>intims := update_rows (\<lambda>i. iw_TenantID i = tid \<and> iw_CourtRecordID i = a) (\<lambda>i. i\<lparr>iw_CourtRecordID := b\<rparr>) (intims s)\<rparr>)))"

definition RepointDeadlines :: "acq_env \<Rightarrow> string \<Rightarrow> string \<Rightarrow> string \<Rightarrow> unit atx" where
  "RepointDeadlines E tenantID fromID toID = with_records E tenantID fromID toID (\<lambda>tid a b. stmt E (modify_st (\<lambda>s.
     s\<lparr>anchored := update_rows (\<lambda>d. an_TenantID d = tid \<and> an_CourtRecordID d = a) (\<lambda>d. d\<lparr>an_CourtRecordID := b\<rparr>) (anchored s)\<rparr>)))"

definition SupersedeCourtRecord :: "acq_env \<Rightarrow> string \<Rightarrow> string \<Rightarrow> bool atx" where
  "SupersedeCourtRecord E tenantID recordID = with_ids E tenantID recordID (\<lambda>tid rid. stmt E (\<lambda>s.
     let live = (\<lambda>r. record_of tid rid r \<and> cw_Lifecycle r \<noteq> LifecycleSuperseded) in
     (Inr (find_row live (records s) \<noteq> None),
      s\<lparr>records := update_rows live (\<lambda>r. r\<lparr>cw_Lifecycle := LifecycleSuperseded, cw_NextSyncAt := None\<rparr>) (records s)\<rparr>)))"

definition GetCaseAssignedUser :: "acq_env \<Rightarrow> string \<Rightarrow> string \<Rightarrow> string option atx" where
  "GetCaseAssignedUser E tenantID caseID = with_ids E tenantID caseID (\<lambda>tid cid.
     bind (select_one E cases (\<lambda>c. cc_ID c = cid \<and> cc_TenantID c = tid) ErrProcessoNotFound) (\<lambda>c.
     ret (if cc_AssignedUserID c = '''' then None else Some (cc_AssignedUserID c))))"

definition assigneePtrToUUID :: "acq_env \<Rightarrow> string option \<Rightarrow> string atx" where
  "assigneePtrToUUID E u = (case u of None \<Rightarrow> ret '''' | Some x \<Rightarrow> (case e_parse_uuid E x of
     None \<Rightarrow> fail (NewInvalid (''id de usu'' @ [CHR 0xC3, CHR 0xA1] @ ''rio inv'' @ [CHR 0xC3, CHR 0xA1] @ ''lido'')) | Some v \<Rightarrow> ret v))"

definition of_case :: "acq_db \<Rightarrow> string \<Rightarrow> string list \<Rightarrow> intim_row \<Rightarrow> bool" where
  "of_case s tid cids i \<longleftrightarrow> iw_TenantID i = tid
     \<and> (\<exists>r \<in> set (records s). cw_ID r = iw_CourtRecordID i \<and> cw_CaseID r \<in> set cids)"

definition CascadeCaseResponsibleToIntimations :: "acq_env \<Rightarrow> string \<Rightarrow> string \<Rightarrow> string option \<Rightarrow> unit atx" where
  "CascadeCaseResponsibleToIntimations E tenantID caseID u = with_ids E tenantID caseID (\<lambda>tid cid.
     bind (assigneePtrToUUID E u) (\<lambda>v. stmt E (modify_st (\<lambda>s.
       s\<lparr>intims := update_rows (of_case s tid [cid]) (\<lambda>i. i\<lparr>iw_AssigneeUserID := v\<rparr>) (intims s)\<rparr>))))"

section \<open>The grade\<close>

text \<open>Movimentos become docket entries of the graded record.\<close>

definition enrichDocketParams :: "string \<Rightarrow> parsed_entry list \<Rightarrow> docket_params list" where
  "enrichDocketParams recordID ms = map (\<lambda>pd. \<lparr>dp_CourtRecordID = recordID, dp_Hash = pe_Hash pd,
     dp_OccurredAt = pe_OccurredAt pd, dp_ObservedAt = pe_ObservedAt pd, dp_Source = pe_Source pd,
     dp_Fidelity = pe_Fidelity pd, dp_Text = pe_Text pd, dp_TPUCode = pe_TPUCode pd, dp_Complements = pe_Complements pd\<rparr>) ms"

definition merge_into :: "acq_env \<Rightarrow> string \<Rightarrow> string \<Rightarrow> court_row \<Rightarrow> unit atx" where
  "merge_into E tenantID recordID existing =
     bind (RepointIntimations E tenantID recordID (cw_ID existing)) (\<lambda>_.
     bind (RepointDeadlines E tenantID recordID (cw_ID existing)) (\<lambda>_.
     bind (SupersedeCourtRecord E tenantID recordID) (\<lambda>transitioned.
     bind (if transitioned then publish_new E (newCourtRecordSuperseded tenantID recordID) else ret ()) (\<lambda>_.
     bind (GetCaseAssignedUser E tenantID (cw_CaseID existing)) (\<lambda>u.
     CascadeCaseResponsibleToIntimations E tenantID (cw_CaseID existing) u)))))"

definition grade_target :: "acq_env \<Rightarrow> string \<Rightarrow> string \<Rightarrow> parsed_record \<Rightarrow> string atx" where
  "grade_target E tenantID recordID g =
     bind (GetCourtRecordByKey E tenantID (pr_CNJNumber g) (pr_Degree g)) (\<lambda>found. case found of
       None \<Rightarrow> ret recordID
     | Some existing \<Rightarrow> if cw_ID existing = recordID then ret recordID
         else bind (merge_into E tenantID recordID existing) (\<lambda>_. ret (cw_ID existing)))"

definition gradeInTx :: "acq_env \<Rightarrow> string \<Rightarrow> string \<Rightarrow> parsed_record \<Rightarrow> parsed_entry list \<Rightarrow> known_entry list atx" where
  "gradeInTx E tenantID recordID g ms =
     bind (grade_target E tenantID recordID g) (\<lambda>target.
     bind (now_tx E) (\<lambda>t.
     bind (UpdateCourtRecordGrade E tenantID target g (t + defaultSyncInterval)) (\<lambda>(r, old).
     bind (if old \<noteq> LifecycleArchived \<and> cw_Lifecycle r = LifecycleArchived
           then publish_new E (newCourtRecordArchived tenantID (cw_ID r)) else ret ()) (\<lambda>_.
     UpsertDocketEntries E (enrichDocketParams (cw_ID r) ms)))))"

section \<open>One record (enrichment.go)\<close>

definition consumerEnrichment :: string where "consumerEnrichment = ''acquisition.enrichment''"

definition apply_grade :: "acq_env \<Rightarrow> record_observed \<Rightarrow> parsed_record \<Rightarrow> parsed_entry list \<Rightarrow> unit atx" where
  "apply_grade E ev g ms =
     bind (gradeInTx E (ro_TenantID ev) (ro_CourtRecordID ev) g ms) (\<lambda>newDocket.
     publish_all E (map (newDocketEntryObservedFromEnrich ev) newDocket))"

definition applyEnrichment :: "acq_env \<Rightarrow> record_observed \<Rightarrow> string \<Rightarrow> parsed_record \<Rightarrow> parsed_entry list \<Rightarrow> unit atx" where
  "applyEnrichment E ev eventID g ms = uow_Do E (ro_TenantID ev)
     (bind (AcquireTenantWriteLock E (ro_TenantID ev)) (\<lambda>_. once E consumerEnrichment eventID (apply_grade E ev g ms)))"

definition fetch_by_number :: "record_observed \<Rightarrow> fetch_request" where
  "fetch_by_number ev = \<lparr>fr_Capability = CapabilityFetchByNumber, fr_IntegrationID = '''', fr_WindowFrom = '''',
     fr_WindowTo = '''', fr_OABs = [], fr_CNJNumber = ro_CNJNumber ev, fr_Court = ro_Court ev, fr_CNJNumbers = []\<rparr>"

definition enrich_parsed :: "acq_env \<Rightarrow> record_observed \<Rightarrow> string \<Rightarrow> parsed_result \<Rightarrow> unit atx" where
  "enrich_parsed E ev eventID parsed = (case ps_CourtRecords parsed of
     [] \<Rightarrow> ret ()
   | g # _ \<Rightarrow> if pr_Degree g = DegreeUnknown then ret ()
       else if ro_Degree ev \<noteq> DegreeUnknown \<and> pr_Degree g \<noteq> ro_Degree ev then ret ()
       else applyEnrichment E ev eventID g (ps_DocketEntries parsed))"

definition OnCourtRecordObserved :: "acq_env \<Rightarrow> record_observed \<Rightarrow> string \<Rightarrow> unit atx" where
  "OnCourtRecordObserved E ev eventID =
     (if ro_CNJNumber ev = '''' \<or> ro_Court ev = '''' then ret ()
      else if ro_BackfillJobID ev \<noteq> '''' then ret ()
      else case ConnectorFor E SourceDATAJUD of
        Inl e \<Rightarrow> fail (PlainErr (''resolve connector for source \"'' @ SourceDATAJUD @ ''\": '' @ Error_text e))
      | Inr cn \<Rightarrow> (case cn_Fetch cn (fetch_by_number ev) of
          Inl e \<Rightarrow> fail (PlainErr (''datajud fetch '' @ ro_Court ev @ ''/'' @ ro_CNJNumber ev @ '': '' @ Error_text e))
        | Inr raw \<Rightarrow> (case a_parse E raw of
            Inl e \<Rightarrow> fail (SkipRetry (''parse datajud payload: '' @ Error_text e))
          | Inr parsed \<Rightarrow> enrich_parsed E ev eventID parsed)))"

end
