(* ===== verification/AcquisitionBatch.thy ===== *)
theory AcquisitionBatch
  imports AcquisitionEnrich "HOL-Library.Char_ord" "HOL-Library.List_Lexorder"
begin

text \<open>
  \<open>internal/acquisition/enrichment_batch.go\<close> and \<open>scheduler.go\<close>: the records an import
  discovered are enriched in batches, a page of due records per step, until none is due and the
  import's row is closed; the scheduler asks again for every record whose next sync is due.
\<close>

section \<open>The batch of an import (enrichment_batch.go, queries/enrichment.sql, queries/captures.sql)\<close>

definition consumerEnrichmentBatch :: string where "consumerEnrichmentBatch = ''acquisition.enrichment_batch''"

definition enrichmentBatchScanLimit :: nat where "enrichmentBatchScanLimit = 1000"

text \<open>
  \<open>completeness < 0.9\<close>: a \<open>real\<close> column is compared with a numeric literal as a double, so the
  column's 0.9, the float below it, is less than the literal.
\<close>

definition below_ceiling :: "int \<Rightarrow> bool" where
  "below_ceiling c \<longleftrightarrow> 10 * c < 9 * 2 ^ 25"

definition due_row :: "string \<Rightarrow> court_row \<Rightarrow> bool" where
  "due_row tid r \<longleftrightarrow> cw_TenantID r = tid \<and> below_ceiling (cw_Completeness r)
     \<and> cw_EnrichmentAttemptedAt r = None \<and> cw_Lifecycle r \<noteq> LifecycleSuperseded"

text \<open>\<open>ORDER BY id\<close>, which for canonical uuids is the order of their texts.\<close>

definition SelectDueForEnrichment :: "acq_env \<Rightarrow> string \<Rightarrow> string \<Rightarrow> nat \<Rightarrow> court_row list atx" where
  "SelectDueForEnrichment E tenantID court n = bind (parseUUID E tenantID) (\<lambda>tid. stmt E (read_st (\<lambda>s.
     take n (sort_key cw_ID (filter (\<lambda>r. due_row tid r \<and> cw_Court r = court) (records s))))))"

definition CountRemainingDueForJob :: "acq_env \<Rightarrow> string \<Rightarrow> string \<Rightarrow> nat atx" where
  "CountRemainingDueForJob E tenantID jobID = with_ids E tenantID jobID (\<lambda>tid _. stmt E (read_st (\<lambda>s.
     length (filter (due_row tid) (records s)))))"

definition MarkEnrichmentAttempted :: "acq_env \<Rightarrow> string \<Rightarrow> string list \<Rightarrow> instant \<Rightarrow> unit atx" where
  "MarkEnrichmentAttempted E tenantID ids at =
     (if ids = [] then ret ()
      else bind (parseUUID E tenantID) (\<lambda>tid. bind (map_tx (parseUUID E) ids) (\<lambda>rids. stmt E (modify_st (\<lambda>s.
        s\<lparr>records := update_rows (\<lambda>r. cw_TenantID r = tid \<and> cw_ID r \<in> set rids)
            (\<lambda>r. r\<lparr>cw_EnrichmentAttemptedAt := Some at\<rparr>) (records s)\<rparr>)))))"

definition enrichment_row :: "string \<Rightarrow> string \<Rightarrow> instant \<Rightarrow> string \<Rightarrow> int \<Rightarrow> int \<Rightarrow> capture_run" where
  "enrichment_row tid jid at status n errs = \<lparr>ca_TenantID = tid, ca_Kind = ''ENRICHMENT'', ca_Window = None,
     ca_BackfillJobID = jid, ca_StartedAt = at, ca_FinishedAt = at, ca_Status = status, ca_CourtRecordsNew = 0,
     ca_CourtRecordsUpdated = n, ca_IntimationsNew = 0, ca_Errors = errs\<rparr>"

definition enrichment_of :: "string \<Rightarrow> capture_run \<Rightarrow> bool" where
  "enrichment_of jid c \<longleftrightarrow> ca_Kind c = ''ENRICHMENT'' \<and> ca_BackfillJobID c = jid"

definition IncrementImportEnrichmentRunBy :: "acq_env \<Rightarrow> string \<Rightarrow> string \<Rightarrow> int \<Rightarrow> int \<Rightarrow> instant \<Rightarrow> unit atx" where
  "IncrementImportEnrichmentRunBy E tenantID jobID delta errs at = with_ids E tenantID jobID (\<lambda>tid jid. stmt E (modify_st (\<lambda>s.
     s\<lparr>captures := (if find_row (enrichment_of jid) (captures s) = None
         then captures s @ [enrichment_row tid jid at ''RUNNING'' (to_int32 delta) (to_int32 errs)]
         else update_rows (enrichment_of jid) (\<lambda>c. c\<lparr>ca_CourtRecordsUpdated := ca_CourtRecordsUpdated c + to_int32 delta,
           ca_Errors := ca_Errors c + to_int32 errs, ca_FinishedAt := at\<rparr>) (captures s))\<rparr>)))"

definition GetImportEnrichmentCounter :: "acq_env \<Rightarrow> string \<Rightarrow> string \<Rightarrow> (int \<times> int) option atx" where
  "GetImportEnrichmentCounter E tenantID jobID = with_ids E tenantID jobID (\<lambda>tid jid. stmt E (read_st (\<lambda>s.
     map_option (\<lambda>c. (ca_CourtRecordsUpdated c, ca_Errors c))
       (find_row (\<lambda>c. ca_TenantID c = tid \<and> enrichment_of jid c) (captures s)))))"

definition CountImportDiscoveredRecords :: "acq_env \<Rightarrow> string \<Rightarrow> string \<Rightarrow> int atx" where
  "CountImportDiscoveredRecords E tenantID jobID = with_ids E tenantID jobID (\<lambda>tid jid. stmt E (read_st (\<lambda>s.
     sum_list (map sr_CourtRecordsNew (filter (\<lambda>r. sr_TenantID r = tid \<and> sr_BackfillJobID r = jid) (runs s))))))"

definition CloseImportEnrichmentRun :: "acq_env \<Rightarrow> string \<Rightarrow> string \<Rightarrow> string \<Rightarrow> instant \<Rightarrow> unit atx" where
  "CloseImportEnrichmentRun E tenantID jobID status at = with_ids E tenantID jobID (\<lambda>tid jid. stmt E (modify_st (\<lambda>s.
     s\<lparr>captures := update_rows (\<lambda>c. ca_TenantID c = tid \<and> enrichment_of jid c)
         (\<lambda>c. c\<lparr>ca_Status := status, ca_FinishedAt := at\<rparr>) (captures s)\<rparr>)))"

definition InsertEmptyImportEnrichmentRun :: "acq_env \<Rightarrow> string \<Rightarrow> string \<Rightarrow> string \<Rightarrow> instant \<Rightarrow> unit atx" where
  "InsertEmptyImportEnrichmentRun E tenantID jobID status at = with_ids E tenantID jobID (\<lambda>tid jid. stmt E (modify_st (\<lambda>s.
     if find_row (enrichment_of jid) (captures s) = None
     then s\<lparr>captures := captures s @ [enrichment_row tid jid at status 0 0]\<rparr> else s)))"

definition enrichmentTerminalStatus :: "int \<Rightarrow> string" where
  "enrichmentTerminalStatus errs = (if 0 < errs then BackfillStatusPartial else SyncStatusOK)"

text \<open>What the pages of a batch parse to: the processes by number, and how many hits did not parse.\<close>

type_synonym batch_result = "(string \<rightharpoonup> parsed_record \<times> parsed_entry list) \<times> nat"

definition grade_due :: "acq_env \<Rightarrow> string \<Rightarrow> (string \<rightharpoonup> parsed_record \<times> parsed_entry list) \<Rightarrow> court_row \<Rightarrow> nat atx" where
  "grade_due E tenantID byNumber d = (case byNumber (cw_CNJNumber d) of
     None \<Rightarrow> ret 0
   | Some (g, ms) \<Rightarrow> if pr_Degree g = DegreeUnknown then ret 0
       else bind (gradeInTx E tenantID (cw_ID d) g ms) (\<lambda>_. ret 1))"

definition batch_body :: "acq_env \<Rightarrow> batch_step \<Rightarrow> court_row list \<Rightarrow> batch_result \<Rightarrow> unit atx" where
  "batch_body E b due = (\<lambda>(byNumber, parseErrs).
     bind (map_tx (grade_due E (bs_TenantID b) byNumber) due) (\<lambda>ns.
     bind (now_tx E) (\<lambda>t1. bind (MarkEnrichmentAttempted E (bs_TenantID b) (map cw_ID due) t1) (\<lambda>_.
     bind (if 0 < sum_list ns \<or> 0 < parseErrs
           then bind (now_tx E) (\<lambda>t2. IncrementImportEnrichmentRunBy E (bs_TenantID b) (bs_BackfillJobID b)
                  (int (sum_list ns)) (int parseErrs) t2)
           else ret ()) (\<lambda>_.
     bind (now_tx E) (\<lambda>t3. publish E (nextEnrichmentBatchStep (a_uuid5 E) b t3)))))))"

definition applyBatch :: "acq_env \<Rightarrow> batch_step \<Rightarrow> string \<Rightarrow> court_row list \<Rightarrow> batch_result \<Rightarrow> unit atx" where
  "applyBatch E b eventID due res = uow_Do E (bs_TenantID b)
     (bind (AcquireTenantWriteLock E (bs_TenantID b)) (\<lambda>_. once E consumerEnrichmentBatch eventID (batch_body E b due res)))"

definition close_drained :: "acq_env \<Rightarrow> batch_step \<Rightarrow> unit atx" where
  "close_drained E b =
     bind (AcquireTenantWriteLock E (bs_TenantID b)) (\<lambda>_.
     bind (CountRemainingDueForJob E (bs_TenantID b) (bs_BackfillJobID b)) (\<lambda>remaining.
     if 0 < remaining then ret ()
     else bind (CountImportDiscoveredRecords E (bs_TenantID b) (bs_BackfillJobID b)) (\<lambda>n.
       bind (GetImportEnrichmentCounter E (bs_TenantID b) (bs_BackfillJobID b)) (\<lambda>counter.
       bind (now_tx E) (\<lambda>t. case counter of
         None \<Rightarrow> InsertEmptyImportEnrichmentRun E (bs_TenantID b) (bs_BackfillJobID b) (enrichmentTerminalStatus 0) t
       | Some (updated, errs) \<Rightarrow>
           CloseImportEnrichmentRun E (bs_TenantID b) (bs_BackfillJobID b) (enrichmentTerminalStatus errs) t)))))"

definition closeIfImportDrained :: "acq_env \<Rightarrow> batch_step \<Rightarrow> unit atx" where
  "closeIfImportDrained E b = uow_Do E (bs_TenantID b) (close_drained E b)"

definition OnEnrichmentBatchRequested :: "acq_env \<Rightarrow> (fetch_request \<Rightarrow> err + raw_payload list)
    \<Rightarrow> (raw_payload list \<Rightarrow> err + batch_result) \<Rightarrow> batch_step \<Rightarrow> string \<Rightarrow> unit atx" where
  "OnEnrichmentBatchRequested E fetchBatch parseBatch b eventID =
     (if bs_TenantID b = '''' \<or> bs_Court b = '''' \<or> bs_BackfillJobID b = '''' then ret ()
      else bind (uow_Do E (bs_TenantID b) (SelectDueForEnrichment E (bs_TenantID b) (bs_Court b) enrichmentBatchScanLimit)) (\<lambda>due.
        if due = [] then closeIfImportDrained E b
        else case fetchBatch \<lparr>fr_Capability = CapabilityFetchBatch, fr_IntegrationID = '''', fr_WindowFrom = '''',
            fr_WindowTo = '''', fr_OABs = [], fr_CNJNumber = '''', fr_Court = bs_Court b,
            fr_CNJNumbers = map cw_CNJNumber due\<rparr> of
          Inl e \<Rightarrow> fail (PlainErr (''datajud fetch batch '' @ bs_Court b @ '' ('' @ itoa (int (length due)) @ ''): '' @ Error_text e))
        | Inr pages \<Rightarrow> (case parseBatch pages of
            Inl e \<Rightarrow> fail (SkipRetry (''parse datajud batch payload: '' @ Error_text e))
          | Inr res \<Rightarrow> applyBatch E b eventID due res)))"

section \<open>The scheduler (scheduler.go, queries/scheduler.sql)\<close>

definition DueCourtRecordsForResync :: "acq_env \<Rightarrow> nat \<Rightarrow> court_row list atx" where
  "DueCourtRecordsForResync E n = stmt E (read_st (\<lambda>s. take n (sort_key (\<lambda>r. the (cw_NextSyncAt r))
     (filter (\<lambda>r. cw_Lifecycle r = LifecycleActive \<and> (case cw_NextSyncAt r of None \<Rightarrow> False | Some t \<Rightarrow> t \<le> e_tx_time E))
       (records s)))))"

definition ClaimCourtRecordResync :: "acq_env \<Rightarrow> string \<Rightarrow> instant \<Rightarrow> unit atx" where
  "ClaimCourtRecordResync E recordID t = bind (parseUUID E recordID) (\<lambda>rid. stmt E (modify_st (\<lambda>s.
     s\<lparr>records := update_rows (\<lambda>r. cw_ID r = rid) (\<lambda>r. r\<lparr>cw_NextSyncAt := Some t\<rparr>) (records s)\<rparr>)))"

definition newResyncObserved :: "court_row \<Rightarrow> string \<Rightarrow> acq_payload event" where
  "newResyncObserved r = acq_event ''court_record_observed'' ''court_record'' (cw_ID r)
     (CourtRecordObserved \<lparr>ro_TenantID = cw_TenantID r, ro_SyncRunID = '''', ro_CourtRecordID = cw_ID r,
        ro_CaseID = cw_CaseID r, ro_CNJNumber = cw_CNJNumber r, ro_Degree = cw_Degree r, ro_Court = cw_Court r,
        ro_BackfillJobID = ''''\<rparr>)"

definition poll_one :: "acq_env \<Rightarrow> instant \<Rightarrow> court_row \<Rightarrow> unit atx" where
  "poll_one E next r = bind (publish_new E (newResyncObserved r)) (\<lambda>_. ClaimCourtRecordResync E (cw_ID r) next)"

definition RunDuePoll :: "acq_env \<Rightarrow> nat \<Rightarrow> int \<Rightarrow> nat atx" where
  "RunDuePoll E batchSize interval = uow_DoSystem E
     (bind (DueCourtRecordsForResync E batchSize) (\<lambda>due.
      bind (now_tx E) (\<lambda>t. bind (for_each due (poll_one E (t + interval))) (\<lambda>_. ret (length due)))))"

end
