(* ===== verification/AcquisitionTriage.thy ===== *)
theory AcquisitionTriage
  imports AcquisitionEnrich
begin

text \<open>
  \<open>internal/acquisition/domain.go\<close>, what the users of an office decide: who answers for a
  process and its intimations, the fields filled by hand, and the triage of an intimation. The
  bulk assignment of intimations by filter reads the prazos of the deadline slice and is left out.
\<close>

section \<open>Repository (repository.go, queries/responsible.sql, triage.sql, processo_manual.sql)\<close>

definition bad_id :: "string \<Rightarrow> err" where
  "bad_id what = NewInvalid (''id de '' @ what @ '' inv'' @ [CHR 0xC3, CHR 0xA1] @ ''lido'')"

definition processo_word :: string where "processo_word = ''processo''"
definition usuario_word :: string where "usuario_word = ''usu'' @ [CHR 0xC3, CHR 0xA1] @ ''rio''"
definition intimacao_word :: string where
  "intimacao_word = ''intima'' @ [CHR 0xC3, CHR 0xA7, CHR 0xC3, CHR 0xA3] @ ''o''"

text \<open>An id of the client, which is invalid input where a tenant's would be a fault.\<close>

definition client_id :: "acq_env \<Rightarrow> string \<Rightarrow> string \<Rightarrow> string atx" where
  "client_id E what x = (case e_parse_uuid E x of None \<Rightarrow> fail (bad_id what) | Some u \<Rightarrow> ret u)"

definition ResolveCaseIDByCourtRecord :: "acq_env \<Rightarrow> string \<Rightarrow> string \<Rightarrow> string atx" where
  "ResolveCaseIDByCourtRecord E tenantID recordID = bind (parseUUID E tenantID) (\<lambda>tid.
     bind (client_id E processo_word recordID) (\<lambda>rid.
     bind (select_one E records (record_of tid rid) ErrProcessoNotFound) (\<lambda>r. ret (cw_CaseID r))))"

definition AppUserInTenant :: "acq_env \<Rightarrow> string \<Rightarrow> string \<Rightarrow> bool atx" where
  "AppUserInTenant E tenantID userID = bind (parseUUID E tenantID) (\<lambda>tid.
     bind (client_id E usuario_word userID) (\<lambda>u. stmt E (read_st (\<lambda>s. (u, tid) \<in> set (members s)))))"

definition case_of :: "string \<Rightarrow> string \<Rightarrow> court_case \<Rightarrow> bool" where
  "case_of tid cid c \<longleftrightarrow> cc_ID c = cid \<and> cc_TenantID c = tid"

definition AssignCaseResponsible :: "acq_env \<Rightarrow> string \<Rightarrow> string \<Rightarrow> string option \<Rightarrow> unit atx" where
  "AssignCaseResponsible E tenantID caseID u = with_ids E tenantID caseID (\<lambda>tid cid.
     bind (assigneePtrToUUID E u) (\<lambda>v. stmt E (modify_st (\<lambda>s.
       s\<lparr>cases := update_rows (case_of tid cid) (\<lambda>c. c\<lparr>cc_AssignedUserID := v\<rparr>) (cases s)\<rparr>))))"

definition UpdateCaseLabel :: "acq_env \<Rightarrow> string \<Rightarrow> string \<Rightarrow> string \<Rightarrow> unit atx" where
  "UpdateCaseLabel E tenantID caseID label = with_ids E tenantID caseID (\<lambda>tid cid. stmt E (modify_st (\<lambda>s.
     s\<lparr>cases := update_rows (case_of tid cid) (\<lambda>c. c\<lparr>cc_Label := label\<rparr>) (cases s)\<rparr>)))"

text \<open>A value is in cents; an argument that is absent keeps the column.\<close>

definition manual_row :: "string option \<Rightarrow> int option \<Rightarrow> court_row \<Rightarrow> court_row" where
  "manual_row phase value r = r\<lparr>cw_PhaseOverride := (case phase of None \<Rightarrow> cw_PhaseOverride r | Some p \<Rightarrow> p),
     cw_ClaimValue := (case value of None \<Rightarrow> cw_ClaimValue r | Some v \<Rightarrow> Some v)\<rparr>"

definition UpdateProcessoManualFields :: "acq_env \<Rightarrow> string \<Rightarrow> string \<Rightarrow> string option \<Rightarrow> int option \<Rightarrow> unit atx" where
  "UpdateProcessoManualFields E tenantID recordID phase value = bind (parseUUID E tenantID) (\<lambda>tid.
     bind (client_id E processo_word recordID) (\<lambda>rid. stmt E (modify_st (\<lambda>s.
       s\<lparr>records := update_rows (record_of tid rid) (manual_row phase value) (records s)\<rparr>))))"

definition ResolveCaseIDsByRecordIDs :: "acq_env \<Rightarrow> string \<Rightarrow> string list \<Rightarrow> string list atx" where
  "ResolveCaseIDsByRecordIDs E tid ids = stmt E (read_st (\<lambda>s.
     map cw_CaseID (filter (\<lambda>r. cw_TenantID r = tid \<and> cw_ID r \<in> set ids) (records s))))"

record processos_query =
  pq_TenantID :: string
  pq_Search :: string
  pq_Court :: string
  pq_Degree :: string
  pq_Lifecycle :: string
  pq_Assignee :: string

text \<open>The escaped \<open>ILIKE\<close> on the number of the process.\<close>

definition processo_matches :: "string \<Rightarrow> processos_query \<Rightarrow> string \<Rightarrow> acq_db \<Rightarrow> court_row \<Rightarrow> bool" where
  "processo_matches tid q assignee s r \<longleftrightarrow> cw_TenantID r = tid
     \<and> (pq_Search q = '''' \<or> Contains (ToLower (cw_CNJNumber r)) (ToLower (pq_Search q)))
     \<and> (pq_Court q = '''' \<or> cw_Court r = pq_Court q) \<and> (pq_Degree q = '''' \<or> cw_Degree r = pq_Degree q)
     \<and> cw_Lifecycle r = (if pq_Lifecycle q = '''' then LifecycleActive else pq_Lifecycle q)
     \<and> (assignee = '''' \<or> (\<exists>c \<in> set (cases s). cc_ID c = cw_CaseID r \<and> cc_AssignedUserID c = assignee))"

definition ResolveCaseIDsByProcessosFilter :: "acq_env \<Rightarrow> string \<Rightarrow> processos_query \<Rightarrow> string list atx" where
  "ResolveCaseIDsByProcessosFilter E tid q = stmt E (read_st (\<lambda>s.
     map cw_CaseID (filter (processo_matches tid q (nullUUID E (pq_Assignee q)) s) (records s))))"

definition bulkAssignCasesAndCascade :: "acq_env \<Rightarrow> string \<Rightarrow> string list \<Rightarrow> string option \<Rightarrow> nat atx" where
  "bulkAssignCasesAndCascade E tid caseIDs u =
     (if caseIDs = [] then ret 0
      else bind (assigneePtrToUUID E u) (\<lambda>v. let ids = first_seen caseIDs in
        bind (stmt E (modify_st (\<lambda>s. s\<lparr>cases := update_rows (\<lambda>c. cc_TenantID c = tid \<and> cc_ID c \<in> set ids)
          (\<lambda>c. c\<lparr>cc_AssignedUserID := v\<rparr>) (cases s)\<rparr>))) (\<lambda>_.
        bind (stmt E (modify_st (\<lambda>s. s\<lparr>intims := update_rows (of_case s tid ids)
          (\<lambda>i. i\<lparr>iw_AssigneeUserID := v\<rparr>) (intims s)\<rparr>))) (\<lambda>_.
        ret (length caseIDs)))))"

definition BulkAssignResponsibleByIDs :: "acq_env \<Rightarrow> string \<Rightarrow> string list \<Rightarrow> string option \<Rightarrow> nat atx" where
  "BulkAssignResponsibleByIDs E tenantID ids u = bind (parseUUID E tenantID) (\<lambda>tid.
     bind (map_tx (client_id E processo_word) ids) (\<lambda>rids.
     bind (ResolveCaseIDsByRecordIDs E tid rids) (\<lambda>caseIDs. bulkAssignCasesAndCascade E tid caseIDs u)))"

definition BulkAssignResponsibleByFilter :: "acq_env \<Rightarrow> processos_query \<Rightarrow> string option \<Rightarrow> nat atx" where
  "BulkAssignResponsibleByFilter E q u = bind (parseUUID E (pq_TenantID q)) (\<lambda>tid.
     bind (ResolveCaseIDsByProcessosFilter E tid q) (\<lambda>caseIDs. bulkAssignCasesAndCascade E tid caseIDs u))"

definition intim_of :: "string \<Rightarrow> string \<Rightarrow> intim_row \<Rightarrow> bool" where
  "intim_of tid iid i \<longleftrightarrow> iw_ID i = iid \<and> iw_TenantID i = tid"

text \<open>\<open>UPDATE ... RETURNING id\<close> of one intimation.\<close>

definition update_intim :: "acq_env \<Rightarrow> string \<Rightarrow> string \<Rightarrow> (intim_row \<Rightarrow> intim_row) \<Rightarrow> unit atx" where
  "update_intim E tid iid f = stmt E (\<lambda>s. case find_row (intim_of tid iid) (intims s) of
     None \<Rightarrow> (Inl ErrIntimationNotFound, s)
   | Some _ \<Rightarrow> (Inr (), s\<lparr>intims := update_rows (intim_of tid iid) f (intims s)\<rparr>))"

definition SetIntimationUserStatus :: "acq_env \<Rightarrow> string \<Rightarrow> string \<Rightarrow> string \<Rightarrow> unit atx" where
  "SetIntimationUserStatus E tenantID intimationID st = bind (parseUUID E tenantID) (\<lambda>tid.
     bind (client_id E intimacao_word intimationID) (\<lambda>iid. update_intim E tid iid (\<lambda>i. i\<lparr>iw_UserStatus := st\<rparr>)))"

definition repo_AssignIntimacaoAssignee :: "acq_env \<Rightarrow> string \<Rightarrow> string \<Rightarrow> string option \<Rightarrow> unit atx" where
  "repo_AssignIntimacaoAssignee E tenantID intimationID u = bind (parseUUID E tenantID) (\<lambda>tid.
     bind (client_id E intimacao_word intimationID) (\<lambda>iid.
     bind (assigneePtrToUUID E u) (\<lambda>v. update_intim E tid iid (\<lambda>i. i\<lparr>iw_AssigneeUserID := v\<rparr>))))"

definition BulkAssignIntimacoesByIDs :: "acq_env \<Rightarrow> string \<Rightarrow> string list \<Rightarrow> string option \<Rightarrow> nat atx" where
  "BulkAssignIntimacoesByIDs E tenantID ids u = bind (parseUUID E tenantID) (\<lambda>tid.
     bind (map_tx (client_id E intimacao_word) ids) (\<lambda>iids.
     bind (assigneePtrToUUID E u) (\<lambda>v. stmt E (\<lambda>s.
       let hit = (\<lambda>i. iw_TenantID i = tid \<and> iw_ID i \<in> set iids) in
       (Inr (length (filter hit (intims s))),
        s\<lparr>intims := update_rows hit (\<lambda>i. i\<lparr>iw_AssigneeUserID := v\<rparr>) (intims s)\<rparr>)))))"

section \<open>Use cases (domain.go)\<close>

text \<open>The guard of every assignment: a user of the same office, or nobody.\<close>

definition member_or_none :: "acq_env \<Rightarrow> string \<Rightarrow> string option \<Rightarrow> unit atx" where
  "member_or_none E tenantID u = (case u of None \<Rightarrow> ret ()
   | Some x \<Rightarrow> bind (AppUserInTenant E tenantID x) (\<lambda>m. if m then ret () else fail ErrResponsibleNotMember))"

definition AssignResponsible :: "acq_env \<Rightarrow> string \<Rightarrow> string \<Rightarrow> string option \<Rightarrow> unit atx" where
  "AssignResponsible E tenantID recordID u = uow_Do E tenantID
     (bind (ResolveCaseIDByCourtRecord E tenantID recordID) (\<lambda>caseID.
      bind (member_or_none E tenantID u) (\<lambda>_.
      bind (AssignCaseResponsible E tenantID caseID u) (\<lambda>_.
      CascadeCaseResponsibleToIntimations E tenantID caseID u))))"

definition UpdateProcessoManual :: "acq_env \<Rightarrow> string \<Rightarrow> string \<Rightarrow> string option \<Rightarrow> int option \<Rightarrow> string option \<Rightarrow> unit atx" where
  "UpdateProcessoManual E tenantID recordID phase value label = uow_Do E tenantID
     (bind (case label of None \<Rightarrow> ret ()
        | Some l \<Rightarrow> bind (ResolveCaseIDByCourtRecord E tenantID recordID) (\<lambda>caseID. UpdateCaseLabel E tenantID caseID l)) (\<lambda>_.
      UpdateProcessoManualFields E tenantID recordID phase value))"

definition BulkAssignResponsible :: "acq_env \<Rightarrow> string \<Rightarrow> bool \<Rightarrow> processos_query \<Rightarrow> string list \<Rightarrow> string option \<Rightarrow> nat atx" where
  "BulkAssignResponsible E tenantID every q ids u = uow_Do E tenantID
     (bind (member_or_none E tenantID u) (\<lambda>_.
      if every then BulkAssignResponsibleByFilter E q u else BulkAssignResponsibleByIDs E tenantID ids u))"

definition AssignIntimacaoAssignee :: "acq_env \<Rightarrow> string \<Rightarrow> string \<Rightarrow> string option \<Rightarrow> unit atx" where
  "AssignIntimacaoAssignee E tenantID intimationID u = uow_Do E tenantID
     (bind (member_or_none E tenantID u) (\<lambda>_. repo_AssignIntimacaoAssignee E tenantID intimationID u))"

text \<open>The mode by ids.\<close>

definition BulkAssignIntimacoes :: "acq_env \<Rightarrow> string \<Rightarrow> string list \<Rightarrow> string option \<Rightarrow> nat atx" where
  "BulkAssignIntimacoes E tenantID ids u = uow_Do E tenantID
     (bind (member_or_none E tenantID u) (\<lambda>_. BulkAssignIntimacoesByIDs E tenantID ids u))"

definition setIntimacaoUserStatus :: "acq_env \<Rightarrow> string \<Rightarrow> string \<Rightarrow> string \<Rightarrow> unit atx" where
  "setIntimacaoUserStatus E tenantID intimationID st =
     uow_Do E tenantID (SetIntimationUserStatus E tenantID intimationID st)"

definition ResolveIntimacao :: "acq_env \<Rightarrow> string \<Rightarrow> string \<Rightarrow> unit atx" where
  "ResolveIntimacao E tenantID intimationID = setIntimacaoUserStatus E tenantID intimationID IntimationUserStatusResolved"

definition IgnoreIntimacao :: "acq_env \<Rightarrow> string \<Rightarrow> string \<Rightarrow> unit atx" where
  "IgnoreIntimacao E tenantID intimationID = setIntimacaoUserStatus E tenantID intimationID IntimationUserStatusIgnored"

definition ReopenIntimacao :: "acq_env \<Rightarrow> string \<Rightarrow> string \<Rightarrow> unit atx" where
  "ReopenIntimacao E tenantID intimationID = setIntimacaoUserStatus E tenantID intimationID IntimationUserStatusPending"

end
